(* ===== verification/Prelude.thy ===== *)
theory Prelude
  imports Main "HOL-Library.Word" "HOL-Library.AList" "HOL-Library.Char_ord"
    "HOL-Library.List_Lexorder" "HOL-Library.Multiset"
begin

text \<open>
  Shared vocabulary of the development: the Go types every component uses (time, 64-bit
  counters, slices that may be nil), the error values of the control plane with the
  wrapping that \<^verbatim>\<open>errors.Is\<close> looks through, and the generic lemmas on association lists,
  on \<^verbatim>\<open>sort.Slice\<close> and on words that the component proofs rest on.
\<close>

section \<open>Go values\<close>

text \<open>
  A \<^verbatim>\<open>time.Time\<close> is the number of nanoseconds since Go's zero time, so the zero time is 0
  and \<^verbatim>\<open>IsZero\<close>, \<^verbatim>\<open>Before\<close>, \<^verbatim>\<open>After\<close> and \<^verbatim>\<open>Equal\<close> are comparisons of integers. A
  \<^verbatim>\<open>uint64\<close> counter is a 64-bit word, whose increment wraps. A slice is \<open>None\<close> when it is
  nil: several contracts of the program tell nil from empty.
\<close>

type_synonym time = int
type_synonym u64 = "64 word"
type_synonym 'a slice = "'a list option"
type_synonym bytes = "char slice"

definition zero_time :: time where
  "zero_time = 0"

definition second :: time where
  "second = 1000000000"

definition elems :: "'a slice \<Rightarrow> 'a list" where
  "elems s = (case s of None \<Rightarrow> [] | Some xs \<Rightarrow> xs)"

text \<open>Go's \<^verbatim>\<open>append(s, x)\<close>: appending to a nil slice allocates one.\<close>

definition append_slice :: "'a slice \<Rightarrow> 'a \<Rightarrow> 'a slice" where
  "append_slice s x = Some (elems s @ [x])"

lemma elems_simps [simp]:
  "elems None = []"
  "elems (Some xs) = xs"
  "elems (append_slice s x) = elems s @ [x]"
  by (simp_all add: elems_def append_slice_def)

section \<open>Errors\<close>

text \<open>
  The seven sentinels of \<^verbatim>\<open>control/errors.go\<close>, the bootstrap refusals of
  \<^verbatim>\<open>control/bootstrap.go\<close>, the two wrapped runner answers of \<^verbatim>\<open>controlapp/sessions.go\<close>, the
  two context errors \<^verbatim>\<open>portError\<close> lets through, and any other adapter error. A Go
  \<^verbatim>\<open>error\<close> is an \<open>err option\<close> with nil as \<open>None\<close>.
\<close>

datatype err =
    ErrInvalid | ErrDenied | ErrNotFound | ErrConflict | ErrStale | ErrUnavailable | ErrUnsupported
  | ErrBootstrapUnknown | ErrBootstrapSpent | ErrBootstrapExpired | ErrBootstrapFenced
  | ErrRunnerRefused | ErrRunnerConflict
  | ErrCanceled | ErrDeadlineExceeded
  | ErrOther string

text \<open>\<^verbatim>\<open>errors.Is(e, target)\<close>: equality, looking through the two \<^verbatim>\<open>%w\<close> wrappers.\<close>

definition errIs :: "err \<Rightarrow> err \<Rightarrow> bool" where
  "errIs e target \<longleftrightarrow> e = target
     \<or> e = ErrRunnerRefused \<and> target = ErrUnavailable
     \<or> e = ErrRunnerConflict \<and> target = ErrConflict"

lemma errIs_refl [simp]: "errIs e e"
  by (simp add: errIs_def)

lemma errIs_sentinel [simp]:
  "errIs ErrInvalid t \<longleftrightarrow> t = ErrInvalid"
  "errIs ErrDenied t \<longleftrightarrow> t = ErrDenied"
  "errIs ErrNotFound t \<longleftrightarrow> t = ErrNotFound"
  "errIs ErrConflict t \<longleftrightarrow> t = ErrConflict"
  "errIs ErrStale t \<longleftrightarrow> t = ErrStale"
  "errIs ErrUnavailable t \<longleftrightarrow> t = ErrUnavailable"
  "errIs ErrUnsupported t \<longleftrightarrow> t = ErrUnsupported"
  by (auto simp: errIs_def)

lemma errIs_targets [simp]:
  "errIs e ErrNotFound \<longleftrightarrow> e = ErrNotFound"
  "errIs e ErrStale \<longleftrightarrow> e = ErrStale"
  "errIs e ErrInvalid \<longleftrightarrow> e = ErrInvalid"
  "errIs e ErrConflict \<longleftrightarrow> e = ErrConflict \<or> e = ErrRunnerConflict"
  "errIs e ErrUnavailable \<longleftrightarrow> e = ErrUnavailable \<or> e = ErrRunnerRefused"
  by (auto simp: errIs_def)

section \<open>Association lists\<close>

text \<open>
  A Go map that the code iterates over is an association list with distinct keys. The
  iteration order of the list stands for the unspecified iteration order of the map: a
  theorem that quantifies over all stores quantifies over all orders.
\<close>

named_theorems store_simps \<open>how an operation changes each table of the store\<close>
named_theorems store_intros \<open>the operations that keep the store invariant\<close>

abbreviation upd :: "'k \<Rightarrow> 'v \<Rightarrow> ('k \<times> 'v) list \<Rightarrow> ('k \<times> 'v) list" where
  "upd \<equiv> AList.update"

abbreviation del :: "'k \<Rightarrow> ('k \<times> 'v) list \<Rightarrow> ('k \<times> 'v) list" where
  "del \<equiv> AList.delete"

text \<open>A row is looked up, not searched for: keep \<^term>\<open>map_of\<close> in the goals.\<close>

declare map_of_eq_Some_iff [simp del] Some_eq_map_of_iff [simp del]

lemma map_of_upd [simp]: "map_of (upd k v al) = (map_of al)(k \<mapsto> v)"
  by (rule AList.update_conv')

lemma map_of_del [simp]: "map_of (del k al) = (map_of al)(k := None)"
  by (rule AList.delete_conv')

lemma distinct_upd [simp, intro]:
  "distinct (map fst al) \<Longrightarrow> distinct (map fst (upd k v al))"
  by (rule AList.distinct_update)

lemma distinct_del [simp, intro]:
  "distinct (map fst al) \<Longrightarrow> distinct (map fst (del k al))"
  by (rule AList.distinct_delete)

lemma set_alist_iff:
  "distinct (map fst al) \<Longrightarrow> (k, v) \<in> set al \<longleftrightarrow> map_of al k = Some v"
  by (auto intro: map_of_is_SomeI dest: map_of_SomeD)

lemma upd_absent: "map_of al k = None \<Longrightarrow> upd k v al = al @ [(k, v)]"
  by (induction al) (auto split: if_splits)

text \<open>The rows of a table that satisfy a condition on key and row, in iteration order.\<close>

definition rows_where :: "('k \<Rightarrow> 'v \<Rightarrow> bool) \<Rightarrow> ('k \<times> 'v) list \<Rightarrow> 'v list" where
  "rows_where P al = map snd (filter (\<lambda>(k, v). P k v) al)"

lemma rows_where_simps [simp]:
  "rows_where P [] = []"
  "rows_where P ((k, v) # al) = (if P k v then v # rows_where P al else rows_where P al)"
  by (simp_all add: rows_where_def)

lemma set_rows_where:
  "distinct (map fst al) \<Longrightarrow> set (rows_where P al) = {v. \<exists>k. map_of al k = Some v \<and> P k v}"
  by (force simp: rows_where_def set_alist_iff [symmetric])

lemma rows_where_upd_other:
  "\<not> P k v \<Longrightarrow> (\<And>w. map_of al k = Some w \<Longrightarrow> \<not> P k w) \<Longrightarrow> rows_where P (upd k v al) = rows_where P al"
  by (induction al) (auto split: if_splits)

text \<open>The first row, in iteration order, that satisfies a condition.\<close>

fun first_where :: "('k \<Rightarrow> 'v \<Rightarrow> bool) \<Rightarrow> ('k \<times> 'v) list \<Rightarrow> 'v option" where
  "first_where P [] = None"
| "first_where P ((k, v) # al) = (if P k v then Some v else first_where P al)"

lemma first_where_Some:
  "first_where P al = Some v \<Longrightarrow> \<exists>k. (k, v) \<in> set al \<and> P k v"
  by (induction al) (fastforce split: if_splits)+

lemma first_where_map_of:
  assumes "distinct (map fst al)" and "first_where P al = Some v"
  obtains k where "map_of al k = Some v" and "P k v"
  using first_where_Some [OF assms(2)] map_of_is_SomeI [OF assms(1)] by metis

lemma first_where_None: "first_where P al = None \<longleftrightarrow> (\<forall>(k, v) \<in> set al. \<not> P k v)"
  by (induction al) (auto split: if_splits)

section \<open>Keyed tables\<close>

text \<open>
  What a table of the store keeps: its keys are distinct, every row satisfies \<open>P\<close> at its
  key, and no two rows share an entry of the partial unique index \<open>ix\<close>.
\<close>

definition table_ok ::
    "('k \<Rightarrow> 'v \<Rightarrow> bool) \<Rightarrow> ('k \<Rightarrow> 'v \<Rightarrow> 'i option) \<Rightarrow> ('k \<times> 'v) list \<Rightarrow> bool" where
  "table_ok P ix al \<longleftrightarrow> distinct (map fst al)
     \<and> (\<forall>k v. map_of al k = Some v \<longrightarrow> P k v)
     \<and> (\<forall>k v k' v'. map_of al k = Some v \<longrightarrow> map_of al k' = Some v' \<longrightarrow> ix k v = ix k' v'
          \<longrightarrow> ix k v \<noteq> None \<longrightarrow> k = k')"

lemma table_ok_distinct: "table_ok P ix al \<Longrightarrow> distinct (map fst al)"
  unfolding table_ok_def by blast

lemma table_ok_row: "table_ok P ix al \<Longrightarrow> map_of al k = Some v \<Longrightarrow> P k v"
  unfolding table_ok_def by blast

lemma table_ok_unique:
  "table_ok P ix al \<Longrightarrow> map_of al k = Some v \<Longrightarrow> map_of al k' = Some v' \<Longrightarrow> ix k v = ix k' v'
   \<Longrightarrow> ix k v \<noteq> None \<Longrightarrow> k = k'"
  unfolding table_ok_def by metis

lemma table_ok_Nil [simp]: "table_ok P ix []"
  by (simp add: table_ok_def)

lemma table_ok_upd:
  assumes "table_ok P ix al" and "P k v"
    and uniq: "\<And>k' w. map_of al k' = Some w \<Longrightarrow> ix k v = ix k' w \<Longrightarrow> ix k v \<noteq> None \<Longrightarrow> k' = k"
  shows "table_ok P ix (upd k v al)"
  unfolding table_ok_def
proof (intro conjI allI impI)
  show "distinct (map fst (upd k v al))" using table_ok_distinct [OF assms(1)] by simp
  show "P k' w" if "map_of (upd k v al) k' = Some w" for k' w
    using that assms(2) table_ok_row [OF assms(1)] by (auto split: if_splits)
  show "a = b" if "map_of (upd k v al) a = Some x" "map_of (upd k v al) b = Some y"
      "ix a x = ix b y" "ix a x \<noteq> None" for a b x y
    using that uniq [of a x] uniq [of b y] table_ok_unique [OF assms(1), of a x b y]
    by (auto split: if_splits)
qed

lemma table_ok_same:
  assumes "table_ok P ix al" and "map_of al k = Some v" and "P k v'" and "ix k v' = ix k v"
  shows "table_ok P ix (upd k v' al)"
  using assms(1,3)
proof (rule table_ok_upd)
  show "k' = k" if "map_of al k' = Some w" "ix k v' = ix k' w" "ix k v' \<noteq> None" for k' w
    using table_ok_unique [OF assms(1,2) that(1)] assms(4) that(2,3) by simp
qed

lemma table_ok_del: "table_ok P ix al \<Longrightarrow> table_ok P ix (del k al)"
  unfolding table_ok_def by (auto split: if_splits)

lemma table_ok_mono:
  "table_ok P ix al \<Longrightarrow> (\<And>k v. map_of al k = Some v \<Longrightarrow> P k v \<Longrightarrow> Q k v) \<Longrightarrow> table_ok Q ix al"
  unfolding table_ok_def by blast

section \<open>Sorting\<close>

text \<open>
  \<^verbatim>\<open>sort.Slice(xs, less)\<close>. The library promises a permutation in which no later element is
  less than an earlier one; where \<open>less\<close> is a strict total order on the elements that
  determines the result (\<open>sortSlice_unique\<close>), so insertion sort stands for it.
\<close>

fun ins_less :: "('a \<Rightarrow> 'a \<Rightarrow> bool) \<Rightarrow> 'a \<Rightarrow> 'a list \<Rightarrow> 'a list" where
  "ins_less prec x [] = [x]"
| "ins_less prec x (y # ys) = (if prec y x then y # ins_less prec x ys else x # y # ys)"

fun sortSlice :: "('a \<Rightarrow> 'a \<Rightarrow> bool) \<Rightarrow> 'a list \<Rightarrow> 'a list" where
  "sortSlice prec [] = []"
| "sortSlice prec (x # xs) = ins_less prec x (sortSlice prec xs)"

lemma mset_ins_less [simp]: "mset (ins_less prec x ys) = add_mset x (mset ys)"
  by (induction ys) auto

lemma mset_sortSlice [simp]: "mset (sortSlice prec xs) = mset xs"
  by (induction xs) auto

lemma set_sortSlice [simp]: "set (sortSlice prec xs) = set xs"
  by (metis mset_sortSlice set_mset_mset)

lemma set_ins_less [simp]: "set (ins_less prec x ys) = insert x (set ys)"
  by (induction ys) auto

lemma length_sortSlice [simp]: "length (sortSlice prec xs) = length xs"
  by (metis mset_sortSlice size_mset)

lemma distinct_sortSlice [simp]: "distinct (sortSlice prec xs) = distinct xs"
  by (metis mset_sortSlice mset_eq_imp_distinct_iff)

lemma distinct_map_sortSlice [simp]: "distinct (map f (sortSlice prec xs)) = distinct (map f xs)"
  by (metis mset_eq_imp_distinct_iff mset_map mset_sortSlice)

text \<open>What the comparison functions of the program are: strict weak orders.\<close>

definition weak_order :: "('a \<Rightarrow> 'a \<Rightarrow> bool) \<Rightarrow> bool" where
  "weak_order prec \<longleftrightarrow> (\<forall>x y. prec x y \<longrightarrow> \<not> prec y x)
     \<and> (\<forall>x y z. prec x y \<longrightarrow> prec y z \<longrightarrow> prec x z)
     \<and> (\<forall>x y z. \<not> prec y x \<longrightarrow> \<not> prec z y \<longrightarrow> \<not> prec z x)"

lemma weak_orderD:
  assumes "weak_order prec"
  shows "prec x y \<Longrightarrow> \<not> prec y x"
    and "prec x y \<Longrightarrow> prec y z \<Longrightarrow> prec x z"
    and "\<not> prec y x \<Longrightarrow> \<not> prec z y \<Longrightarrow> \<not> prec z x"
  using assms unfolding weak_order_def by blast+

lemma weak_order_key: "weak_order (\<lambda>x y. f x < (f y :: 'b :: linorder))"
  by (auto simp: weak_order_def)

lemma sorted_ins_less:
  assumes "weak_order prec" and "sorted_wrt (\<lambda>a b. \<not> prec b a) ys"
  shows "sorted_wrt (\<lambda>a b. \<not> prec b a) (ins_less prec x ys)"
  using assms(2)
proof (induction ys)
  case Nil
  then show ?case by simp
next
  case (Cons y ys)
  show ?case
  proof (cases "prec y x")
    case True
    with Cons weak_orderD(1) [OF assms(1) True] show ?thesis by simp
  next
    case False
    have "\<not> prec z x" if "z \<in> set ys" for z
      using Cons.prems that weak_orderD(3) [OF assms(1) False, of z] by simp
    with Cons False show ?thesis by simp
  qed
qed

lemma sorted_sortSlice:
  "weak_order prec \<Longrightarrow> sorted_wrt (\<lambda>a b. \<not> prec b a) (sortSlice prec xs)"
  by (induction xs) (auto intro: sorted_ins_less)

lemma sortSlice_unique:
  assumes "mset xs = mset ys"
    and "sorted_wrt (\<lambda>a b. \<not> prec b a) xs" and "sorted_wrt (\<lambda>a b. \<not> prec b a) ys"
    and total: "\<forall>a \<in> set xs. \<forall>b \<in> set xs. \<not> prec a b \<longrightarrow> \<not> prec b a \<longrightarrow> a = b"
  shows "xs = ys"
  using assms
proof (induction xs arbitrary: ys)
  case Nil
  then show ?case by simp
next
  case (Cons x xs)
  from Cons.prems(1) obtain y ys' where ys: "ys = y # ys'"
    by (cases ys) auto
  have sets: "set (x # xs) = set ys"
    using Cons.prems(1) by (metis set_mset_mset)
  have "x = y"
  proof (rule ccontr)
    assume "x \<noteq> y"
    then have "y \<in> set xs" and "x \<in> set ys'" using sets ys by auto
    then have "\<not> prec y x" and "\<not> prec x y" using Cons.prems(2,3) ys by auto
    with \<open>y \<in> set xs\<close> have "x = y" using Cons.prems(4) by auto
    with \<open>x \<noteq> y\<close> show False by blast
  qed
  with Cons ys show ?case by auto
qed

section \<open>64-bit counters\<close>

lemma u64_succ_gt: "(g :: u64) \<noteq> - 1 \<Longrightarrow> g < g + 1"
  by (metis inc_less_eq_triv_imp linorder_less_linear word_le_less_eq)

lemma u64_succ_neq: "(g :: u64) + 1 \<noteq> g"
  by simp

section \<open>Traces and issued counters\<close>

text \<open>
  The trace of a sequence of atomic operations: for each, the state before, the operation,
  its result and the state after.
\<close>

fun trace :: "('s \<Rightarrow> 'o \<Rightarrow> 's \<times> 'r) \<Rightarrow> 's \<Rightarrow> 'o list \<Rightarrow> ('s \<times> 'o \<times> 'r \<times> 's) list" where
  "trace step s [] = []"
| "trace step s (op # ops) =
     (let (s', r) = step s op in (s, op, r, s') # trace step s' ops)"

definition along :: "('s \<Rightarrow> 'o \<Rightarrow> bool) \<Rightarrow> ('s \<times> 'o \<times> 'r \<times> 's) list \<Rightarrow> bool" where
  "along ok tr \<longleftrightarrow> list_all (\<lambda>(s, op, r, s'). ok s op) tr"

fun grants :: "('o \<Rightarrow> 'r \<Rightarrow> 'n option) \<Rightarrow> ('s \<times> 'o \<times> 'r \<times> 's) list \<Rightarrow> 'n list" where
  "grants issued [] = []"
| "grants issued ((s, op, r, s') # tr) =
     (case issued op r of None \<Rightarrow> grants issued tr | Some n \<Rightarrow> n # grants issued tr)"

lemma along_simps [simp]:
  "along ok []"
  "along ok ((s, op, r, s') # tr) \<longleftrightarrow> ok s op \<and> along ok tr"
  by (simp_all add: along_def)

text \<open>
  The contract of a counter of the store: no operation lowers it, and an operation that
  issues a value has advanced the counter to that value. Then no value is issued twice,
  in any interleaving, and every issued value is above all earlier ones.
\<close>

locale issued_counter =
  fixes step :: "'s \<Rightarrow> 'o \<Rightarrow> 's \<times> 'r"
    and ok :: "'s \<Rightarrow> 'o \<Rightarrow> bool"
    and cur :: "'s \<Rightarrow> 'n :: linorder"
    and issued :: "'o \<Rightarrow> 'r \<Rightarrow> 'n option"
  assumes never_lowered: "ok s op \<Longrightarrow> step s op = (s', r) \<Longrightarrow> cur s \<le> cur s'"
    and issue_advances:
      "ok s op \<Longrightarrow> step s op = (s', r) \<Longrightarrow> issued op r = Some n \<Longrightarrow> cur s < n \<and> cur s' = n"
begin

lemma grants_above:
  "along ok (trace step s ops) \<Longrightarrow> n \<in> set (grants issued (trace step s ops)) \<Longrightarrow> cur s < n"
proof (induction ops arbitrary: s)
  case Nil
  then show ?case by simp
next
  case (Cons op ops)
  obtain s' r where st: "step s op = (s', r)" by fastforce
  with Cons.prems(1) have ok: "ok s op" "along ok (trace step s' ops)" by simp_all
  from Cons.prems(2) st consider "issued op r = Some n" | "n \<in> set (grants issued (trace step s' ops))"
    by (auto split: option.splits)
  then show ?case
    by cases (use Cons.IH [OF ok(2)] never_lowered [OF ok(1) st] issue_advances [OF ok(1) st] in fastforce)+
qed

theorem grants_increase:
  "along ok (trace step s ops) \<Longrightarrow> sorted_wrt (<) (grants issued (trace step s ops))"
proof (induction ops arbitrary: s)
  case Nil
  then show ?case by simp
next
  case (Cons op ops)
  obtain s' r where st: "step s op = (s', r)" by fastforce
  with Cons.prems have ok: "ok s op" "along ok (trace step s' ops)" by simp_all
  show ?case
    using Cons.IH [OF ok(2)] grants_above [OF ok(2)] issue_advances [OF ok(1) st] st
    by (auto split: option.splits)
qed

end

text \<open>
  The contract behind a claim about two operations of one trace, an earlier and a later
  one: the earlier leaves a fact about the state, every operation keeps it, and it decides
  what the later one may do.
\<close>

locale trace_pairs =
  fixes step :: "'s \<Rightarrow> 'o \<Rightarrow> 's \<times> 'r"
    and ok :: "'s \<Rightarrow> 'o \<Rightarrow> bool"
    and fact :: "'o \<Rightarrow> 'r \<Rightarrow> 's \<Rightarrow> bool"
    and rel :: "'o \<Rightarrow> 'r \<Rightarrow> 'o \<Rightarrow> 'r \<Rightarrow> bool"
  assumes established: "ok s op \<Longrightarrow> step s op = (s', r) \<Longrightarrow> fact op r s'"
    and kept: "fact op r s \<Longrightarrow> ok s op' \<Longrightarrow> step s op' = (s', r') \<Longrightarrow> fact op r s'"
    and decides: "fact op r s \<Longrightarrow> ok s op' \<Longrightarrow> step s op' = (s', r') \<Longrightarrow> rel op r op' r'"
begin

lemma later:
  "fact op r s \<Longrightarrow> along ok (trace step s ops)
   \<Longrightarrow> (t, op', r', t') \<in> set (trace step s ops) \<Longrightarrow> rel op r op' r'"
proof (induction ops arbitrary: s)
  case Nil
  then show ?case by simp
next
  case (Cons o1 ops)
  obtain s' r1 where st: "step s o1 = (s', r1)" by fastforce
  with Cons.prems have ok: "ok s o1" "along ok (trace step s' ops)" by simp_all
  from Cons.prems(3) st consider "op' = o1 \<and> r' = r1" | "(t, op', r', t') \<in> set (trace step s' ops)"
    by auto
  then show ?case
    using Cons.IH [OF kept [OF Cons.prems(1) ok(1) st] ok(2)] decides [OF Cons.prems(1) ok(1) st]
    by cases auto
qed

lemma pairwise:
  "along ok (trace step s ops)
   \<Longrightarrow> sorted_wrt (\<lambda>(_, op, r, _) (_, op', r', _). rel op r op' r') (trace step s ops)"
proof (induction ops arbitrary: s)
  case Nil
  then show ?case by simp
next
  case (Cons o1 ops)
  obtain s' r1 where st: "step s o1 = (s', r1)" by fastforce
  with Cons.prems have ok: "ok s o1" "along ok (trace step s' ops)" by simp_all
  show ?case
    using st Cons.IH [OF ok(2)] later [OF established [OF ok(1) st] ok(2)] by auto
qed

end

end
