(* ===== verification/Control.thy ===== *)
theory Control
  imports Prelude
begin

text \<open>
  The control contract (\<^verbatim>\<open>src/control\<close>): the portable vocabulary of sessions,
  environments, runners, scopes and events, the predicates on it, and the messages of the
  runner protocol (\<^verbatim>\<open>src/protocol/runner/messages.go\<close>) that the application sends and reads.
  Every record has the fields of the Go struct it models; identities are strings, as in Go.
\<close>

section \<open>Identities and scopes (control/scope.go)\<close>

type_synonym wsid = string
type_synonym actorid = string
type_synonym sessionid = string
type_synonym envid = string
type_synonym poolid = string
type_synonym runnerid = string
type_synonym eventid = string

text \<open>The named string types \<^verbatim>\<open>ActorKind\<close> and \<^verbatim>\<open>ExecutionMode\<close> hold any string; the named
  constants are constructors and every other string is the last one.\<close>

datatype ActorKind = ActorUser | ActorService | ActorKindOther string

datatype ExecutionMode =
  ExecutionSelfHosted | ExecutionDedicated | ExecutionServerless | ExecutionModeOther string

record Actor =
  act_ID :: actorid
  act_Kind :: ActorKind

record PlacementScope =
  pls_ProductRegion :: string
  pls_HomeCell :: string
  pls_Mode :: ExecutionMode

record Scope =
  sco_WorkspaceID :: wsid
  sco_Actor :: Actor
  sco_Placement :: PlacementScope

definition Scope_Validate :: "Scope \<Rightarrow> err option" where
  "Scope_Validate s =
     (if sco_WorkspaceID s = '''' then Some ErrInvalid
      else if act_ID (sco_Actor s) = '''' then Some ErrInvalid
      else case act_Kind (sco_Actor s) of
        ActorKindOther _ \<Rightarrow> Some ErrInvalid
      | _ \<Rightarrow>
        (case pls_Mode (sco_Placement s) of
           ExecutionModeOther _ \<Rightarrow> Some ErrInvalid
         | _ \<Rightarrow>
           (if pls_ProductRegion (sco_Placement s) = '''' \<or> pls_HomeCell (sco_Placement s) = ''''
            then Some ErrInvalid else None)))"

lemma Scope_Validate_ws: "Scope_Validate s = None \<Longrightarrow> sco_WorkspaceID s \<noteq> ''''"
  by (auto simp: Scope_Validate_def split: if_splits)

lemma Scope_Validate_cases: "Scope_Validate s = None \<or> Scope_Validate s = Some ErrInvalid"
  by (auto simp: Scope_Validate_def split: ActorKind.splits ExecutionMode.splits)

section \<open>Session states (control/session.go)\<close>

datatype SessionState =
    StateQueued | StateCreating | StateRunning | StateResuming | StateSuspendedWarm
  | StateSuspendedCold | StateCanceled | StateFailed | StateDead | StateDestroyed
  | StateOther string

fun Terminal :: "SessionState \<Rightarrow> bool" where
  "Terminal StateCanceled = True"
| "Terminal StateFailed = True"
| "Terminal StateDead = True"
| "Terminal StateDestroyed = True"
| "Terminal _ = False"

fun OccupiesSlot :: "SessionState \<Rightarrow> bool" where
  "OccupiesSlot StateCreating = True"
| "OccupiesSlot StateResuming = True"
| "OccupiesSlot StateRunning = True"
| "OccupiesSlot StateSuspendedWarm = True"
| "OccupiesSlot _ = False"

definition NonTerminal :: "SessionState list" where
  "NonTerminal = [StateQueued, StateCreating, StateResuming, StateRunning,
     StateSuspendedWarm, StateSuspendedCold]"

lemma NonTerminal_not_Terminal: "st \<in> set NonTerminal \<Longrightarrow> \<not> Terminal st"
  by (auto simp: NonTerminal_def)

text \<open>The conversion \<^verbatim>\<open>control.SessionState(s)\<close> of a string read off the wire.\<close>

definition toSessionState :: "string \<Rightarrow> SessionState" where
  "toSessionState s =
     (if s = ''queued'' then StateQueued
      else if s = ''creating'' then StateCreating
      else if s = ''running'' then StateRunning
      else if s = ''resuming'' then StateResuming
      else if s = ''suspended_warm'' then StateSuspendedWarm
      else if s = ''suspended_cold'' then StateSuspendedCold
      else if s = ''canceled'' then StateCanceled
      else if s = ''failed'' then StateFailed
      else if s = ''dead'' then StateDead
      else if s = ''destroyed'' then StateDestroyed
      else StateOther s)"

section \<open>Sessions (control/session.go)\<close>

record TransitionOpts =
  opt_ExpectedPlacementGeneration :: "u64 option"
  opt_RunnerID :: "runnerid option"
  opt_Error :: "string option"
  opt_Image :: "string option"

definition noOpts :: TransitionOpts where
  "noOpts = \<lparr>opt_ExpectedPlacementGeneration = None, opt_RunnerID = None, opt_Error = None,
     opt_Image = None\<rparr>"

record RepoRef =
  ref_Repo :: string
  ref_BaseBranch :: string

record PortableSpec =
  spec_Image :: string
  spec_Cmd :: "string slice"
  spec_EgressAllow :: "string slice"
  spec_Repos :: "RepoRef slice"

record Session =
  ses_ID :: sessionid
  ses_WorkspaceID :: wsid
  ses_CreatorID :: actorid
  ses_Name :: string
  ses_State :: SessionState
  ses_EnvironmentID :: envid
  ses_Spec :: PortableSpec
  ses_SetupHash :: string
  ses_PoolID :: poolid
  ses_RunnerID :: runnerid
  ses_PlacementGeneration :: u64
  ses_ControllerGeneration :: u64
  ses_ControllerHolder :: string
  ses_ControllerLeaseExpiresAt :: time
  ses_IdempotencyKey :: string
  ses_ChildExitCode :: "int option"
  ses_Error :: string
  ses_CreatedAt :: time
  ses_UpdatedAt :: time
  ses_LastEventAt :: time

text \<open>The zero value \<^verbatim>\<open>Session{}\<close>.\<close>

definition zeroSession :: Session where
  "zeroSession =
     \<lparr>ses_ID = [], ses_WorkspaceID = [], ses_CreatorID = [], ses_Name = [], ses_State = StateOther [],
      ses_EnvironmentID = [], ses_Spec = \<lparr>spec_Image = [], spec_Cmd = None, spec_EgressAllow = None,
        spec_Repos = None\<rparr>, ses_SetupHash = [], ses_PoolID = [], ses_RunnerID = [],
      ses_PlacementGeneration = 0, ses_ControllerGeneration = 0, ses_ControllerHolder = [],
      ses_ControllerLeaseExpiresAt = 0, ses_IdempotencyKey = [], ses_ChildExitCode = None,
      ses_Error = [], ses_CreatedAt = 0, ses_UpdatedAt = 0, ses_LastEventAt = 0\<rparr>"

record ControllerLease =
  lease_Generation :: u64
  lease_Holder :: string
  lease_ExpiresAt :: time

definition lease_Live :: "ControllerLease \<Rightarrow> time \<Rightarrow> bool" where
  "lease_Live l now \<longleftrightarrow> lease_Holder l \<noteq> '''' \<and> now < lease_ExpiresAt l"

definition ControllerLeaseOf :: "Session \<Rightarrow> ControllerLease" where
  "ControllerLeaseOf s =
     \<lparr>lease_Generation = ses_ControllerGeneration s, lease_Holder = ses_ControllerHolder s,
      lease_ExpiresAt = ses_ControllerLeaseExpiresAt s\<rparr>"

definition ControllerLeaseTTL :: time where
  "ControllerLeaseTTL = 30 * second"

record CreateSessionCmd =
  crs_Name :: string
  crs_EnvironmentID :: envid
  crs_Spec :: PortableSpec
  crs_Repos :: "RepoRef slice"
  crs_IdempotencyKey :: string

definition CreateSession_Validate :: "CreateSessionCmd \<Rightarrow> err option" where
  "CreateSession_Validate c =
     (if list_ex (\<lambda>r. ref_Repo r = '''') (elems (crs_Repos c)) then Some ErrInvalid else None)"

record SessionQuery =
  sq_IncludeTerminal :: bool
  sq_Limit :: int
  sq_Cursor :: string

record Checkpoint =
  cp_Ref :: string
  cp_Format :: string
  cp_Capabilities :: "string slice"

definition emptyCheckpoint :: Checkpoint where
  "emptyCheckpoint = \<lparr>cp_Ref = '''', cp_Format = '''', cp_Capabilities = None\<rparr>"

section \<open>Environments and the fleet (control/environment.go, control/fleet.go)\<close>

record Requirements =
  req_Capabilities :: "string slice"
  req_MinCPU :: int
  req_MinMemoryBytes :: int
  req_MinDiskBytes :: int

definition noRequirements :: Requirements where
  "noRequirements = \<lparr>req_Capabilities = None, req_MinCPU = 0, req_MinMemoryBytes = 0,
     req_MinDiskBytes = 0\<rparr>"

record Connector =
  con_Type :: string
  con_Raw :: string

record Environment =
  env_ID :: envid
  env_WorkspaceID :: wsid
  env_Name :: string
  env_Image :: string
  env_Setup :: string
  env_SetupHash :: string
  env_Init :: string
  env_InitTimeoutSec :: int
  env_EgressAllow :: "string slice"
  env_SecretRefs :: "string slice"
  env_Connectors :: "Connector slice"
  env_Requirements :: Requirements
  env_SetupTimeoutSec :: int
  env_Snapshot :: Checkpoint
  env_SnapshotHash :: string
  env_CreatedAt :: time
  env_UpdatedAt :: time

record EnvironmentQuery =
  eq_Limit :: int
  eq_Cursor :: string

record Pool =
  pool_ID :: poolid
  pool_Capabilities :: "string slice"
  pool_CapacityUsed :: int
  pool_CapacityTotal :: int

text \<open>\<^verbatim>\<open>CapacityPlacements map[SessionID]uint64\<close> is only looked up and checked entry by
  entry: an association list, whose length is the map's.\<close>

record Runner =
  run_ID :: runnerid
  run_PoolID :: poolid
  run_CapacityUsed :: int
  run_CapacityTotal :: int
  run_CapacityPlacements :: "(sessionid \<times> u64) list"
  run_Connected :: bool
  run_Generation :: u64
  run_Capabilities :: "string slice"
  run_LastSeenAt :: time

record RunnerSession =
  rs_SessionID :: sessionid
  rs_State :: SessionState

record RunnerRegistration =
  reg_WorkspaceID :: wsid
  reg_PoolID :: poolid
  reg_RunnerID :: runnerid
  reg_Generation :: u64
  reg_CapacityUsed :: int
  reg_CapacityTotal :: int
  reg_CapacityPlacements :: "(sessionid \<times> u64) list"
  reg_Capabilities :: "string slice"
  reg_Sessions :: "RunnerSession list"

record RunnerRegistrationResult =
  rr_Accepted :: bool
  rr_Generation :: u64

record RunnerSnapshot =
  snap_WorkspaceID :: wsid
  snap_PoolID :: poolid
  snap_RunnerID :: runnerid
  snap_Generation :: u64
  snap_CapacityUsed :: int
  snap_CapacityTotal :: int
  snap_CapacityPlacements :: "(sessionid \<times> u64) list"
  snap_Sessions :: "RunnerSession list"

record ReconcileResult =
  rec_Generation :: u64
  rec_Fenced :: bool
  rec_Destroy :: "sessionid list"

record RunnerEvent =
  rev_WorkspaceID :: wsid
  rev_PoolID :: poolid
  rev_RunnerID :: runnerid
  rev_Generation :: u64
  rev_SessionID :: sessionid
  rev_State :: SessionState
  rev_Detail :: string
  rev_ChildExitCode :: "int option"
  rev_PlacementGeneration :: u64

definition ValidateCapacityPlacements :: "int \<Rightarrow> (sessionid \<times> u64) list \<Rightarrow> err option" where
  "ValidateCapacityPlacements used placements =
     (if used < 0 \<or> int (length placements) > used then Some ErrInvalid
      else if list_ex (\<lambda>(sid, generation). sid = '''' \<or> generation = 0
                \<or> uint generation > 2 ^ 63 - 1) placements then Some ErrInvalid
      else None)"

text \<open>A missing map entry reads as zero.\<close>

definition placementOf :: "(sessionid \<times> u64) list \<Rightarrow> sessionid \<Rightarrow> u64" where
  "placementOf placements sid = (case map_of placements sid of None \<Rightarrow> 0 | Some g \<Rightarrow> g)"

fun reservedSlots :: "Runner \<Rightarrow> Session list \<Rightarrow> int" where
  "reservedSlots host [] = 0"
| "reservedSlots host (row # rows) =
     (if ses_PlacementGeneration row = 0
         \<or> placementOf (run_CapacityPlacements host) (ses_ID row) \<noteq> ses_PlacementGeneration row
      then 1 else 0) + reservedSlots host rows"

definition AvailableRunnerSlots :: "Runner \<Rightarrow> Session list \<Rightarrow> int" where
  "AvailableRunnerSlots host pending =
     run_CapacityTotal host - run_CapacityUsed host - reservedSlots host pending"

lemma reservedSlots_bounds: "0 \<le> reservedSlots host rows \<and> reservedSlots host rows \<le> int (length rows)"
  by (induction rows) auto

lemma reservedSlots_append: "reservedSlots host (xs @ ys) = reservedSlots host xs + reservedSlots host ys"
  by (induction xs) auto

section \<open>Events and authorization (control/fleet.go, control/ports.go)\<close>

datatype Action =
    ActionGuestEnroll | ActionGuestReconnectBegin | ActionGuestReconnectAccept
  | ActionGuestReconnectConfigure | ActionGuestBootstrapMint | ActionGuestBootstrapRedeem
  | ActionCreate | ActionGet | ActionList | ActionUpdate | ActionDelete | ActionSuspend
  | ActionResume | ActionSnapshot | ActionAttach | ActionExec | ActionDiff | ActionPush | ActionPull

datatype ResourceKind = ResourceSession | ResourceEnvironment | ResourceRunner

record Resource =
  res_Kind :: ResourceKind
  res_WorkspaceID :: wsid
  res_ID :: string
  res_CreatorID :: actorid

text \<open>The \<^verbatim>\<open>Usage\<close> facts of an event are never set by the modelled code and are left out.\<close>

record Event =
  evt_ID :: eventid
  evt_WorkspaceID :: wsid
  evt_ActorID :: actorid
  evt_Action :: Action
  evt_Resource :: Resource
  evt_At :: time
  evt_PlacementGeneration :: u64
  evt_Command :: string

record SessionBootstrap =
  bs_Hash :: string
  bs_PlacementGeneration :: u64
  bs_ExpiresAt :: time

record CheckpointLocation =
  loc_Portable :: bool
  loc_Runners :: "runnerid list"

section \<open>Attachments (control/attach.go)\<close>

datatype AttachmentMode = AttachmentViewer | AttachmentController | AttachmentModeOther string

datatype InputPolicy = PolicyEmpty | PolicyShared | PolicyExclusive | PolicyOther string

definition policy_Shared :: "InputPolicy \<Rightarrow> bool" where
  "policy_Shared p \<longleftrightarrow> p \<noteq> PolicyExclusive"

fun policy_Valid :: "InputPolicy \<Rightarrow> bool" where
  "policy_Valid PolicyEmpty = True"
| "policy_Valid PolicyShared = True"
| "policy_Valid PolicyExclusive = True"
| "policy_Valid (PolicyOther _) = False"

definition policy_Resolved :: "InputPolicy \<Rightarrow> InputPolicy" where
  "policy_Resolved p = (if p = PolicyEmpty then PolicyShared else p)"

record AttachTerminalCmd =
  at_SessionID :: sessionid
  at_Since :: u64
  at_Mode :: AttachmentMode
  at_Negotiated :: bool
  at_ExpectedGeneration :: u64

section \<open>The runner protocol (protocol/runner/messages.go)\<close>

record RepoSpec =
  repo_Owner :: string
  repo_Name :: string
  repo_BaseBranch :: string
  repo_SessionBranch :: string
  repo_Dir :: string

record HomeMount =
  home_Volume :: string
  home_Path :: string

record RunnerSpec =
  rsp_GuestReconnect :: u64
  rsp_Name :: string
  rsp_Image :: string
  rsp_Cmd :: "string slice"
  rsp_EgressAllow :: "string slice"
  rsp_Setup :: string
  rsp_SetupTimeoutSec :: int
  rsp_Repos :: "RepoSpec slice"
  rsp_Init :: string
  rsp_InitTimeoutSec :: int
  rsp_GitAuthorName :: string
  rsp_GitAuthorEmail :: string
  rsp_Env :: "(string \<times> string) list"
  rsp_Home :: "HomeMount option"
  rsp_BootstrapToken :: string
  rsp_SecretNames :: "string slice"

text \<open>
  Of the command and the answer, the fields the application sets and reads. The request id
  and the connection generation belong to the transport, the attach and RPC blocks to the
  attach plane and the workspace operations.
\<close>

record ToRunner =
  to_Type :: string
  to_Session :: string
  to_Spec :: "RunnerSpec option"
  to_Warm :: bool
  to_PlacementGeneration :: u64

definition command :: "string \<Rightarrow> string \<Rightarrow> ToRunner" where
  "command ty sess =
     \<lparr>to_Type = ty, to_Session = sess, to_Spec = None, to_Warm = False, to_PlacementGeneration = 0\<rparr>"

record FromRunner =
  from_OK :: bool
  from_Conflict :: bool
  from_Detail :: string
  from_State :: string
  from_PlacementGeneration :: u64

definition CapabilityMicrovmV1 :: string where
  "CapabilityMicrovmV1 = ''microvm.v1''"

definition CapabilityGuestReconnectV1 :: string where
  "CapabilityGuestReconnectV1 = ''guest_reconnect.v1''"

end
