(* ===== verification/Cursor.thy ===== *)
theory Cursor
  imports Prelude
begin

text \<open>
  The opaque page cursors of the two listings (end of \<^verbatim>\<open>src/internal/controld/memstore.go\<close>)
  and the parts of Go's standard library they are made of: \<^verbatim>\<open>base64.RawURLEncoding\<close>,
  \<^verbatim>\<open>fmt.Sprintf("%d")\<close>, \<^verbatim>\<open>strconv.ParseInt\<close>, \<^verbatim>\<open>strings.Cut\<close> and \<^verbatim>\<open>Time.UnixNano\<close>. The
  lemmas show that each decoder inverts its encoder, which the paging theorem of the store
  needs.
\<close>

section \<open>base64.RawURLEncoding\<close>

definition b64_alphabet :: string where
  "b64_alphabet = ''ABCDEFGHIJKLMNOPQRSTUVWXYZabcdefghijklmnopqrstuvwxyz0123456789-_''"

definition b64_char :: "nat \<Rightarrow> char" where
  "b64_char n = b64_alphabet ! n"

fun index_of :: "'a \<Rightarrow> 'a list \<Rightarrow> nat option" where
  "index_of x [] = None"
| "index_of x (y # ys) = (if x = y then Some 0 else map_option Suc (index_of x ys))"

definition b64_index :: "char \<Rightarrow> nat option" where
  "b64_index c = index_of c b64_alphabet"

abbreviation byte :: "char \<Rightarrow> nat" where
  "byte \<equiv> of_char"

fun EncodeToString :: "string \<Rightarrow> string" where
  "EncodeToString [] = []"
| "EncodeToString [a] = [b64_char (byte a div 4), b64_char (byte a mod 4 * 16)]"
| "EncodeToString [a, b] =
     [b64_char (byte a div 4), b64_char (byte a mod 4 * 16 + byte b div 16),
      b64_char (byte b mod 16 * 4)]"
| "EncodeToString (a # b # c # xs) =
     b64_char (byte a div 4) # b64_char (byte a mod 4 * 16 + byte b div 16)
     # b64_char (byte b mod 16 * 4 + byte c div 64) # b64_char (byte c mod 64)
     # EncodeToString xs"

text \<open>The decoder skips newlines, refuses a character outside the alphabet and a last group
  of one character, and (not being strict) ignores the trailing bits of the last group.\<close>

fun decodeGroups :: "nat list \<Rightarrow> string option" where
  "decodeGroups [] = Some []"
| "decodeGroups [a] = None"
| "decodeGroups [a, b] = Some [char_of (a * 4 + b div 16)]"
| "decodeGroups [a, b, c] = Some [char_of (a * 4 + b div 16), char_of (b mod 16 * 16 + c div 4)]"
| "decodeGroups (a # b # c # d # xs) =
     map_option (\<lambda>rest. char_of (a * 4 + b div 16) # char_of (b mod 16 * 16 + c div 4)
                          # char_of (c mod 4 * 64 + d) # rest) (decodeGroups xs)"

definition DecodeString :: "string \<Rightarrow> string option" where
  "DecodeString s =
     (case those (map b64_index (filter (\<lambda>c. c \<noteq> CHR 0x0A \<and> c \<noteq> CHR 0x0D) s)) of
        None \<Rightarrow> None | Some ns \<Rightarrow> decodeGroups ns)"

lemma index_of_nth: "distinct ys \<Longrightarrow> n < length ys \<Longrightarrow> index_of (ys ! n) ys = Some n"
proof (induction ys arbitrary: n)
  case Nil
  then show ?case by simp
next
  case (Cons y ys)
  then show ?case by (cases n) auto
qed

lemma b64_alphabet_facts:
  "distinct b64_alphabet" "length b64_alphabet = 64"
  "CHR 0x0A \<notin> set b64_alphabet" "CHR 0x0D \<notin> set b64_alphabet"
  by (simp_all add: b64_alphabet_def)

lemma b64_index_char [simp]: "n < 64 \<Longrightarrow> b64_index (b64_char n) = Some n"
  by (simp add: b64_index_def b64_char_def index_of_nth b64_alphabet_facts)

lemma b64_char_not_newline: "n < 64 \<Longrightarrow> b64_char n \<noteq> CHR 0x0A \<and> b64_char n \<noteq> CHR 0x0D"
  using b64_alphabet_facts by (metis b64_char_def nth_mem)

lemma byte_bounds [simp]:
  "byte c div 4 < 64" "byte c mod 4 * 16 < 64" "byte c mod 16 * 4 < 64" "byte c mod 64 < 64"
  "byte a mod 4 * 16 + byte b div 16 < 64" "byte b mod 16 * 4 + byte c div 64 < 64"
proof -
  have lt: "byte x < 256" for x by (rule nat_of_char_less_256)
  show "byte c div 4 < 64" using lt [of c] by arith
  show "byte c mod 4 * 16 < 64" by arith
  show "byte c mod 16 * 4 < 64" by arith
  show "byte c mod 64 < 64" by simp
  show "byte a mod 4 * 16 + byte b div 16 < 64" using lt [of b] by arith
  show "byte b mod 16 * 4 + byte c div 64 < 64" using lt [of c] by arith
qed

text \<open>The indices an encoding is made of.\<close>

fun groups :: "string \<Rightarrow> nat list" where
  "groups [] = []"
| "groups [a] = [byte a div 4, byte a mod 4 * 16]"
| "groups [a, b] = [byte a div 4, byte a mod 4 * 16 + byte b div 16, byte b mod 16 * 4]"
| "groups (a # b # c # xs) =
     byte a div 4 # (byte a mod 4 * 16 + byte b div 16)
     # (byte b mod 16 * 4 + byte c div 64) # (byte c mod 64) # groups xs"

lemma EncodeToString_groups: "EncodeToString s = map b64_char (groups s)"
  by (induction s rule: groups.induct) auto

lemma groups_less: "n \<in> set (groups s) \<Longrightarrow> n < 64"
  by (induction s rule: groups.induct) auto

lemma unpack:
  "(a :: nat) div 4 * 4 + a mod 4 * 16 div 16 = a"
  "y < (256 :: nat) \<Longrightarrow> a div 4 * 4 + (a mod 4 * 16 + y div 16) div 16 = a"
  "y < (256 :: nat) \<Longrightarrow> (a mod 4 * 16 + y div 16) mod 16 * 16 + y mod 16 * 4 div 4 = y"
  "y < (256 :: nat) \<Longrightarrow> z < 256 \<Longrightarrow>
     (a mod 4 * 16 + y div 16) mod 16 * 16 + (y mod 16 * 4 + z div 64) div 4 = y"
  "z < (256 :: nat) \<Longrightarrow> (a mod 16 * 4 + z div 64) mod 4 * 64 + z mod 64 = z"
  by (simp_all add: div_add1_eq)

lemma decode_groups: "decodeGroups (groups s) = Some s"
  by (induction s rule: groups.induct)
    (simp_all only: groups.simps decodeGroups.simps unpack nat_of_char_less_256 char_of_char option.map)

lemma those_index: "(\<And>n. n \<in> set ns \<Longrightarrow> n < 64) \<Longrightarrow> those (map b64_index (map b64_char ns)) = Some ns"
  by (induction ns) auto

lemma Decode_Encode [simp]: "DecodeString (EncodeToString s) = Some s"
proof -
  have "filter (\<lambda>c. c \<noteq> CHR 0x0A \<and> c \<noteq> CHR 0x0D) (EncodeToString s) = map b64_char (groups s)"
    unfolding EncodeToString_groups
    by (rule filter_True) (auto dest: groups_less b64_char_not_newline)
  then show ?thesis
    by (simp add: DecodeString_def those_index groups_less decode_groups del: map_map)
qed

section \<open>Decimal integers\<close>

definition digit :: "nat \<Rightarrow> char" where
  "digit n = char_of (48 + n)"

fun show_nat :: "nat \<Rightarrow> string" where
  "show_nat n = (if n < 10 then [digit n] else show_nat (n div 10) @ [digit (n mod 10)])"

declare show_nat.simps [simp del]

definition Sprint_d :: "int \<Rightarrow> string" where
  "Sprint_d i = (if i < 0 then CHR ''-'' # show_nat (nat (- i)) else show_nat (nat i))"

definition digit_value :: "char \<Rightarrow> nat option" where
  "digit_value c = (if 48 \<le> byte c \<and> byte c \<le> 57 then Some (byte c - 48) else None)"

fun parse_digits :: "nat \<Rightarrow> string \<Rightarrow> nat option" where
  "parse_digits acc [] = Some acc"
| "parse_digits acc (c # cs) =
     (case digit_value c of None \<Rightarrow> None | Some d \<Rightarrow> parse_digits (10 * acc + d) cs)"

text \<open>\<^verbatim>\<open>strconv.ParseInt(s, 10, 64)\<close>: an optional sign, at least one digit, and a value that
  fits an \<^verbatim>\<open>int64\<close>.\<close>

definition ParseInt :: "string \<Rightarrow> int option" where
  "ParseInt s =
     (let (neg, ds) = (case s of
            [] \<Rightarrow> (False, [])
          | c # cs \<Rightarrow> if c = CHR ''-'' then (True, cs) else if c = CHR ''+'' then (False, cs)
                      else (False, s))
      in if ds = [] then None
         else case parse_digits 0 ds of
           None \<Rightarrow> None
         | Some n \<Rightarrow>
           (if neg then (if int n \<le> 2 ^ 63 then Some (- int n) else None)
            else (if int n < 2 ^ 63 then Some (int n) else None)))"

lemma byte_digit: "d < 10 \<Longrightarrow> byte (digit d) = 48 + d"
  by (simp add: digit_def)

lemma digit_value_digit [simp]: "d < 10 \<Longrightarrow> digit_value (digit d) = Some d"
  by (simp add: digit_value_def byte_digit)

lemma digit_neq: "d < 10 \<Longrightarrow> digit d \<noteq> CHR ''|'' \<and> digit d \<noteq> CHR ''-'' \<and> digit d \<noteq> CHR ''+''"
proof -
  assume "d < 10"
  then have "byte (digit d) \<noteq> byte CHR ''|''" "byte (digit d) \<noteq> byte CHR ''-''"
    "byte (digit d) \<noteq> byte CHR ''+''"
    by (simp_all add: byte_digit)
  then show ?thesis by metis
qed

lemma parse_digits_append:
  "parse_digits acc (xs @ ys) =
     (case parse_digits acc xs of None \<Rightarrow> None | Some a \<Rightarrow> parse_digits a ys)"
  by (induction xs arbitrary: acc) (auto split: option.splits)

lemma parse_show_nat [simp]: "parse_digits 0 (show_nat n) = Some n"
proof (induction n rule: show_nat.induct)
  case (1 n)
  then show ?case
    by (cases "n < 10") (auto simp: show_nat.simps [of n] parse_digits_append)
qed

lemma show_nat_digits: "c \<in> set (show_nat n) \<Longrightarrow> \<exists>d < 10. c = digit d"
proof (induction n rule: show_nat.induct)
  case (1 n)
  have "n mod 10 < 10" by simp
  then have "\<exists>d < 10. digit (n mod 10) = digit d" by blast
  with 1 show ?case
    by (cases "n < 10") (auto simp: show_nat.simps [of n])
qed

lemma show_nat_nonempty [simp]: "show_nat n \<noteq> []"
  by (simp add: show_nat.simps [of n])

lemma show_nat_hd:
  assumes "show_nat n = c # cs"
  shows "c \<noteq> CHR ''-'' \<and> c \<noteq> CHR ''+''"
proof -
  have "c \<in> set (show_nat n)" by (simp add: assms)
  then show ?thesis using show_nat_digits digit_neq by metis
qed

lemma Parse_Sprint: "- (2 ^ 63) \<le> i \<Longrightarrow> i < 2 ^ 63 \<Longrightarrow> ParseInt (Sprint_d i) = Some i"
proof (cases "i < 0")
  case True
  assume "- (2 ^ 63) \<le> i"
  with True show ?thesis by (simp add: ParseInt_def Sprint_d_def)
next
  case False
  assume lt: "i < 2 ^ 63"
  obtain c cs where s: "show_nat (nat i) = c # cs" by (cases "show_nat (nat i)") auto
  have "parse_digits 0 (c # cs) = Some (nat i)"
    unfolding s [symmetric] by simp
  with False lt s show_nat_hd [OF s] show ?thesis
    by (simp add: ParseInt_def Sprint_d_def del: parse_digits.simps)
qed

lemma Sprint_no_bar: "CHR ''|'' \<notin> set (Sprint_d i)"
  using show_nat_digits digit_neq by (auto simp: Sprint_d_def) metis+

section \<open>strings.Cut and Time.UnixNano\<close>

fun Cut :: "char \<Rightarrow> string \<Rightarrow> (string \<times> string) option" where
  "Cut sep [] = None"
| "Cut sep (c # cs) =
     (if c = sep then Some ([], cs)
      else map_option (\<lambda>(before, after). (c # before, after)) (Cut sep cs))"

lemma Cut_append: "sep \<notin> set xs \<Longrightarrow> Cut sep (xs @ sep # ys) = Some (xs, ys)"
  by (induction xs) auto

text \<open>Go's zero time is 62135596800 seconds before the Unix epoch. The result is an
  \<^verbatim>\<open>int64\<close>, so it wraps for a time too far from 1970.\<close>

definition unixEpoch :: time where
  "unixEpoch = 62135596800 * second"

definition UnixNano :: "time \<Rightarrow> int" where
  "UnixNano t = sint (word_of_int (t - unixEpoch) :: 64 word)"

lemma UnixNano_range: "- (2 ^ 63) \<le> UnixNano t \<and> UnixNano t < 2 ^ 63"
  using sint_range_size [of "word_of_int (t - unixEpoch) :: 64 word"]
  by (simp add: UnixNano_def word_size)

text \<open>The times an \<^verbatim>\<open>int64\<close> of nanoseconds represents: the years 1678 to 2262.\<close>

definition representable :: "time \<Rightarrow> bool" where
  "representable t \<longleftrightarrow> - (2 ^ 63) \<le> t - unixEpoch \<and> t - unixEpoch < 2 ^ 63"

lemma UnixNano_representable: "representable t \<Longrightarrow> UnixNano t = t - unixEpoch"
  unfolding UnixNano_def representable_def
  by (subst sint_sbintrunc') (simp add: signed_take_bit_int_eq_self)

section \<open>The cursors\<close>

definition encodeCursor :: "time \<Rightarrow> string \<Rightarrow> string" where
  "encodeCursor createdAt sid = EncodeToString (Sprint_d (UnixNano createdAt) @ CHR ''|'' # sid)"

definition decodeCursor :: "string \<Rightarrow> (int \<times> string) option" where
  "decodeCursor cursor =
     (case DecodeString cursor of
        None \<Rightarrow> None
      | Some raw \<Rightarrow>
        (case Cut CHR ''|'' raw of
           None \<Rightarrow> None
         | Some (nanoStr, sid) \<Rightarrow>
           (case ParseInt nanoStr of None \<Rightarrow> None | Some nano \<Rightarrow> Some (nano, sid))))"

definition encodeEnvCursor :: "string \<Rightarrow> string \<Rightarrow> string" where
  "encodeEnvCursor name eid = EncodeToString (eid @ CHR ''|'' # name)"

definition decodeEnvCursor :: "string \<Rightarrow> (string \<times> string) option" where
  "decodeEnvCursor cursor =
     (case DecodeString cursor of
        None \<Rightarrow> None
      | Some raw \<Rightarrow>
        (case Cut CHR ''|'' raw of None \<Rightarrow> None | Some (rawID, rawName) \<Rightarrow> Some (rawName, rawID)))"

lemma decode_encode_cursor [simp]: "decodeCursor (encodeCursor t sid) = Some (UnixNano t, sid)"
  using UnixNano_range [of t]
  by (simp add: decodeCursor_def encodeCursor_def Cut_append Sprint_no_bar Parse_Sprint)

lemma decode_encode_env_cursor:
  "CHR ''|'' \<notin> set eid \<Longrightarrow> decodeEnvCursor (encodeEnvCursor name eid) = Some (name, eid)"
  by (simp add: decodeEnvCursor_def encodeEnvCursor_def Cut_append)

lemma EncodeToString_nonempty: "s \<noteq> [] \<Longrightarrow> EncodeToString s \<noteq> ''''"
  by (metis Decode_Encode EncodeToString.simps(1) option.inject)

lemma cursor_nonempty [simp]: "encodeCursor t sid \<noteq> ''''" "encodeEnvCursor name eid \<noteq> ''''"
  by (simp_all add: encodeCursor_def encodeEnvCursor_def EncodeToString_nonempty)

end
