(* ===== verification/MemStore.thy ===== *)
theory MemStore
  imports Control Cursor
begin

text \<open>
  The in-memory store of controld (\<^verbatim>\<open>src/internal/controld/memstore.go\<close> with the row types
  of \<^verbatim>\<open>store.go\<close>): its tables as a record and one definition per method of the session,
  environment and fleet repositories, of the event recorder and of the host lookups. One
  mutex guards every table, so a method is one atomic step from store to store. Wall-clock
  reads (\<^verbatim>\<open>time.Now()\<close>) are the argument \<open>now\<close>. Values are immutable here, so the defensive
  clones of the code are the identity. Users, secrets, credentials and bootstrap tokens are
  in the theory \<open>MemVault\<close>.
\<close>

section \<open>Rows and tables\<close>

record User =
  usr_ID :: string
  usr_GitHubID :: int
  usr_Login :: string
  usr_Role :: string
  usr_CreatedAt :: time

record SecretMeta =
  sec_Name :: string
  sec_CreatedAt :: time
  sec_UpdatedAt :: time

record secretRow =
  srow_meta :: SecretMeta
  srow_ciphertext :: bytes
  srow_nonce :: bytes

record Credential =
  cred_UserID :: string
  cred_Provider :: string
  cred_Ciphertext :: bytes
  cred_Nonce :: bytes
  cred_RefreshCiphertext :: bytes
  cred_RefreshNonce :: bytes
  cred_Status :: string
  cred_Scopes :: string
  cred_ObtainedAt :: time
  cred_ExpiresAt :: "time option"
  cred_LastVerifiedAt :: time
  cred_LastUsedAt :: time
  cred_UpdatedAt :: time

record AgentCredential =
  agc_UserID :: string
  agc_Provider :: string
  agc_Ciphertext :: bytes
  agc_Nonce :: bytes
  agc_Version :: u64
  agc_Revoked :: bool
  agc_LastRevokedVersion :: u64
  agc_UpdatedAt :: time

record bootstrapRow =
  btr_hash :: string
  btr_gen :: u64
  btr_expiresAt :: time
  btr_spent :: bool

type_synonym sessionKey = "wsid \<times> sessionid"
type_synonym environmentKey = "wsid \<times> envid"
type_synonym runnerKey = "poolid \<times> runnerid"
type_synonym credKey = "string \<times> string"

record memStore =
  ms_workspaces :: "wsid set"
  ms_sessions :: "(sessionKey \<times> Session) list"
  ms_environments :: "(environmentKey \<times> Environment) list"
  ms_snapshots :: "environmentKey \<rightharpoonup> runnerid"
  ms_runners :: "(runnerKey \<times> Runner) list"
  ms_events :: "Event list"
  ms_eventIDs :: "eventid set"
  ms_users :: "string \<rightharpoonup> User"
  ms_usersByGitHub :: "int \<rightharpoonup> string"
  ms_tokens :: "string \<rightharpoonup> string"
  ms_secrets :: "(string \<times> secretRow) list"
  ms_credentials :: "(credKey \<times> Credential) list"
  ms_agentCredentials :: "(credKey \<times> AgentCredential) list"
  ms_bootstraps :: "sessionKey \<rightharpoonup> bootstrapRow"

definition installWorkspace :: wsid where
  "installWorkspace = ''ws_self_hosted''"

definition NewMemStore :: memStore where
  "NewMemStore =
     \<lparr>ms_workspaces = {installWorkspace}, ms_sessions = [], ms_environments = [],
      ms_snapshots = Map.empty, ms_runners = [], ms_events = [], ms_eventIDs = {},
      ms_users = Map.empty, ms_usersByGitHub = Map.empty, ms_tokens = Map.empty,
      ms_secrets = [], ms_credentials = [], ms_agentCredentials = [], ms_bootstraps = Map.empty\<rparr>"

text \<open>A row the store looks a key up in, and the write of a changed row back under its key.\<close>

abbreviation sessionAt :: "memStore \<Rightarrow> wsid \<Rightarrow> sessionid \<Rightarrow> Session option" where
  "sessionAt m ws sid \<equiv> map_of (ms_sessions m) (ws, sid)"

abbreviation putSession :: "memStore \<Rightarrow> wsid \<Rightarrow> sessionid \<Rightarrow> Session \<Rightarrow> memStore" where
  "putSession m ws sid s \<equiv> m\<lparr>ms_sessions := upd (ws, sid) s (ms_sessions m)\<rparr>"

abbreviation environmentAt :: "memStore \<Rightarrow> wsid \<Rightarrow> envid \<Rightarrow> Environment option" where
  "environmentAt m ws eid \<equiv> map_of (ms_environments m) (ws, eid)"

abbreviation runnerAt :: "memStore \<Rightarrow> poolid \<Rightarrow> runnerid \<Rightarrow> Runner option" where
  "runnerAt m pool rid \<equiv> map_of (ms_runners m) (pool, rid)"

section \<open>Paging\<close>

definition pageOf :: "'a list \<Rightarrow> int \<Rightarrow> ('a \<Rightarrow> string) \<Rightarrow> 'a list \<times> string" where
  "pageOf rest limit cursor =
     (if 0 < limit \<and> limit \<le> int (length rest)
      then let page = take (nat limit) rest in (page, cursor (last page))
      else (rest, ''''))"

definition newestFirst :: "Session \<Rightarrow> Session \<Rightarrow> bool" where
  "newestFirst a b \<longleftrightarrow>
     (if ses_CreatedAt a \<noteq> ses_CreatedAt b then ses_CreatedAt a > ses_CreatedAt b
      else ses_ID a > ses_ID b)"

definition sortSessionsNewestFirst :: "Session list \<Rightarrow> Session list" where
  "sortSessionsNewestFirst rows = sortSlice newestFirst rows"

section \<open>Sessions (memSessions)\<close>

definition sessionByIdem :: "memStore \<Rightarrow> wsid \<Rightarrow> actorid \<Rightarrow> string \<Rightarrow> Session option" where
  "sessionByIdem m ws creator key =
     (if key = '''' then None
      else first_where (\<lambda>k s. fst k = ws \<and> ses_CreatorID s = creator \<and> ses_IdempotencyKey s = key)
             (ms_sessions m))"

text \<open>The row an insert stores: times default to now, the placement generation starts at 1,
  the controller columns and the exit code start empty.\<close>

definition storedSession :: "time \<Rightarrow> wsid \<Rightarrow> Session \<Rightarrow> Session" where
  "storedSession now ws s =
     s\<lparr>ses_CreatedAt := (if ses_CreatedAt s = zero_time then now else ses_CreatedAt s),
       ses_UpdatedAt := (if ses_UpdatedAt s = zero_time then now else ses_UpdatedAt s),
       ses_LastEventAt := (if ses_LastEventAt s = zero_time then now else ses_LastEventAt s),
       ses_WorkspaceID := ws,
       ses_PlacementGeneration :=
         (if ses_PlacementGeneration s < 1 then 1 else ses_PlacementGeneration s),
       ses_ControllerGeneration := 0,
       ses_ControllerHolder := '''',
       ses_ControllerLeaseExpiresAt := zero_time,
       ses_ChildExitCode := None\<rparr>"

definition memSessions_CreateSession ::
    "memStore \<Rightarrow> time \<Rightarrow> wsid \<Rightarrow> Session \<Rightarrow> memStore \<times> (err + Session)" where
  "memSessions_CreateSession m now ws s =
     (if ws = '''' then (m, Inl ErrInvalid)
      else if ws \<notin> ms_workspaces m then (m, Inl ErrNotFound)
      else case (if ses_IdempotencyKey s \<noteq> ''''
                 then sessionByIdem m ws (ses_CreatorID s) (ses_IdempotencyKey s) else None) of
        Some existing \<Rightarrow> (m, Inr existing)
      | None \<Rightarrow>
        (if ses_Name s \<noteq> ''''
            \<and> list_ex (\<lambda>(key, existing). fst key = ws \<and> ses_CreatorID existing = ses_CreatorID s
                 \<and> ses_Name existing = ses_Name s \<and> \<not> Terminal (ses_State existing)) (ms_sessions m)
         then (m, Inl ErrConflict)
         else (putSession m ws (ses_ID s) (storedSession now ws s), Inr (storedSession now ws s))))"

definition memSessions_GetSession :: "memStore \<Rightarrow> wsid \<Rightarrow> sessionid \<Rightarrow> err + Session" where
  "memSessions_GetSession m ws sid =
     (if ws = '''' then Inl ErrInvalid
      else case sessionAt m ws sid of None \<Rightarrow> Inl ErrNotFound | Some s \<Rightarrow> Inr s)"

definition memSessions_SessionByIDem ::
    "memStore \<Rightarrow> wsid \<Rightarrow> actorid \<Rightarrow> string \<Rightarrow> err + Session" where
  "memSessions_SessionByIDem m ws creator key =
     (if ws = '''' then Inl ErrInvalid
      else if key = '''' then Inl ErrNotFound
      else case sessionByIdem m ws creator key of None \<Rightarrow> Inl ErrNotFound | Some s \<Rightarrow> Inr s)"

definition listedSessions :: "memStore \<Rightarrow> wsid \<Rightarrow> bool \<Rightarrow> Session list" where
  "listedSessions m ws includeTerminal =
     rows_where (\<lambda>k s. fst k = ws \<and> (includeTerminal \<or> \<not> Terminal (ses_State s))) (ms_sessions m)"

definition memSessions_ListSessions ::
    "memStore \<Rightarrow> wsid \<Rightarrow> SessionQuery \<Rightarrow> err + (Session list \<times> string)" where
  "memSessions_ListSessions m ws q =
     (if ws = '''' then Inl ErrInvalid
      else
        let rows = sortSessionsNewestFirst (listedSessions m ws (sq_IncludeTerminal q));
            page = (\<lambda>rest. pageOf rest (sq_Limit q) (\<lambda>s. encodeCursor (ses_CreatedAt s) (ses_ID s)))
        in if sq_Cursor q = '''' then Inr (page rows)
           else case decodeCursor (sq_Cursor q) of
             None \<Rightarrow> Inl ErrInvalid
           | Some (curNano, curID) \<Rightarrow>
             Inr (page (dropWhile (\<lambda>s. \<not> (UnixNano (ses_CreatedAt s) < curNano
                    \<or> UnixNano (ses_CreatedAt s) = curNano \<and> ses_ID s < curID)) rows)))"

definition memSessions_Transition ::
    "memStore \<Rightarrow> time \<Rightarrow> wsid \<Rightarrow> sessionid \<Rightarrow> SessionState list \<Rightarrow> SessionState \<Rightarrow> TransitionOpts
       \<Rightarrow> memStore \<times> err option" where
  "memSessions_Transition m now ws sid from to opts =
     (if ws = '''' then (m, Some ErrInvalid)
      else case sessionAt m ws sid of
        None \<Rightarrow> (m, Some ErrNotFound)
      | Some s \<Rightarrow>
        (if ses_State s \<notin> set from
            \<or> (case opt_ExpectedPlacementGeneration opts of
                 None \<Rightarrow> False | Some g \<Rightarrow> ses_PlacementGeneration s \<noteq> g)
         then (m, Some ErrConflict)
         else
           let s1 = s\<lparr>ses_State := to\<rparr>;
               s2 = (case opt_RunnerID opts of
                       None \<Rightarrow> s1
                     | Some rid \<Rightarrow>
                       (let s1' = s1\<lparr>ses_RunnerID := rid\<rparr>
                        in if rid \<noteq> ''''
                           then s1'\<lparr>ses_PlacementGeneration := ses_PlacementGeneration s1' + 1\<rparr>
                           else s1'));
               s3 = (case opt_Error opts of None \<Rightarrow> s2 | Some e \<Rightarrow> s2\<lparr>ses_Error := e\<rparr>);
               s4 = (case opt_Image opts of
                       None \<Rightarrow> s3 | Some i \<Rightarrow> s3\<lparr>ses_Spec := (ses_Spec s3)\<lparr>spec_Image := i\<rparr>\<rparr>)
           in (putSession m ws sid (s4\<lparr>ses_UpdatedAt := now, ses_LastEventAt := now\<rparr>), None)))"

definition memSessions_SetSessionSetupHash ::
    "memStore \<Rightarrow> time \<Rightarrow> wsid \<Rightarrow> sessionid \<Rightarrow> string \<Rightarrow> memStore \<times> err option" where
  "memSessions_SetSessionSetupHash m now ws sid hash =
     (if ws = '''' then (m, Some ErrInvalid)
      else case sessionAt m ws sid of
        None \<Rightarrow> (m, Some ErrNotFound)
      | Some s \<Rightarrow> (putSession m ws sid (s\<lparr>ses_SetupHash := hash, ses_UpdatedAt := now\<rparr>), None))"

definition memSessions_SetChildExitCode ::
    "memStore \<Rightarrow> time \<Rightarrow> wsid \<Rightarrow> sessionid \<Rightarrow> int \<Rightarrow> memStore \<times> err option" where
  "memSessions_SetChildExitCode m now ws sid code =
     (if ws = '''' then (m, Some ErrInvalid)
      else case sessionAt m ws sid of
        None \<Rightarrow> (m, Some ErrNotFound)
      | Some s \<Rightarrow>
        (putSession m ws sid (s\<lparr>ses_ChildExitCode := Some code, ses_UpdatedAt := now\<rparr>), None))"

text \<open>The advance both controller grants make: the next generation, with the lease vacated.\<close>

definition advanceController :: "time \<Rightarrow> Session \<Rightarrow> Session" where
  "advanceController now s =
     s\<lparr>ses_ControllerGeneration := ses_ControllerGeneration s + 1, ses_ControllerHolder := '''',
       ses_ControllerLeaseExpiresAt := zero_time, ses_UpdatedAt := now\<rparr>"

definition memSessions_NextControllerGeneration ::
    "memStore \<Rightarrow> time \<Rightarrow> wsid \<Rightarrow> sessionid \<Rightarrow> memStore \<times> (err + u64)" where
  "memSessions_NextControllerGeneration m now ws sid =
     (if ws = '''' then (m, Inl ErrInvalid)
      else case sessionAt m ws sid of
        None \<Rightarrow> (m, Inl ErrNotFound)
      | Some s \<Rightarrow>
        (let s' = advanceController now s
         in (putSession m ws sid s', Inr (ses_ControllerGeneration s'))))"

definition memSessions_CompareAndAdvanceControllerGeneration ::
    "memStore \<Rightarrow> time \<Rightarrow> wsid \<Rightarrow> sessionid \<Rightarrow> u64 \<Rightarrow> memStore \<times> (err + u64)" where
  "memSessions_CompareAndAdvanceControllerGeneration m now ws sid expected =
     (if ws = '''' then (m, Inl ErrInvalid)
      else case sessionAt m ws sid of
        None \<Rightarrow> (m, Inl ErrStale)
      | Some s \<Rightarrow>
        (if ses_ControllerGeneration s \<noteq> expected then (m, Inl ErrStale)
         else let s' = advanceController now s
              in (putSession m ws sid s', Inr (ses_ControllerGeneration s'))))"

definition memSessions_RenewControllerLease ::
    "memStore \<Rightarrow> time \<Rightarrow> wsid \<Rightarrow> sessionid \<Rightarrow> ControllerLease \<Rightarrow> memStore \<times> err option" where
  "memSessions_RenewControllerLease m now ws sid l =
     (if ws = '''' \<or> lease_Generation l = 0 \<or> lease_Holder l = '''' then (m, Some ErrInvalid)
      else case sessionAt m ws sid of
        None \<Rightarrow> (m, Some ErrStale)
      | Some s \<Rightarrow>
        (if ses_ControllerGeneration s \<noteq> lease_Generation l then (m, Some ErrStale)
         else if ses_ControllerHolder s \<noteq> '''' \<and> ses_ControllerHolder s \<noteq> lease_Holder l
         then (m, Some ErrStale)
         else (putSession m ws sid
                 (s\<lparr>ses_ControllerHolder := lease_Holder l,
                    ses_ControllerLeaseExpiresAt := lease_ExpiresAt l, ses_UpdatedAt := now\<rparr>), None)))"

section \<open>Environments (memEnvironments)\<close>

definition environmentByName :: "memStore \<Rightarrow> wsid \<Rightarrow> string \<Rightarrow> Environment option" where
  "environmentByName m ws name =
     (if name = '''' then None
      else first_where (\<lambda>k e. fst k = ws \<and> env_Name e = name) (ms_environments m))"

definition memEnvironments_CreateEnvironment ::
    "memStore \<Rightarrow> time \<Rightarrow> wsid \<Rightarrow> Environment \<Rightarrow> memStore \<times> (err + Environment)" where
  "memEnvironments_CreateEnvironment m now ws e =
     (if ws = '''' then (m, Inl ErrInvalid)
      else if ws \<notin> ms_workspaces m then (m, Inl ErrNotFound)
      else if environmentAt m ws (env_ID e) \<noteq> None then (m, Inl ErrConflict)
      else if environmentByName m ws (env_Name e) \<noteq> None then (m, Inl ErrConflict)
      else
        let e' = e\<lparr>env_CreatedAt := (if env_CreatedAt e = zero_time then now else env_CreatedAt e),
                   env_UpdatedAt := (if env_UpdatedAt e = zero_time then now else env_UpdatedAt e),
                   env_WorkspaceID := ws, env_Snapshot := emptyCheckpoint, env_SnapshotHash := ''''\<rparr>
        in (m\<lparr>ms_environments := upd (ws, env_ID e) e' (ms_environments m),
              ms_snapshots := (ms_snapshots m)((ws, env_ID e) := None)\<rparr>, Inr e'))"

definition memEnvironments_GetEnvironment :: "memStore \<Rightarrow> wsid \<Rightarrow> envid \<Rightarrow> err + Environment" where
  "memEnvironments_GetEnvironment m ws eid =
     (if ws = '''' then Inl ErrInvalid
      else case environmentAt m ws eid of None \<Rightarrow> Inl ErrNotFound | Some e \<Rightarrow> Inr e)"

definition environmentLess :: "Environment \<Rightarrow> Environment \<Rightarrow> bool" where
  "environmentLess a b \<longleftrightarrow>
     (if env_Name a \<noteq> env_Name b then env_Name a < env_Name b else env_ID a < env_ID b)"

definition memEnvironments_ListEnvironments ::
    "memStore \<Rightarrow> wsid \<Rightarrow> EnvironmentQuery \<Rightarrow> err + (Environment list \<times> string)" where
  "memEnvironments_ListEnvironments m ws q =
     (if ws = '''' then Inl ErrInvalid
      else
        let rows = sortSlice environmentLess (rows_where (\<lambda>k e. fst k = ws) (ms_environments m));
            page = (\<lambda>rest. pageOf rest (eq_Limit q) (\<lambda>e. encodeEnvCursor (env_Name e) (env_ID e)))
        in if eq_Cursor q = '''' then Inr (page rows)
           else case decodeEnvCursor (eq_Cursor q) of
             None \<Rightarrow> Inl ErrInvalid
           | Some (curName, curID) \<Rightarrow>
             Inr (page (dropWhile (\<lambda>e. \<not> (env_Name e > curName
                    \<or> env_Name e = curName \<and> env_ID e > curID)) rows)))"

definition memEnvironments_UpdateEnvironment ::
    "memStore \<Rightarrow> time \<Rightarrow> wsid \<Rightarrow> Environment \<Rightarrow> memStore \<times> (err + Environment)" where
  "memEnvironments_UpdateEnvironment m now ws e =
     (if ws = '''' then (m, Inl ErrInvalid)
      else case environmentAt m ws (env_ID e) of
        None \<Rightarrow> (m, Inl ErrNotFound)
      | Some cur \<Rightarrow>
        (if (case environmentByName m ws (env_Name e) of
               None \<Rightarrow> False | Some held \<Rightarrow> env_ID held \<noteq> env_ID e)
         then (m, Inl ErrConflict)
         else
           let e' = e\<lparr>env_WorkspaceID := ws, env_CreatedAt := env_CreatedAt cur,
                      env_Snapshot := env_Snapshot cur, env_SnapshotHash := env_SnapshotHash cur,
                      env_UpdatedAt := now\<rparr>
           in (m\<lparr>ms_environments := upd (ws, env_ID e) e' (ms_environments m)\<rparr>, Inr e')))"

definition memEnvironments_DeleteEnvironment ::
    "memStore \<Rightarrow> wsid \<Rightarrow> envid \<Rightarrow> memStore \<times> err option" where
  "memEnvironments_DeleteEnvironment m ws eid =
     (if ws = '''' then (m, Some ErrInvalid)
      else if environmentAt m ws eid = None then (m, Some ErrNotFound)
      else (m\<lparr>ms_environments := del (ws, eid) (ms_environments m),
              ms_snapshots := (ms_snapshots m)((ws, eid) := None)\<rparr>, None))"

definition memEnvironments_CountSessionsByEnvironment ::
    "memStore \<Rightarrow> wsid \<Rightarrow> envid \<Rightarrow> SessionState list \<Rightarrow> err + nat" where
  "memEnvironments_CountSessionsByEnvironment m ws eid states =
     (if ws = '''' then Inl ErrInvalid
      else Inr (length (rows_where (\<lambda>k s. fst k = ws \<and> ses_EnvironmentID s = eid
                  \<and> (states = [] \<or> ses_State s \<in> set states)) (ms_sessions m))))"

definition snapshotCheckpointFormat :: string where
  "snapshotCheckpointFormat = ''rainier-runner-v0''"

definition SnapshotCheckpoint :: "string \<Rightarrow> Checkpoint" where
  "SnapshotCheckpoint ref =
     \<lparr>cp_Ref = ref, cp_Format = snapshotCheckpointFormat, cp_Capabilities = Some [''workspace'']\<rparr>"

definition memEnvironments_SetEnvironmentSnapshot ::
    "memStore \<Rightarrow> time \<Rightarrow> wsid \<Rightarrow> envid \<Rightarrow> string \<Rightarrow> string \<Rightarrow> runnerid \<Rightarrow> memStore \<times> err option" where
  "memEnvironments_SetEnvironmentSnapshot m now ws eid expectHash ref rid =
     (if ws = '''' then (m, Some ErrInvalid)
      else case environmentAt m ws eid of
        None \<Rightarrow> (m, Some ErrNotFound)
      | Some e \<Rightarrow>
        (if env_SetupHash e \<noteq> expectHash then (m, Some ErrStale)
         else (m\<lparr>ms_environments := upd (ws, eid)
                   (e\<lparr>env_Snapshot := SnapshotCheckpoint ref, env_SnapshotHash := expectHash,
                      env_UpdatedAt := now\<rparr>) (ms_environments m),
                 ms_snapshots := (ms_snapshots m)((ws, eid) \<mapsto> rid)\<rparr>, None)))"

section \<open>The fleet (memFleet)\<close>

definition memFleet_UpsertRunner :: "memStore \<Rightarrow> poolid \<Rightarrow> Runner \<Rightarrow> memStore \<times> err option" where
  "memFleet_UpsertRunner m pool run =
     (case ValidateCapacityPlacements (run_CapacityUsed run) (run_CapacityPlacements run) of
        Some e \<Rightarrow> (m, Some e)
      | None \<Rightarrow>
        (if pool = '''' then (m, Some ErrInvalid)
         else if (case runnerAt m pool (run_ID run) of
                    None \<Rightarrow> False | Some cur \<Rightarrow> run_Generation cur > run_Generation run)
         then (m, Some ErrStale)
         else (m\<lparr>ms_runners := upd (pool, run_ID run) (run\<lparr>run_PoolID := pool\<rparr>) (ms_runners m)\<rparr>, None)))"

definition memFleet_SetRunnerConnected ::
    "memStore \<Rightarrow> time \<Rightarrow> poolid \<Rightarrow> runnerid \<Rightarrow> bool \<Rightarrow> memStore \<times> err option" where
  "memFleet_SetRunnerConnected m now pool rid connected =
     (if pool = '''' then (m, Some ErrInvalid)
      else case runnerAt m pool rid of
        None \<Rightarrow> (m, Some ErrNotFound)
      | Some run \<Rightarrow>
        (m\<lparr>ms_runners := upd (pool, rid)
             (run\<lparr>run_Connected := connected, run_LastSeenAt := now\<rparr>) (ms_runners m)\<rparr>, None))"

definition memFleet_ListRunners :: "memStore \<Rightarrow> poolid \<Rightarrow> err + Runner list" where
  "memFleet_ListRunners m pool =
     (if pool = '''' then Inl ErrInvalid
      else Inr (sortSlice (\<lambda>a b. run_ID a < run_ID b) (rows_where (\<lambda>k r. fst k = pool) (ms_runners m))))"

definition memFleet_SessionsOnRunner ::
    "memStore \<Rightarrow> poolid \<Rightarrow> runnerid \<Rightarrow> SessionState list \<Rightarrow> err + Session list" where
  "memFleet_SessionsOnRunner m pool rid states =
     (if pool = '''' then Inl ErrInvalid
      else Inr (rows_where (\<lambda>k s. ses_PoolID s = pool \<and> ses_RunnerID s = rid
                  \<and> (states = [] \<or> ses_State s \<in> set states)) (ms_sessions m)))"

definition oldestFirst :: "Session \<Rightarrow> Session \<Rightarrow> bool" where
  "oldestFirst a b \<longleftrightarrow>
     (if ses_CreatedAt a \<noteq> ses_CreatedAt b then ses_CreatedAt a < ses_CreatedAt b
      else ses_ID a < ses_ID b)"

definition memFleet_OldestQueued :: "memStore \<Rightarrow> poolid \<Rightarrow> err + Session list" where
  "memFleet_OldestQueued m pool =
     (if pool = '''' then Inl ErrInvalid
      else Inr (sortSlice oldestFirst
             (rows_where (\<lambda>k s. ses_PoolID s = pool \<and> ses_State s = StateQueued) (ms_sessions m))))"

section \<open>The unit of work, the event record and the host lookups\<close>

text \<open>
  \<^verbatim>\<open>Run(ctx, fn)\<close> runs \<open>fn\<close> once and decides what its caller sees. Given the store before
  and after \<open>fn\<close> and the error \<open>fn\<close> returned, a store with no transactions keeps
  what \<open>fn\<close> did and returns its error unchanged.
\<close>

definition memStore_Run :: "'s \<Rightarrow> 's \<Rightarrow> err option \<Rightarrow> 's \<times> err option" where
  "memStore_Run before after e = (after, e)"

definition memStore_Record :: "memStore \<Rightarrow> Event \<Rightarrow> memStore \<times> err option" where
  "memStore_Record m e =
     (if evt_WorkspaceID e \<notin> ms_workspaces m then (m, Some ErrNotFound)
      else if evt_ID e \<in> ms_eventIDs m then (m, Some ErrConflict)
      else (m\<lparr>ms_eventIDs := insert (evt_ID e) (ms_eventIDs m), ms_events := ms_events m @ [e]\<rparr>, None))"

definition memStore_EnsureWorkspace :: "memStore \<Rightarrow> wsid \<Rightarrow> memStore \<times> err option" where
  "memStore_EnsureWorkspace m ws =
     (if ws = '''' then (m, Some ErrInvalid)
      else (m\<lparr>ms_workspaces := insert ws (ms_workspaces m)\<rparr>, None))"

definition memStore_EnvironmentByName :: "memStore \<Rightarrow> wsid \<Rightarrow> string \<Rightarrow> err + envid" where
  "memStore_EnvironmentByName m ws name =
     (if ws = '''' then Inl ErrInvalid
      else case environmentByName m ws name of None \<Rightarrow> Inl ErrNotFound | Some e \<Rightarrow> Inr (env_ID e))"

definition snapshotRunner :: "memStore \<Rightarrow> environmentKey \<Rightarrow> runnerid" where
  "snapshotRunner m key = (case ms_snapshots m key of None \<Rightarrow> '''' | Some r \<Rightarrow> r)"

definition memStore_SnapshotRunner :: "memStore \<Rightarrow> wsid \<Rightarrow> envid \<Rightarrow> err + runnerid" where
  "memStore_SnapshotRunner m ws eid =
     (if ws = '''' then Inl ErrInvalid
      else if environmentAt m ws eid = None then Inl ErrNotFound
      else Inr (snapshotRunner m (ws, eid)))"

fun findHolder :: "memStore \<Rightarrow> wsid \<Rightarrow> string \<Rightarrow> (environmentKey \<times> Environment) list \<Rightarrow> runnerid" where
  "findHolder m ws ref [] = ''''"
| "findHolder m ws ref ((key, e) # rest) =
     (if fst key \<noteq> ws \<or> cp_Ref (env_Snapshot e) \<noteq> ref \<or> env_SnapshotHash e \<noteq> env_SetupHash e
      then findHolder m ws ref rest
      else if snapshotRunner m key \<noteq> '''' then snapshotRunner m key
      else findHolder m ws ref rest)"

definition memStore_SnapshotHolder :: "memStore \<Rightarrow> wsid \<Rightarrow> string \<Rightarrow> err + runnerid" where
  "memStore_SnapshotHolder m ws ref =
     (if ws = '''' \<or> ref = '''' then Inl ErrInvalid
      else Inr (findHolder m ws ref (ms_environments m)))"

definition newRunner :: "runnerid \<Rightarrow> poolid \<Rightarrow> Runner" where
  "newRunner rid pool =
     \<lparr>run_ID = rid, run_PoolID = pool, run_CapacityUsed = 0, run_CapacityTotal = 0,
      run_CapacityPlacements = [], run_Connected = False, run_Generation = 0,
      run_Capabilities = None, run_LastSeenAt = zero_time\<rparr>"

definition memStore_NextRunnerGeneration ::
    "memStore \<Rightarrow> poolid \<Rightarrow> runnerid \<Rightarrow> memStore \<times> (err + u64)" where
  "memStore_NextRunnerGeneration m pool rid =
     (if pool = '''' \<or> rid = '''' then (m, Inl ErrInvalid)
      else
        let run = (case runnerAt m pool rid of None \<Rightarrow> newRunner rid pool | Some r \<Rightarrow> r);
            run' = run\<lparr>run_Generation := run_Generation run + 1\<rparr>
        in (m\<lparr>ms_runners := upd (pool, rid) run' (ms_runners m)\<rparr>, Inr (run_Generation run')))"

end
