(* ===== verification/MemVault.thy ===== *)
theory MemVault
  imports MemStore
begin

text \<open>
  The installation's own half of the in-memory store
  (\<^verbatim>\<open>src/internal/controld/memstore.go\<close>): session bootstrap tokens, users and bearer tokens,
  secrets, git credentials, and the versioned agent credentials. Random identities are
  arguments; ciphertexts are opaque bytes, as they are to the code.
\<close>

section \<open>Session bootstrap tokens (memBootstraps)\<close>

definition memBootstraps_PutSessionBootstrap ::
    "memStore \<Rightarrow> wsid \<Rightarrow> sessionid \<Rightarrow> SessionBootstrap \<Rightarrow> memStore \<times> err option" where
  "memBootstraps_PutSessionBootstrap m ws sid r =
     (if ws = '''' \<or> sid = '''' \<or> bs_Hash r = '''' then (m, Some ErrInvalid)
      else (m\<lparr>ms_bootstraps := (ms_bootstraps m)((ws, sid) \<mapsto>
              \<lparr>btr_hash = bs_Hash r, btr_gen = bs_PlacementGeneration r,
               btr_expiresAt = bs_ExpiresAt r, btr_spent = False\<rparr>)\<rparr>, None))"

definition memBootstraps_ConsumeSessionBootstrap ::
    "memStore \<Rightarrow> wsid \<Rightarrow> sessionid \<Rightarrow> string \<Rightarrow> u64 \<Rightarrow> time \<Rightarrow> memStore \<times> err option" where
  "memBootstraps_ConsumeSessionBootstrap m ws sid hash gen now =
     (if ws = '''' \<or> sid = '''' \<or> hash = '''' then (m, Some ErrInvalid)
      else case ms_bootstraps m (ws, sid) of
        None \<Rightarrow> (m, Some ErrBootstrapUnknown)
      | Some row \<Rightarrow>
        (if btr_hash row \<noteq> hash then (m, Some ErrBootstrapUnknown)
         else if btr_gen row \<noteq> gen then (m, Some ErrBootstrapFenced)
         else if \<not> now < btr_expiresAt row then (m, Some ErrBootstrapExpired)
         else if btr_spent row then (m, Some ErrBootstrapSpent)
         else (m\<lparr>ms_bootstraps := (ms_bootstraps m)((ws, sid) \<mapsto> row\<lparr>btr_spent := True\<rparr>)\<rparr>, None)))"

section \<open>Users and tokens\<close>

text \<open>Both lookups that Go makes through a pointer (\<^verbatim>\<open>m.users[id]\<close> after
  \<^verbatim>\<open>m.usersByGitHub\<close>) would panic on a dangling index; the invariant rules it out.\<close>

definition memStore_UpsertUser ::
    "memStore \<Rightarrow> time \<Rightarrow> string \<Rightarrow> int \<Rightarrow> string \<Rightarrow> string \<Rightarrow> (memStore \<times> User) option" where
  "memStore_UpsertUser m now newUserID githubID login role =
     (case ms_usersByGitHub m githubID of
        Some uid \<Rightarrow>
          (case ms_users m uid of
             None \<Rightarrow> None
           | Some u \<Rightarrow>
             (let u' = u\<lparr>usr_Login := login, usr_Role := role\<rparr>
              in Some (m\<lparr>ms_users := (ms_users m)(uid \<mapsto> u')\<rparr>, u')))
      | None \<Rightarrow>
          (let u = \<lparr>usr_ID = newUserID, usr_GitHubID = githubID, usr_Login = login, usr_Role = role,
                    usr_CreatedAt = now\<rparr>
           in Some (m\<lparr>ms_users := (ms_users m)(newUserID \<mapsto> u),
                      ms_usersByGitHub := (ms_usersByGitHub m)(githubID \<mapsto> newUserID)\<rparr>, u)))"

definition memStore_InsertToken :: "memStore \<Rightarrow> string \<Rightarrow> string \<Rightarrow> memStore" where
  "memStore_InsertToken m userID tokenHash = m\<lparr>ms_tokens := (ms_tokens m)(tokenHash \<mapsto> userID)\<rparr>"

definition memStore_GetUser :: "memStore \<Rightarrow> string \<Rightarrow> err + User" where
  "memStore_GetUser m uid = (case ms_users m uid of None \<Rightarrow> Inl ErrNotFound | Some u \<Rightarrow> Inr u)"

definition memStore_UserByToken :: "memStore \<Rightarrow> string \<Rightarrow> err + User" where
  "memStore_UserByToken m tokenHash =
     (case ms_tokens m tokenHash of
        None \<Rightarrow> Inl ErrNotFound
      | Some userID \<Rightarrow> (case ms_users m userID of None \<Rightarrow> Inl ErrNotFound | Some u \<Rightarrow> Inr u))"

section \<open>Secrets\<close>

definition memStore_PutSecret ::
    "memStore \<Rightarrow> time \<Rightarrow> string \<Rightarrow> bytes \<Rightarrow> bytes \<Rightarrow> memStore" where
  "memStore_PutSecret m now name ciphertext nonce =
     (let row = (case map_of (ms_secrets m) name of
            Some r \<Rightarrow> r
          | None \<Rightarrow> \<lparr>srow_meta = \<lparr>sec_Name = name, sec_CreatedAt = now, sec_UpdatedAt = zero_time\<rparr>,
                     srow_ciphertext = None, srow_nonce = None\<rparr>);
          row' = row\<lparr>srow_ciphertext := ciphertext, srow_nonce := nonce,
                     srow_meta := (srow_meta row)\<lparr>sec_UpdatedAt := now\<rparr>\<rparr>
      in m\<lparr>ms_secrets := upd name row' (ms_secrets m)\<rparr>)"

definition memStore_ListSecrets :: "memStore \<Rightarrow> SecretMeta list" where
  "memStore_ListSecrets m =
     sortSlice (\<lambda>a b. sec_Name a < sec_Name b) (map (srow_meta \<circ> snd) (ms_secrets m))"

definition memStore_GetSecret :: "memStore \<Rightarrow> string \<Rightarrow> err + (bytes \<times> bytes)" where
  "memStore_GetSecret m name =
     (case map_of (ms_secrets m) name of
        None \<Rightarrow> Inl ErrNotFound | Some row \<Rightarrow> Inr (srow_ciphertext row, srow_nonce row))"

definition memStore_DeleteSecret :: "memStore \<Rightarrow> string \<Rightarrow> memStore \<times> err option" where
  "memStore_DeleteSecret m name =
     (case map_of (ms_secrets m) name of
        None \<Rightarrow> (m, Some ErrNotFound)
      | Some _ \<Rightarrow> (m\<lparr>ms_secrets := del name (ms_secrets m)\<rparr>, None))"

section \<open>Git credentials\<close>

definition CredentialValid :: string where
  "CredentialValid = ''valid''"

definition memStore_UpsertCredential :: "memStore \<Rightarrow> time \<Rightarrow> Credential \<Rightarrow> memStore" where
  "memStore_UpsertCredential m now c =
     (let c' = c\<lparr>cred_Status := (if cred_Status c = '''' then CredentialValid else cred_Status c),
                 cred_ObtainedAt := (if cred_ObtainedAt c = zero_time then now else cred_ObtainedAt c),
                 cred_LastVerifiedAt :=
                   (if cred_LastVerifiedAt c = zero_time then now else cred_LastVerifiedAt c),
                 cred_LastUsedAt := (if cred_LastUsedAt c = zero_time then now else cred_LastUsedAt c),
                 cred_UpdatedAt := (if cred_UpdatedAt c = zero_time then now else cred_UpdatedAt c)\<rparr>
      in m\<lparr>ms_credentials := upd (cred_UserID c, cred_Provider c) c' (ms_credentials m)\<rparr>)"

definition memStore_GetCredential :: "memStore \<Rightarrow> string \<Rightarrow> string \<Rightarrow> err + Credential" where
  "memStore_GetCredential m userID provider =
     (case map_of (ms_credentials m) (userID, provider) of
        None \<Rightarrow> Inl ErrNotFound | Some c \<Rightarrow> Inr c)"

definition memStore_SetCredentialStatus ::
    "memStore \<Rightarrow> time \<Rightarrow> string \<Rightarrow> string \<Rightarrow> string \<Rightarrow> memStore \<times> err option" where
  "memStore_SetCredentialStatus m now userID provider status =
     (case map_of (ms_credentials m) (userID, provider) of
        None \<Rightarrow> (m, Some ErrNotFound)
      | Some c \<Rightarrow>
        (m\<lparr>ms_credentials := upd (userID, provider)
             (c\<lparr>cred_Status := status, cred_UpdatedAt := now\<rparr>) (ms_credentials m)\<rparr>, None))"

definition memStore_TouchCredentialUsed ::
    "memStore \<Rightarrow> time \<Rightarrow> string \<Rightarrow> string \<Rightarrow> memStore \<times> err option" where
  "memStore_TouchCredentialUsed m now userID provider =
     (case map_of (ms_credentials m) (userID, provider) of
        None \<Rightarrow> (m, Some ErrNotFound)
      | Some c \<Rightarrow>
        (m\<lparr>ms_credentials := upd (userID, provider) (c\<lparr>cred_LastUsedAt := now\<rparr>) (ms_credentials m)\<rparr>,
         None))"

definition memStore_ListCredentials :: "memStore \<Rightarrow> string \<Rightarrow> Credential list" where
  "memStore_ListCredentials m userID =
     sortSlice (\<lambda>a b. cred_Provider a < cred_Provider b)
       (rows_where (\<lambda>key c. fst key = userID) (ms_credentials m))"

section \<open>Agent credentials\<close>

definition memStore_GetAgentCredential ::
    "memStore \<Rightarrow> string \<Rightarrow> string \<Rightarrow> err + AgentCredential" where
  "memStore_GetAgentCredential m userID provider =
     (case map_of (ms_agentCredentials m) (userID, provider) of
        None \<Rightarrow> Inl ErrNotFound | Some c \<Rightarrow> Inr c)"

definition memStore_PutAgentCredential ::
    "memStore \<Rightarrow> time \<Rightarrow> AgentCredential \<Rightarrow> memStore \<times> (err + u64)" where
  "memStore_PutAgentCredential m now c =
     (if agc_UserID c = '''' \<or> agc_Provider c = '''' then (m, Inl ErrInvalid)
      else if agc_Version c = 0 then (m, Inl ErrInvalid)
      else
        let (stored, lastRevoked) =
              (case map_of (ms_agentCredentials m) (agc_UserID c, agc_Provider c) of
                 Some prev \<Rightarrow> (agc_Version prev, agc_LastRevokedVersion prev)
               | None \<Rightarrow> (0, 0))
        in if agc_Version c \<noteq> stored + 1 then (m, Inl ErrConflict)
           else
             let c' = c\<lparr>agc_UpdatedAt := (if agc_UpdatedAt c = zero_time then now else agc_UpdatedAt c),
                        agc_Revoked := False, agc_LastRevokedVersion := lastRevoked\<rparr>
             in (m\<lparr>ms_agentCredentials :=
                     upd (agc_UserID c, agc_Provider c) c' (ms_agentCredentials m)\<rparr>,
                 Inr (agc_Version c')))"

definition memStore_revokeAgentCredential ::
    "memStore \<Rightarrow> time \<Rightarrow> string \<Rightarrow> string \<Rightarrow> u64 option \<Rightarrow> memStore \<times> (err + u64)" where
  "memStore_revokeAgentCredential m now userID provider expected =
     (if userID = '''' \<or> provider = '''' then (m, Inl ErrInvalid)
      else
        let previous = map_of (ms_agentCredentials m) (userID, provider)
        in if (case (previous, expected) of
                 (Some p, Some e) \<Rightarrow> e < agc_LastRevokedVersion p | _ \<Rightarrow> False)
           then (m, Inl ErrConflict)
           else
             let version = (case previous of None \<Rightarrow> 1 | Some p \<Rightarrow> agc_Version p + 1);
                 row = \<lparr>agc_UserID = userID, agc_Provider = provider, agc_Ciphertext = None,
                        agc_Nonce = None, agc_Version = version, agc_Revoked = True,
                        agc_LastRevokedVersion = version, agc_UpdatedAt = now\<rparr>
             in (m\<lparr>ms_agentCredentials := upd (userID, provider) row (ms_agentCredentials m)\<rparr>,
                 Inr version))"

definition memStore_RevokeAgentCredential ::
    "memStore \<Rightarrow> time \<Rightarrow> string \<Rightarrow> string \<Rightarrow> memStore \<times> (err + u64)" where
  "memStore_RevokeAgentCredential m now userID provider =
     memStore_revokeAgentCredential m now userID provider None"

definition memStore_ConditionalRevokeAgentCredential ::
    "memStore \<Rightarrow> time \<Rightarrow> string \<Rightarrow> string \<Rightarrow> u64 \<Rightarrow> memStore \<times> (err + u64)" where
  "memStore_ConditionalRevokeAgentCredential m now userID provider expected =
     memStore_revokeAgentCredential m now userID provider (Some expected)"

text \<open>A listing copies provider, version and time only: the sealed bytes stay behind.\<close>

definition memStore_ListAgentCredentials :: "memStore \<Rightarrow> string \<Rightarrow> AgentCredential list" where
  "memStore_ListAgentCredentials m userID =
     sortSlice (\<lambda>a b. agc_Provider a < agc_Provider b)
       (map (\<lambda>c. \<lparr>agc_UserID = agc_UserID c, agc_Provider = agc_Provider c, agc_Ciphertext = None,
                  agc_Nonce = None, agc_Version = agc_Version c, agc_Revoked = False,
                  agc_LastRevokedVersion = 0, agc_UpdatedAt = agc_UpdatedAt c\<rparr>)
         (rows_where (\<lambda>key c. fst key = userID \<and> \<not> agc_Revoked c) (ms_agentCredentials m)))"

end
