(* ===== verification/StoreInv.thy ===== *)
theory StoreInv
  imports MemVault
begin

text \<open>
  The store as a state machine. \<open>store_op\<close> has one constructor per mutating method of
  \<^verbatim>\<open>src/internal/controld/memstore.go\<close> and \<open>store_exec\<close> is one atomic step; because one
  mutex guards the store, a list of operations is an interleaving of every request the
  process serves. The theory proves the store's invariant for every reachable store and
  states the contract of a counter that hands out each value once (\<open>issued_counter\<close>),
  which controller generations, runner generations and agent credential versions satisfy.
\<close>

section \<open>The invariant\<close>

definition session_ok :: "wsid set \<Rightarrow> sessionKey \<Rightarrow> Session \<Rightarrow> bool" where
  "session_ok W k s \<longleftrightarrow> k = (ses_WorkspaceID s, ses_ID s) \<and> fst k \<in> W
     \<and> (ses_ControllerHolder s \<noteq> '''' \<longrightarrow> ses_ControllerGeneration s \<noteq> 0)"

definition idem_index :: "sessionKey \<Rightarrow> Session \<Rightarrow> (wsid \<times> actorid \<times> string) option" where
  "idem_index k s =
     (if ses_IdempotencyKey s = '''' then None
      else Some (fst k, ses_CreatorID s, ses_IdempotencyKey s))"

definition environment_ok ::
    "wsid set \<Rightarrow> (environmentKey \<rightharpoonup> runnerid) \<Rightarrow> environmentKey \<Rightarrow> Environment \<Rightarrow> bool" where
  "environment_ok W snaps k e \<longleftrightarrow> k = (env_WorkspaceID e, env_ID e) \<and> fst k \<in> W
     \<and> (cp_Ref (env_Snapshot e) \<noteq> '''' \<longrightarrow> snaps k \<noteq> None)"

definition name_index :: "environmentKey \<Rightarrow> Environment \<Rightarrow> (wsid \<times> string) option" where
  "name_index k e = (if env_Name e = '''' then None else Some (fst k, env_Name e))"

definition runner_ok :: "runnerKey \<Rightarrow> Runner \<Rightarrow> bool" where
  "runner_ok k r \<longleftrightarrow> k = (run_PoolID r, run_ID r) \<and> fst k \<noteq> ''''
     \<and> ValidateCapacityPlacements (run_CapacityUsed r) (run_CapacityPlacements r) = None"

definition agent_ok :: "credKey \<Rightarrow> AgentCredential \<Rightarrow> bool" where
  "agent_ok k c \<longleftrightarrow> k = (agc_UserID c, agc_Provider c)
     \<and> agc_LastRevokedVersion c \<le> agc_Version c
     \<and> (agc_Revoked c \<longrightarrow> agc_LastRevokedVersion c = agc_Version c \<and> agc_Ciphertext c = None)"

definition secret_ok :: "string \<Rightarrow> secretRow \<Rightarrow> bool" where
  "secret_ok k r \<longleftrightarrow> sec_Name (srow_meta r) = k"

definition credential_ok :: "credKey \<Rightarrow> Credential \<Rightarrow> bool" where
  "credential_ok k c \<longleftrightarrow> k = (cred_UserID c, cred_Provider c)"

definition no_index :: "'k \<Rightarrow> 'v \<Rightarrow> unit option" where
  "no_index k v = None"

definition events_ok :: "wsid set \<Rightarrow> Event list \<Rightarrow> eventid set \<Rightarrow> bool" where
  "events_ok W evs ids \<longleftrightarrow> ids = evt_ID ` set evs \<and> distinct (map evt_ID evs)
     \<and> (\<forall>e \<in> set evs. evt_WorkspaceID e \<in> W)"

definition users_ok :: "(string \<rightharpoonup> User) \<Rightarrow> (int \<rightharpoonup> string) \<Rightarrow> bool" where
  "users_ok us gh \<longleftrightarrow>
     (\<forall>g uid. gh g = Some uid \<longrightarrow> (\<exists>u. us uid = Some u \<and> usr_ID u = uid \<and> usr_GitHubID u = g))"

definition store_inv :: "memStore \<Rightarrow> bool" where
  "store_inv m \<longleftrightarrow> '''' \<notin> ms_workspaces m
     \<and> table_ok (session_ok (ms_workspaces m)) idem_index (ms_sessions m)
     \<and> table_ok (environment_ok (ms_workspaces m) (ms_snapshots m)) name_index (ms_environments m)
     \<and> dom (ms_snapshots m) \<subseteq> dom (map_of (ms_environments m))
     \<and> table_ok runner_ok no_index (ms_runners m)
     \<and> events_ok (ms_workspaces m) (ms_events m) (ms_eventIDs m)
     \<and> users_ok (ms_users m) (ms_usersByGitHub m)
     \<and> table_ok secret_ok no_index (ms_secrets m)
     \<and> table_ok credential_ok no_index (ms_credentials m)
     \<and> table_ok agent_ok no_index (ms_agentCredentials m)"

section \<open>Writes that keep it\<close>

lemma store_invD:
  assumes "store_inv m"
  shows inv_ws: "'''' \<notin> ms_workspaces m"
    and inv_sessions: "table_ok (session_ok (ms_workspaces m)) idem_index (ms_sessions m)"
    and inv_environments:
      "table_ok (environment_ok (ms_workspaces m) (ms_snapshots m)) name_index (ms_environments m)"
    and inv_snapshots: "dom (ms_snapshots m) \<subseteq> dom (map_of (ms_environments m))"
    and inv_runners: "table_ok runner_ok no_index (ms_runners m)"
    and inv_events: "events_ok (ms_workspaces m) (ms_events m) (ms_eventIDs m)"
    and inv_users: "users_ok (ms_users m) (ms_usersByGitHub m)"
    and inv_secrets: "table_ok secret_ok no_index (ms_secrets m)"
    and inv_credentials: "table_ok credential_ok no_index (ms_credentials m)"
    and inv_agents: "table_ok agent_ok no_index (ms_agentCredentials m)"
  using assms by (simp_all add: store_inv_def)

lemma inv_session_row:
  "store_inv m \<Longrightarrow> sessionAt m ws sid = Some s
   \<Longrightarrow> ses_WorkspaceID s = ws \<and> ses_ID s = sid \<and> ws \<in> ms_workspaces m \<and> ws \<noteq> ''''
     \<and> (ses_ControllerHolder s \<noteq> '''' \<longrightarrow> ses_ControllerGeneration s \<noteq> 0)"
  using table_ok_row [OF inv_sessions, of m "(ws, sid)" s] inv_ws [of m]
  by (auto simp: session_ok_def)

lemma inv_environment_row:
  "store_inv m \<Longrightarrow> environmentAt m ws eid = Some e
   \<Longrightarrow> env_WorkspaceID e = ws \<and> env_ID e = eid \<and> ws \<in> ms_workspaces m \<and> ws \<noteq> ''''
     \<and> (cp_Ref (env_Snapshot e) \<noteq> '''' \<longrightarrow> ms_snapshots m (ws, eid) \<noteq> None)"
  using table_ok_row [OF inv_environments, of m "(ws, eid)" e] inv_ws [of m]
  by (auto simp: environment_ok_def)

lemma inv_runner_row:
  "store_inv m \<Longrightarrow> runnerAt m pool rid = Some r
   \<Longrightarrow> run_PoolID r = pool \<and> run_ID r = rid \<and> pool \<noteq> ''''
     \<and> ValidateCapacityPlacements (run_CapacityUsed r) (run_CapacityPlacements r) = None"
  using table_ok_row [OF inv_runners, of m "(pool, rid)" r] by (auto simp: runner_ok_def)

lemma inv_agent_row:
  "store_inv m \<Longrightarrow> map_of (ms_agentCredentials m) k = Some c \<Longrightarrow> agent_ok k c"
  using table_ok_row [OF inv_agents] .

lemma store_inv_putSession:
  assumes "store_inv m" and "sessionAt m ws sid = Some s"
    and "ses_ID s' = ses_ID s" and "ses_WorkspaceID s' = ses_WorkspaceID s"
    and "ses_CreatorID s' = ses_CreatorID s" and "ses_IdempotencyKey s' = ses_IdempotencyKey s"
    and "ses_ControllerHolder s' \<noteq> '''' \<longrightarrow> ses_ControllerGeneration s' \<noteq> 0"
  shows "store_inv (putSession m ws sid s')"
proof -
  have "table_ok (session_ok (ms_workspaces m)) idem_index (upd (ws, sid) s' (ms_sessions m))"
    using inv_sessions [OF assms(1)] assms(2)
    by (rule table_ok_same)
       (use inv_session_row [OF assms(1,2)] assms(3-) in \<open>auto simp: session_ok_def idem_index_def\<close>)
  then show ?thesis using assms(1) by (simp add: store_inv_def)
qed

lemma store_inv_putRunner:
  assumes "store_inv m" and "runner_ok (pool, rid) r"
  shows "store_inv (m\<lparr>ms_runners := upd (pool, rid) r (ms_runners m)\<rparr>)"
  using assms table_ok_upd [OF inv_runners [OF assms(1)] assms(2)]
  by (simp add: store_inv_def no_index_def)

lemma store_inv_putAgent:
  assumes "store_inv m" and "agent_ok k c"
  shows "store_inv (m\<lparr>ms_agentCredentials := upd k c (ms_agentCredentials m)\<rparr>)"
  using assms table_ok_upd [OF inv_agents [OF assms(1)] assms(2)]
  by (simp add: store_inv_def no_index_def)

lemma store_inv_putSecret:
  assumes "store_inv m" and "secret_ok k r"
  shows "store_inv (m\<lparr>ms_secrets := upd k r (ms_secrets m)\<rparr>)"
  using assms table_ok_upd [OF inv_secrets [OF assms(1)] assms(2)]
  by (simp add: store_inv_def no_index_def)

lemma store_inv_putCredential:
  assumes "store_inv m" and "credential_ok k c"
  shows "store_inv (m\<lparr>ms_credentials := upd k c (ms_credentials m)\<rparr>)"
  using assms table_ok_upd [OF inv_credentials [OF assms(1)] assms(2)]
  by (simp add: store_inv_def no_index_def)

section \<open>Every operation keeps it\<close>

lemma sessionByIdem_None:
  assumes "sessionByIdem m ws creator key = None" and "key \<noteq> ''''"
    and "map_of (ms_sessions m) k = Some s" and "fst k = ws" and "ses_CreatorID s = creator"
  shows "ses_IdempotencyKey s \<noteq> key"
  using assms map_of_SomeD [OF assms(3)] by (fastforce simp: sessionByIdem_def first_where_None)

lemma storedSession_simps [simp]:
  "ses_ID (storedSession now ws s) = ses_ID s"
  "ses_WorkspaceID (storedSession now ws s) = ws"
  "ses_CreatorID (storedSession now ws s) = ses_CreatorID s"
  "ses_IdempotencyKey (storedSession now ws s) = ses_IdempotencyKey s"
  "ses_State (storedSession now ws s) = ses_State s"
  "ses_Name (storedSession now ws s) = ses_Name s"
  "ses_ControllerHolder (storedSession now ws s) = ''''"
  "ses_ControllerGeneration (storedSession now ws s) = 0"
  by (simp_all add: storedSession_def)

lemma insert_session_ok:
  assumes "store_inv m" and "ws \<in> ms_workspaces m"
    and none: "ses_IdempotencyKey s \<noteq> ''''
      \<longrightarrow> sessionByIdem m ws (ses_CreatorID s) (ses_IdempotencyKey s) = None"
  shows "table_ok (session_ok (ms_workspaces m)) idem_index
    (upd (ws, ses_ID s) (storedSession now ws s) (ms_sessions m))"
  using inv_sessions [OF assms(1)]
proof (rule table_ok_upd)
  show "session_ok (ms_workspaces m) (ws, ses_ID s) (storedSession now ws s)"
    using assms(2) by (simp add: session_ok_def)
  show "k' = (ws, ses_ID s)" if "map_of (ms_sessions m) k' = Some w"
    and "idem_index (ws, ses_ID s) (storedSession now ws s) = idem_index k' w"
    and "idem_index (ws, ses_ID s) (storedSession now ws s) \<noteq> None" for k' w
    using that(2,3) none sessionByIdem_None [OF _ _ that(1)]
    by (auto simp: idem_index_def split: if_splits)
qed

lemma CreateSession_inv [store_intros]:
  assumes "store_inv m"
  shows "store_inv (fst (memSessions_CreateSession m now ws s))"
  using assms insert_session_ok [OF assms, of ws s now]
  by (auto simp: memSessions_CreateSession_def store_inv_def split: if_splits option.splits)

lemma Transition_inv [store_intros]:
  "store_inv m \<Longrightarrow> store_inv (fst (memSessions_Transition m now ws sid from to opts))"
  by (auto simp: memSessions_Transition_def Let_def split: if_splits option.splits
      intro!: store_inv_putSession dest: inv_session_row)

lemma SetSessionSetupHash_inv [store_intros]:
  "store_inv m \<Longrightarrow> store_inv (fst (memSessions_SetSessionSetupHash m now ws sid hash))"
  by (auto simp: memSessions_SetSessionSetupHash_def split: option.splits
      intro!: store_inv_putSession dest: inv_session_row)

lemma SetChildExitCode_inv [store_intros]:
  "store_inv m \<Longrightarrow> store_inv (fst (memSessions_SetChildExitCode m now ws sid code))"
  by (auto simp: memSessions_SetChildExitCode_def split: option.splits
      intro!: store_inv_putSession dest: inv_session_row)

lemma NextControllerGeneration_inv [store_intros]:
  "store_inv m \<Longrightarrow> store_inv (fst (memSessions_NextControllerGeneration m now ws sid))"
  by (auto simp: memSessions_NextControllerGeneration_def advanceController_def Let_def
      split: option.splits intro!: store_inv_putSession)

lemma CompareAndAdvance_inv [store_intros]:
  "store_inv m
   \<Longrightarrow> store_inv (fst (memSessions_CompareAndAdvanceControllerGeneration m now ws sid expected))"
  by (auto simp: memSessions_CompareAndAdvanceControllerGeneration_def advanceController_def Let_def
      split: option.splits intro!: store_inv_putSession)

lemma RenewControllerLease_inv [store_intros]:
  "store_inv m \<Longrightarrow> store_inv (fst (memSessions_RenewControllerLease m now ws sid l))"
  by (auto simp: memSessions_RenewControllerLease_def split: option.splits
      intro!: store_inv_putSession)

lemma environmentByName_cases:
  assumes "store_inv m" and "map_of (ms_environments m) k = Some w"
    and "fst k = ws" and "env_Name w = name" and "name \<noteq> ''''"
  shows "environmentByName m ws name = Some w"
proof -
  have "environmentByName m ws name \<noteq> None"
    using assms(3-) map_of_SomeD [OF assms(2)]
    by (auto simp: environmentByName_def first_where_None)
  then obtain v where v: "environmentByName m ws name = Some v" by blast
  then have fw: "first_where (\<lambda>k e. fst k = ws \<and> env_Name e = name) (ms_environments m) = Some v"
    using assms(5) by (simp add: environmentByName_def)
  obtain k' where m': "map_of (ms_environments m) k' = Some v"
    and k': "fst k' = ws \<and> env_Name v = name"
    by (rule first_where_map_of [OF table_ok_distinct [OF inv_environments [OF assms(1)]] fw])
  have "k' = k"
    using table_ok_unique [OF inv_environments [OF assms(1)] m' assms(2)] k' assms(3-)
    by (simp add: name_index_def)
  with m' assms(2) v show ?thesis by simp
qed

lemma store_inv_putEnvironment:
  assumes "store_inv m" and "env_WorkspaceID e = ws" and "env_ID e = eid" and "ws \<in> ms_workspaces m"
    and "cp_Ref (env_Snapshot e) \<noteq> '''' \<longrightarrow> snap \<noteq> None"
    and "env_Name e \<noteq> '''' \<longrightarrow> (\<forall>w. environmentByName m ws (env_Name e) = Some w \<longrightarrow> env_ID w = eid)"
  shows "store_inv (m\<lparr>ms_environments := upd (ws, eid) e (ms_environments m),
    ms_snapshots := (ms_snapshots m)((ws, eid) := snap)\<rparr>)"
proof -
  let ?sn = "(ms_snapshots m)((ws, eid) := snap)"
  let ?ok = "\<lambda>k w. k = (ws, eid) \<or> environment_ok (ms_workspaces m) (ms_snapshots m) k w"
  have "table_ok ?ok name_index (upd (ws, eid) e (ms_environments m))"
  proof (rule table_ok_upd)
    show "table_ok ?ok name_index (ms_environments m)"
      using inv_environments [OF assms(1)] by (rule table_ok_mono) simp
    show "k' = (ws, eid)" if a: "map_of (ms_environments m) k' = Some w"
      and b: "name_index (ws, eid) e = name_index k' w" "name_index (ws, eid) e \<noteq> None" for k' w
      using environmentByName_cases [OF assms(1) a] assms(6) b
        inv_environment_row [OF assms(1), of "fst k'" "snd k'" w] a
      by (cases k') (auto simp: name_index_def split: if_splits)
  qed simp
  then have "table_ok (environment_ok (ms_workspaces m) ?sn) name_index
      (upd (ws, eid) e (ms_environments m))"
    by (rule table_ok_mono) (use assms(2-5) in \<open>auto simp: environment_ok_def split: if_splits\<close>)
  then show ?thesis
    using assms(1) inv_snapshots [OF assms(1)] by (auto simp: store_inv_def split: if_splits)
qed

lemma CreateEnvironment_inv [store_intros]:
  "store_inv m \<Longrightarrow> store_inv (fst (memEnvironments_CreateEnvironment m now ws e))"
  by (auto simp: memEnvironments_CreateEnvironment_def Let_def emptyCheckpoint_def
      intro!: store_inv_putEnvironment)

lemma UpdateEnvironment_inv [store_intros]:
  assumes "store_inv m"
  shows "store_inv (fst (memEnvironments_UpdateEnvironment m now ws e))"
proof -
  have same: "m\<lparr>ms_environments := al, ms_snapshots := (ms_snapshots m)(k := ms_snapshots m k)\<rparr>
      = m\<lparr>ms_environments := al\<rparr>" for al k
    by (simp add: fun_upd_triv)
  have "store_inv (m\<lparr>ms_environments := upd (ws, env_ID e') e' (ms_environments m)\<rparr>)"
    if at: "environmentAt m ws (env_ID e') = Some cur" and e': "env_WorkspaceID e' = ws"
      "env_Snapshot e' = env_Snapshot cur"
      "\<forall>w. environmentByName m ws (env_Name e') = Some w \<longrightarrow> env_ID w = env_ID e'" for e' cur
    by (rule store_inv_putEnvironment [OF assms e'(1) refl, where snap = "ms_snapshots m (ws, env_ID e')",
          unfolded same])
       (use inv_environment_row [OF assms at] in \<open>simp\<close>,
        use inv_environment_row [OF assms at] e'(2) in \<open>simp\<close>, use e'(3) in blast)
  note put = this
  show ?thesis
  proof (cases "environmentAt m ws (env_ID e)")
    case None
    with assms show ?thesis by (simp add: memEnvironments_UpdateEnvironment_def)
  next
    case (Some cur)
    let ?e = "e\<lparr>env_WorkspaceID := ws, env_CreatedAt := env_CreatedAt cur,
      env_Snapshot := env_Snapshot cur, env_SnapshotHash := env_SnapshotHash cur, env_UpdatedAt := now\<rparr>"
    show ?thesis
      using assms Some put [of ?e cur]
      by (simp add: memEnvironments_UpdateEnvironment_def Let_def split: option.split)
  qed
qed

lemma DeleteEnvironment_inv [store_intros]:
  assumes "store_inv m"
  shows "store_inv (fst (memEnvironments_DeleteEnvironment m ws eid))"
proof -
  have "table_ok (environment_ok (ms_workspaces m) ((ms_snapshots m)((ws, eid) := None))) name_index
      (del (ws, eid) (ms_environments m))"
    using table_ok_del [OF inv_environments [OF assms]]
    by (rule table_ok_mono) (auto simp: environment_ok_def split: if_splits)
  then show ?thesis
    using assms inv_snapshots [OF assms]
    by (auto simp: memEnvironments_DeleteEnvironment_def store_inv_def)
qed

lemma SetEnvironmentSnapshot_inv [store_intros]:
  assumes "store_inv m"
  shows "store_inv (fst (memEnvironments_SetEnvironmentSnapshot m now ws eid h ref rid))"
proof -
  have named: "env_ID w = eid"
    if "environmentAt m ws eid = Some e" "environmentByName m ws (env_Name e) = Some w"
      "env_Name e \<noteq> ''''" for e w
    using environmentByName_cases [OF assms that(1), of ws "env_Name e"] that(2,3)
      inv_environment_row [OF assms that(1)] by simp
  show ?thesis
    using assms
    by (auto simp: memEnvironments_SetEnvironmentSnapshot_def split: option.splits
        intro!: store_inv_putEnvironment dest: inv_environment_row named)
qed

lemma UpsertRunner_inv [store_intros]:
  "store_inv m \<Longrightarrow> store_inv (fst (memFleet_UpsertRunner m pool run))"
  by (auto simp: memFleet_UpsertRunner_def runner_ok_def split: option.splits
      intro!: store_inv_putRunner)

lemma SetRunnerConnected_inv [store_intros]:
  "store_inv m \<Longrightarrow> store_inv (fst (memFleet_SetRunnerConnected m now pool rid c))"
  by (auto simp: memFleet_SetRunnerConnected_def runner_ok_def split: option.splits
      intro!: store_inv_putRunner dest: inv_runner_row)

lemma NextRunnerGeneration_inv [store_intros]:
  "store_inv m \<Longrightarrow> store_inv (fst (memStore_NextRunnerGeneration m pool rid))"
  by (auto simp: memStore_NextRunnerGeneration_def Let_def runner_ok_def newRunner_def
      ValidateCapacityPlacements_def split: option.splits
      intro!: store_inv_putRunner dest: inv_runner_row)

lemma Record_inv [store_intros]: "store_inv m \<Longrightarrow> store_inv (fst (memStore_Record m e))"
  by (auto simp: memStore_Record_def store_inv_def events_ok_def)

lemma EnsureWorkspace_inv [store_intros]: "store_inv m \<Longrightarrow> store_inv (fst (memStore_EnsureWorkspace m ws))"
  by (auto simp: memStore_EnsureWorkspace_def store_inv_def events_ok_def session_ok_def
      environment_ok_def elim!: table_ok_mono)

lemma PutSessionBootstrap_inv [store_intros]:
  "store_inv m \<Longrightarrow> store_inv (fst (memBootstraps_PutSessionBootstrap m ws sid r))"
  by (simp add: memBootstraps_PutSessionBootstrap_def store_inv_def)

lemma ConsumeSessionBootstrap_inv [store_intros]:
  "store_inv m \<Longrightarrow> store_inv (fst (memBootstraps_ConsumeSessionBootstrap m ws sid hash gen now))"
  by (simp add: memBootstraps_ConsumeSessionBootstrap_def store_inv_def split: option.splits)

lemma users_okD:
  assumes "users_ok us gh" and "gh g = Some uid"
  obtains u where "us uid = Some u" and "usr_ID u = uid" and "usr_GitHubID u = g"
  using assms unfolding users_ok_def by blast

lemma users_ok_update:
  assumes "users_ok us gh" and "us uid = Some u" and "usr_ID u' = usr_ID u"
    and "usr_GitHubID u' = usr_GitHubID u"
  shows "users_ok (us(uid \<mapsto> u')) gh"
  unfolding users_ok_def
proof (intro allI impI)
  fix g uid' assume "gh g = Some uid'"
  then obtain v where "us uid' = Some v" "usr_ID v = uid'" "usr_GitHubID v = g"
    by (rule users_okD [OF assms(1)])
  with assms(2-) show "\<exists>w. (us(uid \<mapsto> u')) uid' = Some w \<and> usr_ID w = uid' \<and> usr_GitHubID w = g"
    by auto
qed

lemma users_ok_insert:
  assumes "users_ok us gh" and "us uid = None" and "usr_ID u = uid" and "usr_GitHubID u = g"
  shows "users_ok (us(uid \<mapsto> u)) (gh(g \<mapsto> uid))"
  unfolding users_ok_def
proof (intro allI impI)
  fix g' uid' assume *: "(gh(g \<mapsto> uid)) g' = Some uid'"
  show "\<exists>w. (us(uid \<mapsto> u)) uid' = Some w \<and> usr_ID w = uid' \<and> usr_GitHubID w = g'"
  proof (cases "g' = g")
    case True
    with * assms show ?thesis by simp
  next
    case False
    with * have "gh g' = Some uid'" by simp
    then obtain v where "us uid' = Some v" "usr_ID v = uid'" "usr_GitHubID v = g'"
      by (rule users_okD [OF assms(1)])
    with assms(2) show ?thesis by auto
  qed
qed

lemma store_inv_users:
  assumes "store_inv m"
  shows "users_ok us gh \<Longrightarrow> store_inv (m\<lparr>ms_users := us, ms_usersByGitHub := gh\<rparr>)"
    and "users_ok us (ms_usersByGitHub m) \<Longrightarrow> store_inv (m\<lparr>ms_users := us\<rparr>)"
  using assms by (simp_all add: store_inv_def)

lemma UpsertUser_inv:
  assumes "store_inv m" and "ms_users m uid = None"
    and "memStore_UpsertUser m now uid gh login role = Some (m', u)"
  shows "store_inv m'"
proof (cases "ms_usersByGitHub m gh")
  case None
  with assms(3) show ?thesis
    by (auto simp: memStore_UpsertUser_def Let_def
        intro!: store_inv_users(1) [OF assms(1)] users_ok_insert [OF inv_users [OF assms(1)] assms(2)])
next
  case (Some old)
  with assms(3) show ?thesis
    by (auto simp: memStore_UpsertUser_def Let_def split: option.splits
        intro!: store_inv_users(2) [OF assms(1)] users_ok_update [OF inv_users [OF assms(1)]])
qed

lemma UpsertUser_no_panic:
  assumes "store_inv m"
  shows "memStore_UpsertUser m now uid gh login role \<noteq> None"
proof (cases "ms_usersByGitHub m gh")
  case None
  then show ?thesis by (simp add: memStore_UpsertUser_def Let_def)
next
  case (Some old)
  then obtain v where "ms_users m old = Some v"
    by (rule users_okD [OF inv_users [OF assms]])
  with Some show ?thesis by (simp add: memStore_UpsertUser_def Let_def)
qed

lemma InsertToken_inv [store_intros]: "store_inv m \<Longrightarrow> store_inv (memStore_InsertToken m uid h)"
  by (simp add: memStore_InsertToken_def store_inv_def)

lemma PutSecret_inv [store_intros]: "store_inv m \<Longrightarrow> store_inv (memStore_PutSecret m now name c n)"
  unfolding memStore_PutSecret_def Let_def
  by (rule store_inv_putSecret)
     (auto simp: secret_ok_def split: option.split dest: table_ok_row [OF inv_secrets])

lemma DeleteSecret_inv [store_intros]: "store_inv m \<Longrightarrow> store_inv (fst (memStore_DeleteSecret m name))"
  by (auto simp: memStore_DeleteSecret_def store_inv_def table_ok_del split: option.splits)

lemma UpsertCredential_inv [store_intros]: "store_inv m \<Longrightarrow> store_inv (memStore_UpsertCredential m now c)"
  unfolding memStore_UpsertCredential_def Let_def
  by (rule store_inv_putCredential) (simp_all add: credential_ok_def)

lemma credential_row:
  "store_inv m \<Longrightarrow> map_of (ms_credentials m) k = Some c \<Longrightarrow> credential_ok k c"
  using table_ok_row [OF inv_credentials] .

lemma SetCredentialStatus_inv [store_intros]:
  "store_inv m \<Longrightarrow> store_inv (fst (memStore_SetCredentialStatus m now uid p st))"
  by (auto simp: memStore_SetCredentialStatus_def split: option.splits
      intro!: store_inv_putCredential dest: credential_row simp: credential_ok_def)

lemma TouchCredentialUsed_inv [store_intros]:
  "store_inv m \<Longrightarrow> store_inv (fst (memStore_TouchCredentialUsed m now uid p))"
  by (auto simp: memStore_TouchCredentialUsed_def split: option.splits
      intro!: store_inv_putCredential dest: credential_row simp: credential_ok_def)

text \<open>An agent credential's version never passes zero on a put, because version 0 is refused;
  so the revocation fence stays at or below it without assuming the counter cannot wrap.\<close>

lemma PutAgentCredential_inv [store_intros]:
  assumes "store_inv m"
  shows "store_inv (fst (memStore_PutAgentCredential m now c))"
proof (cases "map_of (ms_agentCredentials m) (agc_UserID c, agc_Provider c)")
  case None
  with assms show ?thesis
    by (auto simp: memStore_PutAgentCredential_def Let_def agent_ok_def intro!: store_inv_putAgent)
next
  case (Some p)
  then have "agc_LastRevokedVersion p \<le> agc_Version p"
    using inv_agent_row [OF assms] by (simp add: agent_ok_def)
  then have "agc_Version p + 1 \<noteq> 0 \<Longrightarrow> agc_LastRevokedVersion p \<le> agc_Version p + 1"
    using u64_succ_gt [of "agc_Version p"] by fastforce
  with assms Some show ?thesis
    by (auto simp: memStore_PutAgentCredential_def Let_def agent_ok_def intro!: store_inv_putAgent)
qed

lemma revokeAgentCredential_inv [store_intros]:
  "store_inv m \<Longrightarrow> store_inv (fst (memStore_revokeAgentCredential m now uid p e))"
  by (auto simp: memStore_revokeAgentCredential_def Let_def agent_ok_def
      intro!: store_inv_putAgent)

end
