(* ===== verification/Counters.thy ===== *)
theory Counters
  imports StoreTrace
begin

text \<open>
  The three counters the store hands out, as interpretations of \<open>issued_counter\<close>, and the
  single use of a bootstrap token. A 64-bit counter wraps: each claim holds up to the step
  at which the counter would pass its largest value.
\<close>

section \<open>The controller columns of a session\<close>

text \<open>The lease \<^verbatim>\<open>ControllerLeaseOf\<close> reads off a stored session, and how each step moves it.\<close>

definition controllerOf :: "memStore \<Rightarrow> wsid \<Rightarrow> sessionid \<Rightarrow> ControllerLease option" where
  "controllerOf m ws sid = map_option ControllerLeaseOf (sessionAt m ws sid)"

definition nextLease :: "ControllerLease \<Rightarrow> ControllerLease" where
  "nextLease l = \<lparr>lease_Generation = lease_Generation l + 1, lease_Holder = '''', lease_ExpiresAt = zero_time\<rparr>"

lemma controllerOf_frame:
  assumes "\<not> on_sessions op"
  shows "controllerOf (fst (store_step m (now, op))) ws sid = controllerOf m ws sid"
  by (simp add: controllerOf_def sessions_frame [OF assms])

lemma controllerOf_Transition:
  "controllerOf (fst (memSessions_Transition m now ws' sid' from to opts)) ws sid = controllerOf m ws sid"
  by (simp add: controllerOf_def memSessions_Transition_def ControllerLeaseOf_def Let_def
      split: option.split)

lemma controllerOf_SetSessionSetupHash:
  "controllerOf (fst (memSessions_SetSessionSetupHash m now ws' sid' h)) ws sid = controllerOf m ws sid"
  by (simp add: controllerOf_def memSessions_SetSessionSetupHash_def ControllerLeaseOf_def
      split: option.split)

lemma controllerOf_SetChildExitCode:
  "controllerOf (fst (memSessions_SetChildExitCode m now ws' sid' c)) ws sid = controllerOf m ws sid"
  by (simp add: controllerOf_def memSessions_SetChildExitCode_def ControllerLeaseOf_def
      split: option.split)

lemma controllerOf_Create:
  "sessionAt m ws' (ses_ID s) = None \<Longrightarrow>
   controllerOf (fst (memSessions_CreateSession m now ws' s)) ws sid
     \<in> {controllerOf m ws sid, Some \<lparr>lease_Generation = 0, lease_Holder = '''', lease_ExpiresAt = zero_time\<rparr>}
   \<and> (controllerOf m ws sid \<noteq> None
      \<longrightarrow> controllerOf (fst (memSessions_CreateSession m now ws' s)) ws sid = controllerOf m ws sid)"
  by (auto simp: controllerOf_def memSessions_CreateSession_def ControllerLeaseOf_def storedSession_def
      split: option.split)

lemma controllerOf_advance:
  "store_step m (now, OpNextControllerGeneration ws' sid') = (m', r) \<Longrightarrow>
   controllerOf m' ws sid = (if (ws', sid') = (ws, sid) \<and> r \<noteq> Failed ErrInvalid
     then map_option nextLease (controllerOf m ws sid) else controllerOf m ws sid)
   \<and> (\<forall>g. r = Issued g \<longrightarrow> (\<exists>l. controllerOf m ws' sid' = Some l \<and> g = lease_Generation l + 1))
   \<and> (controllerOf m ws' sid' \<noteq> None \<longrightarrow> r = Failed ErrInvalid \<or> (\<exists>g. r = Issued g))"
  by (auto simp: controllerOf_def memSessions_NextControllerGeneration_def ControllerLeaseOf_def
      advanceController_def nextLease_def ofCounter_def Let_def split: option.splits if_splits)

lemma controllerOf_compareAndAdvance:
  "store_step m (now, OpCompareAndAdvanceControllerGeneration ws' sid' e) = (m', r) \<Longrightarrow>
   controllerOf m' ws sid = (if (ws', sid') = (ws, sid) \<and> r \<notin> {Failed ErrInvalid, Failed ErrStale}
     then map_option nextLease (controllerOf m ws sid) else controllerOf m ws sid)
   \<and> (\<forall>g. r = Issued g \<longrightarrow> (\<exists>l. controllerOf m ws' sid' = Some l \<and> lease_Generation l = e \<and> g = e + 1))
   \<and> (controllerOf m ws' sid' \<noteq> None \<longrightarrow> r \<in> {Failed ErrInvalid, Failed ErrStale} \<or> (\<exists>g. r = Issued g))"
  by (auto simp: controllerOf_def memSessions_CompareAndAdvanceControllerGeneration_def
      ControllerLeaseOf_def advanceController_def nextLease_def ofCounter_def Let_def
      split: option.splits if_splits)

lemma controllerOf_renew:
  "store_step m (now, OpRenewControllerLease ws' sid' l) = (m', r) \<Longrightarrow>
   controllerOf m' ws sid = (if (ws', sid') = (ws, sid) \<and> r = Done then Some l else controllerOf m ws sid)
   \<and> (r = Done \<longrightarrow> lease_Generation l \<noteq> 0 \<and> lease_Holder l \<noteq> '''' \<and> (\<exists>c. controllerOf m ws' sid' = Some c
        \<and> lease_Generation c = lease_Generation l
        \<and> (lease_Holder c = '''' \<or> lease_Holder c = lease_Holder l)))"
  by (auto simp: controllerOf_def memSessions_RenewControllerLease_def ControllerLeaseOf_def
      ofError_def split: option.splits if_splits)

text \<open>How one step can move the lease of a session that exists: not at all, to the next
  generation with no holder, or by an accepted renewal within its generation.\<close>

datatype lease_move = Kept | Advanced u64 | Renewed ControllerLease

fun lease_moved :: "wsid \<Rightarrow> sessionid \<Rightarrow> store_op \<Rightarrow> outcome \<Rightarrow> lease_move" where
  "lease_moved ws sid (OpNextControllerGeneration ws' sid') (Issued g) =
     (if (ws', sid') = (ws, sid) then Advanced g else Kept)"
| "lease_moved ws sid (OpCompareAndAdvanceControllerGeneration ws' sid' e) (Issued g) =
     (if (ws', sid') = (ws, sid) then Advanced g else Kept)"
| "lease_moved ws sid (OpRenewControllerLease ws' sid' l) Done =
     (if (ws', sid') = (ws, sid) then Renewed l else Kept)"
| "lease_moved ws sid _ _ = Kept"

lemma lease_moved_step:
  assumes "admissible m (now, op)" and "store_step m (now, op) = (m', r)"
  shows "case lease_moved ws sid op r of
      Kept \<Rightarrow> controllerOf m' ws sid = controllerOf m ws sid
        \<or> controllerOf m ws sid = None
          \<and> controllerOf m' ws sid = Some \<lparr>lease_Generation = 0, lease_Holder = '''', lease_ExpiresAt = zero_time\<rparr>
    | Advanced g \<Rightarrow> (\<exists>l. controllerOf m ws sid = Some l \<and> controllerOf m' ws sid = Some (nextLease l)
        \<and> g = lease_Generation l + 1)
    | Renewed l \<Rightarrow> controllerOf m' ws sid = Some l \<and> lease_Generation l \<noteq> 0 \<and> lease_Holder l \<noteq> ''''
        \<and> (\<exists>c. controllerOf m ws sid = Some c \<and> lease_Generation c = lease_Generation l
            \<and> (lease_Holder c = '''' \<or> lease_Holder c = lease_Holder l))"
proof (cases "on_sessions op")
  case False
  then have "lease_moved ws sid op r = Kept" by (cases op) simp_all
  with controllerOf_frame [OF False, of m now ws sid] assms(2) show ?thesis by simp
next
  case True
  then show ?thesis
  proof (cases op)
    case (OpCreateSession ws' s)
    with assms controllerOf_Create [of m ws' s now ws sid] show ?thesis
      by (auto simp: ofRow_def)
  next
    case (OpTransition ws' sid' f t os)
    with assms controllerOf_Transition [of m now ws' sid' f t os ws sid] show ?thesis
      by (simp add: ofError_def)
  next
    case (OpSetSessionSetupHash ws' sid' h)
    with assms controllerOf_SetSessionSetupHash [of m now ws' sid' h ws sid] show ?thesis
      by (simp add: ofError_def)
  next
    case (OpSetChildExitCode ws' sid' c)
    with assms controllerOf_SetChildExitCode [of m now ws' sid' c ws sid] show ?thesis
      by (simp add: ofError_def)
  next
    case (OpNextControllerGeneration ws' sid')
    with assms(2) have "store_step m (now, OpNextControllerGeneration ws' sid') = (m', r)" by simp
    note this [THEN controllerOf_advance, of ws sid]
    with OpNextControllerGeneration show ?thesis
      by (cases r; cases "controllerOf m ws sid") (auto simp del: store_step.simps)
  next
    case (OpCompareAndAdvanceControllerGeneration ws' sid' e)
    with assms(2) have "store_step m (now, OpCompareAndAdvanceControllerGeneration ws' sid' e) = (m', r)"
      by simp
    note this [THEN controllerOf_compareAndAdvance, of ws sid]
    with OpCompareAndAdvanceControllerGeneration show ?thesis
      by (cases r; cases "controllerOf m ws sid") (auto simp del: store_step.simps)
  next
    case (OpRenewControllerLease ws' sid' l)
    with assms(2) have "store_step m (now, OpRenewControllerLease ws' sid' l) = (m', r)" by simp
    note this [THEN controllerOf_renew, of ws sid]
    with OpRenewControllerLease show ?thesis
      by (cases r) (auto simp del: store_step.simps)
  qed simp_all
qed

section \<open>Controller generations\<close>

definition controllerGen :: "wsid \<Rightarrow> sessionid \<Rightarrow> memStore \<Rightarrow> u64" where
  "controllerGen ws sid m = (case controllerOf m ws sid of None \<Rightarrow> 0 | Some l \<Rightarrow> lease_Generation l)"

definition controllerIssued :: "wsid \<Rightarrow> sessionid \<Rightarrow> time \<times> store_op \<Rightarrow> outcome \<Rightarrow> u64 option" where
  "controllerIssued ws sid op r =
     (case lease_moved ws sid (snd op) r of Advanced g \<Rightarrow> Some g | _ \<Rightarrow> None)"

definition controllerOk :: "wsid \<Rightarrow> sessionid \<Rightarrow> memStore \<Rightarrow> time \<times> store_op \<Rightarrow> bool" where
  "controllerOk ws sid m op \<longleftrightarrow> admissible m op \<and> controllerGen ws sid m \<noteq> - 1"

lemma controllerGen_step:
  assumes "controllerOk ws sid m (now, op)" and "store_step m (now, op) = (m', r)"
  shows "controllerGen ws sid m' =
    (case controllerIssued ws sid (now, op) r of None \<Rightarrow> controllerGen ws sid m
     | Some n \<Rightarrow> controllerGen ws sid m + 1)
   \<and> controllerIssued ws sid (now, op) r \<in> {None, Some (controllerGen ws sid m + 1)}"
  using lease_moved_step [of m now op m' r ws sid] assms
  by (auto simp: controllerOk_def controllerGen_def controllerIssued_def nextLease_def
      split: lease_move.splits)

interpretation controller: issued_counter store_step "controllerOk ws sid" "controllerGen ws sid"
  "controllerIssued ws sid" for ws sid
proof unfold_locales
  fix m m' :: memStore and op :: "time \<times> store_op" and r n
  assume ok: "controllerOk ws sid m op" and st: "store_step m op = (m', r)"
  have up: "controllerGen ws sid m < controllerGen ws sid m + 1"
    using ok by (simp add: controllerOk_def u64_succ_gt)
  note gen = controllerGen_step [of ws sid m "fst op" "snd op", unfolded prod.collapse, OF ok st]
  show "controllerGen ws sid m \<le> controllerGen ws sid m'"
    using gen up by (auto split: option.splits)
  show "controllerGen ws sid m < n \<and> controllerGen ws sid m' = n"
    if "controllerIssued ws sid op r = Some n"
    using gen up that by auto
qed

section \<open>Runner generations\<close>

definition runnerGen :: "poolid \<Rightarrow> runnerid \<Rightarrow> memStore \<Rightarrow> u64" where
  "runnerGen pool rid m = (case runnerAt m pool rid of None \<Rightarrow> 0 | Some r \<Rightarrow> run_Generation r)"

fun runnerIssued :: "poolid \<Rightarrow> runnerid \<Rightarrow> time \<times> store_op \<Rightarrow> outcome \<Rightarrow> u64 option" where
  "runnerIssued pool rid (now, OpNextRunnerGeneration pool' rid') (Issued g) =
     (if pool' = pool \<and> rid' = rid then Some g else None)"
| "runnerIssued pool rid _ _ = None"

definition runnerOk :: "poolid \<Rightarrow> runnerid \<Rightarrow> memStore \<Rightarrow> time \<times> store_op \<Rightarrow> bool" where
  "runnerOk pool rid m op \<longleftrightarrow> runnerGen pool rid m \<noteq> - 1"

lemma runnerGen_step:
  assumes "runnerOk pool rid m (now, op)" and "store_step m (now, op) = (m', r)"
  shows "runnerGen pool rid m \<le> runnerGen pool rid m'
   \<and> (\<forall>n. runnerIssued pool rid (now, op) r = Some n \<longrightarrow>
        n = runnerGen pool rid m + 1 \<and> runnerGen pool rid m' = n)"
proof (cases "on_runners op")
  case False
  then have "runnerIssued pool rid (now, op) r = None" by (cases op) simp_all
  moreover have "ms_runners m' = ms_runners m" using runners_frame [OF False, of m now] assms(2) by simp
  ultimately show ?thesis by (simp add: runnerGen_def)
next
  case True
  have "g \<le> g + 1" if "g \<noteq> - 1" for g :: u64
    using u64_succ_gt [OF that] by simp
  with True assms show ?thesis
    by (cases op)
       (auto simp: runnerOk_def runnerGen_def runner_op_defs ofError_def ofCounter_def Let_def
         newRunner_def split: if_splits option.splits)
qed

interpretation runner: issued_counter store_step "runnerOk pool rid" "runnerGen pool rid"
  "runnerIssued pool rid" for pool rid
proof unfold_locales
  fix m m' :: memStore and op :: "time \<times> store_op" and r n
  assume ok: "runnerOk pool rid m op" and st: "store_step m op = (m', r)"
  have up: "runnerGen pool rid m < runnerGen pool rid m + 1"
    using ok by (simp add: runnerOk_def u64_succ_gt)
  note gen = runnerGen_step [of pool rid m "fst op" "snd op", unfolded prod.collapse, OF ok st]
  show "runnerGen pool rid m \<le> runnerGen pool rid m'"
    using gen by blast
  show "runnerGen pool rid m < n \<and> runnerGen pool rid m' = n"
    if "runnerIssued pool rid op r = Some n"
    using gen up that by auto
qed

section \<open>Agent credential versions\<close>

definition agentVersion :: "string \<Rightarrow> string \<Rightarrow> memStore \<Rightarrow> u64" where
  "agentVersion uid p m =
     (case map_of (ms_agentCredentials m) (uid, p) of None \<Rightarrow> 0 | Some c \<Rightarrow> agc_Version c)"

fun agentIssued :: "string \<Rightarrow> string \<Rightarrow> time \<times> store_op \<Rightarrow> outcome \<Rightarrow> u64 option" where
  "agentIssued uid p (now, OpPutAgentCredential c) (Issued g) =
     (if agc_UserID c = uid \<and> agc_Provider c = p then Some g else None)"
| "agentIssued uid p (now, OpRevokeAgentCredential uid' p') (Issued g) =
     (if uid' = uid \<and> p' = p then Some g else None)"
| "agentIssued uid p (now, OpConditionalRevokeAgentCredential uid' p' e) (Issued g) =
     (if uid' = uid \<and> p' = p then Some g else None)"
| "agentIssued uid p _ _ = None"

definition agentOk :: "string \<Rightarrow> string \<Rightarrow> memStore \<Rightarrow> time \<times> store_op \<Rightarrow> bool" where
  "agentOk uid p m op \<longleftrightarrow> agentVersion uid p m \<noteq> - 1"

lemma agentVersion_step:
  assumes "store_step m (now, op) = (m', r)"
  shows "agentVersion uid p m' =
    (case agentIssued uid p (now, op) r of None \<Rightarrow> agentVersion uid p m
     | Some n \<Rightarrow> agentVersion uid p m + 1)
   \<and> agentIssued uid p (now, op) r \<in> {None, Some (agentVersion uid p m + 1)}"
proof (cases "on_agents op")
  case False
  then have "agentIssued uid p (now, op) r = None" by (cases op) simp_all
  moreover have "ms_agentCredentials m' = ms_agentCredentials m" using agents_frame [OF False, of m now] assms by simp
  ultimately show ?thesis by (simp add: agentVersion_def)
next
  case True
  with assms show ?thesis
    by (cases op)
       (auto simp: agentVersion_def agent_op_defs ofCounter_def Let_def
         split: if_splits option.splits)
qed

interpretation agent: issued_counter store_step "agentOk uid p" "agentVersion uid p"
  "agentIssued uid p" for uid p
proof unfold_locales
  fix m m' :: memStore and op :: "time \<times> store_op" and r n
  assume ok: "agentOk uid p m op" and st: "store_step m op = (m', r)"
  have up: "agentVersion uid p m < agentVersion uid p m + 1"
    using ok by (simp add: agentOk_def u64_succ_gt)
  note gen = agentVersion_step [of m "fst op" "snd op", unfolded prod.collapse, OF st, of uid p]
  show "agentVersion uid p m \<le> agentVersion uid p m'"
    using gen up by (auto split: option.splits)
  show "agentVersion uid p m < n \<and> agentVersion uid p m' = n"
    if "agentIssued uid p op r = Some n"
    using gen up that by auto
qed

end
