(* ===== verification/Exclusion.thy ===== *)
theory Exclusion
  imports Counters
begin

text \<open>
  Claims about two operations of one trace of the store: within one controller generation
  only one holder's lease is ever renewed, and one minted bootstrap token is spent at most
  once. Both are interpretations of \<open>trace_pairs\<close>.
\<close>

section \<open>One holder per controller generation\<close>

text \<open>The operation is a renewal that the store accepted, of this lease.\<close>

definition renewed :: "wsid \<Rightarrow> sessionid \<Rightarrow> time \<times> store_op \<Rightarrow> outcome \<Rightarrow> ControllerLease option" where
  "renewed ws sid op r = (case lease_moved ws sid (snd op) r of Renewed l \<Rightarrow> Some l | _ \<Rightarrow> None)"

definition lease_bound :: "wsid \<Rightarrow> sessionid \<Rightarrow> ControllerLease \<Rightarrow> memStore \<Rightarrow> bool" where
  "lease_bound ws sid l m \<longleftrightarrow> lease_Holder l \<noteq> '''' \<and>
     (case controllerOf m ws sid of
        None \<Rightarrow> False
      | Some c \<Rightarrow> lease_Generation c = lease_Generation l \<and> lease_Holder c = lease_Holder l
          \<or> lease_Generation l < lease_Generation c)"

definition lease_fact :: "wsid \<Rightarrow> sessionid \<Rightarrow> time \<times> store_op \<Rightarrow> outcome \<Rightarrow> memStore \<Rightarrow> bool" where
  "lease_fact ws sid op r m \<longleftrightarrow>
     (case renewed ws sid op r of None \<Rightarrow> True | Some l \<Rightarrow> lease_bound ws sid l m)"

definition same_holder ::
    "wsid \<Rightarrow> sessionid \<Rightarrow> time \<times> store_op \<Rightarrow> outcome \<Rightarrow> time \<times> store_op \<Rightarrow> outcome \<Rightarrow> bool" where
  "same_holder ws sid op r op' r' \<longleftrightarrow>
     (case (renewed ws sid op r, renewed ws sid op' r') of
        (Some l, Some l') \<Rightarrow> lease_Generation l \<le> lease_Generation l'
          \<and> (lease_Generation l = lease_Generation l' \<longrightarrow> lease_Holder l = lease_Holder l')
      | _ \<Rightarrow> True)"

lemma lease_bound_step:
  assumes "lease_bound ws sid l m" and "controllerOk ws sid m (now, op)"
    and "store_step m (now, op) = (m', r)"
  shows "lease_bound ws sid l m'"
proof -
  obtain c where c: "controllerOf m ws sid = Some c" using assms(1)
    by (auto simp: lease_bound_def split: option.splits)
  then have "lease_Generation c < lease_Generation c + 1"
    using assms(2) by (intro u64_succ_gt) (simp add: controllerOk_def controllerGen_def)
  with lease_moved_step [of m now op m' r ws sid] assms c show ?thesis
    by (auto simp: controllerOk_def lease_bound_def nextLease_def split: lease_move.splits)
qed

lemma renewed_step:
  assumes "admissible m op" and "store_step m op = (m', r)" and "renewed ws sid op r = Some l"
  shows "lease_bound ws sid l m' \<and> (\<exists>c. controllerOf m ws sid = Some c
    \<and> lease_Generation c = lease_Generation l \<and> (lease_Holder c = '''' \<or> lease_Holder c = lease_Holder l))"
  using lease_moved_step [of m "fst op" "snd op" m' r ws sid] assms
  by (auto simp: renewed_def lease_bound_def split: lease_move.splits)

interpretation lease: trace_pairs store_step "controllerOk ws sid" "lease_fact ws sid"
  "same_holder ws sid" for ws sid
proof unfold_locales
  fix s s' :: memStore and op op' :: "time \<times> store_op" and r r'
  show "lease_fact ws sid op r s'" if "controllerOk ws sid s op" "store_step s op = (s', r)"
    using renewed_step [OF _ that(2)] that(1)
    by (simp add: lease_fact_def controllerOk_def split: option.split)
  assume fact: "lease_fact ws sid op r s" and ok: "controllerOk ws sid s op'"
    and st: "store_step s op' = (s', r')"
  show "lease_fact ws sid op r s'"
    using fact ok st lease_bound_step [of ws sid _ s "fst op'" "snd op'" s' r']
    by (simp add: lease_fact_def split: option.splits)
  show "same_holder ws sid op r op' r'"
    using fact ok renewed_step [OF _ st, of ws sid]
    by (fastforce simp: lease_fact_def same_holder_def lease_bound_def controllerOk_def
        split: option.splits)
qed

section \<open>A bootstrap token is spent once\<close>

fun spends :: "wsid \<Rightarrow> sessionid \<Rightarrow> time \<times> store_op \<Rightarrow> outcome \<Rightarrow> bool" where
  "spends ws sid (now, OpConsumeSessionBootstrap ws' sid' h g) Done \<longleftrightarrow> ws' = ws \<and> sid' = sid"
| "spends ws sid _ _ \<longleftrightarrow> False"

fun mints :: "wsid \<Rightarrow> sessionid \<Rightarrow> time \<times> store_op \<Rightarrow> bool" where
  "mints ws sid (now, OpPutSessionBootstrap ws' sid' rec) \<longleftrightarrow> ws' = ws \<and> sid' = sid"
| "mints ws sid _ \<longleftrightarrow> False"

definition token_spent :: "wsid \<Rightarrow> sessionid \<Rightarrow> memStore \<Rightarrow> bool" where
  "token_spent ws sid m \<longleftrightarrow>
     (case ms_bootstraps m (ws, sid) of None \<Rightarrow> False | Some row \<Rightarrow> btr_spent row)"

lemma spends_spent:
  "store_step m op = (m', r) \<Longrightarrow> spends ws sid op r \<Longrightarrow> token_spent ws sid m'"
  by (cases "(ws, sid, op, r)" rule: spends.cases)
     (auto simp: token_spent_def memBootstraps_ConsumeSessionBootstrap_def ofError_def
       split: if_splits option.splits)

lemma spent_not_spent_again:
  "token_spent ws sid m \<Longrightarrow> store_step m op = (m', r) \<Longrightarrow> \<not> spends ws sid op r"
  by (cases "(ws, sid, op, r)" rule: spends.cases)
     (auto simp: token_spent_def memBootstraps_ConsumeSessionBootstrap_def ofError_def
       split: if_splits option.splits)

lemma spent_stays:
  assumes "token_spent ws sid m" and "\<not> mints ws sid (now, op)" and "store_step m (now, op) = (m', r)"
  shows "token_spent ws sid m'"
proof (cases "on_bootstraps op")
  case False
  have "ms_bootstraps m' = ms_bootstraps m" using bootstraps_frame [OF False, of m now] assms(3) by simp
  with assms(1) show ?thesis by (simp add: token_spent_def)
next
  case True
  with assms show ?thesis
    by (cases op)
       (auto simp: token_spent_def bootstrap_op_defs ofError_def split: if_splits option.splits)
qed

interpretation token: trace_pairs store_step "\<lambda>m op. \<not> mints ws sid op"
  "\<lambda>op r m. spends ws sid op r \<longrightarrow> token_spent ws sid m"
  "\<lambda>op r op' r'. \<not> (spends ws sid op r \<and> spends ws sid op' r')" for ws sid
proof unfold_locales
  fix s s' :: memStore and op op' :: "time \<times> store_op" and r r'
  show "spends ws sid op r \<longrightarrow> token_spent ws sid s'" if "store_step s op = (s', r)"
    using spends_spent [OF that] by blast
  show "spends ws sid op r \<longrightarrow> token_spent ws sid s'"
    if "spends ws sid op r \<longrightarrow> token_spent ws sid s" "\<not> mints ws sid op'" "store_step s op' = (s', r')"
    using that spent_stays [of ws sid s "fst op'" "snd op'" s' r'] by simp
  show "\<not> (spends ws sid op r \<and> spends ws sid op' r')"
    if "spends ws sid op r \<longrightarrow> token_spent ws sid s" "store_step s op' = (s', r')"
    using that spent_not_spent_again [OF _ that(2)] by blast
qed

end
