(* ===== verification/Paging.thy ===== *)
theory Paging
  imports StoreInv
begin

text \<open>
  Keyset paging of the session and environment listings. A client that follows the cursors
  of a listing to the end reads every row once, in order: the lemma is proved once for the
  interface \<open>paged_listing\<close>, and every listing interprets it.
\<close>

section \<open>A client that follows cursors\<close>

text \<open>\<open>None\<close> when the fuel runs out before the last page.\<close>

fun follow :: "(string \<Rightarrow> err + ('a list \<times> string)) \<Rightarrow> nat \<Rightarrow> string \<Rightarrow> (err + 'a list) option" where
  "follow page 0 cursor = None"
| "follow page (Suc fuel) cursor =
     (case page cursor of
        Inl e \<Rightarrow> Some (Inl e)
      | Inr (rows, next) \<Rightarrow>
        (if next = '''' then Some (Inr rows)
         else case follow page fuel next of
           None \<Rightarrow> None | Some (Inl e) \<Rightarrow> Some (Inl e) | Some (Inr rest) \<Rightarrow> Some (Inr (rows @ rest))))"

locale paged_listing =
  fixes valid :: "'i \<Rightarrow> bool"
    and rows :: "'i \<Rightarrow> 'a list"
    and limit :: "'i \<Rightarrow> int"
    and cursor :: "'a \<Rightarrow> string"
    and page :: "'i \<Rightarrow> string \<Rightarrow> err + ('a list \<times> string)"
    and cut :: "'a list \<Rightarrow> int \<Rightarrow> ('a \<Rightarrow> string) \<Rightarrow> 'a list \<times> string"
  assumes first_page: "valid i \<Longrightarrow> page i '''' = Inr (cut (rows i) (limit i) cursor)"
    and next_page: "valid i \<Longrightarrow> n < length (rows i)
      \<Longrightarrow> page i (cursor (rows i ! n)) = Inr (cut (drop (Suc n) (rows i)) (limit i) cursor)"
    and cut_page: "0 < k \<Longrightarrow> cut rest k cursor = (rest, '''')
      \<or> k \<le> int (length rest) \<and> cut rest k cursor = (take (nat k) rest, cursor (rest ! (nat k - 1)))"
    and cursor_marks: "cursor x \<noteq> ''''"
begin

lemma follow_from:
  assumes "valid i" and "0 < limit i" and "n \<le> length (rows i)"
    and "page i cur = Inr (cut (drop n (rows i)) (limit i) cursor)"
    and "length (rows i) - n < fuel"
  shows "follow (page i) fuel cur = Some (Inr (drop n (rows i)))"
  using assms(3-)
proof (induction fuel arbitrary: n cur)
  case 0
  then show ?case by simp
next
  case (Suc fuel)
  let ?rest = "drop n (rows i)" and ?k = "nat (limit i)"
  from cut_page [OF assms(2), of ?rest] show ?case
  proof
    assume "cut ?rest (limit i) cursor = (?rest, '''')"
    with Suc.prems show ?thesis by simp
  next
    assume more: "limit i \<le> int (length ?rest)
      \<and> cut ?rest (limit i) cursor = (take ?k ?rest, cursor (?rest ! (?k - 1)))"
    then have k: "0 < ?k" "n + ?k \<le> length (rows i)" using assms(2) Suc.prems(1) by auto
    then have page: "page i cur = Inr (take ?k ?rest, cursor (rows i ! (n + ?k - 1)))"
      using Suc.prems(1,2) more by simp
    have "page i (cursor (rows i ! (n + ?k - 1))) = Inr (cut (drop (n + ?k) (rows i)) (limit i) cursor)"
      using next_page [OF assms(1), of "n + ?k - 1"] k by simp
    from Suc.IH [OF k(2) this] have "follow (page i) fuel (cursor (rows i ! (n + ?k - 1)))
        = Some (Inr (drop (n + ?k) (rows i)))"
      using Suc.prems(3) k by simp
    moreover have "take ?k ?rest @ drop (n + ?k) (rows i) = ?rest"
      by (metis add.commute append_take_drop_id drop_drop)
    ultimately show ?thesis using page cursor_marks by simp
  qed
qed

lemma follow_all:
  "valid i \<Longrightarrow> 0 < limit i \<Longrightarrow> length (rows i) < fuel \<Longrightarrow> follow (page i) fuel '''' = Some (Inr (rows i))"
  using follow_from [of i 0 "''''" fuel] first_page [of i] by simp

end

lemma pageOf_cut:
  assumes "0 < k"
  shows "pageOf rest k c = (rest, '''')
    \<or> k \<le> int (length rest) \<and> pageOf rest k c = (take (nat k) rest, c (rest ! (nat k - 1)))"
proof (cases "k \<le> int (length rest)")
  case True
  then have "last (take (nat k) rest) = rest ! (nat k - 1)"
    using assms last_conv_nth [of "take (nat k) rest"] by fastforce
  then show ?thesis using True assms by (simp add: pageOf_def Let_def)
qed (simp add: pageOf_def)

section \<open>Sorted by a strict order\<close>

lemma strict_sorted:
  assumes "weak_order prec" and "distinct (map key xs)"
    and "\<And>a b. a \<in> set xs \<Longrightarrow> b \<in> set xs \<Longrightarrow> \<not> prec a b \<Longrightarrow> \<not> prec b a \<Longrightarrow> key a = key b"
  shows "sorted_wrt prec (sortSlice prec xs)"
proof -
  let ?ys = "sortSlice prec xs"
  have "distinct (map key ?ys)"
    using assms(2) by simp
  then have "prec (?ys ! i) (?ys ! j)" if "i < j" "j < length ?ys" for i j
    using that sorted_sortSlice [OF assms(1), of xs] assms(3) [of "?ys ! i" "?ys ! j"]
      nth_mem [of i ?ys] nth_mem [of j ?ys]
    by (auto simp: sorted_wrt_iff_nth_less distinct_conv_nth)
  then show ?thesis by (simp add: sorted_wrt_iff_nth_less)
qed

lemma dropWhile_sorted:
  assumes "weak_order prec" and "sorted_wrt prec xs" and "n < length xs"
  shows "dropWhile (\<lambda>x. \<not> prec (xs ! n) x) xs = drop (Suc n) xs"
proof -
  have before: "\<not> prec (xs ! n) (xs ! j)" if "j \<le> n" for j
    using that assms weak_orderD(1) [OF assms(1)]
    by (cases "j = n") (auto simp: sorted_wrt_iff_nth_less)
  have "dropWhile (\<lambda>x. \<not> prec (xs ! n) x) (take (Suc n) xs @ drop (Suc n) xs)
      = dropWhile (\<lambda>x. \<not> prec (xs ! n) x) (drop (Suc n) xs)"
    by (rule dropWhile_append2) (use before in \<open>auto simp: in_set_conv_nth less_Suc_eq_le\<close>)
  moreover have "prec (xs ! n) x" if "x \<in> set (drop (Suc n) xs)" for x
    using that assms(2,3) by (auto simp: in_set_conv_nth sorted_wrt_iff_nth_less)
  then have "dropWhile (\<lambda>x. \<not> prec (xs ! n) x) (drop (Suc n) xs) = drop (Suc n) xs"
    by (cases "drop (Suc n) xs") auto
  ultimately show ?thesis by simp
qed

lemma distinct_rows_where:
  "distinct (map fst al) \<Longrightarrow> (\<And>k v. (k, v) \<in> set al \<Longrightarrow> P k v \<Longrightarrow> k = h (f v))
   \<Longrightarrow> distinct (map f (rows_where P al))"
proof (induction al)
  case Nil
  then show ?case by simp
next
  case (Cons x al)
  obtain k v where x: "x = (k, v)" by fastforce
  have "f v \<notin> f ` set (rows_where P al)" if "P k v"
  proof
    assume "f v \<in> f ` set (rows_where P al)"
    then obtain k' w where "(k', w) \<in> set al" "P k' w" "f v = f w"
      by (auto simp: rows_where_def)
    with Cons.prems(2) [of k v] Cons.prems(2) [of k' w] that x have "k' = k" by simp
    with \<open>(k', w) \<in> set al\<close> Cons.prems(1) x show False by force
  qed
  with Cons x show ?case by simp
qed

section \<open>Sessions\<close>

lemma weak_newestFirst: "weak_order newestFirst"
  unfolding weak_order_def newestFirst_def by (auto split: if_splits)

lemma newestFirst_total: "\<not> newestFirst a b \<Longrightarrow> \<not> newestFirst b a \<Longrightarrow> ses_ID a = ses_ID b"
  by (auto simp: newestFirst_def split: if_splits)

lemma distinct_listed:
  assumes "store_inv m"
  shows "distinct (map ses_ID (listedSessions m ws incl))"
  unfolding listedSessions_def
proof (rule distinct_rows_where [where h = "\<lambda>sid. (ws, sid)"])
  show d: "distinct (map fst (ms_sessions m))" by (rule table_ok_distinct [OF inv_sessions [OF assms]])
  show "k = (ws, ses_ID s)"
    if "(k, s) \<in> set (ms_sessions m)" "fst k = ws \<and> (incl \<or> \<not> Terminal (ses_State s))" for k s
    using that inv_session_row [OF assms, of "fst k" "snd k" s] set_alist_iff [OF d, of k s]
    by (cases k) auto
qed

text \<open>A listing request: the store, the workspace and the query without its cursor.\<close>

type_synonym session_listing = "memStore \<times> wsid \<times> SessionQuery"

definition sessionRows :: "session_listing \<Rightarrow> Session list" where
  "sessionRows = (\<lambda>(m, ws, q). sortSessionsNewestFirst (listedSessions m ws (sq_IncludeTerminal q)))"

definition sessionPage :: "session_listing \<Rightarrow> string \<Rightarrow> err + (Session list \<times> string)" where
  "sessionPage = (\<lambda>(m, ws, q) cursor. memSessions_ListSessions m ws (q\<lparr>sq_Cursor := cursor\<rparr>))"

definition sessionCursor :: "Session \<Rightarrow> string" where
  "sessionCursor s = encodeCursor (ses_CreatedAt s) (ses_ID s)"

definition sessionListingOk :: "session_listing \<Rightarrow> bool" where
  "sessionListingOk = (\<lambda>(m, ws, q). store_inv m \<and> ws \<noteq> ''''
     \<and> (\<forall>s \<in> set (listedSessions m ws (sq_IncludeTerminal q)). representable (ses_CreatedAt s)))"

lemma sorted_sessionRows:
  "store_inv m \<Longrightarrow> sorted_wrt newestFirst (sortSessionsNewestFirst (listedSessions m ws incl))"
  unfolding sortSessionsNewestFirst_def
  by (rule strict_sorted [OF weak_newestFirst distinct_listed]) (auto dest: newestFirst_total)

text \<open>Over representable times the nanosecond cursor orders rows as the sort does.\<close>

lemma nano_newestFirst:
  "representable (ses_CreatedAt a) \<Longrightarrow> representable (ses_CreatedAt b) \<Longrightarrow>
   (UnixNano (ses_CreatedAt b) < UnixNano (ses_CreatedAt a)
     \<or> UnixNano (ses_CreatedAt b) = UnixNano (ses_CreatedAt a) \<and> ses_ID b < ses_ID a)
   \<longleftrightarrow> newestFirst a b"
  by (auto simp: newestFirst_def UnixNano_representable)

interpretation sessions: paged_listing sessionListingOk sessionRows "\<lambda>(m, ws, q). sq_Limit q"
  sessionCursor sessionPage pageOf
proof unfold_locales
  fix i n
  assume "sessionListingOk i"
  then obtain m ws q where i: "i = (m, ws, q)" and ws: "ws \<noteq> ''''" and inv: "store_inv m"
    and rep: "\<And>s. s \<in> set (listedSessions m ws (sq_IncludeTerminal q)) \<Longrightarrow> representable (ses_CreatedAt s)"
    by (auto simp: sessionListingOk_def)
  show "sessionPage i '''' = Inr (pageOf (sessionRows i) (case i of (m, ws, q) \<Rightarrow> sq_Limit q) sessionCursor)"
    using i ws by (simp add: sessionPage_def sessionRows_def memSessions_ListSessions_def sessionCursor_def
        [abs_def] Let_def)
  assume n: "n < length (sessionRows i)"
  let ?rows = "sessionRows i"
  have rows: "?rows = sortSessionsNewestFirst (listedSessions m ws (sq_IncludeTerminal q))"
    using i by (simp add: sessionRows_def)
  have rep': "representable (ses_CreatedAt s)" if "s \<in> set ?rows" for s
    using that rep rows by (simp add: sortSessionsNewestFirst_def)
  have "dropWhile (\<lambda>s. \<not> (UnixNano (ses_CreatedAt s) < UnixNano (ses_CreatedAt (?rows ! n))
      \<or> UnixNano (ses_CreatedAt s) = UnixNano (ses_CreatedAt (?rows ! n)) \<and> ses_ID s < ses_ID (?rows ! n))) ?rows
    = dropWhile (\<lambda>s. \<not> newestFirst (?rows ! n) s) ?rows"
    by (rule dropWhile_cong) (use rep' n nano_newestFirst in auto)
  also have "\<dots> = drop (Suc n) ?rows"
    using sorted_sessionRows [OF inv] n unfolding rows by (rule dropWhile_sorted [OF weak_newestFirst])
  finally show "sessionPage i (sessionCursor (?rows ! n))
      = Inr (pageOf (drop (Suc n) ?rows) (case i of (m, ws, q) \<Rightarrow> sq_Limit q) sessionCursor)"
    using i ws rows by (simp add: sessionPage_def memSessions_ListSessions_def sessionCursor_def [abs_def]
        Let_def sessionRows_def)
qed (rule pageOf_cut, assumption, simp add: sessionCursor_def)

section \<open>Environments\<close>

lemma weak_environmentLess: "weak_order environmentLess"
  unfolding weak_order_def environmentLess_def by (auto split: if_splits)

lemma environmentLess_total: "\<not> environmentLess a b \<Longrightarrow> \<not> environmentLess b a \<Longrightarrow> env_ID a = env_ID b"
  by (auto simp: environmentLess_def split: if_splits)

definition listedEnvironments :: "memStore \<Rightarrow> wsid \<Rightarrow> Environment list" where
  "listedEnvironments m ws = rows_where (\<lambda>k e. fst k = ws) (ms_environments m)"

lemma distinct_listedEnvironments:
  assumes "store_inv m"
  shows "distinct (map env_ID (listedEnvironments m ws))"
  unfolding listedEnvironments_def
proof (rule distinct_rows_where [where h = "\<lambda>eid. (ws, eid)"])
  show d: "distinct (map fst (ms_environments m))"
    by (rule table_ok_distinct [OF inv_environments [OF assms]])
  show "k = (ws, env_ID e)" if "(k, e) \<in> set (ms_environments m)" "fst k = ws" for k e
    using that inv_environment_row [OF assms, of "fst k" "snd k" e] set_alist_iff [OF d, of k e]
    by (cases k) auto
qed

lemma sorted_environmentRows:
  "store_inv m \<Longrightarrow> sorted_wrt environmentLess (sortSlice environmentLess (listedEnvironments m ws))"
  by (rule strict_sorted [OF weak_environmentLess distinct_listedEnvironments])
     (auto dest: environmentLess_total)

type_synonym environment_listing = "memStore \<times> wsid \<times> EnvironmentQuery"

definition environmentRows :: "environment_listing \<Rightarrow> Environment list" where
  "environmentRows = (\<lambda>(m, ws, q). sortSlice environmentLess (listedEnvironments m ws))"

definition environmentPage :: "environment_listing \<Rightarrow> string \<Rightarrow> err + (Environment list \<times> string)" where
  "environmentPage = (\<lambda>(m, ws, q) cursor. memEnvironments_ListEnvironments m ws (q\<lparr>eq_Cursor := cursor\<rparr>))"

definition environmentCursor :: "Environment \<Rightarrow> string" where
  "environmentCursor e = encodeEnvCursor (env_Name e) (env_ID e)"

text \<open>Environment identities are \<^verbatim>\<open>env_\<close> and hexadecimal digits, so they have no bar.\<close>

definition environmentListingOk :: "environment_listing \<Rightarrow> bool" where
  "environmentListingOk = (\<lambda>(m, ws, q). store_inv m \<and> ws \<noteq> ''''
     \<and> (\<forall>e \<in> set (listedEnvironments m ws). CHR ''|'' \<notin> set (env_ID e)))"

interpretation environments: paged_listing environmentListingOk environmentRows
  "\<lambda>(m, ws, q). eq_Limit q" environmentCursor environmentPage pageOf
proof unfold_locales
  fix i n
  assume "environmentListingOk i"
  then obtain m ws q where i: "i = (m, ws, q)" and ws: "ws \<noteq> ''''" and inv: "store_inv m"
    and bar: "\<And>e. e \<in> set (listedEnvironments m ws) \<Longrightarrow> CHR ''|'' \<notin> set (env_ID e)"
    by (auto simp: environmentListingOk_def)
  show "environmentPage i '''' = Inr (pageOf (environmentRows i) (case i of (m, ws, q) \<Rightarrow> eq_Limit q) environmentCursor)"
    using i ws by (simp add: environmentPage_def environmentRows_def memEnvironments_ListEnvironments_def
        environmentCursor_def [abs_def] listedEnvironments_def Let_def)
  assume n: "n < length (environmentRows i)"
  let ?rows = "environmentRows i"
  have rows: "?rows = sortSlice environmentLess (listedEnvironments m ws)"
    using i by (simp add: environmentRows_def)
  have decode: "decodeEnvCursor (encodeEnvCursor (env_Name (?rows ! n)) (env_ID (?rows ! n)))
      = Some (env_Name (?rows ! n), env_ID (?rows ! n))"
    using n rows bar nth_mem [OF n] by (intro decode_encode_env_cursor) simp
  have "(\<lambda>e. \<not> (env_Name e > env_Name (?rows ! n)
      \<or> env_Name e = env_Name (?rows ! n) \<and> env_ID e > env_ID (?rows ! n)))
    = (\<lambda>e. \<not> environmentLess (?rows ! n) e)"
    by (auto simp: environmentLess_def)
  moreover have "dropWhile (\<lambda>e. \<not> environmentLess (?rows ! n) e) ?rows = drop (Suc n) ?rows"
    using sorted_environmentRows [OF inv] n unfolding rows by (rule dropWhile_sorted [OF weak_environmentLess])
  ultimately show "environmentPage i (environmentCursor (?rows ! n))
      = Inr (pageOf (drop (Suc n) ?rows) (case i of (m, ws, q) \<Rightarrow> eq_Limit q) environmentCursor)"
    using i ws rows decode by (simp add: environmentPage_def memEnvironments_ListEnvironments_def
        environmentCursor_def [abs_def] Let_def environmentRows_def listedEnvironments_def)
qed (rule pageOf_cut, assumption, simp add: environmentCursor_def)

end
