(* ===== verification/Samples.thy ===== *)
theory Samples
  imports StoreTrace
begin

text \<open>
  Concrete rows and operations: the inputs at which the witnesses of the properties evaluate
  the model.
\<close>

definition sampleSpec :: PortableSpec where
  "sampleSpec = \<lparr>spec_Image = ''img'', spec_Cmd = Some [''sh''], spec_EgressAllow = None, spec_Repos = None\<rparr>"

definition sampleSession :: "sessionid \<Rightarrow> string \<Rightarrow> Session" where
  "sampleSession sid key =
     \<lparr>ses_ID = sid, ses_WorkspaceID = installWorkspace, ses_CreatorID = ''alice'', ses_Name = '''',
      ses_State = StateQueued, ses_EnvironmentID = '''', ses_Spec = sampleSpec, ses_SetupHash = '''',
      ses_PoolID = ''pool'', ses_RunnerID = '''', ses_PlacementGeneration = 0,
      ses_ControllerGeneration = 0, ses_ControllerHolder = '''',
      ses_ControllerLeaseExpiresAt = zero_time, ses_IdempotencyKey = key, ses_ChildExitCode = None,
      ses_Error = '''', ses_CreatedAt = zero_time, ses_UpdatedAt = zero_time,
      ses_LastEventAt = zero_time\<rparr>"

definition sampleStore :: memStore where
  "sampleStore = fst (memSessions_CreateSession NewMemStore 5 installWorkspace (sampleSession ''s1'' ''k1''))"

definition sampleLease :: "u64 \<Rightarrow> string \<Rightarrow> ControllerLease" where
  "sampleLease g h = \<lparr>lease_Generation = g, lease_Holder = h, lease_ExpiresAt = 40\<rparr>"

definition placeOn :: "runnerid \<Rightarrow> u64 option \<Rightarrow> TransitionOpts" where
  "placeOn rid g = noOpts\<lparr>opt_RunnerID := Some rid, opt_ExpectedPlacementGeneration := g\<rparr>"

definition sampleTrace :: "(time \<times> store_op) list" where
  "sampleTrace =
     [(6, OpNextControllerGeneration installWorkspace ''s1''),
      (7, OpRenewControllerLease installWorkspace ''s1'' (sampleLease 1 ''h1'')),
      (8, OpTransition installWorkspace ''s1'' [StateQueued] StateCreating (placeOn ''r1'' (Some 1))),
      (9, OpCompareAndAdvanceControllerGeneration installWorkspace ''s1'' 1),
      (10, OpRenewControllerLease installWorkspace ''s1'' (sampleLease 2 ''h2'')),
      (11, OpTransition installWorkspace ''s1'' [StateCreating] StateRunning
             (noOpts\<lparr>opt_ExpectedPlacementGeneration := Some 2\<rparr>))]"

end
