(* ===== verification/StoreProps.thy ===== *)
theory StoreProps
  imports Exclusion Paging Samples
begin

text \<open>
  What the in-memory store promises its callers: the invariant of every reachable store, the
  counters and tokens of the interleaved traces, durable identities (a replayed creation
  finds its row however much has happened since), and the compare-and-swap of the
  session state machine.
\<close>

section \<open>Rows keep their identity\<close>

definition same_identity :: "Session \<Rightarrow> Session \<Rightarrow> bool" where
  "same_identity s s' \<longleftrightarrow> ses_ID s' = ses_ID s \<and> ses_WorkspaceID s' = ses_WorkspaceID s
     \<and> ses_CreatorID s' = ses_CreatorID s \<and> ses_IdempotencyKey s' = ses_IdempotencyKey s
     \<and> ses_Name s' = ses_Name s \<and> ses_EnvironmentID s' = ses_EnvironmentID s
     \<and> ses_PoolID s' = ses_PoolID s \<and> ses_CreatedAt s' = ses_CreatedAt s"

definition kept_as :: "memStore \<Rightarrow> wsid \<Rightarrow> sessionid \<Rightarrow> Session \<Rightarrow> bool" where
  "kept_as m ws sid s \<longleftrightarrow> (\<exists>s'. sessionAt m ws sid = Some s' \<and> same_identity s s')"

lemma same_identity_trans: "same_identity a b \<Longrightarrow> same_identity b c \<Longrightarrow> same_identity a c"
  by (simp add: same_identity_def)

lemma kept_put:
  assumes "kept_as m ws sid s"
    and "\<And>t. sessionAt m ws' sid' = Some t \<Longrightarrow> same_identity t t'"
  shows "kept_as (putSession m ws' sid' t') ws sid s"
proof (cases "(ws', sid') = (ws, sid)")
  case True
  with assms show ?thesis
    using same_identity_trans by (auto simp: kept_as_def)
next
  case False
  then have "(ws, sid) \<noteq> (ws', sid')" by metis
  with assms(1) show ?thesis by (auto simp: kept_as_def)
qed

lemma kept_step:
  assumes "kept_as m ws sid s" and "admissible m (now, op)"
  shows "kept_as (fst (store_step m (now, op))) ws sid s"
proof (cases "on_sessions op")
  case False
  with assms(1) show ?thesis by (simp add: kept_as_def sessions_frame)
next
  case True
  note put = kept_put [OF assms(1)]
  show ?thesis
    using True assms
    by (cases op)
       (auto simp: session_op_defs Let_def split: option.split
         intro!: put simp: same_identity_def)
qed

text \<open>The store after a sequence of operations.\<close>

definition after :: "memStore \<Rightarrow> (time \<times> store_op) list \<Rightarrow> memStore" where
  "after m ops = foldl (\<lambda>m op. fst (store_step m op)) m ops"

lemma after_simps [simp]:
  "after m [] = m"
  "after m (op # ops) = after (fst (store_step m op)) ops"
  by (simp_all add: after_def)

lemma kept_after:
  assumes "kept_as m ws sid s" and "along admissible (trace store_step m ops)"
  shows "kept_as (after m ops) ws sid s"
  using assms
proof (induction ops arbitrary: m)
  case Nil
  then show ?case by simp
next
  case (Cons op ops)
  then show ?case
    using kept_step [of m ws sid s "fst op" "snd op"] by (simp add: case_prod_beta)
qed

lemma inv_after:
  assumes "store_inv m" and "along admissible (trace store_step m ops)"
  shows "store_inv (after m ops)"
  using assms
proof (induction ops arbitrary: m)
  case Nil
  then show ?case by simp
next
  case (Cons op ops)
  then show ?case
    using store_inv_step [of m "fst op" "snd op"] by (simp add: case_prod_beta)
qed

lemma sessionByIdem_found:
  assumes "store_inv m" and "sessionAt m ws sid = Some s"
    and "ses_CreatorID s = creator" and "ses_IdempotencyKey s = key" and "key \<noteq> ''''"
  shows "sessionByIdem m ws creator key = Some s"
proof -
  have "sessionByIdem m ws creator key \<noteq> None"
    using sessionByIdem_None [OF _ assms(5,2) _ assms(3)] assms(4) by auto
  then obtain v where v: "sessionByIdem m ws creator key = Some v" by blast
  then have fw: "first_where (\<lambda>k s. fst k = ws \<and> ses_CreatorID s = creator \<and> ses_IdempotencyKey s = key)
      (ms_sessions m) = Some v"
    using assms(5) by (simp add: sessionByIdem_def)
  obtain k where k: "map_of (ms_sessions m) k = Some v"
    and eq: "fst k = ws \<and> ses_CreatorID v = creator \<and> ses_IdempotencyKey v = key"
    by (rule first_where_map_of [OF table_ok_distinct [OF inv_sessions [OF assms(1)]] fw])
  have "k = (ws, sid)"
    using table_ok_unique [OF inv_sessions [OF assms(1)] k assms(2)] eq assms(3-)
    by (simp add: idem_index_def)
  with k v assms(2) show ?thesis by simp
qed

lemma created_kept:
  assumes "memSessions_CreateSession m now ws s = (m', Inr row)" and "store_inv m"
  shows "kept_as m' ws (ses_ID row) row \<and> ses_CreatorID row = ses_CreatorID s
    \<and> ses_IdempotencyKey row = ses_IdempotencyKey s \<and> ws \<noteq> '''' \<and> ws \<in> ms_workspaces m'"
proof (cases "ses_IdempotencyKey s \<noteq> '''' \<and> sessionByIdem m ws (ses_CreatorID s) (ses_IdempotencyKey s) \<noteq> None")
  case False
  with assms(1) show ?thesis
    by (auto simp: memSessions_CreateSession_def kept_as_def same_identity_def
        split: if_splits option.splits)
next
  case True
  then obtain v where v: "sessionByIdem m ws (ses_CreatorID s) (ses_IdempotencyKey s) = Some v" by blast
  then have fw: "first_where (\<lambda>k t. fst k = ws \<and> ses_CreatorID t = ses_CreatorID s
      \<and> ses_IdempotencyKey t = ses_IdempotencyKey s) (ms_sessions m) = Some v"
    by (simp add: sessionByIdem_def split: if_splits)
  obtain k where k: "map_of (ms_sessions m) k = Some v" and eq: "fst k = ws
      \<and> ses_CreatorID v = ses_CreatorID s \<and> ses_IdempotencyKey v = ses_IdempotencyKey s"
    by (rule first_where_map_of [OF table_ok_distinct [OF inv_sessions [OF assms(2)]] fw])
  have "k = (ws, ses_ID v)"
    using inv_session_row [OF assms(2), of "fst k" "snd k" v] k eq by (cases k) auto
  with assms(1) True v k eq show ?thesis
    by (auto simp: memSessions_CreateSession_def kept_as_def same_identity_def split: if_splits)
qed

text \<open>No operation closes a workspace.\<close>

lemma workspaces_step: "ms_workspaces m \<subseteq> ms_workspaces (fst (store_step m (now, op)))"
  by (cases op) (auto simp: store_op_defs Let_def split: option.split)

lemma workspaces_after: "ms_workspaces m \<subseteq> ms_workspaces (after m ops)"
proof (induction ops arbitrary: m)
  case Nil
  then show ?case by simp
next
  case (Cons op ops)
  then show ?case using workspaces_step [of m "fst op" "snd op"] by force
qed

section \<open>Placement generations fence transitions\<close>

definition placementGen :: "wsid \<Rightarrow> sessionid \<Rightarrow> memStore \<Rightarrow> u64" where
  "placementGen ws sid m = (case sessionAt m ws sid of None \<Rightarrow> 0 | Some s \<Rightarrow> ses_PlacementGeneration s)"

text \<open>The transition names a runner: it places the session.\<close>

definition places :: "TransitionOpts \<Rightarrow> bool" where
  "places opts \<longleftrightarrow> (case opt_RunnerID opts of None \<Rightarrow> False | Some rid \<Rightarrow> rid \<noteq> '''')"

text \<open>The operation is an accepted transition of this session, with these options.\<close>

fun moved :: "wsid \<Rightarrow> sessionid \<Rightarrow> time \<times> store_op \<Rightarrow> outcome \<Rightarrow> TransitionOpts option" where
  "moved ws sid (now, OpTransition ws' sid' from to opts) Done =
     (if ws' = ws \<and> sid' = sid then Some opts else None)"
| "moved ws sid _ _ = None"

lemma Transition_accepted:
  "snd (memSessions_Transition m now ws sid from to opts) = None \<longleftrightarrow>
   ws \<noteq> '''' \<and> (\<exists>s. sessionAt m ws sid = Some s \<and> ses_State s \<in> set from
     \<and> opt_ExpectedPlacementGeneration opts \<in> {None, Some (ses_PlacementGeneration s)})"
  by (auto simp: memSessions_Transition_def Let_def split: option.splits)

lemma Transition_row:
  assumes "memSessions_Transition m now ws sid from to opts = (m', None)"
    and "sessionAt m ws sid = Some s"
  shows "\<exists>s'. m' = putSession m ws sid s' \<and> ses_State s' = to
    \<and> ses_RunnerID s' = (case opt_RunnerID opts of None \<Rightarrow> ses_RunnerID s | Some r \<Rightarrow> r)
    \<and> ses_PlacementGeneration s' = ses_PlacementGeneration s + (if places opts then 1 else 0)
    \<and> ses_Error s' = (case opt_Error opts of None \<Rightarrow> ses_Error s | Some e \<Rightarrow> e)
    \<and> ses_Spec s' = (case opt_Image opts of None \<Rightarrow> ses_Spec s
        | Some i \<Rightarrow> (ses_Spec s)\<lparr>spec_Image := i\<rparr>)
    \<and> ses_LastEventAt s' = now \<and> same_identity s s' \<and> ControllerLeaseOf s' = ControllerLeaseOf s"
  using assms
  by (cases "opt_RunnerID opts"; cases "opt_Error opts"; cases "opt_Image opts")
     (auto simp: memSessions_Transition_def Let_def places_def same_identity_def ControllerLeaseOf_def
       split: if_splits)

lemma Transition_refused:
  "memSessions_Transition m now ws sid from to opts = (m', Some e) \<Longrightarrow>
   m' = m \<and> e = (if ws = '''' then ErrInvalid
     else case sessionAt m ws sid of None \<Rightarrow> ErrNotFound | Some _ \<Rightarrow> ErrConflict)"
  by (auto simp: memSessions_Transition_def Let_def split: option.splits if_splits)

definition placementOk :: "wsid \<Rightarrow> sessionid \<Rightarrow> memStore \<Rightarrow> time \<times> store_op \<Rightarrow> bool" where
  "placementOk ws sid m op \<longleftrightarrow> admissible m op \<and> placementGen ws sid m \<noteq> - 1"

lemma placementGen_put:
  "placementGen ws sid (putSession m ws' sid' t) =
    (if (ws', sid') = (ws, sid) then ses_PlacementGeneration t else placementGen ws sid m)"
  by (auto simp: placementGen_def)

lemma placementGen_Transition:
  assumes "store_step m (now, OpTransition ws' sid' from to opts) = (m', r)"
  shows "placementGen ws sid m' = placementGen ws sid m +
    (if moved ws sid (now, OpTransition ws' sid' from to opts) r = Some opts \<and> places opts then 1 else 0)"
proof -
  let ?t = "memSessions_Transition m now ws' sid' from to opts"
  from assms have m': "m' = fst ?t" and r: "r = (case snd ?t of None \<Rightarrow> Done | Some e \<Rightarrow> Failed e)"
    by (simp_all add: ofError_def)
  show ?thesis
  proof (cases "snd ?t")
    case (Some e)
    then have "m' = m" using Transition_refused [of m now ws' sid' "from" to opts] m' by (metis prod.collapse)
    with Some r show ?thesis by simp
  next
    case None
    then obtain s where s: "sessionAt m ws' sid' = Some s" using Transition_accepted by blast
    have "?t = (m', None)" using None m' by (metis prod.collapse)
    from Transition_row [OF this s] s None r show ?thesis
      by (auto simp: placementGen_put) (simp_all add: placementGen_def)
  qed
qed

lemma placementGen_step:
  assumes "placementOk ws sid m (now, op)" and "store_step m (now, op) = (m', r)"
  shows "placementGen ws sid m \<le> placementGen ws sid m'
    \<and> (case moved ws sid (now, op) r of None \<Rightarrow> True | Some opts \<Rightarrow>
         opt_ExpectedPlacementGeneration opts \<in> {None, Some (placementGen ws sid m)}
         \<and> (places opts \<longrightarrow> placementGen ws sid m < placementGen ws sid m'))"
proof (cases "on_sessions op")
  case False
  then have "moved ws sid (now, op) r = None" by (cases op) simp_all
  moreover have "ms_sessions m' = ms_sessions m" using sessions_frame [OF False, of m now] assms(2) by simp
  ultimately show ?thesis by (simp add: placementGen_def)
next
  case True
  have up: "placementGen ws sid m < placementGen ws sid m + 1"
    using assms(1) by (simp add: placementOk_def u64_succ_gt)
  show ?thesis
  proof (cases op)
    case (OpTransition ws' sid' f t os)
    have "opt_ExpectedPlacementGeneration os \<in> {None, Some (placementGen ws sid m)}"
      if "moved ws sid (now, op) r = Some os"
      using that assms(2) Transition_accepted [of m now ws' sid' f t os] OpTransition
      by (auto simp: ofError_def placementGen_def split: option.splits if_splits)
    moreover have "moved ws sid (now, op) r \<in> {None, Some os}"
      using OpTransition by (cases r) auto
    ultimately show ?thesis
      using placementGen_Transition [of m now ws' sid' f t os m' r ws sid] OpTransition assms(2) up
      by auto
  qed (use True assms in \<open>auto simp: placementGen_def session_op_defs placementOk_def ofRow_def
      ofError_def ofCounter_def Let_def split: option.splits if_splits\<close>)
qed

text \<open>Accepted transitions that name the generation they expect.\<close>

definition fenced :: "TransitionOpts \<Rightarrow> TransitionOpts \<Rightarrow> bool" where
  "fenced o1 o2 \<longleftrightarrow>
     (case (opt_ExpectedPlacementGeneration o1, opt_ExpectedPlacementGeneration o2) of
        (Some g1, Some g2) \<Rightarrow> g1 \<le> g2 \<and> (places o1 \<longrightarrow> g1 < g2)
      | _ \<Rightarrow> True)"

definition fence_fact :: "wsid \<Rightarrow> sessionid \<Rightarrow> time \<times> store_op \<Rightarrow> outcome \<Rightarrow> memStore \<Rightarrow> bool" where
  "fence_fact ws sid op r m \<longleftrightarrow>
     (case moved ws sid op r of None \<Rightarrow> True | Some opts \<Rightarrow>
       (case opt_ExpectedPlacementGeneration opts of None \<Rightarrow> True
        | Some g \<Rightarrow> g \<le> placementGen ws sid m \<and> (places opts \<longrightarrow> g < placementGen ws sid m)))"

definition fence_rel ::
    "wsid \<Rightarrow> sessionid \<Rightarrow> time \<times> store_op \<Rightarrow> outcome \<Rightarrow> time \<times> store_op \<Rightarrow> outcome \<Rightarrow> bool" where
  "fence_rel ws sid op r op' r' \<longleftrightarrow>
     (case (moved ws sid op r, moved ws sid op' r') of (Some o1, Some o2) \<Rightarrow> fenced o1 o2 | _ \<Rightarrow> True)"

interpretation fence: trace_pairs store_step "placementOk ws sid" "fence_fact ws sid"
  "fence_rel ws sid" for ws sid
proof unfold_locales
  fix s s' :: memStore and op op' :: "time \<times> store_op" and r r'
  note step = placementGen_step [of ws sid s "fst op" "snd op" s' r, unfolded prod.collapse]
  note step' = placementGen_step [of ws sid s "fst op'" "snd op'" s' r', unfolded prod.collapse]
  show "fence_fact ws sid op r s'" if "placementOk ws sid s op" "store_step s op = (s', r)"
    using step [OF that] by (auto simp: fence_fact_def split: option.splits)
  assume fact: "fence_fact ws sid op r s" and ok: "placementOk ws sid s op'"
    and st: "store_step s op' = (s', r')"
  show "fence_fact ws sid op r s'"
    using fact step' [OF ok st] by (fastforce simp: fence_fact_def split: option.splits)
  show "fence_rel ws sid op r op' r'"
    using fact step' [OF ok st]
    by (auto simp: fence_fact_def fence_rel_def fenced_def split: option.splits)
qed

section \<open>Properties\<close>

text \<open>C38. Every store reached from an empty one by admissible operations satisfies the store
  invariant: table keys match the identities of their rows, no two sessions of a workspace
  and creator share an idempotency key, no two environments of a workspace share a name, a
  recorded snapshot names its holder, event identities are unique, runner capacity accounts
  are consistent, a revoked agent credential keeps no ciphertext and its fence never passes
  its version. In particular the user upsert never dereferences a dangling index.\<close>

theorem reachable_store_ok:
  assumes "store_reachable m"
  shows "store_inv m \<and> memStore_UpsertUser m now uid gh login role \<noteq> None"
  using reachable_inv [OF assms] UpsertUser_no_panic by blast

theorem reachable_store_ok_witness:
  "store_reachable sampleStore \<and> store_inv sampleStore
   \<and> memStore_UpsertUser sampleStore 9 ''u1'' 7 ''a'' ''member'' \<noteq> None"
proof -
  have "store_step NewMemStore (5, OpCreateSession installWorkspace (sampleSession ''s1'' ''k1''))
      = (sampleStore, Done)"
    by (simp add: sampleStore_def ofRow_def memSessions_CreateSession_def sessionByIdem_def
        NewMemStore_def sampleSession_def installWorkspace_def)
  from store_reachable.step [OF store_reachable.init _ this] have "store_reachable sampleStore"
    by (simp add: NewMemStore_def)
  then show ?thesis using reachable_store_ok [of sampleStore 9 "''u1''" 7 "''a''" "''member''"] by blast
qed

text \<open>In every interleaving of store operations, the controller generations granted to one
  session are strictly increasing, so no generation is ever granted twice, as long as
  sessions are inserted under fresh identities and the 64-bit counter has not run out.\<close>

theorem controller_generations_issued_once:
  assumes "along (controllerOk ws sid) (trace store_step m ops)"
  shows "sorted_wrt (<) (grants (controllerIssued ws sid) (trace store_step m ops))"
  using assms by (rule controller.grants_increase)

theorem controller_generations_issued_once_witness:
  "grants (controllerIssued installWorkspace ''s1'') (trace store_step sampleStore sampleTrace) = [1, 2]
   \<and> sorted_wrt (<) (grants (controllerIssued installWorkspace ''s1'') (trace store_step sampleStore sampleTrace))"
proof -
  have "along (controllerOk installWorkspace ''s1'') (trace store_step sampleStore sampleTrace)"
    by code_simp
  from controller_generations_issued_once [OF this] show ?thesis by (intro conjI) code_simp
qed

text \<open>C8. Of two lease renewals of one session that the store accepts, the later never carries
  a smaller controller generation, and two renewals of the same generation come from the
  same holder: within a generation input belongs to one holder, in every interleaving.\<close>

theorem lease_single_holder:
  assumes "along (controllerOk ws sid) (trace store_step m ops)"
  shows "sorted_wrt (\<lambda>(_, op, r, _) (_, op', r', _). same_holder ws sid op r op' r')
    (trace store_step m ops)"
  using assms by (rule lease.pairwise)

theorem lease_single_holder_witness:
  "map (\<lambda>(_, op, r, _). map_option lease_Holder (renewed installWorkspace ''s1'' op r))
     (trace store_step sampleStore sampleTrace) = [None, Some ''h1'', None, None, Some ''h2'', None]
   \<and> sorted_wrt (\<lambda>(_, op, r, _) (_, op', r', _). same_holder installWorkspace ''s1'' op r op' r')
     (trace store_step sampleStore sampleTrace)"
proof -
  have "along (controllerOk installWorkspace ''s1'') (trace store_step sampleStore sampleTrace)"
    by code_simp
  from lease_single_holder [OF this] show ?thesis by (intro conjI) code_simp
qed

text \<open>C28. Placement generations fence state transitions: of two accepted transitions of one
  session that state the placement generation they expect, the later never expects an
  older one, and after one that placed the session on a runner every later one expects a
  strictly newer generation. A command that still acts for an earlier placement is refused.\<close>

theorem placement_generation_fences:
  assumes "along (placementOk ws sid) (trace store_step m ops)"
  shows "sorted_wrt (\<lambda>(_, op, r, _) (_, op', r', _). fence_rel ws sid op r op' r')
    (trace store_step m ops)"
  using assms by (rule fence.pairwise)

theorem placement_generation_fences_witness:
  "map (\<lambda>(_, op, r, _). map_option opt_ExpectedPlacementGeneration (moved installWorkspace ''s1'' op r))
     (trace store_step sampleStore sampleTrace)
     = [None, None, Some (Some 1), None, None, Some (Some 2)]
   \<and> sorted_wrt (\<lambda>(_, op, r, _) (_, op', r', _). fence_rel installWorkspace ''s1'' op r op' r')
     (trace store_step sampleStore sampleTrace)"
proof -
  have "along (placementOk installWorkspace ''s1'') (trace store_step sampleStore sampleTrace)"
    by code_simp
  from placement_generation_fences [OF this] show ?thesis by (intro conjI) code_simp
qed

text \<open>Bootstrap tokens are single use. In a stretch of any interleaving with no new mint for
  a session, at most one redemption succeeds; and one redemption succeeds exactly when the
  stored record has the presented hash and placement generation, has not expired and has
  not been spent.\<close>

theorem bootstrap_spent_once:
  assumes "along (\<lambda>m op. \<not> mints ws sid op) (trace store_step m ops)"
  shows "sorted_wrt (\<lambda>(_, op, r, _) (_, op', r', _). \<not> (spends ws sid op r \<and> spends ws sid op' r'))
      (trace store_step m ops)
    \<and> (snd (memBootstraps_ConsumeSessionBootstrap m ws sid hash gen now) = None \<longleftrightarrow>
        ws \<noteq> '''' \<and> sid \<noteq> '''' \<and> hash \<noteq> '''' \<and> (\<exists>row. ms_bootstraps m (ws, sid) = Some row
          \<and> btr_hash row = hash \<and> btr_gen row = gen \<and> now < btr_expiresAt row \<and> \<not> btr_spent row))"
  using token.pairwise [OF assms]
  by (auto simp: memBootstraps_ConsumeSessionBootstrap_def split: option.splits)

theorem bootstrap_spent_once_witness:
  "let m = fst (memBootstraps_PutSessionBootstrap NewMemStore ''w'' ''s''
             \<lparr>bs_Hash = ''h'', bs_PlacementGeneration = 2, bs_ExpiresAt = 100\<rparr>);
       ops = [(50, OpConsumeSessionBootstrap ''w'' ''s'' ''h'' 2), (51, OpConsumeSessionBootstrap ''w'' ''s'' ''h'' 2)]
   in map (\<lambda>(_, op, r, _). r) (trace store_step m ops) = [Done, Failed ErrBootstrapSpent]
      \<and> sorted_wrt (\<lambda>(_, op, r, _) (_, op', r', _). \<not> (spends ''w'' ''s'' op r \<and> spends ''w'' ''s'' op' r'))
          (trace store_step m ops)"
proof -
  let ?m = "fst (memBootstraps_PutSessionBootstrap NewMemStore ''w'' ''s''
             \<lparr>bs_Hash = ''h'', bs_PlacementGeneration = 2, bs_ExpiresAt = 100\<rparr>)"
  let ?ops = "[(50, OpConsumeSessionBootstrap ''w'' ''s'' ''h'' 2), (51, OpConsumeSessionBootstrap ''w'' ''s'' ''h'' 2)]"
  have "along (\<lambda>m op. \<not> mints ''w'' ''s'' op) (trace store_step ?m ?ops)" by code_simp
  note bootstrap_spent_once [OF this, of "''h''" 2 50]
  moreover have "map (\<lambda>(_, op, r, _). r) (trace store_step ?m ?ops) = [Done, Failed ErrBootstrapSpent]"
    by code_simp
  ultimately show ?thesis unfolding Let_def by blast
qed

text \<open>Runner generations: the generations a runner is issued are strictly increasing in
  every interleaving, and a registration write carrying a generation older than the
  runner's stored one is refused and changes nothing.\<close>

theorem runner_generation_fences:
  assumes "along (runnerOk pool rid) (trace store_step m ops)"
  shows "sorted_wrt (<) (grants (runnerIssued pool rid) (trace store_step m ops))
    \<and> (run_Generation run < runnerGen pool (run_ID run) m
        \<longrightarrow> fst (memFleet_UpsertRunner m pool run) = m
          \<and> snd (memFleet_UpsertRunner m pool run) \<in> {Some ErrInvalid, Some ErrStale})"
  using runner.grants_increase [OF assms]
  by (auto simp: memFleet_UpsertRunner_def runnerGen_def ValidateCapacityPlacements_def
      split: option.splits if_splits)

theorem runner_generation_fences_witness:
  "let ops = [(1, OpNextRunnerGeneration ''p'' ''r''), (2, OpNextRunnerGeneration ''p'' ''r''),
              (3, OpUpsertRunner ''p'' ((newRunner ''r'' ''p'')\<lparr>run_Generation := 1\<rparr>))]
   in map (\<lambda>(_, op, r, _). r) (trace store_step NewMemStore ops) = [Issued 1, Issued 2, Failed ErrStale]
      \<and> sorted_wrt (<) (grants (runnerIssued ''p'' ''r'') (trace store_step NewMemStore ops))"
proof -
  let ?ops = "[(1, OpNextRunnerGeneration ''p'' ''r''), (2, OpNextRunnerGeneration ''p'' ''r''),
              (3, OpUpsertRunner ''p'' ((newRunner ''r'' ''p'')\<lparr>run_Generation := 1\<rparr>))]"
  have "along (runnerOk ''p'' ''r'') (trace store_step NewMemStore ?ops)" by code_simp
  note runner_generation_fences [OF this]
  moreover have "map (\<lambda>(_, op, r, _). r) (trace store_step NewMemStore ?ops) = [Issued 1, Issued 2, Failed ErrStale]"
    by code_simp
  ultimately show ?thesis unfolding Let_def by blast
qed

text \<open>Agent credential versions: puts and revocations of one credential are issued strictly
  increasing versions in every interleaving, and a revocation conditional on a version older
  than the last revocation is refused and changes nothing.\<close>

theorem agent_versions_issued_once:
  assumes "along (agentOk uid p) (trace store_step m ops)"
  shows "sorted_wrt (<) (grants (agentIssued uid p) (trace store_step m ops))
    \<and> (\<forall>c e now. map_of (ms_agentCredentials m) (uid, p) = Some c \<longrightarrow> e < agc_LastRevokedVersion c
        \<longrightarrow> fst (memStore_ConditionalRevokeAgentCredential m now uid p e) = m
          \<and> snd (memStore_ConditionalRevokeAgentCredential m now uid p e) \<in> {Inl ErrInvalid, Inl ErrConflict})"
  using agent.grants_increase [OF assms]
  by (auto simp: memStore_ConditionalRevokeAgentCredential_def memStore_revokeAgentCredential_def)

definition sampleAgentCredential :: "u64 \<Rightarrow> AgentCredential" where
  "sampleAgentCredential v = \<lparr>agc_UserID = ''u'', agc_Provider = ''p'', agc_Ciphertext = Some ''c'',
     agc_Nonce = Some ''n'', agc_Version = v, agc_Revoked = False, agc_LastRevokedVersion = 0,
     agc_UpdatedAt = zero_time\<rparr>"

theorem agent_versions_issued_once_witness:
  "let ops = [(1, OpPutAgentCredential (sampleAgentCredential 1)), (2, OpRevokeAgentCredential ''u'' ''p''),
              (3, OpConditionalRevokeAgentCredential ''u'' ''p'' 1),
              (4, OpPutAgentCredential (sampleAgentCredential 2)),
              (5, OpPutAgentCredential (sampleAgentCredential 3))]
   in map (\<lambda>(_, op, r, _). r) (trace store_step NewMemStore ops)
        = [Issued 1, Issued 2, Failed ErrConflict, Failed ErrConflict, Issued 3]
      \<and> sorted_wrt (<) (grants (agentIssued ''u'' ''p'') (trace store_step NewMemStore ops))"
proof -
  let ?ops = "[(1, OpPutAgentCredential (sampleAgentCredential 1)), (2, OpRevokeAgentCredential ''u'' ''p''),
              (3, OpConditionalRevokeAgentCredential ''u'' ''p'' 1),
              (4, OpPutAgentCredential (sampleAgentCredential 2)),
              (5, OpPutAgentCredential (sampleAgentCredential 3))]"
  have "along (agentOk ''u'' ''p'') (trace store_step NewMemStore ?ops)" by code_simp
  note agent_versions_issued_once [OF this]
  moreover have "map (\<lambda>(_, op, r, _). r) (trace store_step NewMemStore ?ops)
      = [Issued 1, Issued 2, Failed ErrConflict, Failed ErrConflict, Issued 3]"
    by code_simp
  ultimately show ?thesis unfolding Let_def by blast
qed

text \<open>C1. Session creation is idempotent for as long as the store lives: once a creation with an
  idempotency key has returned a row, any later creation in the workspace by the same creator
  with the same key, after whatever other operations, returns that session again and changes
  nothing.\<close>

theorem create_session_idempotent:
  assumes "store_inv m" and "memSessions_CreateSession m now ws s = (m1, Inr row)"
    and "ses_IdempotencyKey s \<noteq> ''''" and "along admissible (trace store_step m1 ops)"
    and "ses_CreatorID s' = ses_CreatorID s" and "ses_IdempotencyKey s' = ses_IdempotencyKey s"
  shows "\<exists>row'. memSessions_CreateSession (after m1 ops) now' ws s' = (after m1 ops, Inr row')
    \<and> same_identity row row'"
proof -
  note created = created_kept [OF assms(2,1)]
  have "store_inv m1" using CreateSession_inv [OF assms(1), of now ws s] assms(2) by simp
  note inv = inv_after [OF this assms(4)]
  from kept_after [OF created [THEN conjunct1] assms(4)] obtain row' where
    row': "sessionAt (after m1 ops) ws (ses_ID row) = Some row'" "same_identity row row'"
    by (auto simp: kept_as_def)
  then have "sessionByIdem (after m1 ops) ws (ses_CreatorID s') (ses_IdempotencyKey s') = Some row'"
    using created assms(3,5,6) by (intro sessionByIdem_found [OF inv row'(1)]) (auto simp: same_identity_def)
  then show ?thesis
    using created assms(3,6) workspaces_after [of m1 ops] row'(2)
    by (auto simp: memSessions_CreateSession_def)
qed

theorem create_session_idempotent_witness:
  "\<exists>row'. memSessions_CreateSession (after sampleStore sampleTrace) 99 installWorkspace
       (sampleSession ''s2'' ''k1'') = (after sampleStore sampleTrace, Inr row')
     \<and> same_identity (storedSession 5 installWorkspace (sampleSession ''s1'' ''k1'')) row'
     \<and> ses_ID row' = ''s1'' \<and> ses_State row' = StateRunning"
proof -
  have ok: "along admissible (trace store_step sampleStore sampleTrace)" by code_simp
  have "memSessions_CreateSession NewMemStore 5 installWorkspace (sampleSession ''s1'' ''k1'')
      = (sampleStore, Inr (storedSession 5 installWorkspace (sampleSession ''s1'' ''k1'')))"
    by (simp add: sampleStore_def memSessions_CreateSession_def sessionByIdem_def
        NewMemStore_def sampleSession_def installWorkspace_def)
  note create_session_idempotent [OF store_inv_init this _ ok, of "sampleSession ''s2'' ''k1''" 99]
  moreover have "case snd (memSessions_CreateSession (after sampleStore sampleTrace) 99 installWorkspace
      (sampleSession ''s2'' ''k1'')) of Inl _ \<Rightarrow> False | Inr row' \<Rightarrow> ses_ID row' = ''s1'' \<and> ses_State row' = StateRunning"
    by code_simp
  ultimately show ?thesis by (auto simp: sampleSession_def)
qed

text \<open>The compare-and-swap of the session state machine, on every branch. A transition
  succeeds exactly when the session exists, its state is one of those expected and its
  placement generation is the expected one where one is stated. It then sets the state, the
  runner, the error and the image it was given, advances the placement generation by one
  exactly when it names a runner, and keeps the identity of the row and its controller lease.
  A refused transition changes nothing.\<close>

theorem transition_spec:
  "case memSessions_Transition m now ws sid from to opts of
     (m', Some e) \<Rightarrow> m' = m \<and> e = (if ws = '''' then ErrInvalid
       else case sessionAt m ws sid of None \<Rightarrow> ErrNotFound | Some _ \<Rightarrow> ErrConflict)
   | (m', None) \<Rightarrow> ws \<noteq> '''' \<and> (\<exists>s s'. sessionAt m ws sid = Some s \<and> ses_State s \<in> set from
       \<and> opt_ExpectedPlacementGeneration opts \<in> {None, Some (ses_PlacementGeneration s)}
       \<and> m' = putSession m ws sid s' \<and> ses_State s' = to
       \<and> ses_RunnerID s' = (case opt_RunnerID opts of None \<Rightarrow> ses_RunnerID s | Some r \<Rightarrow> r)
       \<and> ses_PlacementGeneration s' = ses_PlacementGeneration s + (if places opts then 1 else 0)
       \<and> ses_Error s' = (case opt_Error opts of None \<Rightarrow> ses_Error s | Some e \<Rightarrow> e)
       \<and> ses_Spec s' = (case opt_Image opts of None \<Rightarrow> ses_Spec s
           | Some i \<Rightarrow> (ses_Spec s)\<lparr>spec_Image := i\<rparr>)
       \<and> ses_LastEventAt s' = now \<and> same_identity s s' \<and> ControllerLeaseOf s' = ControllerLeaseOf s)"
proof (cases "memSessions_Transition m now ws sid from to opts")
  case (Pair m' res)
  show ?thesis
  proof (cases res)
    case (Some e)
    with Pair Transition_refused show ?thesis by fastforce
  next
    case None
    then have "snd (memSessions_Transition m now ws sid from to opts) = None" using Pair by simp
    with Transition_accepted obtain s where ws: "ws \<noteq> ''''" and s: "sessionAt m ws sid = Some s"
      "ses_State s \<in> set from" "opt_ExpectedPlacementGeneration opts \<in> {None, Some (ses_PlacementGeneration s)}"
      by blast
    from Transition_row [OF Pair [unfolded None] s(1)] show ?thesis
      unfolding Pair None prod.case option.case(1) using ws s by blast
  qed
qed

text \<open>C40. Following the cursors of the session listing from the empty cursor, with any positive
  page limit, reads every session of the workspace that the query asks for exactly once,
  newest first, provided the creation times fit the int64 nanoseconds of the cursor; one
  request per row and one more are enough.\<close>

theorem sessions_listed_once:
  assumes "store_inv m" and "ws \<noteq> ''''" and "0 < sq_Limit q"
    and "\<forall>s \<in> set (listedSessions m ws (sq_IncludeTerminal q)). representable (ses_CreatedAt s)"
    and "length (listedSessions m ws (sq_IncludeTerminal q)) < fuel"
  shows "\<exists>rows. follow (\<lambda>c. memSessions_ListSessions m ws (q\<lparr>sq_Cursor := c\<rparr>)) fuel '''' = Some (Inr rows)
    \<and> sorted_wrt newestFirst rows \<and> distinct (map ses_ID rows)
    \<and> set rows = {s. \<exists>sid. sessionAt m ws sid = Some s \<and> (sq_IncludeTerminal q \<or> \<not> Terminal (ses_State s))}"
proof -
  let ?listed = "listedSessions m ws (sq_IncludeTerminal q)"
  let ?rows = "sortSessionsNewestFirst ?listed"
  have "follow (\<lambda>c. memSessions_ListSessions m ws (q\<lparr>sq_Cursor := c\<rparr>)) fuel '''' = Some (Inr ?rows)"
    using sessions.follow_all [of "(m, ws, q)" fuel] assms
    by (simp add: sessionListingOk_def sessionRows_def sessionPage_def sortSessionsNewestFirst_def)
  moreover have "distinct (map ses_ID ?rows)"
    using distinct_listed [OF assms(1)] by (simp add: sortSessionsNewestFirst_def)
  moreover have "set ?rows = {s. \<exists>sid. sessionAt m ws sid = Some s
      \<and> (sq_IncludeTerminal q \<or> \<not> Terminal (ses_State s))}"
    using set_rows_where [OF table_ok_distinct [OF inv_sessions [OF assms(1)]]]
    by (auto simp: sortSessionsNewestFirst_def listedSessions_def)
  ultimately show ?thesis using sorted_sessionRows [OF assms(1)] by blast
qed

definition pagedStore :: memStore where
  "pagedStore =
     (let put = (\<lambda>m sid t. fst (memSessions_CreateSession m t installWorkspace (sampleSession sid '''')))
      in put (put (put NewMemStore ''s1'' (unixEpoch + 1)) ''s2'' (unixEpoch + 2)) ''s3'' (unixEpoch + 2))"

lemma pagedStore_inv: "store_inv pagedStore"
  unfolding pagedStore_def Let_def by (intro CreateSession_inv store_inv_init)

theorem sessions_listed_once_witness:
  "\<exists>rows. follow (\<lambda>c. memSessions_ListSessions pagedStore installWorkspace
      (\<lparr>sq_IncludeTerminal = True, sq_Limit = 1, sq_Cursor = ''''\<rparr>\<lparr>sq_Cursor := c\<rparr>)) 4 '''' = Some (Inr rows)
    \<and> sorted_wrt newestFirst rows \<and> map ses_ID rows = [''s3'', ''s2'', ''s1'']"
proof -
  let ?q = "\<lparr>sq_IncludeTerminal = True, sq_Limit = 1, sq_Cursor = ''''\<rparr>"
  let ?f = "follow (\<lambda>c. memSessions_ListSessions pagedStore installWorkspace (?q\<lparr>sq_Cursor := c\<rparr>)) 4 ''''"
  have a: "installWorkspace \<noteq> ''''" "0 < sq_Limit ?q"
    "\<forall>s \<in> set (listedSessions pagedStore installWorkspace (sq_IncludeTerminal ?q)). representable (ses_CreatedAt s)"
    "length (listedSessions pagedStore installWorkspace (sq_IncludeTerminal ?q)) < 4"
    by code_simp+
  from sessions_listed_once [OF pagedStore_inv a] obtain rows where
    rows: "?f = Some (Inr rows)" "sorted_wrt newestFirst rows" by blast
  moreover have "map_option (map_sum (\<lambda>_. ()) (map ses_ID)) ?f = Some (Inr [''s3'', ''s2'', ''s1''])"
    by code_simp
  ultimately show ?thesis by auto
qed

text \<open>Following the cursors of the environment listing reads every environment of the
  workspace exactly once, by name, with any positive page limit, provided no identity
  contains the cursor's separator.\<close>

theorem environments_listed_once:
  assumes "store_inv m" and "ws \<noteq> ''''" and "0 < eq_Limit q"
    and "\<forall>e \<in> set (listedEnvironments m ws). CHR ''|'' \<notin> set (env_ID e)"
    and "length (listedEnvironments m ws) < fuel"
  shows "\<exists>rows. follow (\<lambda>c. memEnvironments_ListEnvironments m ws (q\<lparr>eq_Cursor := c\<rparr>)) fuel ''''
      = Some (Inr rows)
    \<and> sorted_wrt environmentLess rows \<and> distinct (map env_ID rows)
    \<and> set rows = {e. \<exists>eid. environmentAt m ws eid = Some e}"
proof -
  let ?rows = "sortSlice environmentLess (listedEnvironments m ws)"
  have "follow (\<lambda>c. memEnvironments_ListEnvironments m ws (q\<lparr>eq_Cursor := c\<rparr>)) fuel '''' = Some (Inr ?rows)"
    using environments.follow_all [of "(m, ws, q)" fuel] assms
    by (simp add: environmentListingOk_def environmentRows_def environmentPage_def)
  moreover have "distinct (map env_ID ?rows)"
    using distinct_listedEnvironments [OF assms(1)] by simp
  moreover have "set ?rows = {e. \<exists>eid. environmentAt m ws eid = Some e}"
    using set_rows_where [OF table_ok_distinct [OF inv_environments [OF assms(1)]]]
    by (auto simp: listedEnvironments_def)
  ultimately show ?thesis using sorted_environmentRows [OF assms(1)] by blast
qed

definition sampleEnvironment :: "envid \<Rightarrow> string \<Rightarrow> Environment" where
  "sampleEnvironment eid name =
     \<lparr>env_ID = eid, env_WorkspaceID = '''', env_Name = name, env_Image = ''img'', env_Setup = ''make'',
      env_SetupHash = ''h1'', env_Init = '''', env_InitTimeoutSec = 0, env_EgressAllow = None,
      env_SecretRefs = None, env_Connectors = None, env_Requirements = noRequirements,
      env_SetupTimeoutSec = 0, env_Snapshot = emptyCheckpoint, env_SnapshotHash = '''',
      env_CreatedAt = 3, env_UpdatedAt = 3\<rparr>"

definition environmentStore :: memStore where
  "environmentStore =
     (let put = (\<lambda>m eid n. fst (memEnvironments_CreateEnvironment m 3 installWorkspace (sampleEnvironment eid n)))
      in put (put NewMemStore ''env_2'' ''a'') ''env_1'' ''b'')"

lemma environmentStore_inv: "store_inv environmentStore"
  unfolding environmentStore_def Let_def by (intro CreateEnvironment_inv store_inv_init)

theorem environments_listed_once_witness:
  "\<exists>rows. follow (\<lambda>c. memEnvironments_ListEnvironments environmentStore installWorkspace
      (\<lparr>eq_Limit = 1, eq_Cursor = ''''\<rparr>\<lparr>eq_Cursor := c\<rparr>)) 3 '''' = Some (Inr rows)
    \<and> sorted_wrt environmentLess rows \<and> map env_ID rows = [''env_2'', ''env_1'']"
proof -
  let ?q = "\<lparr>eq_Limit = 1, eq_Cursor = ''''\<rparr>"
  let ?f = "follow (\<lambda>c. memEnvironments_ListEnvironments environmentStore installWorkspace (?q\<lparr>eq_Cursor := c\<rparr>)) 3 ''''"
  have a: "installWorkspace \<noteq> ''''" "0 < eq_Limit ?q"
    "\<forall>e \<in> set (listedEnvironments environmentStore installWorkspace). CHR ''|'' \<notin> set (env_ID e)"
    "length (listedEnvironments environmentStore installWorkspace) < 3"
    by code_simp+
  from environments_listed_once [OF environmentStore_inv a] obtain rows where
    "?f = Some (Inr rows)" "sorted_wrt environmentLess rows" by blast
  moreover have "map_option (map_sum (\<lambda>_. ()) (map env_ID)) ?f = Some (Inr [''env_2'', ''env_1''])"
    by code_simp
  ultimately show ?thesis by auto
qed

section \<open>Snapshots\<close>

lemma findHolder_matches:
  "findHolder m ws ref al \<noteq> '''' \<Longrightarrow> \<exists>k e. (k, e) \<in> set al \<and> fst k = ws \<and> cp_Ref (env_Snapshot e) = ref
     \<and> env_SnapshotHash e = env_SetupHash e \<and> snapshotRunner m k = findHolder m ws ref al"
proof (induction al)
  case Nil
  then show ?case by simp
next
  case (Cons x al)
  obtain w d e where x: "x = ((w, d), e)" by (metis prod.collapse)
  from Cons x show ?case by (auto split: if_splits)
qed

lemma findHolder_complete:
  "(k, e) \<in> set al \<Longrightarrow> fst k = ws \<Longrightarrow> cp_Ref (env_Snapshot e) = ref
   \<Longrightarrow> env_SnapshotHash e = env_SetupHash e \<Longrightarrow> snapshotRunner m k \<noteq> '''' \<Longrightarrow> findHolder m ws ref al \<noteq> ''''"
  by (induction al) (auto split: if_splits)

text \<open>Setup snapshots. A snapshot is recorded exactly when the environment still has the
  setup hash it was taken for. The store then names a holder for a reference if and only if
  some environment of the workspace records that reference under its current setup hash
  with a known runner, and the runner it names holds it: a snapshot of an edited setup is
  never offered.\<close>

theorem snapshot_current:
  assumes "store_inv m" and "ws \<noteq> ''''" and "ref \<noteq> ''''"
  shows "(snd (memEnvironments_SetEnvironmentSnapshot m now ws eid h ref rid) = None \<longleftrightarrow>
       (\<exists>e. environmentAt m ws eid = Some e \<and> env_SetupHash e = h))
    \<and> (\<exists>holder. memStore_SnapshotHolder m ws ref = Inr holder
       \<and> (holder \<noteq> '''' \<longleftrightarrow> (\<exists>eid e r. environmentAt m ws eid = Some e \<and> cp_Ref (env_Snapshot e) = ref
            \<and> env_SnapshotHash e = env_SetupHash e \<and> ms_snapshots m (ws, eid) = Some r \<and> r \<noteq> ''''))
       \<and> (holder \<noteq> '''' \<longrightarrow> (\<exists>eid e. environmentAt m ws eid = Some e \<and> cp_Ref (env_Snapshot e) = ref
            \<and> env_SnapshotHash e = env_SetupHash e \<and> ms_snapshots m (ws, eid) = Some holder)))"
proof -
  let ?h = "findHolder m ws ref (ms_environments m)"
  have d: "distinct (map fst (ms_environments m))"
    by (rule table_ok_distinct [OF inv_environments [OF assms(1)]])
  have held: "\<exists>eid e. environmentAt m ws eid = Some e \<and> cp_Ref (env_Snapshot e) = ref
      \<and> env_SnapshotHash e = env_SetupHash e \<and> ms_snapshots m (ws, eid) = Some ?h" if "?h \<noteq> ''''"
  proof -
    from findHolder_matches [OF that] obtain k e where k: "(k, e) \<in> set (ms_environments m)" "fst k = ws"
        "cp_Ref (env_Snapshot e) = ref" "env_SnapshotHash e = env_SetupHash e" "snapshotRunner m k = ?h"
      by blast
    then have "environmentAt m ws (snd k) = Some e" "ms_snapshots m (ws, snd k) = Some ?h"
      using that by (auto simp: set_alist_iff [OF d] snapshotRunner_def split: option.splits)
    with k show ?thesis by blast
  qed
  have found: "?h \<noteq> ''''" if "environmentAt m ws eid = Some e" "cp_Ref (env_Snapshot e) = ref"
      "env_SnapshotHash e = env_SetupHash e" "ms_snapshots m (ws, eid) = Some r" "r \<noteq> ''''" for eid e r
    using that findHolder_complete [of "(ws, eid)" e "ms_environments m" ws ref m]
    by (auto simp: set_alist_iff [OF d] snapshotRunner_def)
  have "memStore_SnapshotHolder m ws ref = Inr ?h" using assms by (simp add: memStore_SnapshotHolder_def)
  moreover have "snd (memEnvironments_SetEnvironmentSnapshot m now ws eid h ref rid) = None \<longleftrightarrow>
       (\<exists>e. environmentAt m ws eid = Some e \<and> env_SetupHash e = h)"
    using assms by (auto simp: memEnvironments_SetEnvironmentSnapshot_def split: option.splits)
  ultimately show ?thesis using held found by blast
qed

theorem snapshot_current_witness:
  "let m = fst (memEnvironments_SetEnvironmentSnapshot environmentStore 4 installWorkspace ''env_1'' ''h1'' ''ref'' ''r1'')
   in memStore_SnapshotHolder m installWorkspace ''ref'' = Inr ''r1''
      \<and> (\<exists>eid e. environmentAt m installWorkspace eid = Some e \<and> cp_Ref (env_Snapshot e) = ''ref''
            \<and> env_SnapshotHash e = env_SetupHash e \<and> ms_snapshots m (installWorkspace, eid) = Some ''r1'')"
proof -
  let ?m = "fst (memEnvironments_SetEnvironmentSnapshot environmentStore 4 installWorkspace ''env_1'' ''h1'' ''ref'' ''r1'')"
  have "store_inv ?m" "installWorkspace \<noteq> ''''" "''ref'' \<noteq> ''''"
    by (intro SetEnvironmentSnapshot_inv environmentStore_inv, simp_all add: installWorkspace_def)
  from snapshot_current [OF this]
  have "\<exists>holder. memStore_SnapshotHolder ?m installWorkspace ''ref'' = Inr holder \<and> (holder \<noteq> ''''
    \<longrightarrow> (\<exists>eid e. environmentAt ?m installWorkspace eid = Some e \<and> cp_Ref (env_Snapshot e) = ''ref''
            \<and> env_SnapshotHash e = env_SetupHash e \<and> ms_snapshots ?m (installWorkspace, eid) = Some holder))"
    by blast
  moreover have "memStore_SnapshotHolder ?m installWorkspace ''ref'' = Inr ''r1''" by code_simp
  ultimately show ?thesis unfolding Let_def by auto
qed

end
