(* ===== verification/Ports.thy ===== *)
theory Ports
  imports MemVault
begin

text \<open>
  The ports of the application (\<^verbatim>\<open>src/control/ports.go\<close>) as a record of operations over an
  abstract host state \<open>'s\<close>. A read is a function of the state; every other call returns the
  state it leaves. What the application may not assume is left free: a dispatch to a runner
  may change the state in any way, so everything that other requests do while a command is
  in flight is part of it. The application's own wake-up queue
  (\<^verbatim>\<open>FleetService.Wake\<close> in \<^verbatim>\<open>src/controlapp/fleet.go\<close>) and the composition with the in-memory store
  are at the end.
\<close>

section \<open>The host\<close>

record LaunchMaterial =
  mat_Repos :: "RepoSpec slice"
  mat_GitAuthorName :: string
  mat_GitAuthorEmail :: string
  mat_Environment :: "(string \<times> string) list"
  mat_EgressAllow :: "string slice"

record 's host =
  h_Authorize :: "'s \<Rightarrow> Scope \<Rightarrow> Action \<Rightarrow> Resource \<Rightarrow> err option"
  h_CreateSession :: "'s \<Rightarrow> wsid \<Rightarrow> Session \<Rightarrow> 's \<times> (err + Session)"
  h_GetSession :: "'s \<Rightarrow> wsid \<Rightarrow> sessionid \<Rightarrow> err + Session"
  h_SessionByIDem :: "'s \<Rightarrow> wsid \<Rightarrow> actorid \<Rightarrow> string \<Rightarrow> err + Session"
  h_ListSessions :: "'s \<Rightarrow> wsid \<Rightarrow> SessionQuery \<Rightarrow> err + (Session list \<times> string)"
  h_Transition :: "'s \<Rightarrow> wsid \<Rightarrow> sessionid \<Rightarrow> SessionState list \<Rightarrow> SessionState \<Rightarrow> TransitionOpts
    \<Rightarrow> 's \<times> err option"
  h_SetSessionSetupHash :: "'s \<Rightarrow> wsid \<Rightarrow> sessionid \<Rightarrow> string \<Rightarrow> 's \<times> err option"
  h_SetChildExitCode :: "'s \<Rightarrow> wsid \<Rightarrow> sessionid \<Rightarrow> int \<Rightarrow> 's \<times> err option"
  h_NextControllerGeneration :: "'s \<Rightarrow> wsid \<Rightarrow> sessionid \<Rightarrow> 's \<times> (err + u64)"
  h_CompareAndAdvanceControllerGeneration :: "'s \<Rightarrow> wsid \<Rightarrow> sessionid \<Rightarrow> u64 \<Rightarrow> 's \<times> (err + u64)"
  h_RenewControllerLease :: "'s \<Rightarrow> wsid \<Rightarrow> sessionid \<Rightarrow> ControllerLease \<Rightarrow> 's \<times> err option"
  h_CreateEnvironment :: "'s \<Rightarrow> wsid \<Rightarrow> Environment \<Rightarrow> 's \<times> (err + Environment)"
  h_GetEnvironment :: "'s \<Rightarrow> wsid \<Rightarrow> envid \<Rightarrow> err + Environment"
  h_ListEnvironments :: "'s \<Rightarrow> wsid \<Rightarrow> EnvironmentQuery \<Rightarrow> err + (Environment list \<times> string)"
  h_UpdateEnvironment :: "'s \<Rightarrow> wsid \<Rightarrow> Environment \<Rightarrow> 's \<times> (err + Environment)"
  h_DeleteEnvironment :: "'s \<Rightarrow> wsid \<Rightarrow> envid \<Rightarrow> 's \<times> err option"
  h_CountSessionsByEnvironment :: "'s \<Rightarrow> wsid \<Rightarrow> envid \<Rightarrow> SessionState list \<Rightarrow> err + nat"
  h_UpsertRunner :: "'s \<Rightarrow> poolid \<Rightarrow> Runner \<Rightarrow> 's \<times> err option"
  h_ListRunners :: "'s \<Rightarrow> poolid \<Rightarrow> err + Runner list"
  h_SessionsOnRunner :: "'s \<Rightarrow> poolid \<Rightarrow> runnerid \<Rightarrow> SessionState list \<Rightarrow> err + Session list"
  h_OldestQueued :: "'s \<Rightarrow> poolid \<Rightarrow> err + Session list"
  h_EligiblePools :: "'s \<Rightarrow> Scope \<Rightarrow> Requirements \<Rightarrow> err + Pool list"
  h_Dispatch :: "'s \<Rightarrow> poolid \<Rightarrow> runnerid \<Rightarrow> ToRunner \<Rightarrow> 's \<times> (err + FromRunner)"
  h_Connected :: "'s \<Rightarrow> poolid \<Rightarrow> runnerid \<Rightarrow> bool"
  h_Record :: "'s \<Rightarrow> Event \<Rightarrow> 's \<times> err option"
  h_Run :: "'s \<Rightarrow> 's \<Rightarrow> err option \<Rightarrow> 's \<times> err option"
  h_LocateCheckpoint :: "'s \<Rightarrow> wsid \<Rightarrow> Checkpoint \<Rightarrow> err + CheckpointLocation"
  h_PutSessionBootstrap :: "'s \<Rightarrow> wsid \<Rightarrow> sessionid \<Rightarrow> SessionBootstrap \<Rightarrow> 's \<times> err option"
  h_ResolveLaunchMaterial :: "'s \<Rightarrow> Session \<Rightarrow> Environment option \<Rightarrow> err + LaunchMaterial"
  h_Now :: "'s \<Rightarrow> 's \<times> time"
  h_NewSessionID :: "'s \<Rightarrow> 's \<times> sessionid"
  h_NewEnvironmentID :: "'s \<Rightarrow> 's \<times> envid"
  h_NewEventID :: "'s \<Rightarrow> 's \<times> eventid"
  h_Rand :: "'s \<Rightarrow> nat \<Rightarrow> 's \<times> string option"
  h_Yield :: "'s \<Rightarrow> 's"
  h_Done :: "'s \<Rightarrow> bool"
  h_Wake :: "'s \<Rightarrow> poolid \<Rightarrow> 's"

text \<open>
  \<^verbatim>\<open>h_Run\<close> is the unit of work of a closure that has run: from the state before it, the state
  after it and its error, the state that is kept and the error its caller sees. \<^verbatim>\<open>h_Done\<close> is
  \<^verbatim>\<open>ctx.Err() != nil\<close>, \<^verbatim>\<open>h_Rand\<close> is \<^verbatim>\<open>crypto/rand.Read\<close> of that many
  bytes (\<open>None\<close> when the entropy source fails), and \<^verbatim>\<open>h_Yield\<close> is whatever other goroutines do
  while a long pass goes on.
\<close>

section \<open>What the application relies on\<close>

text \<open>What an accepted transition makes of a row (\<^verbatim>\<open>SessionRepository.Transition\<close>).\<close>

definition transitioned :: "SessionState \<Rightarrow> TransitionOpts \<Rightarrow> Session \<Rightarrow> Session \<Rightarrow> bool" where
  "transitioned to opts s s' \<longleftrightarrow> ses_State s' = to
     \<and> ses_RunnerID s' = (case opt_RunnerID opts of None \<Rightarrow> ses_RunnerID s | Some r \<Rightarrow> r)
     \<and> ses_PlacementGeneration s' = ses_PlacementGeneration s
          + (case opt_RunnerID opts of None \<Rightarrow> 0 | Some r \<Rightarrow> if r = '''' then 0 else 1)
     \<and> ses_ID s' = ses_ID s \<and> ses_WorkspaceID s' = ses_WorkspaceID s
     \<and> ses_CreatorID s' = ses_CreatorID s \<and> ses_PoolID s' = ses_PoolID s
     \<and> ses_ControllerGeneration s' = ses_ControllerGeneration s
     \<and> ses_Error s' = (case opt_Error opts of None \<Rightarrow> ses_Error s | Some e \<Rightarrow> e)
     \<and> ses_Spec s' = (case opt_Image opts of None \<Rightarrow> ses_Spec s
          | Some i \<Rightarrow> (ses_Spec s)\<lparr>spec_Image := i\<rparr>)"

definition expects :: "SessionState list \<Rightarrow> TransitionOpts \<Rightarrow> Session \<Rightarrow> bool" where
  "expects from opts s \<longleftrightarrow> ses_State s \<in> set from
     \<and> opt_ExpectedPlacementGeneration opts \<in> {None, Some (ses_PlacementGeneration s)}"

text \<open>The unit of work of \<^verbatim>\<open>control.UnitOfWork\<close>: a failed closure's error is returned unchanged,
  and success means that what the closure did is kept.\<close>

locale unit_of_work =
  fixes h :: "'s host"
  assumes run_error: "h_Run h before after (Some e) = (s, r) \<Longrightarrow> r = Some e"
    and run_ok: "h_Run h before after None = (s, r) \<Longrightarrow> r = None \<and> s = after \<or> r = Some ErrUnavailable"
    and run_kept: "h_Run h before after res = (s, r) \<Longrightarrow> s = before \<or> s = after"

text \<open>The session half of a host: \<open>row\<close> is the stored session, and only the repository's own
  writes move it.\<close>

locale session_host = unit_of_work h for h :: "'s host" +
  fixes row :: "'s \<Rightarrow> wsid \<Rightarrow> sessionid \<Rightarrow> Session option"
  assumes get_row: "ws \<noteq> '''' \<Longrightarrow>
      h_GetSession h s ws sid = (case row s ws sid of None \<Rightarrow> Inl ErrNotFound | Some r \<Rightarrow> Inr r)"
    and get_error: "h_GetSession h s ws sid = Inr r \<Longrightarrow> row s ws sid = Some r \<and> ws \<noteq> ''''"
    and moves: "h_Transition h s ws sid from to opts = (s', None) \<Longrightarrow>
      \<exists>r r'. row s ws sid = Some r \<and> expects from opts r \<and> transitioned to opts r r'
        \<and> row s' ws sid = Some r' \<and> (\<forall>k. k \<noteq> (ws, sid) \<longrightarrow> row s' (fst k) (snd k) = row s (fst k) (snd k))"
    and refuses: "h_Transition h s ws sid from to opts = (s', Some e) \<Longrightarrow> s' = s
      \<and> (errIs e ErrConflict \<longrightarrow> (\<exists>r. row s ws sid = Some r \<and> \<not> expects from opts r))
      \<and> (errIs e ErrNotFound \<longrightarrow> row s ws sid = None)"
    and moves_expected: "ws \<noteq> '''' \<Longrightarrow> row s ws sid = Some r \<Longrightarrow> expects from opts r
      \<Longrightarrow> snd (h_Transition h s ws sid from to opts) = None"
    and record_row: "row (fst (h_Record h s ev)) = row s"
    and now_row: "row (fst (h_Now h s)) = row s"
    and event_id_row: "row (fst (h_NewEventID h s)) = row s"
    and wake_row: "row (h_Wake h s pool) = row s"

section \<open>The wake-up queue of the fleet service\<close>

text \<open>\<^verbatim>\<open>known\<close> and the buffered channel \<^verbatim>\<open>wake\<close>, of capacity 64.\<close>

record fleetQueue =
  fq_known :: "poolid set"
  fq_wake :: "poolid list"

definition wakeBuffer :: nat where
  "wakeBuffer = 64"

definition FleetService_Wake :: "fleetQueue \<Rightarrow> poolid \<Rightarrow> fleetQueue" where
  "FleetService_Wake q pool =
     (if pool = '''' then q
      else
        let q' = q\<lparr>fq_known := insert pool (fq_known q)\<rparr>
        in if length (fq_wake q') < wakeBuffer then q'\<lparr>fq_wake := fq_wake q' @ [pool]\<rparr> else q')"

section \<open>The host over the in-memory store\<close>

text \<open>
  The state of a self-hosted installation over the in-memory store: the store, the wall
  clock, the random identities not yet drawn, the wake-up queue, and the commands sent to
  runners. What lies outside the process is the record \<open>outside\<close>.
\<close>

record world =
  w_store :: memStore
  w_now :: time
  w_random :: "string list"
  w_queue :: fleetQueue
  w_sent :: "(poolid \<times> runnerid \<times> ToRunner) list"

record outside =
  o_Authorize :: "Scope \<Rightarrow> Action \<Rightarrow> Resource \<Rightarrow> err option"
  o_EligiblePools :: "world \<Rightarrow> Scope \<Rightarrow> Requirements \<Rightarrow> err + Pool list"
  o_Dispatch :: "world \<Rightarrow> poolid \<Rightarrow> runnerid \<Rightarrow> ToRunner \<Rightarrow> world \<times> (err + FromRunner)"
  o_Connected :: "world \<Rightarrow> poolid \<Rightarrow> runnerid \<Rightarrow> bool"
  o_LocateCheckpoint :: "world \<Rightarrow> wsid \<Rightarrow> Checkpoint \<Rightarrow> err + CheckpointLocation"
  o_ResolveLaunchMaterial :: "world \<Rightarrow> Session \<Rightarrow> Environment option \<Rightarrow> err + LaunchMaterial"
  o_Yield :: "world \<Rightarrow> world"
  o_Done :: "world \<Rightarrow> bool"

text \<open>A store method run on the world's store.\<close>

definition onStore :: "(memStore \<Rightarrow> memStore \<times> 'r) \<Rightarrow> world \<Rightarrow> world \<times> 'r" where
  "onStore f w = (let (m, r) = f (w_store w) in (w\<lparr>w_store := m\<rparr>, r))"

text \<open>The next random string, under the prefix its kind has.\<close>

definition draw :: "string \<Rightarrow> world \<Rightarrow> world \<times> string" where
  "draw prefix w =
     (case w_random w of [] \<Rightarrow> (w, '''') | r # rs \<Rightarrow> (w\<lparr>w_random := rs\<rparr>, prefix @ r))"

definition randomBytes :: "world \<Rightarrow> nat \<Rightarrow> world \<times> string option" where
  "randomBytes w n =
     (case w_random w of
        [] \<Rightarrow> (w, None)
      | r # rs \<Rightarrow> (w\<lparr>w_random := rs\<rparr>, Some (take n (r @ replicate n (CHR 0x00)))))"

definition memHost :: "outside \<Rightarrow> world host" where
  "memHost out =
     \<lparr>h_Authorize = (\<lambda>w. o_Authorize out),
      h_CreateSession = (\<lambda>w ws s. onStore (\<lambda>m. memSessions_CreateSession m (w_now w) ws s) w),
      h_GetSession = (\<lambda>w. memSessions_GetSession (w_store w)),
      h_SessionByIDem = (\<lambda>w. memSessions_SessionByIDem (w_store w)),
      h_ListSessions = (\<lambda>w. memSessions_ListSessions (w_store w)),
      h_Transition = (\<lambda>w ws sid from to opts.
        onStore (\<lambda>m. memSessions_Transition m (w_now w) ws sid from to opts) w),
      h_SetSessionSetupHash = (\<lambda>w ws sid hash.
        onStore (\<lambda>m. memSessions_SetSessionSetupHash m (w_now w) ws sid hash) w),
      h_SetChildExitCode = (\<lambda>w ws sid code.
        onStore (\<lambda>m. memSessions_SetChildExitCode m (w_now w) ws sid code) w),
      h_NextControllerGeneration = (\<lambda>w ws sid.
        onStore (\<lambda>m. memSessions_NextControllerGeneration m (w_now w) ws sid) w),
      h_CompareAndAdvanceControllerGeneration = (\<lambda>w ws sid g.
        onStore (\<lambda>m. memSessions_CompareAndAdvanceControllerGeneration m (w_now w) ws sid g) w),
      h_RenewControllerLease = (\<lambda>w ws sid l.
        onStore (\<lambda>m. memSessions_RenewControllerLease m (w_now w) ws sid l) w),
      h_CreateEnvironment = (\<lambda>w ws e. onStore (\<lambda>m. memEnvironments_CreateEnvironment m (w_now w) ws e) w),
      h_GetEnvironment = (\<lambda>w. memEnvironments_GetEnvironment (w_store w)),
      h_ListEnvironments = (\<lambda>w. memEnvironments_ListEnvironments (w_store w)),
      h_UpdateEnvironment = (\<lambda>w ws e. onStore (\<lambda>m. memEnvironments_UpdateEnvironment m (w_now w) ws e) w),
      h_DeleteEnvironment = (\<lambda>w ws eid. onStore (\<lambda>m. memEnvironments_DeleteEnvironment m ws eid) w),
      h_CountSessionsByEnvironment = (\<lambda>w. memEnvironments_CountSessionsByEnvironment (w_store w)),
      h_UpsertRunner = (\<lambda>w pool run. onStore (\<lambda>m. memFleet_UpsertRunner m pool run) w),
      h_ListRunners = (\<lambda>w. memFleet_ListRunners (w_store w)),
      h_SessionsOnRunner = (\<lambda>w. memFleet_SessionsOnRunner (w_store w)),
      h_OldestQueued = (\<lambda>w. memFleet_OldestQueued (w_store w)),
      h_EligiblePools = o_EligiblePools out,
      h_Dispatch = (\<lambda>w pool rid m.
        o_Dispatch out (w\<lparr>w_sent := w_sent w @ [(pool, rid, m)]\<rparr>) pool rid m),
      h_Connected = o_Connected out,
      h_Record = (\<lambda>w e. onStore (\<lambda>m. memStore_Record m e) w),
      h_Run = memStore_Run,
      h_LocateCheckpoint = o_LocateCheckpoint out,
      h_PutSessionBootstrap = (\<lambda>w ws sid r.
        onStore (\<lambda>m. memBootstraps_PutSessionBootstrap m ws sid r) w),
      h_ResolveLaunchMaterial = o_ResolveLaunchMaterial out,
      h_Now = (\<lambda>w. (w\<lparr>w_now := w_now w + 1\<rparr>, w_now w)),
      h_NewSessionID = draw ''sess_'',
      h_NewEnvironmentID = draw ''env_'',
      h_NewEventID = draw ''evt_'',
      h_Rand = randomBytes,
      h_Yield = o_Yield out,
      h_Done = o_Done out,
      h_Wake = (\<lambda>w pool. w\<lparr>w_queue := FleetService_Wake (w_queue w) pool\<rparr>)\<rparr>"

definition worldRow :: "world \<Rightarrow> wsid \<Rightarrow> sessionid \<Rightarrow> Session option" where
  "worldRow w ws sid = sessionAt (w_store w) ws sid"

lemma onStore_simps [simp]:
  "w_store (fst (onStore f w)) = fst (f (w_store w))"
  "snd (onStore f w) = snd (f (w_store w))"
  by (simp_all add: onStore_def case_prod_beta)

lemma draw_store [simp]: "w_store (fst (draw p w)) = w_store w"
  by (simp add: draw_def split: list.split)

lemma onStore_eq: "onStore f w = (w', r) \<longleftrightarrow> f (w_store w) = (w_store w', r) \<and> w' = w\<lparr>w_store := w_store w'\<rparr>"
  by (auto simp: onStore_def case_prod_beta prod_eq_iff)

interpretation mem: unit_of_work "memHost out" for out
  by unfold_locales (auto simp: memHost_def memStore_Run_def)

lemma Transition_moves:
  assumes "memSessions_Transition m now ws sid from to opts = (m', None)"
  shows "\<exists>r r'. m' = putSession m ws sid r' \<and> sessionAt m ws sid = Some r \<and> expects from opts r
    \<and> transitioned to opts r r'"
  using assms
  by (cases "opt_RunnerID opts"; cases "opt_Error opts"; cases "opt_Image opts")
     (auto simp: memSessions_Transition_def transitioned_def expects_def Let_def
       split: if_splits option.splits)

lemma Transition_refuses:
  "memSessions_Transition m now ws sid from to opts = (m', Some e) \<Longrightarrow>
   m' = m \<and> (errIs e ErrConflict \<longrightarrow> (\<exists>r. sessionAt m ws sid = Some r \<and> \<not> expects from opts r))
     \<and> (errIs e ErrNotFound \<longrightarrow> sessionAt m ws sid = None)"
  by (auto simp: memSessions_Transition_def expects_def Let_def split: if_splits option.splits)

interpretation mem: session_host "memHost out" worldRow for out
proof unfold_locales
  fix w w' :: world and ws sid r "from" to opts e pool
  show "ws \<noteq> '''' \<Longrightarrow> h_GetSession (memHost out) w ws sid
      = (case worldRow w ws sid of None \<Rightarrow> Inl ErrNotFound | Some r \<Rightarrow> Inr r)"
    by (simp add: memHost_def memSessions_GetSession_def worldRow_def)
  show "h_GetSession (memHost out) w ws sid = Inr r \<Longrightarrow> worldRow w ws sid = Some r \<and> ws \<noteq> ''''"
    by (auto simp: memHost_def memSessions_GetSession_def worldRow_def split: if_splits option.splits)
  show "\<exists>r r'. worldRow w ws sid = Some r \<and> expects from opts r \<and> transitioned to opts r r'
      \<and> worldRow w' ws sid = Some r'
      \<and> (\<forall>k. k \<noteq> (ws, sid) \<longrightarrow> worldRow w' (fst k) (snd k) = worldRow w (fst k) (snd k))"
    if "h_Transition (memHost out) w ws sid from to opts = (w', None)"
    using that Transition_moves [of "w_store w" "w_now w" ws sid "from" to opts "w_store w'"]
    by (fastforce simp: memHost_def onStore_eq worldRow_def)
  show "w' = w \<and> (errIs e ErrConflict \<longrightarrow> (\<exists>r. worldRow w ws sid = Some r \<and> \<not> expects from opts r))
      \<and> (errIs e ErrNotFound \<longrightarrow> worldRow w ws sid = None)"
    if "h_Transition (memHost out) w ws sid from to opts = (w', Some e)"
    using that Transition_refuses [of "w_store w" "w_now w" ws sid "from" to opts "w_store w'" e]
    by (auto simp: memHost_def onStore_eq worldRow_def)
  show "ws \<noteq> '''' \<Longrightarrow> worldRow w ws sid = Some r \<Longrightarrow> expects from opts r
      \<Longrightarrow> snd (h_Transition (memHost out) w ws sid from to opts) = None"
    by (auto simp: memHost_def memSessions_Transition_def expects_def worldRow_def Let_def
        split: option.splits)
  show "worldRow (fst (h_Now (memHost out) w)) = worldRow w"
    "worldRow (fst (h_NewEventID (memHost out) w)) = worldRow w"
    "worldRow (h_Wake (memHost out) w pool) = worldRow w"
    by (simp_all add: memHost_def worldRow_def fun_eq_iff)
next
  fix w :: world and ev :: Event
  show "worldRow (fst (h_Record (memHost out) w ev)) = worldRow w"
    by (simp add: memHost_def worldRow_def fun_eq_iff memStore_Record_def)
qed

end
