(* ===== verification/SessionService.thy ===== *)
theory SessionService
  imports Ports
begin

text \<open>
  The session service (\<^verbatim>\<open>src/controlapp/sessions.go\<close> with \<^verbatim>\<open>errors.go\<close>): creation with
  idempotent replay and pool selection, reads, the guarded delete, suspend, resume and
  snapshot state machines, and the dispatch to the runner that holds a session. Each
  definition is a whole handler over an arbitrary host; its result is the state it leaves
  and an error or a value.
\<close>

section \<open>Errors at the port boundary\<close>

definition portError :: "err \<Rightarrow> err" where
  "portError e =
     (if errIs e ErrCanceled \<or> errIs e ErrDeadlineExceeded then e
      else if errIs e ErrInvalid then ErrInvalid
      else if errIs e ErrDenied then ErrDenied
      else if errIs e ErrNotFound then ErrNotFound
      else if errIs e ErrConflict then ErrConflict
      else if errIs e ErrStale then ErrStale
      else if errIs e ErrUnavailable then ErrUnavailable
      else if errIs e ErrUnsupported then ErrUnsupported
      else ErrUnavailable)"

section \<open>Helpers\<close>

definition sessionResource :: "Session \<Rightarrow> Resource" where
  "sessionResource row =
     \<lparr>res_Kind = ResourceSession, res_WorkspaceID = ses_WorkspaceID row, res_ID = ses_ID row,
      res_CreatorID = ses_CreatorID row\<rparr>"

definition recordEvent ::
    "'s host \<Rightarrow> 's \<Rightarrow> Scope \<Rightarrow> Action \<Rightarrow> Resource \<Rightarrow> u64 \<Rightarrow> 's \<times> err option" where
  "recordEvent h s scope action res gen =
     (let (s1, eid) = h_NewEventID h s
      in if eid = '''' then (s1, Some ErrUnavailable)
         else
           let (s2, now) = h_Now h s1;
               (s3, r) = h_Record h s2
                 \<lparr>evt_ID = eid, evt_WorkspaceID = sco_WorkspaceID scope,
                  evt_ActorID = act_ID (sco_Actor scope), evt_Action = action, evt_Resource = res,
                  evt_At = now, evt_PlacementGeneration = gen, evt_Command = ''''\<rparr>
           in (s3, case r of None \<Rightarrow> None | Some _ \<Rightarrow> Some ErrUnavailable))"

text \<open>What \<^verbatim>\<open>s.uow.Run\<close> returns for a closure that ended in a state with an error.\<close>

definition runUnit :: "'s host \<Rightarrow> 's \<Rightarrow> 's \<times> err option \<Rightarrow> 's \<times> err option" where
  "runUnit h s r = h_Run h s (fst r) (snd r)"

text \<open>The closure that delete, suspend and resume run in a unit of work: the guarded
  transition and the event describing it. A row that moved on or is gone is no error and
  records nothing.\<close>

definition transitionUnit ::
    "'s host \<Rightarrow> 's \<Rightarrow> Scope \<Rightarrow> sessionid \<Rightarrow> Session \<Rightarrow> SessionState list \<Rightarrow> SessionState
       \<Rightarrow> TransitionOpts \<Rightarrow> Action \<Rightarrow> 's \<times> err option" where
  "transitionUnit h s scope sid row from to opts action =
     (case h_Transition h s (sco_WorkspaceID scope) sid from to opts of
        (s1, Some e) \<Rightarrow>
          (s1, if \<not> errIs e ErrConflict \<and> \<not> errIs e ErrNotFound then Some ErrUnavailable else None)
      | (s1, None) \<Rightarrow>
          recordEvent h s1 scope action (sessionResource row) (ses_PlacementGeneration row))"

section \<open>Creation\<close>

definition unionHosts :: "string slice \<Rightarrow> string slice \<Rightarrow> string slice" where
  "unionHosts base extra =
     fold (\<lambda>x out. if x \<in> set (elems out) then out else append_slice out x) (elems extra) base"

definition portableSpecFor :: "CreateSessionCmd \<Rightarrow> Environment option \<Rightarrow> PortableSpec" where
  "portableSpecFor cmd env =
     (let spec = \<lparr>spec_Image = '''', spec_Cmd = spec_Cmd (crs_Spec cmd), spec_EgressAllow = None,
                  spec_Repos = crs_Repos cmd\<rparr>
      in case env of
        None \<Rightarrow> spec\<lparr>spec_Image := spec_Image (crs_Spec cmd),
                     spec_EgressAllow := spec_EgressAllow (crs_Spec cmd)\<rparr>
      | Some e \<Rightarrow>
        spec\<lparr>spec_Image := (if spec_Image (crs_Spec cmd) \<noteq> '''' then spec_Image (crs_Spec cmd)
                            else env_Image e),
             spec_EgressAllow := unionHosts (env_EgressAllow e) (spec_EgressAllow (crs_Spec cmd))\<rparr>)"

definition runsCachedSnapshot :: "Environment \<Rightarrow> bool" where
  "runsCachedSnapshot env \<longleftrightarrow> cp_Ref (env_Snapshot env) \<noteq> '''' \<and> env_SnapshotHash env = env_SetupHash env"

definition poolFree :: "Pool \<Rightarrow> int" where
  "poolFree p = pool_CapacityTotal p - pool_CapacityUsed p"

text \<open>One step of the loop of \<^verbatim>\<open>selectPool\<close>: the better of the best so far and the next pool.\<close>

definition betterPool :: "Pool \<Rightarrow> Pool option \<Rightarrow> Pool option" where
  "betterPool p best =
     (case best of
        None \<Rightarrow> Some p
      | Some b \<Rightarrow>
        (if poolFree p > poolFree b \<or> poolFree p = poolFree b \<and> pool_ID p < pool_ID b
         then Some p else Some b))"

definition selectPool :: "'s host \<Rightarrow> 's \<Rightarrow> Scope \<Rightarrow> Requirements \<Rightarrow> err + poolid" where
  "selectPool h s scope req =
     (case h_EligiblePools h s scope req of
        Inl _ \<Rightarrow> Inl ErrUnavailable
      | Inr pools \<Rightarrow>
        (case fold betterPool pools None of None \<Rightarrow> Inl ErrUnavailable | Some b \<Rightarrow> Inr (pool_ID b)))"

text \<open>The environment a create names, and its requirements; \<open>None\<close> for a scratch session.\<close>

definition createEnvironment :: "'s host \<Rightarrow> 's \<Rightarrow> Scope \<Rightarrow> CreateSessionCmd \<Rightarrow> err + Environment option" where
  "createEnvironment h s scope cmd =
     (if crs_EnvironmentID cmd = '''' then Inr None
      else case h_GetEnvironment h s (sco_WorkspaceID scope) (crs_EnvironmentID cmd) of
        Inl e \<Rightarrow> Inl (if errIs e ErrNotFound then ErrNotFound else ErrUnavailable)
      | Inr env \<Rightarrow> Inr (Some env))"

definition queuedSession ::
    "Scope \<Rightarrow> CreateSessionCmd \<Rightarrow> Environment option \<Rightarrow> poolid \<Rightarrow> sessionid \<Rightarrow> time \<Rightarrow> Session" where
  "queuedSession scope cmd env pool sid now =
     \<lparr>ses_ID = sid, ses_WorkspaceID = sco_WorkspaceID scope, ses_CreatorID = act_ID (sco_Actor scope),
      ses_Name = crs_Name cmd, ses_State = StateQueued, ses_EnvironmentID = crs_EnvironmentID cmd,
      ses_Spec = portableSpecFor cmd env, ses_SetupHash = '''', ses_PoolID = pool, ses_RunnerID = '''',
      ses_PlacementGeneration = 1, ses_ControllerGeneration = 0, ses_ControllerHolder = '''',
      ses_ControllerLeaseExpiresAt = zero_time, ses_IdempotencyKey = crs_IdempotencyKey cmd,
      ses_ChildExitCode = None, ses_Error = '''', ses_CreatedAt = now, ses_UpdatedAt = now,
      ses_LastEventAt = now\<rparr>"

text \<open>The closure of the unit of work: the row it captured (the zero session after a failure)
  and the closure's end state and error.\<close>

definition createUnit :: "'s host \<Rightarrow> 's \<Rightarrow> Scope \<Rightarrow> Session \<Rightarrow> Session \<times> ('s \<times> err option)" where
  "createUnit h s scope row =
     (case h_CreateSession h s (sco_WorkspaceID scope) row of
        (s1, Inl e) \<Rightarrow>
          (zeroSession, s1, Some (if errIs e ErrConflict then ErrConflict
             else if errIs e ErrNotFound then ErrNotFound else ErrUnavailable))
      | (s1, Inr stored) \<Rightarrow>
          (stored, recordEvent h s1 scope ActionCreate (sessionResource stored)
             (ses_PlacementGeneration stored)))"

text \<open>From the checked command on: pool, identity, row, unit of work, wake-up.\<close>

definition createQueued ::
    "'s host \<Rightarrow> 's \<Rightarrow> Scope \<Rightarrow> CreateSessionCmd \<Rightarrow> Environment option \<Rightarrow> 's \<times> (err + Session)" where
  "createQueued h s scope cmd env =
     (case selectPool h s scope (case env of None \<Rightarrow> noRequirements | Some e \<Rightarrow> env_Requirements e) of
        Inl e \<Rightarrow> (s, Inl e)
      | Inr pool \<Rightarrow>
        (let (s1, sid) = h_NewSessionID h s
         in if sid = '''' then (s1, Inl ErrUnavailable)
            else
              let (s2, now) = h_Now h s1;
                  (stored, fin) = createUnit h s2 scope (queuedSession scope cmd env pool sid now)
              in case runUnit h s2 fin of
                   (s3, Some e) \<Rightarrow> (s3, Inl e)
                 | (s3, None) \<Rightarrow> (h_Wake h s3 (ses_PoolID stored), Inr stored)))"

definition SessionService_CreateSession ::
    "'s host \<Rightarrow> 's \<Rightarrow> Scope \<Rightarrow> CreateSessionCmd \<Rightarrow> 's \<times> (err + Session)" where
  "SessionService_CreateSession h s scope cmd =
     (if Scope_Validate scope \<noteq> None then (s, Inl ErrInvalid)
      else if CreateSession_Validate cmd \<noteq> None then (s, Inl ErrInvalid)
      else if h_Authorize h s scope ActionCreate
                \<lparr>res_Kind = ResourceSession, res_WorkspaceID = sco_WorkspaceID scope, res_ID = '''',
                 res_CreatorID = act_ID (sco_Actor scope)\<rparr> \<noteq> None
      then (s, Inl ErrDenied)
      else
        case (if crs_IdempotencyKey cmd = '''' then Inl ErrNotFound
              else h_SessionByIDem h s (sco_WorkspaceID scope) (act_ID (sco_Actor scope))
                     (crs_IdempotencyKey cmd)) of
          Inr existing \<Rightarrow> (s, Inr existing)
        | Inl e \<Rightarrow>
          (if \<not> errIs e ErrNotFound then (s, Inl ErrUnavailable)
           else case createEnvironment h s scope cmd of
             Inl e' \<Rightarrow> (s, Inl e')
           | Inr env \<Rightarrow> createQueued h s scope cmd env))"

section \<open>Reads\<close>

text \<open>The guard every command on one session opens with: the scope, the row of the workspace,
  and the authorization to act on it.\<close>

definition authorizedRow ::
    "'s host \<Rightarrow> 's \<Rightarrow> Scope \<Rightarrow> Action \<Rightarrow> sessionid \<Rightarrow> err + Session" where
  "authorizedRow h s scope action sid =
     (if Scope_Validate scope \<noteq> None then Inl ErrInvalid
      else case h_GetSession h s (sco_WorkspaceID scope) sid of
        Inl e \<Rightarrow> Inl (if errIs e ErrNotFound then ErrNotFound else ErrUnavailable)
      | Inr row \<Rightarrow>
        (if h_Authorize h s scope action (sessionResource row) \<noteq> None then Inl ErrDenied else Inr row))"

definition SessionService_GetSession :: "'s host \<Rightarrow> 's \<Rightarrow> Scope \<Rightarrow> sessionid \<Rightarrow> err + Session" where
  "SessionService_GetSession h s scope sid = authorizedRow h s scope ActionGet sid"

definition SessionService_ListSessions ::
    "'s host \<Rightarrow> 's \<Rightarrow> Scope \<Rightarrow> SessionQuery \<Rightarrow> err + (Session list \<times> string)" where
  "SessionService_ListSessions h s scope q =
     (if Scope_Validate scope \<noteq> None then Inl ErrInvalid
      else if h_Authorize h s scope ActionList
                \<lparr>res_Kind = ResourceSession, res_WorkspaceID = sco_WorkspaceID scope, res_ID = '''',
                 res_CreatorID = ''''\<rparr> \<noteq> None
      then Inl ErrDenied
      else case h_ListSessions h s (sco_WorkspaceID scope) q of
        Inl _ \<Rightarrow> Inl ErrUnavailable | Inr page \<Rightarrow> Inr page)"

definition authoritative :: "'s host \<Rightarrow> 's \<Rightarrow> wsid \<Rightarrow> sessionid \<Rightarrow> err + Session" where
  "authoritative h s ws sid =
     (case h_GetSession h s ws sid of
        Inl e \<Rightarrow> Inl (if errIs e ErrNotFound then ErrNotFound else ErrUnavailable)
      | Inr row \<Rightarrow> Inr row)"

section \<open>Commands to the runner\<close>

definition reachable :: "'s host \<Rightarrow> 's \<Rightarrow> Session \<Rightarrow> bool" where
  "reachable h s row \<longleftrightarrow>
     ses_PoolID row \<noteq> '''' \<and> ses_RunnerID row \<noteq> '''' \<and> h_Connected h s (ses_PoolID row) (ses_RunnerID row)"

definition dispatch :: "'s host \<Rightarrow> 's \<Rightarrow> Session \<Rightarrow> ToRunner \<Rightarrow> 's \<times> (err + FromRunner)" where
  "dispatch h s row msg =
     (if \<not> reachable h s row then (s, Inl ErrUnavailable)
      else case h_Dispatch h s (ses_PoolID row) (ses_RunnerID row) msg of
        (s1, Inl _) \<Rightarrow> (s1, Inl ErrUnavailable)
      | (s1, Inr res) \<Rightarrow>
        (if \<not> from_OK res then (s1, Inl (if from_Conflict res then ErrRunnerConflict else ErrRunnerRefused))
         else (s1, Inr res)))"

definition reclaimWorkspace :: "'s host \<Rightarrow> 's \<Rightarrow> Session \<Rightarrow> 's" where
  "reclaimWorkspace h s row =
     (if \<not> reachable h s row then s
      else fst (h_Dispatch h s (ses_PoolID row) (ses_RunnerID row)
             (command ''remove_workspace'' (ses_ID row))))"

section \<open>Deletion\<close>

definition deleteFrom :: "SessionState \<Rightarrow> SessionState list" where
  "deleteFrom st = (if st = StateFailed then [StateFailed] else NonTerminal)"

text \<open>The unit of work and the wake-up both branches of a delete end with.\<close>

definition deleteUnit ::
    "'s host \<Rightarrow> 's \<Rightarrow> Scope \<Rightarrow> sessionid \<Rightarrow> Session \<Rightarrow> SessionState list \<Rightarrow> SessionState
       \<Rightarrow> 's \<times> err option" where
  "deleteUnit h s scope sid row from to =
     (case runUnit h s (transitionUnit h s scope sid row from to noOpts ActionDelete) of
        (s1, Some e) \<Rightarrow> (s1, Some e)
      | (s1, None) \<Rightarrow> (h_Wake h s1 (ses_PoolID row), None))"

definition SessionService_DeleteSession ::
    "'s host \<Rightarrow> 's \<Rightarrow> Scope \<Rightarrow> sessionid \<Rightarrow> 's \<times> err option" where
  "SessionService_DeleteSession h s scope sid =
     (case authorizedRow h s scope ActionDelete sid of
        Inl e \<Rightarrow> (s, Some e)
      | Inr row \<Rightarrow>
        (if Terminal (ses_State row) \<and> ses_State row \<noteq> StateFailed
         then (h_Wake h (reclaimWorkspace h s row) (ses_PoolID row), None)
         else if ses_State row = StateCreating then (s, Some ErrConflict)
         else if ses_State row = StateQueued then deleteUnit h s scope sid row [StateQueued] StateCanceled
         else if reachable h s row
         then (case dispatch h s row (command ''destroy'' (ses_ID row)) of
                 (s1, Inl e) \<Rightarrow> (s1, Some e)
               | (s1, Inr _) \<Rightarrow>
                 deleteUnit h (reclaimWorkspace h s1 row) scope sid row (deleteFrom (ses_State row)) StateDestroyed)
         else deleteUnit h s scope sid row (deleteFrom (ses_State row)) StateDestroyed))"

section \<open>Suspension and resumption\<close>

text \<open>The unit of work, the wake-up and the re-read suspend and resume end with.\<close>

definition settle ::
    "'s host \<Rightarrow> 's \<Rightarrow> Scope \<Rightarrow> sessionid \<Rightarrow> poolid \<Rightarrow> Session \<Rightarrow> SessionState list \<Rightarrow> SessionState
       \<Rightarrow> TransitionOpts \<Rightarrow> Action \<Rightarrow> 's \<times> (err + Session)" where
  "settle h s scope sid pool row from to opts action =
     (case runUnit h s (transitionUnit h s scope sid row from to opts action) of
        (s1, Some e) \<Rightarrow> (s1, Inl e)
      | (s1, None) \<Rightarrow>
        (let s2 = h_Wake h s1 pool in (s2, authoritative h s2 (sco_WorkspaceID scope) sid)))"

definition SessionService_SuspendSession ::
    "'s host \<Rightarrow> 's \<Rightarrow> Scope \<Rightarrow> sessionid \<Rightarrow> bool \<Rightarrow> 's \<times> (err + Session)" where
  "SessionService_SuspendSession h s scope sid warm =
     (case authorizedRow h s scope ActionSuspend sid of
        Inl e \<Rightarrow> (s, Inl e)
      | Inr row \<Rightarrow>
        (if ses_State row \<noteq> StateRunning then (s, Inl ErrConflict)
         else case dispatch h s row ((command ''suspend'' (ses_ID row))\<lparr>to_Warm := warm\<rparr>) of
           (s1, Inl e) \<Rightarrow> (s1, Inl e)
         | (s1, Inr _) \<Rightarrow>
           settle h s1 scope sid (ses_PoolID row) row [StateRunning] (if warm then StateSuspendedWarm else StateSuspendedCold)
             noOpts ActionSuspend))"

text \<open>The loop of \<^verbatim>\<open>coldResumeFree\<close>: the first listed runner that holds the volume.\<close>

fun holderSlots :: "'s host \<Rightarrow> 's \<Rightarrow> Session \<Rightarrow> Runner list \<Rightarrow> err + int" where
  "holderSlots h s row [] = Inr 0"
| "holderSlots h s row (r # rs) =
     (if run_ID r \<noteq> ses_RunnerID row then holderSlots h s row rs
      else case h_SessionsOnRunner h s (ses_PoolID row) (ses_RunnerID row) [StateCreating, StateResuming] of
        Inl e \<Rightarrow> Inl e
      | Inr creating \<Rightarrow> Inr (AvailableRunnerSlots r creating))"

definition coldResumeFree :: "'s host \<Rightarrow> 's \<Rightarrow> Session \<Rightarrow> err + int" where
  "coldResumeFree h s row =
     (case h_ListRunners h s (ses_PoolID row) of
        Inl e \<Rightarrow> Inl e | Inr runners \<Rightarrow> holderSlots h s row runners)"

text \<open>The options a cold resume claims its new placement with, and the command it then sends.\<close>

definition claimOpts :: "Session \<Rightarrow> TransitionOpts" where
  "claimOpts r = noOpts\<lparr>opt_RunnerID := Some (ses_RunnerID r),
     opt_ExpectedPlacementGeneration := Some (ses_PlacementGeneration r)\<rparr>"

definition resumeCommand :: "Session \<Rightarrow> Session \<Rightarrow> ToRunner" where
  "resumeCommand r claimed =
     (command ''resume'' (ses_ID r))\<lparr>to_PlacementGeneration := ses_PlacementGeneration claimed\<rparr>"

text \<open>The first unit of a cold resume: the claim of a new placement, and the row as claimed.\<close>

definition claimUnit :: "'s host \<Rightarrow> 's \<Rightarrow> Scope \<Rightarrow> Session \<Rightarrow> Session \<times> ('s \<times> err option)" where
  "claimUnit h s scope row =
     (case h_Transition h s (sco_WorkspaceID scope) (ses_ID row) [StateSuspendedCold] StateResuming
             (claimOpts row) of
        (s1, Some e) \<Rightarrow> (zeroSession, s1, Some (portError e))
      | (s1, None) \<Rightarrow>
        (case h_GetSession h s1 (sco_WorkspaceID scope) (ses_ID row) of
           Inl e \<Rightarrow> (zeroSession, s1, Some (portError e))
         | Inr claimed \<Rightarrow> (claimed, s1, None)))"

text \<open>The dispatch of a claimed cold resume and its second unit of work, fenced by the claimed
  generation.\<close>

definition resumeClaimed :: "'s host \<Rightarrow> 's \<Rightarrow> Scope \<Rightarrow> Session \<Rightarrow> Session \<Rightarrow> 's \<times> (err + Session)" where
  "resumeClaimed h s scope row claimed =
     (case dispatch h s claimed (resumeCommand row claimed) of
        (s1, Inl e) \<Rightarrow> (s1, Inl e)
      | (s1, Inr _) \<Rightarrow>
        settle h s1 scope (ses_ID row) (ses_PoolID row) claimed [StateResuming] StateRunning
          (noOpts\<lparr>opt_ExpectedPlacementGeneration := Some (ses_PlacementGeneration claimed)\<rparr>) ActionResume)"

definition resumeCold :: "'s host \<Rightarrow> 's \<Rightarrow> Scope \<Rightarrow> Session \<Rightarrow> 's \<times> (err + Session)" where
  "resumeCold h s scope row =
     (if \<not> h_Connected h s (ses_PoolID row) (ses_RunnerID row) then (s, Inl ErrUnavailable)
      else
        let (claimed, fin) = claimUnit h s scope row
        in case runUnit h s fin of
             (s1, Some e) \<Rightarrow> (s1, Inl e)
           | (s1, None) \<Rightarrow> resumeClaimed h s1 scope row claimed)"

definition SessionService_ResumeSession ::
    "'s host \<Rightarrow> 's \<Rightarrow> Scope \<Rightarrow> sessionid \<Rightarrow> 's \<times> (err + Session)" where
  "SessionService_ResumeSession h s scope sid =
     (case authorizedRow h s scope ActionResume sid of
        Inl e \<Rightarrow> (s, Inl e)
      | Inr row \<Rightarrow>
        (if ses_State row \<noteq> StateSuspendedWarm \<and> ses_State row \<noteq> StateSuspendedCold
         then (s, Inl ErrConflict)
         else if ses_State row = StateSuspendedCold
         then (case coldResumeFree h s row of
                 Inl _ \<Rightarrow> (s, Inl ErrUnavailable)
               | Inr free \<Rightarrow> if free \<le> 0 then (s, Inl ErrConflict) else resumeCold h s scope row)
         else case dispatch h s row (command ''resume'' (ses_ID row)) of
           (s1, Inl e) \<Rightarrow> (s1, Inl e)
         | (s1, Inr _) \<Rightarrow> settle h s1 scope sid (ses_PoolID row) row [ses_State row] StateRunning noOpts ActionResume))"

section \<open>Snapshots\<close>

definition SessionService_SnapshotSession ::
    "'s host \<Rightarrow> 's \<Rightarrow> Scope \<Rightarrow> sessionid \<Rightarrow> 's \<times> (err + Checkpoint)" where
  "SessionService_SnapshotSession h s scope sid =
     (case authorizedRow h s scope ActionSnapshot sid of
        Inl e \<Rightarrow> (s, Inl e)
      | Inr row \<Rightarrow>
        (if ses_State row \<notin> {StateRunning, StateSuspendedWarm, StateSuspendedCold}
         then (s, Inl ErrConflict)
         else case dispatch h s row (command ''snapshot'' (ses_ID row)) of
           (s1, Inl e) \<Rightarrow> (s1, Inl e)
         | (s1, Inr res) \<Rightarrow>
           (if from_Detail res = '''' then (s1, Inl ErrUnavailable)
            else case runUnit h s1 (recordEvent h s1 scope ActionSnapshot (sessionResource row)
                       (ses_PlacementGeneration row)) of
              (s2, Some e) \<Rightarrow> (s2, Inl e)
            | (s2, None) \<Rightarrow>
              (s2, Inr \<lparr>cp_Ref = from_Detail res, cp_Format = ''rainier-runner-v0'',
                        cp_Capabilities = Some [''workspace'']\<rparr>))))"

end
