(* ===== verification/AppSamples.thy ===== *)
theory AppSamples
  imports Samples Ports
begin

text \<open>
  A small installation on which the theorems about the application are evaluated: one pool
  with one runner, an authorizer that allows everything, and a runner that always answers.
\<close>

section \<open>A sample world\<close>

definition okAnswer :: FromRunner where
  "okAnswer = \<lparr>from_OK = True, from_Conflict = False, from_Detail = ''ref'', from_State = '''',
     from_PlacementGeneration = 0\<rparr>"

definition sampleMaterial :: LaunchMaterial where
  "sampleMaterial = \<lparr>mat_Repos = None, mat_GitAuthorName = ''a'', mat_GitAuthorEmail = ''b'',
     mat_Environment = [(''TOKEN'', ''x''), (''KEY'', ''y'')], mat_EgressAllow = Some [''github.com'']\<rparr>"

definition sampleOutside :: outside where
  "sampleOutside =
     \<lparr>o_Authorize = (\<lambda>scope action res. None),
      o_EligiblePools = (\<lambda>w scope req. Inr
        [\<lparr>pool_ID = ''b'', pool_Capabilities = None, pool_CapacityUsed = 1, pool_CapacityTotal = 4\<rparr>,
         \<lparr>pool_ID = ''pool'', pool_Capabilities = None, pool_CapacityUsed = 0, pool_CapacityTotal = 4\<rparr>]),
      o_Dispatch = (\<lambda>w pool rid m. (w, Inr okAnswer)),
      o_Connected = (\<lambda>w pool rid. True),
      o_LocateCheckpoint = (\<lambda>w ws cp. Inr \<lparr>loc_Portable = True, loc_Runners = []\<rparr>),
      o_ResolveLaunchMaterial = (\<lambda>w row env. Inr sampleMaterial),
      o_Yield = (\<lambda>w. w),
      o_Done = (\<lambda>w. False)\<rparr>"

definition sampleWorld :: "memStore \<Rightarrow> world" where
  "sampleWorld m =
     \<lparr>w_store = m, w_now = 50, w_random = [''1'', ''2'', ''3'', ''4'', ''5'', ''6''],
      w_queue = \<lparr>fq_known = {}, fq_wake = []\<rparr>, w_sent = []\<rparr>"

definition sampleScope :: Scope where
  "sampleScope =
     \<lparr>sco_WorkspaceID = installWorkspace, sco_Actor = \<lparr>act_ID = ''alice'', act_Kind = ActorUser\<rparr>,
      sco_Placement = \<lparr>pls_ProductRegion = ''r'', pls_HomeCell = ''c'', pls_Mode = ExecutionSelfHosted\<rparr>\<rparr>"

definition sampleCreate :: CreateSessionCmd where
  "sampleCreate = \<lparr>crs_Name = ''n'', crs_EnvironmentID = '''', crs_Spec = sampleSpec, crs_Repos = None,
     crs_IdempotencyKey = ''k9''\<rparr>"

text \<open>One session in a given state, on a runner with room.\<close>

definition stateStore :: "SessionState \<Rightarrow> memStore" where
  "stateStore st =
     fst (memFleet_UpsertRunner
       (fst (memSessions_Transition sampleStore 20 installWorkspace ''s1'' [StateQueued] st (placeOn ''r1'' None)))
       ''pool'' ((newRunner ''r1'' ''pool'')\<lparr>run_CapacityTotal := 2, run_Connected := True\<rparr>))"

end
