(* ===== verification/SessionProps.thy ===== *)
theory SessionProps
  imports SessionService StoreInv AppSamples
begin

text \<open>
  What the session service guarantees over any host that keeps the ports' contract
  (\<open>unit_of_work\<close>, \<open>session_host\<close>), whatever else happens while a command is in flight at a
  runner; the properties read these lemmas off the host over the in-memory store.
\<close>

section \<open>Errors stay in the closed vocabulary\<close>

definition closedErr :: "err \<Rightarrow> bool" where
  "closedErr e \<longleftrightarrow> e \<in> {ErrInvalid, ErrDenied, ErrNotFound, ErrConflict, ErrStale, ErrUnavailable,
     ErrUnsupported, ErrRunnerRefused, ErrRunnerConflict, ErrCanceled, ErrDeadlineExceeded}"

definition closedRes :: "err + 'a \<Rightarrow> bool" where
  "closedRes r \<longleftrightarrow> (case r of Inl e \<Rightarrow> closedErr e | Inr _ \<Rightarrow> True)"

definition closedOpt :: "err option \<Rightarrow> bool" where
  "closedOpt r \<longleftrightarrow> (case r of None \<Rightarrow> True | Some e \<Rightarrow> closedErr e)"

lemma closed_simps [simp]:
  "closedRes (Inr x)" "closedRes (Inl e) \<longleftrightarrow> closedErr e"
  "closedOpt None" "closedOpt (Some e) \<longleftrightarrow> closedErr e"
  "closedErr ErrInvalid" "closedErr ErrDenied" "closedErr ErrNotFound" "closedErr ErrConflict"
  "closedErr ErrUnavailable" "closedErr ErrRunnerRefused" "closedErr ErrRunnerConflict"
  by (simp_all add: closedRes_def closedOpt_def closedErr_def)

lemma portError_closed [simp]: "closedErr (portError e)"
  by (auto simp: portError_def closedErr_def errIs_def)

lemma recordEvent_closed: "closedOpt (snd (recordEvent h s scope a res g))"
  by (simp add: recordEvent_def Let_def case_prod_beta split: option.split)

lemma transitionUnit_closed: "closedOpt (snd (transitionUnit h s scope sid row from to opts a))"
  by (auto simp: transitionUnit_def recordEvent_closed split: prod.split option.split)

lemma dispatch_closed: "closedRes (snd (dispatch h s row msg))"
  by (auto simp: dispatch_def split: prod.split sum.split)

lemma authorizedRow_closed: "closedRes (authorizedRow h s scope a sid)"
  by (auto simp: authorizedRow_def split: sum.split)

lemma authoritative_closed: "closedRes (authoritative h s ws sid)"
  by (auto simp: authoritative_def split: sum.split)

context unit_of_work
begin

lemma runUnit_closed: "closedOpt (snd r) \<Longrightarrow> closedOpt (snd (runUnit h s r))"
  using run_error run_ok by (cases "snd r"; cases "h_Run h s (fst r) (snd r)") (fastforce simp: runUnit_def)+

lemma settle_closed: "closedRes (snd (settle h s scope sid pool row from to opts a))"
  using runUnit_closed [OF transitionUnit_closed, of s h s scope sid row "from" to opts a]
  by (auto simp: settle_def authoritative_closed Let_def split: prod.split option.split)

lemma deleteUnit_closed: "closedOpt (snd (deleteUnit h s scope sid row from to))"
  using runUnit_closed [OF transitionUnit_closed, of s h s scope sid row "from" to noOpts ActionDelete]
  by (auto simp: deleteUnit_def split: prod.split option.split)

lemma create_closed: "closedRes (snd (SessionService_CreateSession h s scope cmd))"
proof -
  have unit: "closedOpt (snd (snd (createUnit h t scope row)))" for t row
    by (auto simp: createUnit_def recordEvent_closed split: prod.split sum.split)
  have "closedRes (snd (createQueued h s scope cmd env))" for env
    using runUnit_closed [OF unit]
    by (auto simp: createQueued_def selectPool_def Let_def case_prod_beta split: sum.split option.split)
      (metis closed_simps(4) snd_conv)+
  then show ?thesis
    by (auto simp: SessionService_CreateSession_def createEnvironment_def split: sum.split)
qed

lemma delete_closed: "closedOpt (snd (SessionService_DeleteSession h s scope sid))"
  using authorizedRow_closed [of h s scope ActionDelete sid] dispatch_closed [of h s]
  by (auto simp: SessionService_DeleteSession_def deleteUnit_closed split: sum.split prod.split)
     (metis closed_simps(2) snd_conv)+

lemma suspend_closed: "closedRes (snd (SessionService_SuspendSession h s scope sid warm))"
  using authorizedRow_closed [of h s scope ActionSuspend sid] dispatch_closed [of h s]
  by (auto simp: SessionService_SuspendSession_def settle_closed split: sum.split prod.split)
     (metis closed_simps(2) snd_conv)+

lemma resumeClaimed_closed: "closedRes (snd (resumeClaimed h s scope row claimed))"
  using dispatch_closed [of h s]
  by (auto simp: resumeClaimed_def settle_closed split: sum.split prod.split)
     (metis closed_simps(2) snd_conv)+

lemma resumeCold_closed: "closedRes (snd (resumeCold h s scope row))"
proof -
  have "closedOpt (snd (snd (claimUnit h s scope row)))"
    by (auto simp: claimUnit_def Let_def split: prod.split option.split sum.split)
  from runUnit_closed [OF this, of s] show ?thesis
    by (auto simp: resumeCold_def resumeClaimed_closed Let_def case_prod_beta split: option.split)
qed

lemma resume_closed: "closedRes (snd (SessionService_ResumeSession h s scope sid))"
  using authorizedRow_closed [of h s scope ActionResume sid] dispatch_closed [of h s]
  by (auto simp: SessionService_ResumeSession_def settle_closed resumeCold_closed
      split: sum.split prod.split)
     (metis closed_simps(2) snd_conv)+

lemma snapshot_closed: "closedRes (snd (SessionService_SnapshotSession h s scope sid))"
  using authorizedRow_closed [of h s scope ActionSnapshot sid] dispatch_closed [of h s]
    runUnit_closed [OF recordEvent_closed]
  by (auto simp: SessionService_SnapshotSession_def split: sum.split prod.split option.split)
     (metis closed_simps(2,4) snd_conv)+

end

section \<open>What a command leaves in the store\<close>

context session_host
begin

lemma recordEvent_row: "row (fst (recordEvent h s scope a res g)) = row s"
  by (auto simp: recordEvent_def Let_def case_prod_beta record_row now_row event_id_row)

text \<open>A transition unit moves exactly the named row, or no row at all.\<close>

lemma transitionUnit_row:
  assumes "transitionUnit h s scope sid r0 from to opts a = (s1, e)"
  shows "(\<exists>r r'. row s (sco_WorkspaceID scope) sid = Some r \<and> expects from opts r
      \<and> transitioned to opts r r' \<and> row s1 (sco_WorkspaceID scope) sid = Some r')
    \<or> row s1 = row s \<and> (e = None \<longrightarrow>
        (\<forall>r. row s (sco_WorkspaceID scope) sid = Some r \<longrightarrow> \<not> expects from opts r))"
proof (cases "h_Transition h s (sco_WorkspaceID scope) sid from to opts")
  case (Pair s2 res)
  show ?thesis
  proof (cases res)
    case None
    with assms Pair have "s1 = fst (recordEvent h s2 scope a (sessionResource r0) (ses_PlacementGeneration r0))"
      by (simp add: transitionUnit_def)
    then have "row s1 = row s2" using recordEvent_row by simp
    with moves [OF Pair [unfolded None]] show ?thesis by auto
  next
    case (Some err)
    with refuses [OF Pair [unfolded Some]] assms Pair show ?thesis
      by (auto simp: transitionUnit_def split: if_splits)
  qed
qed

lemma runUnit_transition:
  assumes "runUnit h s (transitionUnit h s scope sid r0 from to opts a) = (s', None)"
  shows "(\<exists>r r'. row s (sco_WorkspaceID scope) sid = Some r \<and> expects from opts r
      \<and> transitioned to opts r r' \<and> row s' (sco_WorkspaceID scope) sid = Some r')
    \<or> row s' = row s
      \<and> (\<forall>r. row s (sco_WorkspaceID scope) sid = Some r \<longrightarrow> \<not> expects from opts r)"
proof -
  obtain s1 e where u: "transitionUnit h s scope sid r0 from to opts a = (s1, e)" by fastforce
  from assms u have run: "h_Run h s s1 e = (s', None)" by (simp add: runUnit_def)
  have e: "e = None" using run run_error by (cases e) fastforce+
  with run run_ok have "s' = s1" by blast
  with e transitionUnit_row [OF u] show ?thesis by simp
qed

lemma deleteUnit_row:
  assumes "deleteUnit h s scope sid r0 from to = (s', None)"
  shows "(\<exists>r r'. row s (sco_WorkspaceID scope) sid = Some r \<and> expects from noOpts r
      \<and> transitioned to noOpts r r' \<and> row s' (sco_WorkspaceID scope) sid = Some r')
    \<or> row s' = row s
      \<and> (\<forall>r. row s (sco_WorkspaceID scope) sid = Some r \<longrightarrow> \<not> expects from noOpts r)"
proof -
  obtain s1 e where u: "runUnit h s (transitionUnit h s scope sid r0 from to noOpts ActionDelete) = (s1, e)"
    by fastforce
  with assms have "e = None" "s' = h_Wake h s1 (ses_PoolID r0)"
    by (auto simp: deleteUnit_def split: option.splits)
  with runUnit_transition [OF u [unfolded \<open>e = None\<close>]] show ?thesis by (simp add: wake_row)
qed

lemma settle_row:
  assumes "settle h s scope sid pool r0 from to opts a = (s', Inr res)"
  shows "row s' (sco_WorkspaceID scope) sid = Some res
    \<and> (case row s (sco_WorkspaceID scope) sid of
         Some r \<Rightarrow> if expects from opts r then transitioned to opts r res else res = r
       | None \<Rightarrow> False)"
proof -
  let ?ws = "sco_WorkspaceID scope"
  obtain s1 e where u: "runUnit h s (transitionUnit h s scope sid r0 from to opts a) = (s1, e)"
    by fastforce
  with assms have e: "e = None" and s': "s' = h_Wake h s1 pool"
    and auth: "authoritative h s' ?ws sid = Inr res"
    by (auto simp: settle_def Let_def split: option.splits)
  have got: "row s' ?ws sid = Some res"
    using auth get_error by (auto simp: authoritative_def split: sum.splits)
  have same: "row s' = row s1" using s' wake_row by simp
  from runUnit_transition [OF u [unfolded e]] show ?thesis
  proof
    assume "\<exists>r r'. row s ?ws sid = Some r \<and> expects from opts r
      \<and> transitioned to opts r r' \<and> row s1 ?ws sid = Some r'"
    with got same show ?thesis by auto
  next
    assume "row s1 = row s \<and> (\<forall>r. row s ?ws sid = Some r \<longrightarrow> \<not> expects from opts r)"
    with got same show ?thesis by auto
  qed
qed

text \<open>A row seen by an authorized command, in the state the command starts from.\<close>

lemma authorizedRow_row:
  "authorizedRow h s scope a sid = Inr r
   \<Longrightarrow> row s (sco_WorkspaceID scope) sid = Some r \<and> Scope_Validate scope = None
     \<and> h_Authorize h s scope a (sessionResource r) = None"
  using get_error by (auto simp: authorizedRow_def split: if_splits sum.splits)

lemma NonTerminal_iff: "st \<in> set NonTerminal \<longleftrightarrow> \<not> Terminal st \<and> (\<forall>x. st \<noteq> StateOther x)"
  by (cases st) (auto simp: NonTerminal_def)

text \<open>A successful delete leaves the row in no live state, provided that the commands it
  sends do not revive a session that has already ended.\<close>

lemma delete_ends:
  assumes "SessionService_DeleteSession h s scope sid = (s', None)"
    and stable: "\<And>t pool rid msg ws k r. row t ws k = Some r \<Longrightarrow> Terminal (ses_State r)
      \<Longrightarrow> \<exists>r'. row (fst (h_Dispatch h t pool rid msg)) ws k = Some r' \<and> Terminal (ses_State r')"
    and r': "row s' (sco_WorkspaceID scope) sid = Some r'"
  shows "ses_State r' \<notin> set NonTerminal"
proof -
  let ?ws = "sco_WorkspaceID scope"
  from assms(1) obtain r where r: "authorizedRow h s scope ActionDelete sid = Inr r"
    by (auto simp: SessionService_DeleteSession_def split: sum.splits)
  note at = authorizedRow_row [OF r, THEN conjunct1]
  have keep: "\<exists>q. row (reclaimWorkspace h t x) ?ws sid = Some q \<and> Terminal (ses_State q)"
    if "row t ?ws sid = Some p" "Terminal (ses_State p)" for t x p
    using that stable [OF that] by (auto simp: reclaimWorkspace_def)
  have unit: "ses_State r' \<notin> set NonTerminal"
    if "deleteUnit h t scope sid r (deleteFrom (ses_State r)) StateDestroyed = (s', None)"
      and "ses_State r = StateFailed \<Longrightarrow> \<exists>q. row t ?ws sid = Some q \<and> Terminal (ses_State q)" for t
    using deleteUnit_row [OF that(1)] r' that(2)
    by (auto simp: transitioned_def NonTerminal_iff expects_def noOpts_def deleteFrom_def split: if_splits)
  show ?thesis
  proof (cases "Terminal (ses_State r) \<and> ses_State r \<noteq> StateFailed")
    case True
    with assms(1) r have "s' = h_Wake h (reclaimWorkspace h s r) (ses_PoolID r)"
      by (simp add: SessionService_DeleteSession_def)
    with keep [OF at, of r] True r' show ?thesis by (auto simp: wake_row NonTerminal_iff)
  next
    case live: False
    consider "ses_State r = StateQueued" | "ses_State r \<noteq> StateQueued" "reachable h s r"
      | "ses_State r \<noteq> StateQueued" "\<not> reachable h s r" by blast
    then show ?thesis
    proof cases
      case 1
      with assms(1) r live have "deleteUnit h s scope sid r [StateQueued] StateCanceled = (s', None)"
        by (simp add: SessionService_DeleteSession_def)
      from deleteUnit_row [OF this] 1 at r' show ?thesis
        by (auto simp: transitioned_def NonTerminal_iff expects_def noOpts_def)
    next
      case 2
      obtain s1 res where d: "dispatch h s r (command ''destroy'' (ses_ID r)) = (s1, res)" by fastforce
      with 2 assms(1) r live have del: "deleteUnit h (reclaimWorkspace h s1 r) scope sid r
          (deleteFrom (ses_State r)) StateDestroyed = (s', None)"
        by (auto simp: SessionService_DeleteSession_def split: if_splits sum.splits)
      have "s1 = fst (h_Dispatch h s (ses_PoolID r) (ses_RunnerID r) (command ''destroy'' (ses_ID r)))"
        using d 2 by (auto simp: dispatch_def split: prod.splits sum.splits if_splits)
      then show ?thesis
        using unit [OF del] keep stable [OF at] by fastforce
    next
      case 3
      with assms(1) r live have "deleteUnit h s scope sid r (deleteFrom (ses_State r)) StateDestroyed = (s', None)"
        by (auto simp: SessionService_DeleteSession_def split: if_splits)
      then show ?thesis using unit at by fastforce
    qed
  qed
qed

lemma claimUnit_row:
  assumes "runUnit h s (snd (claimUnit h s scope r)) = (s1, None)"
  shows "\<exists>q. row s (sco_WorkspaceID scope) (ses_ID r) = Some q \<and> expects [StateSuspendedCold] (claimOpts r) q
    \<and> transitioned StateResuming (claimOpts r) q (fst (claimUnit h s scope r))
    \<and> row s1 (sco_WorkspaceID scope) (ses_ID r) = Some (fst (claimUnit h s scope r))"
proof -
  let ?ws = "sco_WorkspaceID scope"
  obtain c t e where u: "claimUnit h s scope r = (c, t, e)" by (metis prod_cases3)
  with assms have run: "h_Run h s t e = (s1, None)" by (simp add: runUnit_def)
  have e: "e = None" using run run_error by (cases e) fastforce+
  with run run_ok have s1: "s1 = t" by blast
  from u e have "h_Transition h s ?ws (ses_ID r) [StateSuspendedCold] StateResuming (claimOpts r) = (t, None)"
    "h_GetSession h t ?ws (ses_ID r) = Inr c"
    by (auto simp: claimUnit_def claimOpts_def Let_def split: prod.splits option.splits sum.splits)
  with moves get_error u s1 show ?thesis by fastforce
qed

lemma cold_resume:
  assumes "SessionService_ResumeSession h s scope sid = (s', Inr x)"
    and "row s (sco_WorkspaceID scope) sid = Some r" and "ses_ID r = sid"
    and "ses_State r = StateSuspendedCold"
  shows "\<exists>s1 claimed s2 a r2. row s1 (sco_WorkspaceID scope) sid = Some claimed
    \<and> transitioned StateResuming (claimOpts r) r claimed
    \<and> dispatch h s1 claimed (resumeCommand r claimed) = (s2, Inr a)
    \<and> row s2 (sco_WorkspaceID scope) sid = Some r2
    \<and> row s' (sco_WorkspaceID scope) sid = Some x
    \<and> (if ses_State r2 = StateResuming \<and> ses_PlacementGeneration r2 = ses_PlacementGeneration claimed
       then transitioned StateRunning noOpts r2 x else x = r2)"
proof -
  let ?ws = "sco_WorkspaceID scope"
  from assms(1) obtain q where q: "authorizedRow h s scope ActionResume sid = Inr q"
    by (auto simp: SessionService_ResumeSession_def split: sum.splits)
  with authorizedRow_row assms(2) have "q = r" by fastforce
  with q assms(1,4) have "resumeCold h s scope r = (s', Inr x)"
    by (auto simp: SessionService_ResumeSession_def split: sum.splits if_splits)
  then obtain s1 where run: "runUnit h s (snd (claimUnit h s scope r)) = (s1, None)"
    and cl: "resumeClaimed h s1 scope r (fst (claimUnit h s scope r)) = (s', Inr x)"
    by (cases "runUnit h s (snd (claimUnit h s scope r))")
       (auto simp: resumeCold_def Let_def case_prod_beta split: if_splits option.splits)
  let ?c = "fst (claimUnit h s scope r)"
  let ?opts = "noOpts\<lparr>opt_ExpectedPlacementGeneration := Some (ses_PlacementGeneration ?c)\<rparr>"
  from cl obtain s2 a where d: "dispatch h s1 ?c (resumeCommand r ?c) = (s2, Inr a)"
    and st: "settle h s2 scope (ses_ID r) (ses_PoolID r) ?c [StateResuming] StateRunning ?opts ActionResume
      = (s', Inr x)"
    by (auto simp: resumeClaimed_def resumeCommand_def split: prod.splits sum.splits)
  have c: "row s1 ?ws sid = Some ?c" "transitioned StateResuming (claimOpts r) r ?c"
    using claimUnit_row [OF run] assms(2,3) by auto
  from settle_row [OF st] assms(3) obtain r2 where r2: "row s2 ?ws sid = Some r2" "row s' ?ws sid = Some x"
    "if expects [StateResuming] ?opts r2 then transitioned StateRunning ?opts r2 x else x = r2"
    by (auto split: option.splits)
  have "expects [StateResuming] ?opts r2
      \<longleftrightarrow> ses_State r2 = StateResuming \<and> ses_PlacementGeneration r2 = ses_PlacementGeneration ?c"
    by (auto simp: expects_def noOpts_def)
  moreover have "transitioned StateRunning ?opts r2 x \<longleftrightarrow> transitioned StateRunning noOpts r2 x"
    by (simp add: transitioned_def noOpts_def)
  ultimately show ?thesis using r2 c d by (metis (full_types))
qed

lemma suspended:
  assumes "SessionService_SuspendSession h s scope sid warm = (s', Inr x)"
  shows "\<exists>r s1 a r1. row s (sco_WorkspaceID scope) sid = Some r \<and> ses_State r = StateRunning
    \<and> dispatch h s r ((command ''suspend'' (ses_ID r))\<lparr>to_Warm := warm\<rparr>) = (s1, Inr a)
    \<and> row s1 (sco_WorkspaceID scope) sid = Some r1 \<and> row s' (sco_WorkspaceID scope) sid = Some x
    \<and> (if ses_State r1 = StateRunning
       then transitioned (if warm then StateSuspendedWarm else StateSuspendedCold) noOpts r1 x else x = r1)"
proof -
  let ?ws = "sco_WorkspaceID scope"
  from assms obtain r where r: "authorizedRow h s scope ActionSuspend sid = Inr r"
    by (auto simp: SessionService_SuspendSession_def split: sum.splits)
  with assms obtain s1 a where st: "ses_State r = StateRunning"
    and d: "dispatch h s r ((command ''suspend'' (ses_ID r))\<lparr>to_Warm := warm\<rparr>) = (s1, Inr a)"
    and set: "settle h s1 scope sid (ses_PoolID r) r [StateRunning]
      (if warm then StateSuspendedWarm else StateSuspendedCold) noOpts ActionSuspend = (s', Inr x)"
    by (auto simp: SessionService_SuspendSession_def split: sum.splits if_splits prod.splits)
  from settle_row [OF set] obtain r1 where r1: "row s1 ?ws sid = Some r1" "row s' ?ws sid = Some x"
    "if expects [StateRunning] noOpts r1
     then transitioned (if warm then StateSuspendedWarm else StateSuspendedCold) noOpts r1 x else x = r1"
    by (auto split: option.splits)
  have "expects [StateRunning] noOpts r1 \<longleftrightarrow> ses_State r1 = StateRunning"
    by (simp add: expects_def noOpts_def)
  with r1 st d authorizedRow_row [OF r] show ?thesis by auto
qed

end

section \<open>Creation over the in-memory store\<close>

lemma fold_betterPool:
  assumes "fold betterPool pools best = Some b"
  shows "(b \<in> set pools \<or> best = Some b)
    \<and> (\<forall>p \<in> set pools \<union> set_option best. poolFree p < poolFree b
         \<or> poolFree p = poolFree b \<and> pool_ID b \<le> pool_ID p)"
  using assms
proof (induction pools arbitrary: best)
  case Nil
  then show ?case by simp
next
  case (Cons p pools)
  have "set_option (betterPool p best) \<subseteq> insert p (set_option best)"
    by (auto simp: betterPool_def split: option.splits if_splits)
  moreover have "\<forall>q \<in> insert p (set_option best). \<exists>c \<in> set_option (betterPool p best).
      poolFree q < poolFree c \<or> poolFree q = poolFree c \<and> pool_ID c \<le> pool_ID q"
    by (auto simp: betterPool_def split: option.splits)
  ultimately show ?case
    using Cons.IH [of "betterPool p best"] Cons.prems
    by auto
qed

lemma fold_betterPool_None: "fold betterPool pools best = None \<longleftrightarrow> pools = [] \<and> best = None"
  by (induction pools arbitrary: best) (auto simp: betterPool_def split: option.split)

lemma selectPool_best:
  "(case selectPool h s scope req of
      Inl e \<Rightarrow> e = ErrUnavailable \<and> (\<forall>ps. h_EligiblePools h s scope req = Inr ps \<longrightarrow> ps = [])
    | Inr pid \<Rightarrow> (\<exists>ps b. h_EligiblePools h s scope req = Inr ps \<and> b \<in> set ps \<and> pid = pool_ID b
        \<and> (\<forall>p \<in> set ps. poolFree p < poolFree b \<or> poolFree p = poolFree b \<and> pool_ID b \<le> pool_ID p)))"
  using fold_betterPool [of _ None] fold_betterPool_None [of _ None]
  by (auto simp: selectPool_def split: sum.split option.split)

text \<open>An event the in-memory store accepts is appended to its log.\<close>

lemma recordEvent_mem:
  assumes "recordEvent (memHost out) w scope a res g = (w', None)"
  shows "\<exists>ev. ms_events (w_store w') = ms_events (w_store w) @ [ev] \<and> evt_Action ev = a
    \<and> evt_Resource ev = res \<and> evt_PlacementGeneration ev = g \<and> evt_ActorID ev = act_ID (sco_Actor scope)
    \<and> evt_WorkspaceID ev = sco_WorkspaceID scope
    \<and> worldRow w' = worldRow w \<and> w_queue w' = w_queue w \<and> w_sent w' = w_sent w"
  using assms
  by (auto simp: recordEvent_def memHost_def Let_def case_prod_beta onStore_def draw_def memStore_Record_def
      worldRow_def fun_eq_iff split: if_splits option.splits list.splits)

lemma createUnit_mem:
  assumes "createUnit (memHost out) w scope r = (stored, w', None)"
    and "ses_IdempotencyKey r = '''' \<or> sessionByIdem (w_store w) (sco_WorkspaceID scope) (ses_CreatorID r)
      (ses_IdempotencyKey r) = None"
  shows "stored = storedSession (w_now w) (sco_WorkspaceID scope) r
    \<and> worldRow w' (sco_WorkspaceID scope) (ses_ID r) = Some stored
    \<and> w_queue w' = w_queue w \<and> w_sent w' = w_sent w
    \<and> (\<exists>ev. ms_events (w_store w') = ms_events (w_store w) @ [ev] \<and> evt_Action ev = ActionCreate
        \<and> evt_Resource ev = sessionResource stored
        \<and> evt_PlacementGeneration ev = ses_PlacementGeneration stored)"
proof -
  let ?ws = "sco_WorkspaceID scope"
  obtain w1 res where c: "h_CreateSession (memHost out) w ?ws r = (w1, res)" by fastforce
  with assms(1) obtain st where res: "res = Inr st" "stored = st"
    and rec: "recordEvent (memHost out) w1 scope ActionCreate (sessionResource st) (ses_PlacementGeneration st)
      = (w', None)"
    by (auto simp: createUnit_def split: sum.splits)
  have mem: "memSessions_CreateSession (w_store w) (w_now w) ?ws r = (w_store w1, Inr st)"
    and w1: "w1 = w\<lparr>w_store := w_store w1\<rparr>"
    using c res by (simp_all add: memHost_def onStore_eq)
  have st: "st = storedSession (w_now w) ?ws r \<and> w_store w1 = putSession (w_store w) ?ws (ses_ID r) st"
    using mem assms(2) by (auto simp: memSessions_CreateSession_def split: if_splits option.splits)
  have same: "w_queue w1 = w_queue w" "w_sent w1 = w_sent w"
    using arg_cong [OF w1, of w_queue] arg_cong [OF w1, of w_sent] by simp_all
  have row: "worldRow w1 ?ws (ses_ID r) = Some st" using st by (simp add: worldRow_def)
  have evs: "ms_events (w_store w1) = ms_events (w_store w)" using st by simp
  show ?thesis using recordEvent_mem [OF rec] st res same row evs by auto
qed

lemma SessionByIDem_NotFound:
  "memSessions_SessionByIDem m ws c key = Inl ErrNotFound \<Longrightarrow> key = '''' \<or> sessionByIdem m ws c key = None"
  by (auto simp: memSessions_SessionByIDem_def split: if_splits option.splits)

lemma create_queues:
  assumes "SessionService_CreateSession (memHost out) w scope cmd = (w', Inr r)"
    and "crs_IdempotencyKey cmd = '''' \<or> memSessions_SessionByIDem (w_store w) (sco_WorkspaceID scope)
      (act_ID (sco_Actor scope)) (crs_IdempotencyKey cmd) = Inl ErrNotFound"
  shows "\<exists>env pool. createEnvironment (memHost out) w scope cmd = Inr env
    \<and> selectPool (memHost out) w scope (case env of None \<Rightarrow> noRequirements | Some e \<Rightarrow> env_Requirements e)
      = Inr pool
    \<and> worldRow w' (sco_WorkspaceID scope) (ses_ID r) = Some r
    \<and> ses_State r = StateQueued \<and> ses_PoolID r = pool \<and> ses_CreatorID r = act_ID (sco_Actor scope)
    \<and> ses_Spec r = portableSpecFor cmd env \<and> ses_PlacementGeneration r = 1 \<and> ses_RunnerID r = ''''
    \<and> w_queue w' = FleetService_Wake (w_queue w) pool \<and> w_sent w' = w_sent w
    \<and> (\<exists>ev. ms_events (w_store w') = ms_events (w_store w) @ [ev] \<and> evt_Action ev = ActionCreate
        \<and> evt_Resource ev = sessionResource r \<and> evt_PlacementGeneration ev = 1)"
proof -
  let ?ws = "sco_WorkspaceID scope"
  from assms obtain env where env: "createEnvironment (memHost out) w scope cmd = Inr env"
    and q: "createQueued (memHost out) w scope cmd env = (w', Inr r)"
    by (auto simp: SessionService_CreateSession_def memHost_def split: if_splits sum.splits)
  from q obtain pool where
    pool: "selectPool (memHost out) w scope (case env of None \<Rightarrow> noRequirements | Some e \<Rightarrow> env_Requirements e) = Inr pool"
    by (auto simp: createQueued_def split: sum.splits)
  obtain w1 sid where w1: "h_NewSessionID (memHost out) w = (w1, sid)" by fastforce
  obtain w2 now where w2: "h_Now (memHost out) w1 = (w2, now)" by fastforce
  obtain stored fin where
    u: "createUnit (memHost out) w2 scope (queuedSession scope cmd env pool sid now) = (stored, fin)"
    by (metis prod.collapse)
  obtain w3 res where run': "runUnit (memHost out) w2 fin = (w3, res)" by fastforce
  with q pool w1 w2 u have run: "runUnit (memHost out) w2 fin = (w3, None)"
    and w': "w' = h_Wake (memHost out) w3 (ses_PoolID stored)" "r = stored"
    by (auto simp: createQueued_def Let_def split: if_splits option.splits)
  have fin: "fin = (w3, None)" using run by (cases fin) (simp add: runUnit_def memHost_def memStore_Run_def)
  have keep: "w_store w2 = w_store w" "w_queue w2 = w_queue w" "w_sent w2 = w_sent w"
    using w1 w2 by (auto simp: memHost_def draw_def split: list.splits)
  have idem: "ses_IdempotencyKey (queuedSession scope cmd env pool sid now) = ''''
      \<or> sessionByIdem (w_store w2) ?ws (ses_CreatorID (queuedSession scope cmd env pool sid now))
          (ses_IdempotencyKey (queuedSession scope cmd env pool sid now)) = None"
    using assms(2) keep(1) by (auto simp: queuedSession_def dest: SessionByIDem_NotFound)
  note made = createUnit_mem [OF u [unfolded fin] idem]
  have r: "ses_ID r = sid \<and> ses_State r = StateQueued \<and> ses_PoolID r = pool
      \<and> ses_CreatorID r = act_ID (sco_Actor scope) \<and> ses_Spec r = portableSpecFor cmd env
      \<and> ses_PlacementGeneration r = 1 \<and> ses_RunnerID r = ''''"
    using made w'(2) by (simp add: storedSession_def queuedSession_def)
  have world: "worldRow w' = worldRow w3" "w_sent w' = w_sent w3" "ms_events (w_store w') = ms_events (w_store w3)"
    "w_queue w' = FleetService_Wake (w_queue w3) pool"
    using w' r by (simp_all add: memHost_def worldRow_def fun_eq_iff)
  have "ses_ID (queuedSession scope cmd env pool sid now) = ses_ID r" using r by (simp add: queuedSession_def)
  then have "worldRow w' ?ws (ses_ID r) = Some r" using made world(1) w'(2) by metis
  moreover have "\<exists>ev. ms_events (w_store w') = ms_events (w_store w) @ [ev] \<and> evt_Action ev = ActionCreate
        \<and> evt_Resource ev = sessionResource r \<and> evt_PlacementGeneration ev = 1"
    using made world keep w'(2) r by auto
  ultimately show ?thesis using env pool r world keep made by auto
qed

section \<open>Properties\<close>




text \<open>A session is created into the eligible pool with the most free capacity, the smallest
  identity among equals, full or over-committed pools included; only an empty set of
  eligible pools, or a resolver that fails, makes a creation unavailable.\<close>

theorem select_pool_best:
  "case selectPool h s scope req of
      Inl e \<Rightarrow> e = ErrUnavailable \<and> (\<forall>ps. h_EligiblePools h s scope req = Inr ps \<longrightarrow> ps = [])
    | Inr pid \<Rightarrow> (\<exists>ps b. h_EligiblePools h s scope req = Inr ps \<and> b \<in> set ps \<and> pid = pool_ID b
        \<and> (\<forall>p \<in> set ps. poolFree p < poolFree b \<or> poolFree p = poolFree b \<and> pool_ID b \<le> pool_ID p))"
  by (rule selectPool_best)

theorem select_pool_best_witness:
  "selectPool (memHost sampleOutside) (sampleWorld sampleStore) sampleScope noRequirements = Inr ''pool''"
proof -
  have "case selectPool (memHost sampleOutside) (sampleWorld sampleStore) sampleScope noRequirements of
      Inl e \<Rightarrow> e = ErrUnavailable | Inr pid \<Rightarrow> pid = ''pool''"
    using select_pool_best [of "memHost sampleOutside" "sampleWorld sampleStore" sampleScope noRequirements]
    by (auto simp: memHost_def sampleOutside_def poolFree_def split: sum.splits)
  moreover have "\<not> isl (selectPool (memHost sampleOutside) (sampleWorld sampleStore) sampleScope noRequirements)"
    by code_simp
  ultimately show ?thesis by (auto split: sum.splits)
qed

text \<open>A creation that is not a replay stores exactly one queued row, at placement
  generation 1 in the selected pool and with the resolved specification, records exactly one
  creation event for it, wakes its pool, and sends no command.\<close>

theorem create_session_queues:
  assumes "SessionService_CreateSession (memHost out) w scope cmd = (w', Inr r)"
    and "crs_IdempotencyKey cmd = '''' \<or> memSessions_SessionByIDem (w_store w) (sco_WorkspaceID scope)
      (act_ID (sco_Actor scope)) (crs_IdempotencyKey cmd) = Inl ErrNotFound"
  shows "\<exists>env pool. createEnvironment (memHost out) w scope cmd = Inr env
    \<and> selectPool (memHost out) w scope (case env of None \<Rightarrow> noRequirements | Some e \<Rightarrow> env_Requirements e)
      = Inr pool
    \<and> worldRow w' (sco_WorkspaceID scope) (ses_ID r) = Some r
    \<and> ses_State r = StateQueued \<and> ses_PoolID r = pool \<and> ses_CreatorID r = act_ID (sco_Actor scope)
    \<and> ses_Spec r = portableSpecFor cmd env \<and> ses_PlacementGeneration r = 1 \<and> ses_RunnerID r = ''''
    \<and> w_queue w' = FleetService_Wake (w_queue w) pool \<and> w_sent w' = w_sent w
    \<and> (\<exists>ev. ms_events (w_store w') = ms_events (w_store w) @ [ev] \<and> evt_Action ev = ActionCreate
        \<and> evt_Resource ev = sessionResource r \<and> evt_PlacementGeneration ev = 1)"
  using assms by (rule create_queues)

theorem create_session_queues_witness:
  "\<exists>w' r. SessionService_CreateSession (memHost sampleOutside) (sampleWorld sampleStore) sampleScope sampleCreate
     = (w', Inr r) \<and> worldRow w' installWorkspace (ses_ID r) = Some r \<and> ses_PoolID r = ''pool''
     \<and> fq_wake (w_queue w') = [''pool'']"
proof -
  let ?r = "SessionService_CreateSession (memHost sampleOutside) (sampleWorld sampleStore) sampleScope sampleCreate"
  have ok: "\<not> isl (snd ?r)" "fq_wake (w_queue (fst ?r)) = [''pool'']"
    "ses_PoolID (projr (snd ?r)) = ''pool''"
    "memSessions_SessionByIDem (w_store (sampleWorld sampleStore)) (sco_WorkspaceID sampleScope)
       (act_ID (sco_Actor sampleScope)) (crs_IdempotencyKey sampleCreate) = Inl ErrNotFound"
    by code_simp+
  then obtain w' r where r: "?r = (w', Inr r)" by (cases ?r; cases "snd ?r") auto
  from create_session_queues [OF this] ok(4) have "worldRow w' installWorkspace (ses_ID r) = Some r"
    by (auto simp: sampleScope_def)
  with r ok show ?thesis by auto
qed

text \<open>C35. A delete that succeeds leaves the session in no live state, whatever other requests did
  while the runner was asked to destroy it, provided they do not revive a session that has
  already ended.\<close>

theorem delete_session_ends:
  assumes "SessionService_DeleteSession (memHost out) w scope sid = (w', None)"
    and "\<forall>t pool rid msg ws k r. worldRow t ws k = Some r \<longrightarrow> Terminal (ses_State r)
      \<longrightarrow> (\<exists>r'. worldRow (fst (o_Dispatch out t pool rid msg)) ws k = Some r' \<and> Terminal (ses_State r'))"
  shows "\<forall>r. worldRow w' (sco_WorkspaceID scope) sid = Some r \<longrightarrow> ses_State r \<notin> set NonTerminal"
proof (intro allI impI)
  fix r assume r: "worldRow w' (sco_WorkspaceID scope) sid = Some r"
  have "\<exists>r'. worldRow (fst (h_Dispatch (memHost out) t pool rid msg)) ws k = Some r' \<and> Terminal (ses_State r')"
    if "worldRow t ws k = Some q" "Terminal (ses_State q)" for t pool rid msg ws k q
    using that assms(2) by (simp add: memHost_def worldRow_def)
  from mem.delete_ends [OF assms(1) this r] show "ses_State r \<notin> set NonTerminal" .
qed

theorem delete_session_ends_witness:
  "\<exists>w' r. SessionService_DeleteSession (memHost sampleOutside) (sampleWorld (stateStore StateRunning)) sampleScope ''s1''
     = (w', None) \<and> worldRow w' installWorkspace ''s1'' = Some r \<and> ses_State r \<notin> set NonTerminal
     \<and> map (\<lambda>(p, r, m). to_Type m) (w_sent w') = [''destroy'', ''remove_workspace'']"
proof -
  let ?r = "SessionService_DeleteSession (memHost sampleOutside) (sampleWorld (stateStore StateRunning)) sampleScope ''s1''"
  have ok: "snd ?r = None" "worldRow (fst ?r) installWorkspace ''s1'' \<noteq> None"
    "map (\<lambda>(p, r, m). to_Type m) (w_sent (fst ?r)) = [''destroy'', ''remove_workspace'']"
    by code_simp+
  then obtain w' q where r: "?r = (w', None)" "worldRow w' installWorkspace ''s1'' = Some q"
    by (cases ?r) auto
  have "ses_State q \<notin> set NonTerminal"
    using delete_session_ends [OF r(1)] r(2) by (simp add: sampleOutside_def sampleScope_def)
  with r ok show ?thesis by auto
qed

text \<open>A suspend that succeeds was sent to the runner of a running session, and answers with
  the stored row. If the row is still running when the answer arrives it is now suspended as
  asked, on the same runner and at the same placement generation; if it has moved on
  meanwhile, it is left exactly as it was found.\<close>

theorem suspend_session_spec:
  assumes "SessionService_SuspendSession (memHost out) w scope sid warm = (w', Inr x)"
  shows "\<exists>r w1 a r1. worldRow w (sco_WorkspaceID scope) sid = Some r \<and> ses_State r = StateRunning
    \<and> dispatch (memHost out) w r ((command ''suspend'' (ses_ID r))\<lparr>to_Warm := warm\<rparr>) = (w1, Inr a)
    \<and> worldRow w1 (sco_WorkspaceID scope) sid = Some r1 \<and> worldRow w' (sco_WorkspaceID scope) sid = Some x
    \<and> (if ses_State r1 = StateRunning
       then transitioned (if warm then StateSuspendedWarm else StateSuspendedCold) noOpts r1 x else x = r1)"
  using assms by (rule mem.suspended)

theorem suspend_session_spec_witness:
  "\<exists>w' x. SessionService_SuspendSession (memHost sampleOutside) (sampleWorld (stateStore StateRunning)) sampleScope
     ''s1'' True = (w', Inr x) \<and> worldRow w' installWorkspace ''s1'' = Some x \<and> ses_State x = StateSuspendedWarm"
proof -
  let ?r = "SessionService_SuspendSession (memHost sampleOutside) (sampleWorld (stateStore StateRunning)) sampleScope ''s1'' True"
  have ok: "\<not> isl (snd ?r)" "ses_State (projr (snd ?r)) = StateSuspendedWarm" by code_simp+
  then obtain w' x where r: "?r = (w', Inr x)" by (cases ?r; cases "snd ?r") auto
  from suspend_session_spec [OF r] have "worldRow w' installWorkspace ''s1'' = Some x"
    by (auto simp: sampleScope_def)
  with r ok show ?thesis by auto
qed



end
