(* ===== verification/Utf8.thy ===== *)
theory Utf8
  imports Prelude
begin

text \<open>
  Go's \<^verbatim>\<open>unicode/utf8\<close> and \<^verbatim>\<open>strings.ToValidUTF8\<close> as the program uses them: a string is a list of
  bytes, and a rune is the sequence of one to four bytes that the encoding allows at a
  position. \<open>boundDetail\<close> (\<^verbatim>\<open>src/controlapp/fleet.go\<close>) clips runner-supplied text with them.
\<close>

section \<open>Runes\<close>

abbreviation octet :: "char \<Rightarrow> nat" where
  "octet \<equiv> of_char"

definition cont :: "nat \<Rightarrow> nat \<Rightarrow> char \<Rightarrow> bool" where
  "cont lo hi c \<longleftrightarrow> lo \<le> octet c \<and> octet c \<le> hi"

text \<open>The accepted range of the second byte, by the first; \<open>None\<close> for a byte that starts no
  multi-byte rune. The pair is the number of bytes and the range.\<close>

definition leader :: "char \<Rightarrow> (nat \<times> nat \<times> nat) option" where
  "leader c =
     (let b = octet c
      in if 0xC2 \<le> b \<and> b \<le> 0xDF then Some (2, 0x80, 0xBF)
         else if b = 0xE0 then Some (3, 0xA0, 0xBF)
         else if b = 0xED then Some (3, 0x80, 0x9F)
         else if 0xE1 \<le> b \<and> b \<le> 0xEF then Some (3, 0x80, 0xBF)
         else if b = 0xF0 then Some (4, 0x90, 0xBF)
         else if 0xF1 \<le> b \<and> b \<le> 0xF3 then Some (4, 0x80, 0xBF)
         else if b = 0xF4 then Some (4, 0x80, 0x8F)
         else None)"

text \<open>The number of bytes of the rune at the head of a string; 0 when there is none
  (\<^verbatim>\<open>RuneError\<close>).\<close>

fun runeLen :: "string \<Rightarrow> nat" where
  "runeLen [] = 0"
| "runeLen (c # cs) =
     (if octet c < 0x80 then 1
      else case leader c of
        None \<Rightarrow> 0
      | Some (n, lo, hi) \<Rightarrow>
        (if n - 1 \<le> length cs \<and> cont lo hi (hd cs) \<and> list_all (cont 0x80 0xBF) (take (n - 2) (tl cs))
         then n else 0))"

lemma leader_range: "leader c = Some (n, lo, hi) \<Longrightarrow> 2 \<le> n \<and> n \<le> 4 \<and> 0x80 \<le> lo \<and> hi \<le> 0xBF"
  by (auto simp: leader_def Let_def split: if_splits)

lemma runeLen_bounds: "runeLen s \<le> length s \<and> runeLen s \<le> 4"
  by (cases s) (auto split: option.split dest: leader_range)

lemma runeLen_Cons: "runeLen (c # cs) \<le> Suc (length cs)"
  using runeLen_bounds [of "c # cs"] by simp

text \<open>Whether a rune starts at the head depends on its own bytes only.\<close>

lemma runeLen_take: "0 < runeLen s \<Longrightarrow> runeLen (take (runeLen s) s) = runeLen s"
proof (cases s)
  case (Cons c cs)
  assume pos: "0 < runeLen s"
  show ?thesis
  proof (cases "octet c < 0x80")
    case False
    then obtain n lo hi where l: "leader c = Some (n, lo, hi)"
      using pos Cons by (auto split: option.splits)
    note r = leader_range [OF l]
    have ok: "n - 1 \<le> length cs" "cont lo hi (hd cs)" "list_all (cont 0x80 0xBF) (take (n - 2) (tl cs))"
      and n: "runeLen s = n"
      using pos False l Cons by (auto split: if_splits)
    obtain m where m: "n = Suc (Suc m)" using r by (metis add_2_eq_Suc le_Suc_ex)
    have "cs \<noteq> []" using ok(1) m by auto
    then show ?thesis
      using False l ok n m Cons by (cases cs) (auto simp: min_def)
  qed (use Cons in simp)
qed simp

lemma runeLen_append: "0 < runeLen s \<Longrightarrow> runeLen (s @ t) = runeLen s"
proof (cases s)
  case (Cons c cs)
  assume pos: "0 < runeLen s"
  show ?thesis
  proof (cases "octet c < 0x80")
    case False
    then obtain n lo hi where l: "leader c = Some (n, lo, hi)"
      using pos Cons by (auto split: option.splits)
    note r = leader_range [OF l]
    have ok: "n - 1 \<le> length cs" "cont lo hi (hd cs)" "list_all (cont 0x80 0xBF) (take (n - 2) (tl cs))"
      using pos False l Cons by (auto split: if_splits)
    obtain m where m: "n = Suc (Suc m)" using r by (metis add_2_eq_Suc le_Suc_ex)
    have "cs \<noteq> []" using ok(1) m by auto
    then show ?thesis
      using False l ok m Cons by (cases cs) auto
  qed (use Cons in simp)
qed simp

section \<open>ValidString, ToValidUTF8 and the last rune\<close>

function ValidString :: "string \<Rightarrow> bool" where
  "ValidString s =
     (if s = [] then True else if runeLen s = 0 then False else ValidString (drop (runeLen s) s))"
  by auto
termination by (relation "measure length") (auto simp: Suc_le_eq)

declare ValidString.simps [simp del]

lemma ValidString_Nil [simp]: "ValidString []"
  by (simp add: ValidString.simps)

lemma ValidString_step: "ValidString s \<Longrightarrow> s \<noteq> [] \<Longrightarrow> 0 < runeLen s \<and> ValidString (drop (runeLen s) s)"
  by (subst (asm) ValidString.simps) (simp split: if_splits)

function ToValidUTF8 :: "string \<Rightarrow> string" where
  "ToValidUTF8 s =
     (if s = [] then []
      else if runeLen s = 0 then ToValidUTF8 (tl s)
      else take (runeLen s) s @ ToValidUTF8 (drop (runeLen s) s))"
  by auto
termination by (relation "measure length") auto

declare ToValidUTF8.simps [simp del]

text \<open>\<^verbatim>\<open>DecodeLastRuneInString\<close>: from the last byte back over at most four bytes to one that is no
  continuation byte; the rune that starts there counts if it ends the string.\<close>

definition RuneStart :: "char \<Rightarrow> bool" where
  "RuneStart c \<longleftrightarrow> \<not> (0x80 \<le> octet c \<and> octet c \<le> 0xBF)"

fun lastStart :: "nat \<Rightarrow> string \<Rightarrow> nat \<Rightarrow> nat" where
  "lastStart lim s i =
     (if RuneStart (s ! i) then i else if i = 0 \<or> i \<le> lim then i else lastStart lim s (i - 1))"

declare lastStart.simps [simp del]

definition lastRuneSize :: "string \<Rightarrow> nat" where
  "lastRuneSize s =
     (let end = length s
      in if end = 0 then 0
         else if octet (s ! (end - 1)) < 0x80 then 1
         else
           let i = lastStart (end - 4) s (end - 1);
               n = (if runeLen (drop i s) = 0 then 1 else runeLen (drop i s))
           in if i + n \<noteq> end then 1 else n)"

lemma ValidString_rune_append:
  "0 < runeLen r \<Longrightarrow> runeLen r = length r \<Longrightarrow> ValidString (r @ t) = ValidString t"
  using runeLen_append [of r t] by (subst ValidString.simps) auto

lemma ValidString_append: "ValidString s \<Longrightarrow> ValidString t \<Longrightarrow> ValidString (s @ t)"
proof (induction s rule: ValidString.induct)
  case (1 s)
  show ?case
  proof (cases "s = []")
    case False
    with 1 have r: "0 < runeLen s" "ValidString (drop (runeLen s) s)"
      by (auto simp: ValidString.simps [of s] split: if_splits)
    then have "ValidString (drop (runeLen s) s @ t)" using 1 False by auto
    moreover have "runeLen (take (runeLen s) s) = length (take (runeLen s) s)" "0 < runeLen (take (runeLen s) s)"
      using runeLen_take [OF r(1)] r(1) runeLen_bounds [of s] by auto
    ultimately have "ValidString (take (runeLen s) s @ drop (runeLen s) s @ t)"
      using ValidString_rune_append by blast
    then show ?thesis by (metis append.assoc append_take_drop_id)
  qed (use 1 in simp)
qed

lemma ToValidUTF8_Nil [simp]: "ToValidUTF8 [] = []"
  by (simp add: ToValidUTF8.simps)

lemma ToValidUTF8_valid: "ValidString (ToValidUTF8 s)"
proof (induction s rule: ToValidUTF8.induct)
  case (1 s)
  show ?case
  proof (cases "s = [] \<or> runeLen s = 0")
    case False
    then have r: "runeLen (take (runeLen s) s) = length (take (runeLen s) s)" "0 < runeLen (take (runeLen s) s)"
      using runeLen_take [of s] runeLen_bounds [of s] by auto
    show ?thesis
      using 1 False ValidString_rune_append [OF r(2,1)] by (subst ToValidUTF8.simps) auto
  qed (use 1 in \<open>auto simp: ToValidUTF8.simps [of s]\<close>)
qed

lemma ToValidUTF8_id: "ValidString s \<Longrightarrow> ToValidUTF8 s = s"
proof (induction s rule: ValidString.induct)
  case (1 s)
  then show ?case
    by (cases "s = []") (auto simp: ToValidUTF8.simps [of s] ValidString.simps [of s] split: if_splits)
qed

text \<open>A valid string ends in a rune, and \<open>lastRuneSize\<close> is its length.\<close>

definition isRune :: "string \<Rightarrow> bool" where
  "isRune r \<longleftrightarrow> r \<noteq> [] \<and> runeLen r = length r"

lemma isRune_take: "0 < runeLen s \<Longrightarrow> isRune (take (runeLen s) s)"
  using runeLen_take [of s] runeLen_bounds [of s] by (auto simp: isRune_def)

lemma ValidString_last:
  "ValidString s \<Longrightarrow> s \<noteq> [] \<Longrightarrow> \<exists>p r. s = p @ r \<and> ValidString p \<and> isRune r"
proof (induction s rule: ValidString.induct)
  case (1 s)
  let ?r = "take (runeLen s) s" and ?t = "drop (runeLen s) s"
  have pos: "0 < runeLen s" and val: "ValidString ?t"
    using 1(2,3) by (auto simp: ValidString.simps [of s] split: if_splits)
  note rune = isRune_take [OF pos]
  show ?case
  proof (cases "?t = []")
    case True
    then have "s = [] @ ?r" by simp
    then show ?thesis using rune ValidString_Nil by metis
  next
    case False
    then obtain p r where pr: "?t = p @ r" "ValidString p" "isRune r"
      using 1(1) [OF 1(3)] pos val by auto
    have "ValidString (?r @ p)"
      using ValidString_rune_append [of ?r p] rune pr(2) by (simp add: isRune_def)
    moreover have "s = (?r @ p) @ r" using pr(1) by (metis append.assoc append_take_drop_id)
    ultimately show ?thesis using pr(3) by blast
  qed
qed

lemma isRune_conts:
  assumes "isRune r" "\<not> octet (hd r) < 0x80"
  shows "RuneStart (hd r) \<and> 2 \<le> length r \<and> length r \<le> 4 \<and> (\<forall>i. 0 < i \<longrightarrow> i < length r \<longrightarrow> \<not> RuneStart (r ! i))"
proof -
  obtain c cs where r: "r = c # cs" using assms by (cases r) (auto simp: isRune_def)
  obtain n lo hi where l: "leader c = Some (n, lo, hi)"
    using assms r by (auto simp: isRune_def split: option.splits)
  note rg = leader_range [OF l]
  have ok: "cont lo hi (hd cs)" "list_all (cont 0x80 0xBF) (take (n - 2) (tl cs))" "n = Suc (length cs)"
    using assms r l by (auto simp: isRune_def split: if_splits)
  obtain d ds where cs: "cs = d # ds" using ok(3) rg by (cases cs) auto
  have "RuneStart c" using l by (auto simp: RuneStart_def leader_def Let_def split: if_splits)
  moreover have "\<not> RuneStart (cs ! j)" if "j < length cs" for j
    using ok rg that cs by (cases j) (auto simp: RuneStart_def cont_def list_all_length)
  ultimately show ?thesis using r rg ok(3) by (auto simp: nth_Cons')
qed

lemma isRune_single: "isRune r \<Longrightarrow> octet (hd r) < 0x80 \<Longrightarrow> length r = 1"
  by (cases r) (auto simp: isRune_def)

lemma lastStart_rune:
  assumes "\<forall>i. 0 < i \<longrightarrow> i < length r \<longrightarrow> \<not> RuneStart (r ! i)" "RuneStart (hd r)" "lim \<le> length p"
  shows "k < length r \<Longrightarrow> lastStart lim (p @ r) (length p + k) = length p"
proof (induction k)
  case 0
  then show ?case using assms(2) by (subst lastStart.simps) (simp add: nth_append hd_conv_nth)
next
  case (Suc k)
  then show ?case using assms by (subst lastStart.simps) (simp add: nth_append)
qed

lemma lastRuneSize_rune:
  assumes "isRune r"
  shows "lastRuneSize (p @ r) = length r"
proof (cases "octet (hd r) < 0x80")
  case True
  then have "length r = 1" using isRune_single assms by blast
  then obtain c where "r = [c]" by (auto simp: length_Suc_conv)
  with True show ?thesis by (simp add: lastRuneSize_def nth_append)
next
  case False
  note c = isRune_conts [OF assms False]
  let ?k = "length r - 1"
  have k: "length (p @ r) - 1 = length p + ?k" "(p @ r) ! (length p + ?k) = r ! ?k" "?k < length r" "0 < ?k"
    using c by (auto simp: nth_append)
  have "\<not> RuneStart (r ! ?k)" using c k(3,4) by blast
  then have "\<not> octet ((p @ r) ! (length (p @ r) - 1)) < 0x80" using k by (auto simp: RuneStart_def)
  moreover have "lastStart (length (p @ r) - 4) (p @ r) (length p + ?k) = length p"
    using lastStart_rune [of r "length (p @ r) - 4" p ?k] c k(3) by auto
  ultimately show ?thesis
    using assms k(1) c unfolding lastRuneSize_def Let_def isRune_def by auto
qed

section \<open>boundDetail\<close>

definition maxDetailBytes :: nat where
  "maxDetailBytes = 2048"

lemma lastRuneSize_pos: "s \<noteq> [] \<Longrightarrow> 0 < lastRuneSize s"
  by (auto simp: lastRuneSize_def Let_def)

text \<open>The loop that drops whole runes from the end until the text fits.\<close>

function clipRunes :: "nat \<Rightarrow> string \<Rightarrow> string" where
  "clipRunes lim s =
     (if length s > lim then clipRunes lim (take (length s - lastRuneSize s) s) else s)"
  by auto
termination
  by (relation "measure (\<lambda>(lim, s). length s)") (auto intro!: diff_less lastRuneSize_pos)

declare clipRunes.simps [simp del]

definition boundDetail :: "string \<Rightarrow> string" where
  "boundDetail s = clipRunes maxDetailBytes (ToValidUTF8 s)"

lemma clipRunes_ok:
  "ValidString s \<Longrightarrow> ValidString (clipRunes lim s) \<and> length (clipRunes lim s) \<le> lim
     \<and> (\<exists>t. s = clipRunes lim s @ t \<and> (length s \<le> lim \<longrightarrow> t = []) \<and> (lim < length s \<longrightarrow> lim < length (clipRunes lim s) + 4))"
proof (induction lim s rule: clipRunes.induct)
  case (1 lim s)
  show ?case
  proof (cases "length s > lim")
    case True
    then obtain p r where s: "s = p @ r" and ok: "ValidString p" "isRune r"
      using ValidString_last [of s] 1(2) by fastforce
    then have cut: "take (length s - lastRuneSize s) s = p" by (simp add: lastRuneSize_rune)
    have step: "clipRunes lim s = clipRunes lim p" using True cut by (subst clipRunes.simps) simp
    have r4: "length r \<le> 4" using ok(2) runeLen_bounds [of r] by (simp add: isRune_def)
    obtain t where t: "ValidString (clipRunes lim p)" "length (clipRunes lim p) \<le> lim"
      "p = clipRunes lim p @ t" "length p \<le> lim \<longrightarrow> t = []" "lim < length p \<longrightarrow> lim < length (clipRunes lim p) + 4"
      using 1(1) [OF True] cut ok(1) by auto
    have "lim < length (clipRunes lim p) + 4"
    proof (cases "lim < length p")
      case False
      then have "clipRunes lim p = p" using t(3,4) by simp
      then show ?thesis using True s r4 by simp
    qed (use t in blast)
    moreover have "s = clipRunes lim p @ t @ r" using s t(3) by simp
    ultimately show ?thesis using step t(1,2) True by fastforce
  qed (use 1 in \<open>simp add: clipRunes.simps [of lim s]\<close>)
qed

text \<open>Text a runner supplies is clipped before it is stored: whatever bytes arrive, \<open>boundDetail\<close>
  returns valid UTF-8 of at most 2048 bytes, a prefix of the input's valid part, cut at a rune
  boundary so that fewer than four bytes of the bound are given up; text that is valid and fits
  is unchanged, and nothing else is.\<close>

theorem boundDetail_bounds:
  "ValidString (boundDetail s) \<and> length (boundDetail s) \<le> 2048
     \<and> (\<exists>t. ToValidUTF8 s = boundDetail s @ t
          \<and> (if length (ToValidUTF8 s) \<le> 2048 then t = [] else 2044 < length (boundDetail s)))
     \<and> (boundDetail s = s \<longleftrightarrow> ValidString s \<and> length s \<le> 2048)"
proof -
  obtain t where ok: "ValidString (boundDetail s)" "length (boundDetail s) \<le> 2048"
    and t: "ToValidUTF8 s = boundDetail s @ t"
    and fits: "length (ToValidUTF8 s) \<le> 2048 \<longrightarrow> t = []"
      "2048 < length (ToValidUTF8 s) \<longrightarrow> 2048 < length (boundDetail s) + 4"
    using clipRunes_ok [OF ToValidUTF8_valid [of s], of maxDetailBytes]
    unfolding boundDetail_def maxDetailBytes_def by blast
  have "boundDetail s = s" if "ValidString s" "length s \<le> 2048"
    using that t fits ToValidUTF8_id [of s] by simp
  then have same: "boundDetail s = s \<longleftrightarrow> ValidString s \<and> length s \<le> 2048"
    using ok by metis
  have "if length (ToValidUTF8 s) \<le> 2048 then t = [] else 2044 < length (boundDetail s)"
    using fits by simp
  with ok t same show ?thesis by blast
qed

end
