(* ===== verification/Sha256.thy ===== *)
theory Sha256
  imports Utf8
begin

text \<open>
  Go's \<^verbatim>\<open>crypto/sha256\<close> and \<^verbatim>\<open>encoding/hex\<close>, as the program uses them
  (\<^verbatim>\<open>src/controlapp/hash.go\<close>, \<^verbatim>\<open>bootstrap.go\<close>, \<^verbatim>\<open>agents.go\<close>): the compression function on 32-bit
  words, the padding, and the lower-case hexadecimal digest.
\<close>

unbundle bit_operations_syntax

type_synonym u32 = "32 word"

text \<open>The tables of FIPS 180-4, in decimal.\<close>

definition roundConstants :: "u32 list" where
  "roundConstants =
     [1116352408, 1899447441, 3049323471, 3921009573, 961987163, 1508970993, 2453635748,
      2870763221, 3624381080, 310598401, 607225278, 1426881987, 1925078388, 2162078206,
      2614888103, 3248222580, 3835390401, 4022224774, 264347078, 604807628, 770255983,
      1249150122, 1555081692, 1996064986, 2554220882, 2821834349, 2952996808, 3210313671,
      3336571891, 3584528711, 113926993, 338241895, 666307205, 773529912, 1294757372, 1396182291,
      1695183700, 1986661051, 2177026350, 2456956037, 2730485921, 2820302411, 3259730800,
      3345764771, 3516065817, 3600352804, 4094571909, 275423344, 430227734, 506948616, 659060556,
      883997877, 958139571, 1322822218, 1537002063, 1747873779, 1955562222, 2024104815,
      2227730452, 2361852424, 2428436474, 2756734187, 3204031479, 3329325298]"

definition initialHash :: "u32 list" where
  "initialHash =
     [1779033703, 3144134277, 1013904242, 2773480762, 1359893119, 2600822924, 528734635,
      1541459225]"

definition rotr :: "nat \<Rightarrow> u32 \<Rightarrow> u32" where
  "rotr n x = word_rotr n x"

definition sigma0 :: "u32 \<Rightarrow> u32" where
  "sigma0 x = rotr 7 x XOR rotr 18 x XOR drop_bit 3 x"

definition sigma1 :: "u32 \<Rightarrow> u32" where
  "sigma1 x = rotr 17 x XOR rotr 19 x XOR drop_bit 10 x"

definition Sigma0 :: "u32 \<Rightarrow> u32" where
  "Sigma0 x = rotr 2 x XOR rotr 13 x XOR rotr 22 x"

definition Sigma1 :: "u32 \<Rightarrow> u32" where
  "Sigma1 x = rotr 6 x XOR rotr 11 x XOR rotr 25 x"

text \<open>The message schedule, the latest word first: sixteen words of the block, then 48 more.\<close>

fun schedule :: "nat \<Rightarrow> u32 list \<Rightarrow> u32 list" where
  "schedule 0 ws = ws"
| "schedule (Suc n) ws =
     schedule n ((sigma1 (ws ! 1) + ws ! 6 + sigma0 (ws ! 14) + ws ! 15) # ws)"

fun rounds :: "u32 list \<Rightarrow> (u32 \<times> u32) list \<Rightarrow> u32 list" where
  "rounds [a, b, c, d, e, f, g, h] ((k, w) # kws) =
     (let t1 = h + Sigma1 e + ((e AND f) XOR (NOT e AND g)) + k + w;
          t2 = Sigma0 a + ((a AND b) XOR (a AND c) XOR (b AND c))
      in rounds [t1 + t2, a, b, c, d + t1, e, f, g] kws)"
| "rounds st _ = st"

definition compress :: "u32 list \<Rightarrow> u32 list \<Rightarrow> u32 list" where
  "compress st block =
     map2 (+) st (rounds st (zip roundConstants (rev (schedule 48 (rev block)))))"

text \<open>The padded message: a 1 bit, zeros, and the length in bits as 64 bits, to whole blocks of
  64 bytes.\<close>

definition beBytes :: "nat \<Rightarrow> int \<Rightarrow> int list" where
  "beBytes k n = map (\<lambda>i. n div 256 ^ (k - 1 - i) mod 256) [0..<k]"

definition pad :: "string \<Rightarrow> int list" where
  "pad s = map of_char s @ [0x80] @ replicate ((119 - length s mod 64) mod 64) 0 @ beBytes 8 (8 * int (length s))"

fun beWords :: "int list \<Rightarrow> u32 list" where
  "beWords (a # b # c # d # bs) = word_of_int (((a * 256 + b) * 256 + c) * 256 + d) # beWords bs"
| "beWords _ = []"

fun blocks :: "nat \<Rightarrow> 'a list \<Rightarrow> 'a list list" where
  "blocks 0 xs = []"
| "blocks (Suc n) xs = (if xs = [] then [] else take 16 xs # blocks n (drop 16 xs))"

definition Sum256 :: "string \<Rightarrow> int list" where
  "Sum256 s =
     (let ws = beWords (pad s)
      in concat (map (\<lambda>w. beBytes 4 (uint w)) (foldl compress initialHash (blocks (length ws) ws))))"

definition hexDigit :: "int \<Rightarrow> char" where
  "hexDigit n = ''0123456789abcdef'' ! nat n"

definition hexEncode :: "int list \<Rightarrow> string" where
  "hexEncode bs = concat (map (\<lambda>b. [hexDigit (b div 16), hexDigit (b mod 16)]) bs)"

text \<open>The digest is always 64 characters of hexadecimal.\<close>

lemma length_beBytes [simp]: "length (beBytes k n) = k"
  by (simp add: beBytes_def)

lemma length_rounds: "length (rounds st kws) = length st"
  by (induction st kws rule: rounds.induct) (auto simp: Let_def)

lemma length_compress [simp]: "length (compress st b) = length st"
  by (simp add: compress_def length_rounds)

lemma length_foldl_compress: "length (foldl compress st bs) = length st"
  by (induction bs arbitrary: st) auto

lemma length_concat_const: "\<forall>x \<in> set xs. length (f x) = k \<Longrightarrow> length (concat (map f xs)) = k * length xs"
  by (induction xs) auto

lemma length_Sum256 [simp]: "length (Sum256 s) = 32"
  by (simp add: Sum256_def Let_def length_concat_const [where k = 4] length_foldl_compress initialHash_def)

lemma length_hexEncode [simp]: "length (hexEncode bs) = 2 * length bs"
  by (simp add: hexEncode_def length_concat_const [where k = 2])

end
