(* ===== verification/Json.thy ===== *)
theory Json
  imports Sha256
begin

text \<open>
  Go's \<^verbatim>\<open>encoding/json\<close> as the program uses it: the encoder of strings, arrays and objects
  (\<^verbatim>\<open>json.Marshal\<close>), the scanner as a parser of values, and on it the syntax checker
  \<^verbatim>\<open>json.Valid\<close> that connectors are admitted with and the decoder of cursors and answers.
\<close>

section \<open>json.Marshal of strings, arrays and objects\<close>

definition hex2 :: "char \<Rightarrow> string" where
  "hex2 c = hexEncode [int (octet c)]"

text \<open>An ASCII byte of a JSON string, as Go escapes it (HTML characters included).\<close>

definition jsonByte :: "char \<Rightarrow> string" where
  "jsonByte c =
     (if c = CHR 0x5C \<or> c = CHR 0x22 then [CHR 0x5C, c]
      else if c = CHR 0x08 then [CHR 0x5C, CHR ''b'']
      else if c = CHR 0x0C then [CHR 0x5C, CHR ''f'']
      else if c = CHR 0x0A then [CHR 0x5C, CHR ''n'']
      else if c = CHR 0x0D then [CHR 0x5C, CHR ''r'']
      else if c = CHR 0x09 then [CHR 0x5C, CHR ''t'']
      else if octet c < 0x20 \<or> c = CHR ''<'' \<or> c = CHR ''>'' \<or> c = CHR ''&''
      then CHR 0x5C # ''u00'' @ hex2 c
      else [c])"

text \<open>A rune: bytes that encode none become U+FFFD, and the two line separators of JavaScript
  are escaped.\<close>

function jsonChars :: "string \<Rightarrow> string" where
  "jsonChars s =
     (if s = [] then []
      else if octet (hd s) < 0x80 then jsonByte (hd s) @ jsonChars (tl s)
      else if runeLen s = 0 then CHR 0x5C # ''ufffd'' @ jsonChars (tl s)
      else if take 3 s = [CHR 0xE2, CHR 0x80, CHR 0xA8]
      then CHR 0x5C # ''u2028'' @ jsonChars (drop 3 s)
      else if take 3 s = [CHR 0xE2, CHR 0x80, CHR 0xA9]
      then CHR 0x5C # ''u2029'' @ jsonChars (drop 3 s)
      else take (runeLen s) s @ jsonChars (drop (runeLen s) s))"
  by auto
termination by (relation "measure length") auto

declare jsonChars.simps [simp del]

definition jsonString :: "string \<Rightarrow> string" where
  "jsonString s = CHR 0x22 # jsonChars s @ [CHR 0x22]"

fun jsonJoin :: "string list \<Rightarrow> string" where
  "jsonJoin [] = []"
| "jsonJoin [x] = x"
| "jsonJoin (x # y # xs) = x @ CHR '','' # jsonJoin (y # xs)"

text \<open>A nil slice marshals as null.\<close>

definition jsonArray :: "string slice \<Rightarrow> string" where
  "jsonArray xs = (case xs of None \<Rightarrow> ''null'' | Some ys \<Rightarrow> ''['' @ jsonJoin ys @ '']'')"

definition jsonObject :: "(string \<times> string) list \<Rightarrow> string" where
  "jsonObject fs = ''{'' @ jsonJoin (map (\<lambda>(k, v). jsonString k @ '':'' @ v) fs) @ ''}''"

section \<open>The scanner\<close>

text \<open>Each function skips one construct and returns what follows it; \<open>None\<close> is a syntax error.\<close>

definition isSpace :: "char \<Rightarrow> bool" where
  "isSpace c \<longleftrightarrow> c = CHR '' '' \<or> c = CHR 0x09 \<or> c = CHR 0x0D \<or> c = CHR 0x0A"

definition skipSpace :: "string \<Rightarrow> string" where
  "skipSpace s = dropWhile isSpace s"

definition isDigit :: "char \<Rightarrow> bool" where
  "isDigit c \<longleftrightarrow> CHR ''0'' \<le> c \<and> c \<le> CHR ''9''"

definition isHex :: "char \<Rightarrow> bool" where
  "isHex c \<longleftrightarrow> isDigit c \<or> CHR ''a'' \<le> c \<and> c \<le> CHR ''f'' \<or> CHR ''A'' \<le> c \<and> c \<le> CHR ''F''"

text \<open>At least one digit.\<close>

definition skipDigits :: "string \<Rightarrow> string option" where
  "skipDigits s = (case s of [] \<Rightarrow> None | c # r \<Rightarrow> if isDigit c then Some (dropWhile isDigit r) else None)"

definition skipInt :: "string \<Rightarrow> string option" where
  "skipInt s =
     (case s of
        [] \<Rightarrow> None
      | c # r \<Rightarrow> if c = CHR ''0'' then Some r else if isDigit c then Some (dropWhile isDigit r) else None)"

definition skipFrac :: "string \<Rightarrow> string option" where
  "skipFrac s = (case s of [] \<Rightarrow> Some [] | c # r \<Rightarrow> if c = CHR ''.'' then skipDigits r else Some s)"

definition skipExp :: "string \<Rightarrow> string option" where
  "skipExp s =
     (case s of
        [] \<Rightarrow> Some []
      | c # r \<Rightarrow>
        if c = CHR ''e'' \<or> c = CHR ''E''
        then skipDigits (if r \<noteq> [] \<and> (hd r = CHR ''+'' \<or> hd r = CHR ''-'') then tl r else r)
        else Some s)"

definition skipNumber :: "string \<Rightarrow> string option" where
  "skipNumber s =
     (case skipInt (if s \<noteq> [] \<and> hd s = CHR ''-'' then tl s else s) of
        None \<Rightarrow> None
      | Some r \<Rightarrow> (case skipFrac r of None \<Rightarrow> None | Some r' \<Rightarrow> skipExp r'))"

definition isEscape :: "char \<Rightarrow> bool" where
  "isEscape e \<longleftrightarrow>
     e \<in> {CHR ''b'', CHR ''f'', CHR ''n'', CHR ''r'', CHR ''t'', CHR 0x5C, CHR ''/'', CHR 0x22}"

text \<open>The rest of a string after its opening quote.\<close>

fun skipChars :: "string \<Rightarrow> string option" where
  "skipChars [] = None"
| "skipChars (c # r) =
     (if c = CHR 0x22 then Some r
      else if c = CHR 0x5C
      then (case r of
              [] \<Rightarrow> None
            | e # r' \<Rightarrow>
              if isEscape e then skipChars r'
              else if e = CHR ''u''
              then (case r' of
                      h1 # h2 # h3 # h4 # r'' \<Rightarrow>
                        if isHex h1 \<and> isHex h2 \<and> isHex h3 \<and> isHex h4 then skipChars r'' else None
                    | _ \<Rightarrow> None)
              else None)
      else if octet c < 0x20 then None
      else skipChars r)"

definition skipWord :: "string \<Rightarrow> string \<Rightarrow> string option" where
  "skipWord w s = (if take (length w) s = w then Some (drop (length w) s) else None)"

section \<open>Unquoting\<close>

text \<open>\<^verbatim>\<open>utf8.AppendRune\<close>: a code point as bytes; a surrogate or a value out of range is U+FFFD.\<close>

definition EncodeRune :: "nat \<Rightarrow> string" where
  "EncodeRune r =
     (if r < 0x80 then [char_of r]
      else if r < 0x800 then [char_of (0xC0 + r div 64), char_of (0x80 + r mod 64)]
      else if 0xD800 \<le> r \<and> r \<le> 0xDFFF \<or> 0x10FFFF < r then [CHR 0xEF, CHR 0xBF, CHR 0xBD]
      else if r < 0x10000
      then [char_of (0xE0 + r div 4096), char_of (0x80 + r div 64 mod 64), char_of (0x80 + r mod 64)]
      else [char_of (0xF0 + r div 262144), char_of (0x80 + r div 4096 mod 64),
            char_of (0x80 + r div 64 mod 64), char_of (0x80 + r mod 64)])"

definition hexValue :: "char \<Rightarrow> nat" where
  "hexValue c =
     (if isDigit c then octet c - 0x30
      else if CHR ''a'' \<le> c \<and> c \<le> CHR ''f'' then octet c - 0x57
      else octet c - 0x37)"

definition hex4 :: "string \<Rightarrow> nat" where
  "hex4 s = foldl (\<lambda>n c. 16 * n + hexValue c) 0 (take 4 s)"

text \<open>The second half of a surrogate pair, if it follows.\<close>

definition lowSurrogate :: "string \<Rightarrow> nat option" where
  "lowSurrogate s =
     (case s of
        b # u # r \<Rightarrow>
          if b = CHR 0x5C \<and> u = CHR ''u'' \<and> 4 \<le> length r \<and> list_all isHex (take 4 r)
             \<and> 0xDC00 \<le> hex4 r \<and> hex4 r < 0xE000
          then Some (hex4 r) else None
      | _ \<Rightarrow> None)"

definition unescape :: "char \<Rightarrow> char" where
  "unescape e =
     (if e = CHR ''b'' then CHR 0x08 else if e = CHR ''f'' then CHR 0x0C
      else if e = CHR ''n'' then CHR 0x0A else if e = CHR ''r'' then CHR 0x0D
      else if e = CHR ''t'' then CHR 0x09 else e)"

text \<open>The value of a string literal the scanner has accepted.\<close>

function unquote :: "string \<Rightarrow> string" where
  "unquote s =
     (case s of
        [] \<Rightarrow> []
      | c # r \<Rightarrow>
        if c = CHR 0x5C
        then (case r of
                [] \<Rightarrow> []
              | e # r' \<Rightarrow>
                if e = CHR ''u''
                then
                  if 0xD800 \<le> hex4 r' \<and> hex4 r' < 0xDC00 \<and> lowSurrogate (drop 4 r') \<noteq> None
                  then EncodeRune ((hex4 r' - 0xD800) * 1024 + (the (lowSurrogate (drop 4 r')) - 0xDC00) + 0x10000)
                         @ unquote (drop 10 r')
                  else EncodeRune (hex4 r') @ unquote (drop 4 r')
                else unescape e # unquote r')
        else if octet c < 0x80 then c # unquote r
        else if runeLen s = 0 then EncodeRune 0xFFFD @ unquote r
        else take (runeLen s) s @ unquote (drop (runeLen s) s))"
  by auto
termination by (relation "measure length") auto

declare unquote.simps [simp del]

section \<open>Values\<close>

text \<open>A number keeps its text: how it is read depends on the field it is decoded into.\<close>

datatype jvalue =
    JNull | JBool bool | JNumber string | JString string
  | JArray "jvalue list" | JObject "(string \<times> jvalue) list"

text \<open>What precedes \<open>r\<close> in \<open>s\<close>.\<close>

definition textBefore :: "string \<Rightarrow> string \<Rightarrow> string" where
  "textBefore r s = take (length s - length r) s"

text \<open>The literal whose opening quote has been read, and the rest after its closing quote.\<close>

definition parseString :: "string \<Rightarrow> (string \<times> string) option" where
  "parseString s = map_option (\<lambda>r. (unquote (textBefore (CHR 0x22 # r) s), r)) (skipChars s)"

text \<open>A value that is no array and no object.\<close>

definition parseAtom :: "string \<Rightarrow> (jvalue \<times> string) option" where
  "parseAtom s =
     (if hd s = CHR 0x22 then map_option (\<lambda>(v, r). (JString v, r)) (parseString (tl s))
      else if hd s = CHR ''-'' \<or> isDigit (hd s)
      then map_option (\<lambda>r. (JNumber (textBefore r s), r)) (skipNumber s)
      else if hd s = CHR ''t'' then map_option (\<lambda>r. (JBool True, r)) (skipWord ''true'' s)
      else if hd s = CHR ''f'' then map_option (\<lambda>r. (JBool False, r)) (skipWord ''false'' s)
      else map_option (\<lambda>r. (JNull, r)) (skipWord ''null'' s))"

text \<open>Values, array elements and object members. The first argument is fuel, the second how many
  levels of nesting are still allowed (\<^verbatim>\<open>maxNestingDepth\<close> is 10000).\<close>

fun parseValue :: "nat \<Rightarrow> nat \<Rightarrow> string \<Rightarrow> (jvalue \<times> string) option"
  and parseElements :: "nat \<Rightarrow> nat \<Rightarrow> string \<Rightarrow> (jvalue list \<times> string) option"
  and parseMembers :: "nat \<Rightarrow> nat \<Rightarrow> string \<Rightarrow> ((string \<times> jvalue) list \<times> string) option" where
  "parseValue 0 d s = None"
| "parseValue (Suc n) d s =
     (case skipSpace s of
        [] \<Rightarrow> None
      | c # r \<Rightarrow>
        if c = CHR ''{''
        then (if d = 0 then None
              else case skipSpace r of
                [] \<Rightarrow> None
              | c' # r' \<Rightarrow>
                if c' = CHR ''}'' then Some (JObject [], r')
                else map_option (\<lambda>(ms, r''). (JObject ms, r'')) (parseMembers n (d - 1) (c' # r')))
        else if c = CHR ''[''
        then (if d = 0 then None
              else case skipSpace r of
                [] \<Rightarrow> None
              | c' # r' \<Rightarrow>
                if c' = CHR '']'' then Some (JArray [], r')
                else map_option (\<lambda>(vs, r''). (JArray vs, r'')) (parseElements n (d - 1) (c' # r')))
        else parseAtom (c # r))"
| "parseElements 0 d s = None"
| "parseElements (Suc n) d s =
     (case parseValue n d s of
        None \<Rightarrow> None
      | Some (v, r) \<Rightarrow>
        (case skipSpace r of
           [] \<Rightarrow> None
         | c # r' \<Rightarrow>
           if c = CHR '','' then map_option (\<lambda>(vs, r''). (v # vs, r'')) (parseElements n d r')
           else if c = CHR '']'' then Some ([v], r') else None))"
| "parseMembers 0 d s = None"
| "parseMembers (Suc n) d s =
     (case skipSpace s of
        [] \<Rightarrow> None
      | c # r \<Rightarrow>
        if c \<noteq> CHR 0x22 then None
        else case parseString r of
          None \<Rightarrow> None
        | Some (k, r1) \<Rightarrow>
          (case skipSpace r1 of
             [] \<Rightarrow> None
           | c2 # r2 \<Rightarrow>
             if c2 \<noteq> CHR '':'' then None
             else case parseValue n d r2 of
               None \<Rightarrow> None
             | Some (v, r3) \<Rightarrow>
               (case skipSpace r3 of
                  [] \<Rightarrow> None
                | c4 # r4 \<Rightarrow>
                  if c4 = CHR '','' then map_option (\<lambda>(ms, r5). ((k, v) # ms, r5)) (parseMembers n d r4)
                  else if c4 = CHR ''}'' then Some ([(k, v)], r4) else None)))"

text \<open>Twice the length of the text is enough fuel: every second call consumes a character.\<close>

definition json_fuel :: "string \<Rightarrow> nat" where
  "json_fuel s = 2 * length s + 2"

text \<open>The one value a text holds, with nothing but space after it.\<close>

definition parseJson :: "string \<Rightarrow> jvalue option" where
  "parseJson s =
     (case parseValue (json_fuel s) 10000 s of
        None \<Rightarrow> None | Some (v, r) \<Rightarrow> if skipSpace r = [] then Some v else None)"

definition json_Valid :: "string \<Rightarrow> bool" where
  "json_Valid s \<longleftrightarrow> parseJson s \<noteq> None"

section \<open>Decoding into a struct\<close>

text \<open>A key names a field exactly, or else up to case folding, where the long s and the Kelvin sign
  fold to ASCII letters too; the members are taken in order, so a later one wins. \<^verbatim>\<open>null\<close> leaves
  a field alone.\<close>

definition toUpper :: "char \<Rightarrow> char" where
  "toUpper c = (if CHR ''a'' \<le> c \<and> c \<le> CHR ''z'' then char_of (octet c - 32) else c)"

function foldName :: "string \<Rightarrow> string" where
  "foldName s =
     (if s = [] then []
      else if take 2 s = [CHR 0xC5, CHR 0xBF] then CHR ''S'' # foldName (drop 2 s)
      else if take 3 s = [CHR 0xE2, CHR 0x84, CHR 0xAA] then CHR ''K'' # foldName (drop 3 s)
      else toUpper (hd s) # foldName (tl s))"
  by auto
termination by (relation "measure length") auto

declare foldName.simps [simp del]

definition fieldNamed :: "string \<Rightarrow> string \<Rightarrow> bool" where
  "fieldNamed name key \<longleftrightarrow> foldName key = foldName name"

text \<open>A string field: \<open>None\<close> is a value of another kind.\<close>

definition decodeString :: "string \<Rightarrow> (string \<times> jvalue) list \<Rightarrow> string option" where
  "decodeString name members =
     fold (\<lambda>(k, v) acc.
       if \<not> fieldNamed name k then acc
       else case v of JNull \<Rightarrow> acc | JString x \<Rightarrow> map_option (\<lambda>_. x) acc | _ \<Rightarrow> None)
     members (Some [])"

section \<open>The fuel is enough\<close>

lemma skipSpace_length: "length (skipSpace s) \<le> length s"
  by (simp add: skipSpace_def length_dropWhile_le)

lemma skipSpace_Cons: "skipSpace s = c # r \<Longrightarrow> length r < length s"
  using skipSpace_length [of s] by simp

lemma skipDigits_length: "skipDigits s = Some r \<Longrightarrow> length r < length s"
  by (auto simp: skipDigits_def length_dropWhile_le less_Suc_eq_le split: list.splits if_splits)

lemma skipInt_length: "skipInt s = Some r \<Longrightarrow> length r < length s"
  by (auto simp: skipInt_def length_dropWhile_le less_Suc_eq_le split: list.splits if_splits)

lemma skipFrac_length: "skipFrac s = Some r \<Longrightarrow> length r \<le> length s"
  by (auto simp: skipFrac_def split: list.splits if_splits dest: skipDigits_length)

lemma skipExp_length: "skipExp s = Some r \<Longrightarrow> length r \<le> length s"
  by (fastforce simp: skipExp_def split: list.splits if_splits dest: skipDigits_length)

lemma skipNumber_length: "skipNumber s = Some r \<Longrightarrow> length r < length s"
  by (fastforce simp: skipNumber_def split: option.splits if_splits
      dest!: skipInt_length skipFrac_length skipExp_length)

lemma skipChars_length: "skipChars s = Some r \<Longrightarrow> length r < length s"
proof (induction s rule: skipChars.induct)
  case (2 c s)
  then show ?case
    by (simp split: if_splits list.splits) (force+)?
qed simp

lemma skipWord_length: "w \<noteq> [] \<Longrightarrow> skipWord w s = Some r \<Longrightarrow> length r < length s"
  by (cases s) (auto simp: skipWord_def split: if_splits)

lemma parseString_length: "parseString s = Some (k, r) \<Longrightarrow> length r < length s"
  by (auto simp: parseString_def dest: skipChars_length)

lemma parseAtom_length: "parseAtom s = Some (v, r) \<Longrightarrow> s \<noteq> [] \<Longrightarrow> length r < length s"
  by (cases s)
    (auto simp: parseAtom_def less_Suc_eq split: if_splits
      dest: parseString_length skipNumber_length skipWord_length [rotated])

lemma parse_shorter:
  "parseValue n d s = Some (v, r) \<Longrightarrow> length r < length s"
  "parseElements n d s = Some (vs, r) \<Longrightarrow> length r < length s"
  "parseMembers n d s = Some (ms, r) \<Longrightarrow> length r < length s"
proof (induction n d s and n d s and n d s arbitrary: v r and vs r and ms r
      rule: parseValue_parseElements_parseMembers.induct)
  case (2 n d s)
  obtain c t where ct: "skipSpace s = c # t" using 2 by (auto split: list.splits)
  note lt = skipSpace_Cons [OF ct]
  note members = 2(1) and elements = 2(2) and val = 2(3)
  consider "c = CHR ''{''" | "c = CHR ''[''" | "c \<noteq> CHR ''{''" "c \<noteq> CHR ''[''" by blast
  then show ?case
  proof cases
    case 1
    then obtain c' t' where t: "skipSpace t = c' # t'" "d \<noteq> 0"
      using val ct by (auto split: list.splits if_splits)
    have "c' \<noteq> CHR ''}'' \<Longrightarrow> length r < length (c' # t')"
      using members [OF ct 1 t(2,1)] val ct 1 t by auto
    then show ?thesis using val ct 1 t skipSpace_Cons [OF t(1)] lt by (cases "c' = CHR ''}''") auto
  next
    case 2
    then obtain c' t' where t: "skipSpace t = c' # t'" "d \<noteq> 0"
      using val ct by (auto split: list.splits if_splits)
    have "c' \<noteq> CHR '']'' \<Longrightarrow> length r < length (c' # t')"
      using elements [OF ct _ 2 t(2,1)] val ct 2 t by auto
    then show ?thesis using val ct 2 t skipSpace_Cons [OF t(1)] lt by (cases "c' = CHR '']''") auto
  next
    case 3
    then have "parseAtom (c # t) = Some (v, r)" using val ct by simp
    then show ?thesis using parseAtom_length [of "c # t" v r] lt by simp
  qed
next
  case (4 n d s)
  then obtain w t c u where t: "parseValue n d s = Some (w, t)" "skipSpace t = c # u"
    by (auto split: option.splits list.splits)
  have "c = CHR '','' \<Longrightarrow> length r < length u" using 4(2) [OF t(1) refl t(2)] 4(3) t by auto
  then show ?case using 4(1) [OF t(1)] 4(3) t skipSpace_Cons [OF t(2)] by (fastforce split: if_splits)
next
  case (6 n d s)
  then obtain c t k u c2 u2 x w c4 w4 where t: "skipSpace s = c # t" "parseString t = Some (k, u)"
      "skipSpace u = c2 # u2" "parseValue n d u2 = Some (x, w)" "skipSpace w = c4 # w4"
    and c: "\<not> c \<noteq> CHR 0x22" "\<not> c2 \<noteq> CHR '':''"
    by (auto split: option.splits list.splits if_splits)
  have "c4 = CHR '','' \<Longrightarrow> length r < length w4"
    using 6(2) [OF t(1) c(1) t(2) refl t(3) c(2) t(4) refl t(5)] 6(3) t c by auto
  then show ?case
    using 6(1) [OF t(1) c(1) t(2) refl t(3) c(2) t(4)] 6(3) t c skipSpace_Cons [OF t(1)] skipSpace_Cons [OF t(3)]
      skipSpace_Cons [OF t(5)] parseString_length [OF t(2)]
    by (fastforce split: if_splits)
qed simp_all

text \<open>More fuel changes nothing.\<close>

lemma parse_fuel:
  "2 * length s < n \<Longrightarrow> parseValue (Suc n) d s = parseValue n d s"
  "2 * length s + 1 < n \<Longrightarrow> parseElements (Suc n) d s = parseElements n d s"
  "2 * length s + 1 < n \<Longrightarrow> parseMembers (Suc n) d s = parseMembers n d s"
proof (induction n d s and n d s and n d s rule: parseValue_parseElements_parseMembers.induct)
  case (2 n d s)
  show ?case
  proof (cases "skipSpace s")
    case (Cons c t)
    note lt = skipSpace_Cons [OF Cons]
    have "parseMembers (Suc n) (d - 1) (c' # t') = parseMembers n (d - 1) (c' # t')"
      if "c = CHR ''{''" "d \<noteq> 0" "skipSpace t = c' # t'" "c' \<noteq> CHR ''}''" for c' t'
      using 2(1) [OF Cons that] 2(3) skipSpace_Cons [OF that(3)] lt by simp
    moreover have "parseElements (Suc n) (d - 1) (c' # t') = parseElements n (d - 1) (c' # t')"
      if "c = CHR ''[''" "d \<noteq> 0" "skipSpace t = c' # t'" "c' \<noteq> CHR '']''" for c' t'
      using 2(2) [OF Cons _ that] 2(3) skipSpace_Cons [OF that(3)] lt that by simp
    ultimately show ?thesis
      unfolding parseValue.simps Cons list.case by (auto split: list.split)
  qed simp
next
  case (4 n d s)
  have v: "parseValue (Suc n) d s = parseValue n d s" using 4(1,3) by simp
  show ?case
  proof (cases "parseValue n d s")
    case (Some p)
    obtain w t where p: "p = (w, t)" by (cases p)
    have "parseElements (Suc n) d u = parseElements n d u" if "skipSpace t = c # u" "c = CHR '',''" for c u
      using 4(2) [OF Some p [symmetric] that] 4(3) skipSpace_Cons [OF that(1)] parse_shorter(1) [of n d s w t] Some p by simp
    then show ?thesis using Some p unfolding parseElements.simps v by (auto split: list.split)
  qed (unfold parseElements.simps v, simp)
next
  case (6 n d s)
  show ?case
  proof (cases "skipSpace s")
    case (Cons c t)
    show ?thesis
    proof (cases "c = CHR 0x22 \<and> (\<exists>k u c2 u2. parseString t = Some (k, u) \<and> skipSpace u = c2 # u2 \<and> c2 = CHR '':'')")
      case True
      then obtain k u c2 u2 where u: "parseString t = Some (k, u)" "skipSpace u = c2 # u2"
        and c: "\<not> c \<noteq> CHR 0x22" "\<not> c2 \<noteq> CHR '':''"
        by auto
      have len: "length u2 < length s"
        using skipSpace_Cons [OF Cons] skipSpace_Cons [OF u(2)] parseString_length [OF u(1)] by simp
      have v: "parseValue (Suc n) d u2 = parseValue n d u2"
        using 6(1) [OF Cons c(1) u(1) refl u(2) c(2)] 6(3) len by simp
      have "parseMembers (Suc n) d x = parseMembers n d x"
        if "parseValue n d u2 = Some (y, w)" "skipSpace w = c4 # x" "c4 = CHR '',''" for y w c4 x
        using 6(2) [OF Cons c(1) u(1) refl u(2) c(2) that(1) refl that(2,3)] 6(3) len
          skipSpace_Cons [OF that(2)] parse_shorter(1) [OF that(1)]
        by simp
      then show ?thesis using Cons u c v
        unfolding parseMembers.simps(2) [of "Suc n" d s] parseMembers.simps(2) [of n d s]
        by (auto simp del: parseValue.simps parseMembers.simps split: option.split list.split)
    next
      case False
      then show ?thesis using Cons
        unfolding parseMembers.simps(2) [of "Suc n" d s] parseMembers.simps(2) [of n d s]
        by (auto simp del: parseValue.simps parseMembers.simps split: option.split list.split)
    qed
  qed simp
qed simp_all

lemma parseValue_enough: "json_fuel s \<le> n \<Longrightarrow> parseValue n d s = parseValue (json_fuel s) d s"
proof (induction rule: dec_induct)
  case (step n)
  have "parseValue (Suc n) d s = parseValue n d s"
    using step(1) by (intro parse_fuel(1)) (simp add: json_fuel_def)
  with step show ?case by (simp only:)
qed simp

section \<open>A marshalled string reads back\<close>

lemma skipChars_plain: "c \<noteq> CHR 0x22 \<Longrightarrow> c \<noteq> CHR 0x5C \<Longrightarrow> \<not> octet c < 0x20 \<Longrightarrow> skipChars (c # t) = skipChars t"
  by simp

lemma skipChars_run:
  "list_all (\<lambda>c. 0x80 \<le> octet c) w \<Longrightarrow> skipChars (w @ t) = skipChars t"
proof (induction w)
  case (Cons c w)
  then have "c \<noteq> CHR 0x22" "c \<noteq> CHR 0x5C" "\<not> octet c < 0x20" by auto
  then have "skipChars (c # w @ t) = skipChars (w @ t)" by (rule skipChars_plain)
  then show ?case using Cons by (simp del: skipChars.simps)
qed simp

lemma hex2_facts:
  assumes "octet c < 0x80"
  shows "\<exists>x y. hex2 c = [x, y] \<and> isHex x \<and> isHex y \<and> hex4 [CHR ''0'', CHR ''0'', x, y] = octet c"
proof -
  have all: "list_all (\<lambda>n. (let h = hexEncode [int n] in length h = 2 \<and> list_all isHex h
     \<and> hex4 (CHR ''0'' # CHR ''0'' # h) = n)) [0..<128]"
    by code_simp
  have "length (hex2 c) = 2 \<and> list_all isHex (hex2 c) \<and> hex4 (CHR ''0'' # CHR ''0'' # hex2 c) = octet c"
    using all assms unfolding list_all_iff hex2_def Let_def by fastforce
  then show ?thesis by (auto simp: length_Suc_conv numeral_2_eq_2)
qed

lemma hex4_take: "hex4 (a # b # c # d # t) = hex4 [a, b, c, d]"
  by (simp add: hex4_def)

lemma EncodeRune_ascii: "n < 0x80 \<Longrightarrow> EncodeRune n = [char_of n]"
  by (simp add: EncodeRune_def)

lemma unquote_escape: "e \<noteq> CHR ''u'' \<Longrightarrow> unquote (CHR 0x5C # e # t) = unescape e # unquote t"
  by (simp add: unquote.simps [of "CHR 0x5C # e # t"])

lemma unquote_u:
  "hex4 [a, b, c, d] < 0xD800 \<Longrightarrow>
   unquote (CHR 0x5C # CHR ''u'' # a # b # c # d # t) = EncodeRune (hex4 [a, b, c, d]) @ unquote t"
  by (simp add: unquote.simps [of "CHR 0x5C # CHR ''u'' # a # b # c # d # t"] hex4_take [of a b c d t])

lemma unquote_plain: "c \<noteq> CHR 0x5C \<Longrightarrow> octet c < 0x80 \<Longrightarrow> unquote (c # t) = c # unquote t"
  by (simp add: unquote.simps [of "c # t"])

lemma skipChars_u:
  "isHex a \<Longrightarrow> isHex b \<Longrightarrow> isHex c \<Longrightarrow> isHex d \<Longrightarrow>
   skipChars (CHR 0x5C # CHR ''u'' # a # b # c # d # t) = skipChars t"
  by (simp add: isEscape_def)

lemma skipChars_escape: "isEscape e \<Longrightarrow> skipChars (CHR 0x5C # e # t) = skipChars t"
  by simp

lemma jsonByte_reads:
  assumes "octet c < 0x80"
  shows "skipChars (jsonByte c @ t) = skipChars t \<and> unquote (jsonByte c @ t) = c # unquote t"
proof -
  obtain x y where h: "hex2 c = [x, y]" "isHex x" "isHex y" "hex4 [CHR ''0'', CHR ''0'', x, y] = octet c"
    using hex2_facts [OF assms] by blast
  let ?e = "last (jsonByte c)"
  have "jsonByte c = [CHR 0x5C, ?e] \<and> isEscape ?e \<and> unescape ?e = c \<and> ?e \<noteq> CHR ''u''"
    if "c \<in> {CHR 0x5C, CHR 0x22, CHR 0x08, CHR 0x0C, CHR 0x0A, CHR 0x0D, CHR 0x09}"
    using that by (elim insertE) (simp_all add: jsonByte_def isEscape_def unescape_def)
  moreover have "jsonByte c = CHR 0x5C # ''u00'' @ hex2 c
      \<or> jsonByte c = [c] \<and> c \<noteq> CHR 0x22 \<and> c \<noteq> CHR 0x5C \<and> \<not> octet c < 0x20"
    if "c \<notin> {CHR 0x5C, CHR 0x22, CHR 0x08, CHR 0x0C, CHR 0x0A, CHR 0x0D, CHR 0x09}"
    using that by (simp add: jsonByte_def)
  ultimately consider (esc) "jsonByte c = [CHR 0x5C, ?e]" "isEscape ?e" "unescape ?e = c" "?e \<noteq> CHR ''u''"
    | (hex) "jsonByte c = CHR 0x5C # ''u00'' @ hex2 c"
    | (plain) "jsonByte c = [c]" "c \<noteq> CHR 0x22" "c \<noteq> CHR 0x5C" "\<not> octet c < 0x20"
    by metis
  then show ?thesis
  proof cases
    case esc
    have "jsonByte c @ t = CHR 0x5C # ?e # t" by (subst esc(1)) simp
    then show ?thesis using esc(2-4) by (simp only: unquote_escape skipChars_escape simp_thms)
  next
    case hex
    have z: "isHex (CHR ''0'')" by (simp add: isHex_def isDigit_def)
    show ?thesis
      unfolding hex h append.simps
      using unquote_u [of "CHR ''0''" "CHR ''0''" x y t] skipChars_u [OF z z h(2,3), of t] h(4) assms
      by (simp add: EncodeRune_ascii del: skipChars.simps)
  next
    case plain
    then show ?thesis using assms by (simp add: unquote_plain)
  qed
qed

lemma rune_high:
  assumes "0 < runeLen s" "0x80 \<le> octet (hd s)"
  shows "list_all (\<lambda>c. 0x80 \<le> octet c) (take (runeLen s) s)"
proof -
  have r: "isRune (take (runeLen s) s)" by (rule isRune_take [OF assms(1)])
  obtain k where k: "runeLen s = Suc k" using assms(1) gr0_implies_Suc by blast
  obtain c t where s: "s = c # t" using assms(1) by (cases s) auto
  have "\<not> octet (hd (take (runeLen s) s)) < 0x80" using assms s k by simp
  note conts = isRune_conts [OF r this]
  have "0x80 \<le> octet (take (runeLen s) s ! i)" if "i < length (take (runeLen s) s)" for i
  proof (cases i)
    case 0
    then show ?thesis using assms s k by simp
  next
    case (Suc j)
    then have "\<not> RuneStart (take (runeLen s) s ! i)" using conts that by blast
    then show ?thesis by (simp add: RuneStart_def)
  qed
  then show ?thesis by (simp add: list_all_length)
qed

lemma unquote_rune:
  assumes "0 < runeLen s" "0x80 \<le> octet (hd s)"
  shows "unquote (take (runeLen s) s @ t) = take (runeLen s) s @ unquote t"
proof -
  let ?r = "take (runeLen s) s"
  have r: "runeLen ?r = runeLen s" by (rule runeLen_take [OF assms(1)])
  have len: "length ?r = runeLen s" using runeLen_bounds [of s] by simp
  have app: "runeLen (?r @ t) = runeLen s" using runeLen_append [of ?r t] r assms(1) by simp
  obtain c u where cu: "?r = c # u" using assms(1) len by (cases ?r) auto
  have "c = hd s" using cu assms(1) by (cases s; cases "runeLen s") auto
  then have c: "0x80 \<le> octet c" "c \<noteq> CHR 0x5C" using assms(2) by auto
  have "unquote (?r @ t) = (if runeLen (?r @ t) = 0 then EncodeRune 0xFFFD @ unquote (u @ t)
      else take (runeLen (?r @ t)) (?r @ t) @ unquote (drop (runeLen (?r @ t)) (?r @ t)))"
    using c cu by (subst unquote.simps) simp
  also have "\<dots> = ?r @ unquote t" using app assms(1) len by simp
  finally show ?thesis .
qed

lemma jsonChars_cases:
  "jsonChars [] = []"
  "octet c < 0x80 \<Longrightarrow> jsonChars (c # u) = jsonByte c @ jsonChars u"
  "\<not> octet c < 0x80 \<Longrightarrow> runeLen (c # u) = 0 \<Longrightarrow> jsonChars (c # u) = CHR 0x5C # ''ufffd'' @ jsonChars u"
  "jsonChars (CHR 0xE2 # CHR 0x80 # CHR 0xA8 # w) = CHR 0x5C # ''u2028'' @ jsonChars w"
  "jsonChars (CHR 0xE2 # CHR 0x80 # CHR 0xA9 # w) = CHR 0x5C # ''u2029'' @ jsonChars w"
  "\<not> octet (hd s) < 0x80 \<Longrightarrow> runeLen s \<noteq> 0 \<Longrightarrow> take 3 s \<noteq> [CHR 0xE2, CHR 0x80, CHR 0xA8]
    \<Longrightarrow> take 3 s \<noteq> [CHR 0xE2, CHR 0x80, CHR 0xA9] \<Longrightarrow> jsonChars s = take (runeLen s) s @ jsonChars (drop (runeLen s) s)"
  by (subst jsonChars.simps, force simp: leader_def cont_def)+

lemma separator_reads:
  assumes "d \<in> {CHR ''8'', CHR ''9''}"
  shows "skipChars (CHR 0x5C # CHR ''u'' # CHR ''2'' # CHR ''0'' # CHR ''2'' # d # w) = skipChars w"
    and "unquote (CHR 0x5C # CHR ''u'' # CHR ''2'' # CHR ''0'' # CHR ''2'' # d # w)
      = CHR 0xE2 # CHR 0x80 # (if d = CHR ''8'' then CHR 0xA8 else CHR 0xA9) # unquote w"
proof -
  have h: "isHex (CHR ''2'')" "isHex (CHR ''0'')" "isHex d" using assms by (auto simp: isHex_def isDigit_def)
  show "skipChars (CHR 0x5C # CHR ''u'' # CHR ''2'' # CHR ''0'' # CHR ''2'' # d # w) = skipChars w"
    by (rule skipChars_u [OF h(1,2,1,3)])
  have "hex4 [CHR ''2'', CHR ''0'', CHR ''2'', d] = (if d = CHR ''8'' then 0x2028 else 0x2029)"
    using assms by (auto simp: hex4_def hexValue_def isDigit_def)
  moreover have "EncodeRune 0x2028 = [CHR 0xE2, CHR 0x80, CHR 0xA8]" "EncodeRune 0x2029 = [CHR 0xE2, CHR 0x80, CHR 0xA9]"
    by (simp_all add: EncodeRune_def char_of_def bit_0)
  ultimately show "unquote (CHR 0x5C # CHR ''u'' # CHR ''2'' # CHR ''0'' # CHR ''2'' # d # w)
      = CHR 0xE2 # CHR 0x80 # (if d = CHR ''8'' then CHR 0xA8 else CHR 0xA9) # unquote w"
    using assms unquote_u [of "CHR ''2''" "CHR ''0''" "CHR ''2''" d w] by auto
qed

lemma jsonChars_reads:
  "skipChars (jsonChars s @ t) = skipChars t \<and> (ValidString s \<longrightarrow> unquote (jsonChars s @ t) = s @ unquote t)"
proof (induction s rule: measure_induct_rule [of length])
  case (less s)
  have v: "ValidString s \<Longrightarrow> s \<noteq> [] \<Longrightarrow> 0 < runeLen s \<and> ValidString (drop (runeLen s) s)"
    by (rule ValidString_step)
  consider (nil) "s = []"
    | (ascii) c u where "s = c # u" "octet c < 0x80"
    | (bad) c u where "s = c # u" "\<not> octet c < 0x80" "runeLen s = 0"
    | (ls) w where "s = CHR 0xE2 # CHR 0x80 # CHR 0xA8 # w"
    | (ps) w where "s = CHR 0xE2 # CHR 0x80 # CHR 0xA9 # w"
    | (rune) "\<not> octet (hd s) < 0x80" "runeLen s \<noteq> 0" "take 3 s \<noteq> [CHR 0xE2, CHR 0x80, CHR 0xA8]"
        "take 3 s \<noteq> [CHR 0xE2, CHR 0x80, CHR 0xA9]"
  proof -
    have three: "take 3 s = [a, b, c] \<Longrightarrow> s = a # b # c # drop 3 s" for a b c
      using append_take_drop_id [of 3 s] by simp
    show thesis
      using nil ascii bad ls [OF three] ps [OF three] rune by (cases s) (auto simp del: runeLen.simps)
  qed
  then show ?case
  proof cases
    case nil
    then show ?thesis by (simp add: jsonChars_cases)
  next
    case ascii
    have "runeLen s = 1" using ascii by simp
    then show ?thesis
      using less [of u] v ascii jsonByte_reads [OF ascii(2), of "jsonChars u @ t"]
      by (simp add: jsonChars_cases del: skipChars.simps)
  next
    case bad
    have "skipChars (CHR 0x5C # ''ufffd'' @ jsonChars u @ t) = skipChars (jsonChars u @ t)"
      using skipChars_u [of "CHR ''f''" "CHR ''f''" "CHR ''f''" "CHR ''d''" "jsonChars u @ t"]
      by (simp add: isHex_def isDigit_def del: skipChars.simps)
    then show ?thesis
      using less [of u] v bad by (auto simp: jsonChars_cases simp del: skipChars.simps runeLen.simps)
  next
    case ls
    have "runeLen s = 3" using ls by (simp add: leader_def cont_def)
    then show ?thesis
      using less [of w] v ls separator_reads [of "CHR ''8''" "jsonChars w @ t"]
      by (simp add: jsonChars_cases del: skipChars.simps runeLen.simps)
  next
    case ps
    have "runeLen s = 3" using ps by (simp add: leader_def cont_def)
    then show ?thesis
      using less [of w] v ps separator_reads [of "CHR ''9''" "jsonChars w @ t"]
      by (simp add: jsonChars_cases del: skipChars.simps runeLen.simps)
  next
    case rune
    let ?r = "take (runeLen s) s" and ?u = "drop (runeLen s) s"
    have pos: "0 < runeLen s" "0x80 \<le> octet (hd s)" using rune by auto
    have "s \<noteq> []" using pos by auto
    moreover have "length ?u < length s" using pos \<open>s \<noteq> []\<close> by simp
    moreover have "jsonChars s @ t = ?r @ jsonChars ?u @ t" using jsonChars_cases(6) [OF rune] by simp
    ultimately show ?thesis
      using less [of ?u] v skipChars_run [OF rune_high [OF pos]] unquote_rune [OF pos, of "jsonChars ?u @ t"]
      by (metis append.assoc append_take_drop_id)
  qed
qed

lemma parseString_jsonString:
  assumes "ValidString s"
  shows "parseString (jsonChars s @ CHR 0x22 # t) = Some (s, t)"
proof -
  have "skipChars (jsonChars s @ CHR 0x22 # t) = Some t" using jsonChars_reads by simp
  moreover have "textBefore (CHR 0x22 # t) (jsonChars s @ CHR 0x22 # t) = jsonChars s" by (simp add: textBefore_def)
  moreover have "unquote (jsonChars s) = s"
    using jsonChars_reads [of s "[]"] assms by (simp add: unquote.simps [of "[]"])
  ultimately show ?thesis by (simp add: parseString_def)
qed

end
