(* ===== verification/FleetList.thy ===== *)
theory FleetList
  imports Json Cursor Paging SessionService AppSamples
begin

text \<open>
  The query half of the fleet service (\<^verbatim>\<open>FleetService.ListRunners\<close> and its cursor in
  \<^verbatim>\<open>src/controlapp/fleet.go\<close>): the runners of every pool visible to a scope, merged, sorted and
  paged with a cursor that is JSON in base64.
\<close>

section \<open>The cursor\<close>

definition encodeRunnerCursor :: "string \<Rightarrow> string \<Rightarrow> string" where
  "encodeRunnerCursor runnerID poolID =
     EncodeToString (jsonObject [(''r'', jsonString runnerID), (''p'', jsonString poolID)])"

text \<open>Any value that is no object fails to decode, except \<^verbatim>\<open>null\<close>, which leaves both fields empty
  and is refused for that.\<close>

definition decodeRunnerCursor :: "string \<Rightarrow> (string \<times> string) option" where
  "decodeRunnerCursor s =
     (case DecodeString s of
        None \<Rightarrow> None
      | Some b \<Rightarrow>
        (case parseJson b of
           Some (JObject members) \<Rightarrow>
             (case (decodeString ''r'' members, decodeString ''p'' members) of
                (Some r, Some p) \<Rightarrow> if r = '''' \<and> p = '''' then None else Some (r, p)
              | _ \<Rightarrow> None)
         | _ \<Rightarrow> None))"

section \<open>The listing\<close>

record RunnerQuery =
  rq_Limit :: int
  rq_Cursor :: string

definition runnerLess :: "Runner \<Rightarrow> Runner \<Rightarrow> bool" where
  "runnerLess a b \<longleftrightarrow>
     (if run_ID a \<noteq> run_ID b then run_ID a < run_ID b else run_PoolID a < run_PoolID b)"

text \<open>The runners of the pools, each pool read once.\<close>

fun gatherRunners :: "'s host \<Rightarrow> 's \<Rightarrow> poolid list \<Rightarrow> Pool list \<Rightarrow> err + Runner list" where
  "gatherRunners h s seen [] = Inr []"
| "gatherRunners h s seen (p # ps) =
     (if pool_ID p \<in> set seen then gatherRunners h s seen ps
      else case h_ListRunners h s (pool_ID p) of
        Inl e \<Rightarrow> Inl (portError e)
      | Inr runners \<Rightarrow>
        (case gatherRunners h s (pool_ID p # seen) ps of
           Inl e \<Rightarrow> Inl e | Inr rest \<Rightarrow> Inr (runners @ rest)))"

definition runnerLimit :: "int \<Rightarrow> int" where
  "runnerLimit limit = (if limit = 0 then 50 else if limit > 100 then 100 else limit)"

definition runnerCursor :: "Runner \<Rightarrow> string" where
  "runnerCursor r = encodeRunnerCursor (run_ID r) (run_PoolID r)"

definition cutRunners :: "Runner list \<Rightarrow> int \<Rightarrow> (Runner \<Rightarrow> string) \<Rightarrow> Runner list \<times> string" where
  "cutRunners rest limit cursor =
     (take (nat limit) rest,
      if limit < int (length rest) then cursor (rest ! (nat limit - 1)) else '''')"

text \<open>The fields of the cursor, as a runner to compare with.\<close>

definition cursorRunner :: "string \<Rightarrow> string \<Rightarrow> Runner" where
  "cursorRunner rid pool =
     \<lparr>run_ID = rid, run_PoolID = pool, run_CapacityUsed = 0, run_CapacityTotal = 0,
      run_CapacityPlacements = [], run_Connected = False, run_Generation = 0,
      run_Capabilities = None, run_LastSeenAt = zero_time\<rparr>"

definition FleetService_ListRunners ::
    "'s host \<Rightarrow> 's \<Rightarrow> Scope \<Rightarrow> RunnerQuery \<Rightarrow> err + (Runner list \<times> string)" where
  "FleetService_ListRunners h s scope q =
     (case Scope_Validate scope of
        Some e \<Rightarrow> Inl e
      | None \<Rightarrow>
        (if h_Authorize h s scope ActionList
              \<lparr>res_Kind = ResourceRunner, res_WorkspaceID = sco_WorkspaceID scope, res_ID = '''',
               res_CreatorID = ''''\<rparr> \<noteq> None
         then Inl ErrDenied
         else if rq_Limit q < 0 then Inl ErrInvalid
         else if rq_Cursor q \<noteq> '''' \<and> decodeRunnerCursor (rq_Cursor q) = None then Inl ErrInvalid
         else case h_EligiblePools h s scope noRequirements of
           Inl e \<Rightarrow> Inl (portError e)
         | Inr pools \<Rightarrow>
           (case gatherRunners h s [] pools of
              Inl e \<Rightarrow> Inl e
            | Inr runners \<Rightarrow>
              (let sorted = sortSlice runnerLess runners;
                   rest = (if rq_Cursor q = '''' then sorted
                           else
                             let (r, p) = the (decodeRunnerCursor (rq_Cursor q))
                             in dropWhile (\<lambda>x. \<not> runnerLess (cursorRunner r p) x) sorted)
               in Inr (cutRunners rest (runnerLimit (rq_Limit q)) runnerCursor)))))"

section \<open>The cursor reads back\<close>

lemma skipSpace_quote [simp]: "skipSpace (CHR 0x22 # s) = CHR 0x22 # s"
  by (simp add: skipSpace_def isSpace_def)

lemma skipSpace_marks [simp]:
  "skipSpace (CHR '':'' # s) = CHR '':'' # s" "skipSpace (CHR '','' # s) = CHR '','' # s"
  "skipSpace (CHR ''}'' # s) = CHR ''}'' # s" "skipSpace (CHR ''{'' # s) = CHR ''{'' # s" "skipSpace [] = []"
  by (simp_all add: skipSpace_def isSpace_def)

lemma parseValue_string:
  "ValidString v \<Longrightarrow> parseValue (Suc n) d (CHR 0x22 # jsonChars v @ CHR 0x22 # t) = Some (JString v, t)"
  by (simp add: parseAtom_def parseString_jsonString)

text \<open>The members of a marshalled struct of strings.\<close>

lemma parseMembers_last:
  "ValidString k \<Longrightarrow> ValidString v \<Longrightarrow>
   parseMembers (Suc (Suc n)) d (jsonString k @ CHR '':'' # jsonString v @ CHR ''}'' # t) = Some ([(k, JString v)], t)"
  unfolding parseMembers.simps(2) [of "Suc n"] jsonString_def
  by (simp add: parseString_jsonString parseValue_string del: parseValue.simps)

lemma parseMembers_more:
  "ValidString k \<Longrightarrow> ValidString v \<Longrightarrow>
   parseMembers (Suc (Suc n)) d (jsonString k @ CHR '':'' # jsonString v @ CHR '','' # t)
     = map_option (\<lambda>(ms, r). ((k, JString v) # ms, r)) (parseMembers (Suc n) d t)"
  unfolding parseMembers.simps(2) [of "Suc n"] jsonString_def
  by (simp add: parseString_jsonString parseValue_string del: parseValue.simps parseMembers.simps)

lemma parseJson_pair:
  assumes "ValidString k" "ValidString a" "ValidString l" "ValidString b"
  shows "parseJson (jsonObject [(k, jsonString a), (l, jsonString b)])
    = Some (JObject [(k, JString a), (l, JString b)])"
proof -
  let ?m = "jsonString k @ CHR '':'' # jsonString a @ CHR '','' # jsonString l @ CHR '':'' # jsonString b @ CHR ''}'' # []"
  have j: "jsonObject [(k, jsonString a), (l, jsonString b)] = CHR ''{'' # ?m" by (simp add: jsonObject_def)
  obtain n where n: "json_fuel (CHR ''{'' # ?m) = Suc (Suc (Suc (Suc n)))"
    by (rule that [of "json_fuel (CHR ''{'' # ?m) - 4"]) (simp add: json_fuel_def)
  have m: "parseMembers (Suc (Suc (Suc n))) d ?m = Some ([(k, JString a), (l, JString b)], [])" for d
    using parseMembers_more [OF assms(1,2), of "Suc n" d] parseMembers_last [OF assms(3,4), of n d "[]"]
    by (simp del: parseMembers.simps)
  have q: "\<exists>t. ?m = CHR 0x22 # t" by (simp add: jsonString_def)
  then obtain t where t: "?m = CHR 0x22 # t" by blast
  have "parseValue (Suc (Suc (Suc (Suc n)))) 10000 (CHR ''{'' # ?m) = Some (JObject [(k, JString a), (l, JString b)], [])"
    using m [of 9999] unfolding parseValue.simps(2) t by (simp del: parseMembers.simps)
  then show ?thesis unfolding parseJson_def j n by simp
qed

lemma decode_runner_cursor:
  assumes "ValidString r" "ValidString p" "r \<noteq> '''' \<or> p \<noteq> ''''"
  shows "decodeRunnerCursor (encodeRunnerCursor r p) = Some (r, p)"
proof -
  have "ValidString ''r''" "ValidString ''p''" by code_simp+
  moreover have "fieldNamed ''r'' ''r''" "\<not> fieldNamed ''r'' ''p''" "fieldNamed ''p'' ''p''" "\<not> fieldNamed ''p'' ''r''"
    by code_simp+
  ultimately show ?thesis
    using parseJson_pair [OF _ assms(1) _ assms(2), of "''r''" "''p''"] assms(3)
    by (simp add: decodeRunnerCursor_def encodeRunnerCursor_def decodeString_def)
qed

section \<open>Following the cursors\<close>

lemma weak_runnerLess: "weak_order runnerLess"
  unfolding weak_order_def runnerLess_def by (auto split: if_splits)

lemma runnerLess_total: "\<not> runnerLess a b \<Longrightarrow> \<not> runnerLess b a \<Longrightarrow> (run_PoolID a, run_ID a) = (run_PoolID b, run_ID b)"
  by (auto simp: runnerLess_def split: if_splits)

lemma cutRunners_page:
  "0 < k \<Longrightarrow> cutRunners rest k c = (rest, '''')
    \<or> k \<le> int (length rest) \<and> cutRunners rest k c = (take (nat k) rest, c (rest ! (nat k - 1)))"
  by (auto simp: cutRunners_def)

lemma runnerCursor_marks: "runnerCursor r \<noteq> ''''"
  unfolding runnerCursor_def encodeRunnerCursor_def by (rule EncodeToString_nonempty) (simp add: jsonObject_def)

lemma runnerLess_cursor: "runnerLess (cursorRunner (run_ID r) (run_PoolID r)) x \<longleftrightarrow> runnerLess r x"
  by (simp add: runnerLess_def cursorRunner_def)

text \<open>A listing request: the installation, its state, the caller and the query without its
  cursor.\<close>

type_synonym runner_listing = "outside \<times> world \<times> Scope \<times> RunnerQuery"

definition visibleRunners :: "runner_listing \<Rightarrow> err + Runner list" where
  "visibleRunners = (\<lambda>(out, w, scope, q).
     case o_EligiblePools out w scope noRequirements of
       Inl e \<Rightarrow> Inl e | Inr pools \<Rightarrow> gatherRunners (memHost out) w [] pools)"

definition runnerRows :: "runner_listing \<Rightarrow> Runner list" where
  "runnerRows i = (case visibleRunners i of Inl e \<Rightarrow> [] | Inr rs \<Rightarrow> sortSlice runnerLess rs)"

definition runnerPage :: "runner_listing \<Rightarrow> string \<Rightarrow> err + (Runner list \<times> string)" where
  "runnerPage = (\<lambda>(out, w, scope, q) cursor. FleetService_ListRunners (memHost out) w scope (q\<lparr>rq_Cursor := cursor\<rparr>))"

definition runnerListingOk :: "runner_listing \<Rightarrow> bool" where
  "runnerListingOk i = (case i of (out, w, scope, q) \<Rightarrow>
     store_inv (w_store w) \<and> Scope_Validate scope = None
     \<and> o_Authorize out scope ActionList
          \<lparr>res_Kind = ResourceRunner, res_WorkspaceID = sco_WorkspaceID scope, res_ID = '''', res_CreatorID = ''''\<rparr> = None
     \<and> 0 \<le> rq_Limit q
     \<and> (\<exists>rs. visibleRunners i = Inr rs \<and> (\<forall>r \<in> set rs. ValidString (run_ID r) \<and> ValidString (run_PoolID r))))"

lemma gatherRunners_rows:
  assumes "store_inv (w_store w)" "gatherRunners (memHost out) w seen pools = Inr rs"
  shows "set rs = {r. \<exists>rid pool. runnerAt (w_store w) pool rid = Some r \<and> pool \<in> pool_ID ` set pools - set seen}
    \<and> distinct (map (\<lambda>r. (run_PoolID r, run_ID r)) rs)"
  using assms(2)
proof (induction pools arbitrary: seen rs)
  case (Cons p ps)
  show ?case
  proof (cases "pool_ID p \<in> set seen")
    case True
    then show ?thesis using Cons by auto
  next
    case False
    let ?own = "rows_where (\<lambda>k r. fst k = pool_ID p) (ms_runners (w_store w))"
    obtain rest where rest: "gatherRunners (memHost out) w (pool_ID p # seen) ps = Inr rest"
      "rs = sortSlice (\<lambda>a b. run_ID a < run_ID b) ?own @ rest"
      using Cons.prems False by (auto simp: memHost_def memFleet_ListRunners_def split: if_splits sum.splits)
    note ih = Cons.IH [OF rest(1)]
    have d: "distinct (map fst (ms_runners (w_store w)))" by (rule table_ok_distinct [OF inv_runners [OF assms(1)]])
    have own: "set ?own = {r. \<exists>rid. runnerAt (w_store w) (pool_ID p) rid = Some r}"
      using set_rows_where [OF d] by auto
    have "distinct (map (\<lambda>r. (run_PoolID r, run_ID r)) ?own)"
    proof (rule distinct_rows_where [OF d, where h = "\<lambda>x. x"])
      show "k = (run_PoolID r, run_ID r)" if "(k, r) \<in> set (ms_runners (w_store w))" "fst k = pool_ID p" for k r
        using that inv_runner_row [OF assms(1), of "fst k" "snd k" r] set_alist_iff [OF d, of k r] by (cases k) auto
    qed
    then have "distinct (map (\<lambda>r. (run_PoolID r, run_ID r)) (sortSlice (\<lambda>a b. run_ID a < run_ID b) ?own))" by simp
    moreover have here: "run_PoolID r = pool_ID p" if "r \<in> set ?own" for r
      using that own inv_runner_row [OF assms(1)] by blast
    have there: "run_PoolID r \<noteq> pool_ID p" if "r \<in> set rest" for r
    proof -
      from that ih have "r \<in> {r. \<exists>rid pool. runnerAt (w_store w) pool rid = Some r
          \<and> pool \<in> pool_ID ` set ps - set (pool_ID p # seen)}" by blast
      then obtain rid pool where "runnerAt (w_store w) pool rid = Some r" "pool \<noteq> pool_ID p"
        by (simp only: mem_Collect_eq) force
      then show ?thesis using inv_runner_row [OF assms(1)] by blast
    qed
    have "(\<lambda>r. (run_PoolID r, run_ID r)) ` set ?own \<inter> (\<lambda>r. (run_PoolID r, run_ID r)) ` set rest = {}"
      using here there by fastforce
    ultimately have dist: "distinct (map (\<lambda>r. (run_PoolID r, run_ID r)) rs)"
      using ih unfolding rest(2) by simp
    have "set rs = {r. \<exists>rid. runnerAt (w_store w) (pool_ID p) rid = Some r}
        \<union> {r. \<exists>rid pool. runnerAt (w_store w) pool rid = Some r \<and> pool \<in> pool_ID ` set ps - set (pool_ID p # seen)}"
      using ih own rest(2) by simp
    also have "\<dots> = {r. \<exists>rid pool. runnerAt (w_store w) pool rid = Some r \<and> pool \<in> pool_ID ` set (p # ps) - set seen}"
      using False by auto (metis imageI)+
    finally show ?thesis using dist by simp
  qed
qed simp

lemma sorted_runnerRows:
  assumes "runnerListingOk i"
  shows "sorted_wrt runnerLess (runnerRows i)"
proof -
  obtain out w scope q where i: "i = (out, w, scope, q)" by (metis surj_pair)
  obtain rs pools where rs: "visibleRunners i = Inr rs" "gatherRunners (memHost out) w [] pools = Inr rs"
    "store_inv (w_store w)"
    using assms i by (auto simp: runnerListingOk_def visibleRunners_def split: sum.splits)
  have "distinct (map (\<lambda>r. (run_PoolID r, run_ID r)) rs)" using gatherRunners_rows [OF rs(3,2)] by simp
  then have "sorted_wrt runnerLess (sortSlice runnerLess rs)"
    by (rule strict_sorted [OF weak_runnerLess]) (rule runnerLess_total)
  then show ?thesis using rs by (simp add: runnerRows_def)
qed

interpretation runners: paged_listing runnerListingOk runnerRows "\<lambda>(out, w, scope, q). runnerLimit (rq_Limit q)"
  runnerCursor runnerPage cutRunners
proof unfold_locales
  fix i n
  assume ok: "runnerListingOk i"
  obtain out w scope q where i: "i = (out, w, scope, q)" by (metis surj_pair)
  obtain rs pools where rs: "visibleRunners i = Inr rs" "gatherRunners (memHost out) w [] pools = Inr rs"
    and pools: "o_EligiblePools out w scope noRequirements = Inr pools"
    and inv: "store_inv (w_store w)"
    and val: "\<And>r. r \<in> set rs \<Longrightarrow> ValidString (run_ID r) \<and> ValidString (run_PoolID r)"
    and guard: "Scope_Validate scope = None" "0 \<le> rq_Limit q"
      "o_Authorize out scope ActionList \<lparr>res_Kind = ResourceRunner, res_WorkspaceID = sco_WorkspaceID scope,
         res_ID = '''', res_CreatorID = ''''\<rparr> = None"
    using ok i by (auto simp: runnerListingOk_def visibleRunners_def split: sum.splits)
  have rows: "runnerRows i = sortSlice runnerLess rs" using rs by (simp add: runnerRows_def)
  have page: "runnerPage i c = (if c \<noteq> '''' \<and> decodeRunnerCursor c = None then Inl ErrInvalid
      else Inr (cutRunners (if c = '''' then runnerRows i
             else let (r, p) = the (decodeRunnerCursor c)
                  in dropWhile (\<lambda>x. \<not> runnerLess (cursorRunner r p) x) (runnerRows i))
           (runnerLimit (rq_Limit q)) runnerCursor))" for c
    using guard pools rs(2) i rows by (simp add: runnerPage_def FleetService_ListRunners_def memHost_def Let_def)
  show "runnerPage i '''' = Inr (cutRunners (runnerRows i) (case i of (out, w, scope, q) \<Rightarrow> runnerLimit (rq_Limit q)) runnerCursor)"
    using page i by simp
  assume n: "n < length (runnerRows i)"
  let ?r = "runnerRows i ! n"
  have "?r \<in> set rs" using nth_mem [OF n] rows by simp
  then have "ValidString (run_ID ?r)" "ValidString (run_PoolID ?r)" "run_PoolID ?r \<noteq> ''''"
    using val gatherRunners_rows [OF inv rs(2)] inv_runner_row [OF inv] by fastforce+
  then have "decodeRunnerCursor (runnerCursor ?r) = Some (run_ID ?r, run_PoolID ?r)"
    by (simp add: runnerCursor_def decode_runner_cursor)
  moreover have "runnerCursor ?r \<noteq> ''''" by (rule runnerCursor_marks)
  moreover have "dropWhile (\<lambda>x. \<not> runnerLess (cursorRunner (run_ID ?r) (run_PoolID ?r)) x) (runnerRows i)
      = drop (Suc n) (runnerRows i)"
    unfolding runnerLess_cursor by (rule dropWhile_sorted [OF weak_runnerLess sorted_runnerRows [OF ok] n])
  ultimately show "runnerPage i (runnerCursor ?r)
      = Inr (cutRunners (drop (Suc n) (runnerRows i)) (case i of (out, w, scope, q) \<Rightarrow> runnerLimit (rq_Limit q)) runnerCursor)"
    using page i by simp
qed (erule cutRunners_page, rule runnerCursor_marks)

lemma gatherRunners_total:
  "\<forall>p \<in> set pools. pool_ID p \<noteq> '''' \<Longrightarrow> \<exists>rs. gatherRunners (memHost out) w seen pools = Inr rs"
proof (induction pools arbitrary: seen)
  case (Cons p ps)
  then obtain f where "\<And>seen'. gatherRunners (memHost out) w seen' ps = Inr (f seen')"
    by (metis list.set_intros(2))
  moreover obtain own where "h_ListRunners (memHost out) w (pool_ID p) = Inr own"
    using Cons.prems by (simp add: memHost_def memFleet_ListRunners_def)
  ultimately show ?case by (cases "pool_ID p \<in> set seen") simp_all
qed simp

lemma runners_bounded:
  assumes "store_inv m" and "distinct (map (\<lambda>r. (run_PoolID r, run_ID r)) rs)"
    and "set rs \<subseteq> {r. \<exists>rid pool. runnerAt m pool rid = Some r}"
  shows "length rs \<le> length (ms_runners m)"
proof -
  have "length rs = card (set rs)" using assms(2) by (metis distinct_card distinct_map)
  also have "set rs \<subseteq> snd ` set (ms_runners m)"
  proof
    fix r assume "r \<in> set rs"
    then obtain k where "map_of (ms_runners m) k = Some r" using assms(3) by blast
    then show "r \<in> snd ` set (ms_runners m)" using map_of_SomeD by force
  qed
  then have "card (set rs) \<le> card (snd ` set (ms_runners m))" by (simp add: card_mono)
  also have "\<dots> \<le> length (ms_runners m)"
    by (metis List.finite_set card_image_le card_length le_trans)
  finally show ?thesis .
qed

text \<open>Two runners of one pool.\<close>

definition twoRunners :: memStore where
  "twoRunners =
     (let put = (\<lambda>m rid. fst (memFleet_UpsertRunner m ''pool'' (newRunner rid ''pool'')))
      in put (put NewMemStore ''r2'') ''r1'')"

lemma twoRunners_inv: "store_inv twoRunners"
  unfolding twoRunners_def Let_def by (intro UpsertRunner_inv store_inv_init)

section \<open>Properties\<close>

text \<open>A runner cursor reads back as the pair it was made from: for valid UTF-8 identities that are
  not both empty, decoding the base64 of the JSON object gives them unchanged, whatever
  characters they contain and however the encoder escapes them.\<close>

theorem runner_cursor_roundtrip:
  assumes "ValidString r" and "ValidString p" and "r \<noteq> '''' \<or> p \<noteq> ''''"
  shows "decodeRunnerCursor (encodeRunnerCursor r p) = Some (r, p)"
  using assms by (rule decode_runner_cursor)

theorem runner_cursor_roundtrip_witness:
  "decodeRunnerCursor (encodeRunnerCursor (CHR 0x22 # ''a<'' @ [CHR 0xC3, CHR 0xA9, CHR 0x5C, CHR 0x01]) ''pool'')
     = Some (CHR 0x22 # ''a<'' @ [CHR 0xC3, CHR 0xA9, CHR 0x5C, CHR 0x01], ''pool'')"
  by (rule runner_cursor_roundtrip) (code_simp, code_simp, simp)

text \<open>Following the cursors of the runner listing reads every runner of every eligible pool
  exactly once, by identity and pool, whatever page limit the query asks for (0 and anything
  over 100 included), provided the identities are valid UTF-8.\<close>

theorem runners_listed_once:
  assumes "store_inv (w_store w)" and "Scope_Validate scope = None" and "0 \<le> rq_Limit q"
    and "o_Authorize out scope ActionList \<lparr>res_Kind = ResourceRunner, res_WorkspaceID = sco_WorkspaceID scope,
       res_ID = '''', res_CreatorID = ''''\<rparr> = None"
    and "o_EligiblePools out w scope noRequirements = Inr pools" and "\<forall>p \<in> set pools. pool_ID p \<noteq> ''''"
    and "\<forall>k r. map_of (ms_runners (w_store w)) k = Some r \<longrightarrow> ValidString (run_ID r) \<and> ValidString (run_PoolID r)"
    and "length (ms_runners (w_store w)) < fuel"
  shows "\<exists>rows. follow (\<lambda>c. FleetService_ListRunners (memHost out) w scope (q\<lparr>rq_Cursor := c\<rparr>)) fuel ''''
      = Some (Inr rows)
    \<and> sorted_wrt runnerLess rows \<and> distinct (map (\<lambda>r. (run_PoolID r, run_ID r)) rows)
    \<and> set rows = {r. \<exists>rid pool. runnerAt (w_store w) pool rid = Some r \<and> pool \<in> pool_ID ` set pools}"
proof -
  let ?i = "(out, w, scope, q)"
  obtain rs where rs: "gatherRunners (memHost out) w [] pools = Inr rs"
    using gatherRunners_total [OF assms(6)] by blast
  note facts = gatherRunners_rows [OF assms(1) rs]
  have vis: "visibleRunners ?i = Inr rs" using assms(5) rs by (simp add: visibleRunners_def)
  have "\<forall>r \<in> set rs. ValidString (run_ID r) \<and> ValidString (run_PoolID r)"
    using facts assms(7) by blast
  then have ok: "runnerListingOk ?i" using assms vis by (auto simp: runnerListingOk_def)
  have rows: "runnerRows ?i = sortSlice runnerLess rs" using vis by (simp add: runnerRows_def)
  have "length (runnerRows ?i) < fuel"
    using runners_bounded [OF assms(1), of rs] facts rows assms(8) by fastforce
  then have "follow (runnerPage ?i) fuel '''' = Some (Inr (runnerRows ?i))"
    using runners.follow_all [OF ok] assms(3) by (simp add: runnerLimit_def)
  then have "follow (\<lambda>c. FleetService_ListRunners (memHost out) w scope (q\<lparr>rq_Cursor := c\<rparr>)) fuel ''''
      = Some (Inr (runnerRows ?i))"
    by (simp add: runnerPage_def)
  moreover have "distinct (map (\<lambda>r. (run_PoolID r, run_ID r)) (runnerRows ?i))" using facts rows by simp
  ultimately show ?thesis using sorted_runnerRows [OF ok] facts rows by auto
qed

theorem runners_listed_once_witness:
  "\<exists>rows. follow (\<lambda>c. FleetService_ListRunners (memHost sampleOutside) (sampleWorld twoRunners) sampleScope
      (\<lparr>rq_Limit = 1, rq_Cursor = ''''\<rparr>\<lparr>rq_Cursor := c\<rparr>)) 4 '''' = Some (Inr rows)
    \<and> sorted_wrt runnerLess rows \<and> map run_ID rows = [''r1'', ''r2'']"
proof -
  let ?w = "sampleWorld twoRunners" and ?q = "\<lparr>rq_Limit = 1, rq_Cursor = ''''\<rparr>"
  let ?f = "follow (\<lambda>c. FleetService_ListRunners (memHost sampleOutside) ?w sampleScope (?q\<lparr>rq_Cursor := c\<rparr>)) 4 ''''"
  obtain pools where pools: "o_EligiblePools sampleOutside ?w sampleScope noRequirements = Inr pools"
    "\<forall>p \<in> set pools. pool_ID p \<noteq> ''''"
    by (simp add: sampleOutside_def)
  have inv: "store_inv (w_store ?w)" by (simp add: sampleWorld_def twoRunners_inv)
  have a: "Scope_Validate sampleScope = None" "0 \<le> rq_Limit ?q"
    "o_Authorize sampleOutside sampleScope ActionList \<lparr>res_Kind = ResourceRunner,
       res_WorkspaceID = sco_WorkspaceID sampleScope, res_ID = '''', res_CreatorID = ''''\<rparr> = None"
    "length (ms_runners (w_store ?w)) < 4"
    "list_all (\<lambda>(k, r). ValidString (run_ID r) \<and> ValidString (run_PoolID r)) (ms_runners (w_store ?w))"
    by code_simp+
  have "\<forall>k r. map_of (ms_runners (w_store ?w)) k = Some r \<longrightarrow> ValidString (run_ID r) \<and> ValidString (run_PoolID r)"
    using a(5) by (auto simp: list_all_iff dest!: map_of_SomeD)
  from runners_listed_once [OF inv a(1-3) pools this a(4)] obtain rows where
    rows: "?f = Some (Inr rows)" "sorted_wrt runnerLess rows" by blast
  moreover have "map_option (map_sum (\<lambda>_. ()) (map run_ID)) ?f = Some (Inr [''r1'', ''r2''])"
    by code_simp
  ultimately show ?thesis by auto
qed

end
