(* ===== verification/Launch.thy ===== *)
theory Launch
  imports Json Cursor Ports
begin

text \<open>
  What a launch is made of besides the session row: the agent provider table and the
  environment it gives every session (\<^verbatim>\<open>src/controlapp/agents.go\<close>), the setup hash
  (\<^verbatim>\<open>hash.go\<close>), the bootstrap token (\<^verbatim>\<open>bootstrap.go\<close>) and the default egress table
  (\<^verbatim>\<open>egress.go\<close>), with the part of \<^verbatim>\<open>base64.StdEncoding\<close> they use.
\<close>

section \<open>base64.StdEncoding\<close>

definition StdEncode :: "string \<Rightarrow> string" where
  "StdEncode s =
     (let cs = map (\<lambda>n. (''ABCDEFGHIJKLMNOPQRSTUVWXYZabcdefghijklmnopqrstuvwxyz0123456789+/'') ! n) (groups s)
      in cs @ replicate ((4 - length cs mod 4) mod 4) (CHR ''=''))"

section \<open>The agent provider table (agents.go)\<close>

definition HomeMountPath :: string where
  "HomeMountPath = ''/rainier/agents''"

definition agentsEnvVar :: string where
  "agentsEnvVar = ''RAINIER_AGENTS_B64''"

definition AgentCredentialProtocolVersion :: nat where
  "AgentCredentialProtocolVersion = 1"

record AgentHomeSeedFile =
  seed_Name :: string
  seed_Contents :: string

record AgentProvider =
  ap_Name :: string
  ap_HomeEnv :: string
  ap_Files :: "string slice"
  ap_SeedFiles :: "AgentHomeSeedFile slice"
  ap_Egress :: "string slice"
  ap_LoginCmd :: "string slice"

text \<open>The switch \<^verbatim>\<open>EnableTestAgentProvider\<close> is an argument.\<close>

definition AgentProviders :: "bool \<Rightarrow> AgentProvider list" where
  "AgentProviders testProvider =
     [\<lparr>ap_Name = ''claude'', ap_HomeEnv = ''CLAUDE_CONFIG_DIR'',
       ap_Files = Some [''.credentials.json''],
       ap_SeedFiles = Some [\<lparr>seed_Name = ''.claude.json'',
         seed_Contents = CHR ''{'' # CHR 0x22 # ''hasCompletedOnboarding'' @ CHR 0x22 # '':true}''\<rparr>],
       ap_Egress = Some [''api.anthropic.com'', ''platform.claude.com'', ''downloads.claude.ai'',
         ''mcp-proxy.anthropic.com''],
       ap_LoginCmd = Some [''claude'']\<rparr>,
      \<lparr>ap_Name = ''codex'', ap_HomeEnv = ''CODEX_HOME'', ap_Files = Some [''auth.json''],
       ap_SeedFiles = None, ap_Egress = Some [''auth.openai.com'', ''chatgpt.com''],
       ap_LoginCmd = Some [''codex'', ''login'', ''--device-auth'']\<rparr>]
     @ (if testProvider
        then [\<lparr>ap_Name = ''test'', ap_HomeEnv = ''RAINIER_TEST_AGENT_HOME'',
               ap_Files = Some [''credential.json''], ap_SeedFiles = None, ap_Egress = None,
               ap_LoginCmd = Some [''sh'', ''-c'',
                 ''printf credential_example > '' @ CHR 0x22 #
                 ''$RAINIER_TEST_AGENT_HOME/credential.json'' @ [CHR 0x22]]\<rparr>]
        else [])"

definition AgentHomeVolume :: "wsid \<Rightarrow> actorid \<Rightarrow> string" where
  "AgentHomeVolume ws creator =
     ''rainier-agents-'' @ take 16 (hexEncode (Sum256 (ws @ CHR 0x00 # creator)))"

definition agentManifestEntry :: "AgentProvider \<Rightarrow> string" where
  "agentManifestEntry p =
     jsonObject
       ([(''credential_protocol'', show_nat AgentCredentialProtocolVersion),
         (''provider'', jsonString (ap_Name p)),
         (''dir'', jsonString (HomeMountPath @ ''/'' @ ap_Name p)),
         (''files'', jsonArray (map_option (map jsonString) (ap_Files p)))]
        @ (if elems (ap_SeedFiles p) = [] then []
           else [(''seed_files'', jsonArray (map_option (map (\<lambda>f. jsonObject
                    [(''name'', jsonString (seed_Name f)), (''contents'', jsonString (seed_Contents f))]))
                  (ap_SeedFiles p)))]))"

text \<open>The map is built by successive assignments, the manifest's last.\<close>

definition AgentsEnv :: "AgentProvider list \<Rightarrow> (string \<times> string) list" where
  "AgentsEnv providers =
     upd agentsEnvVar (StdEncode (jsonArray (Some (map agentManifestEntry providers))))
       (fold (\<lambda>p env. upd (ap_HomeEnv p) (HomeMountPath @ ''/'' @ ap_Name p) env) providers [])"

section \<open>The setup hash (hash.go)\<close>

definition setupHash :: "string \<Rightarrow> string \<Rightarrow> string" where
  "setupHash img setup = hexEncode (Sum256 (img @ CHR 0x00 # setup))"

section \<open>The bootstrap token (bootstrap.go)\<close>

definition SessionBootstrapTTL :: time where
  "SessionBootstrapTTL = 120 * second"

definition sessionBootstrapTokenBytes :: nat where
  "sessionBootstrapTokenBytes = 32"

definition HashSessionBootstrapToken :: "string \<Rightarrow> string" where
  "HashSessionBootstrapToken token = hexEncode (Sum256 token)"

definition mintFailed :: err where
  "mintFailed = ErrOther ''controlapp: the session bootstrap token could not be minted''"

text \<open>The minter of the fleet service has both of its ports: the constructor refuses nil ones.\<close>

definition Mint :: "'s host \<Rightarrow> 's \<Rightarrow> wsid \<Rightarrow> sessionid \<Rightarrow> u64 \<Rightarrow> 's \<times> (err + string)" where
  "Mint h s ws sid gen =
     (case h_Rand h s sessionBootstrapTokenBytes of
        (s1, None) \<Rightarrow> (s1, Inl mintFailed)
      | (s1, Some b) \<Rightarrow>
        (let token = EncodeToString b;
             (s2, now) = h_Now h s1
         in case h_PutSessionBootstrap h s2 ws sid
                   \<lparr>bs_Hash = HashSessionBootstrapToken token, bs_PlacementGeneration = gen,
                    bs_ExpiresAt = now + SessionBootstrapTTL\<rparr> of
              (s3, Some e) \<Rightarrow> (s3, Inl e)
            | (s3, None) \<Rightarrow> (s3, Inr token)))"

text \<open>The sentence shown for one of the four bootstrap refusals; \<open>None\<close> for any other error.\<close>

definition SessionBootstrapRefusal :: "err \<Rightarrow> string option" where
  "SessionBootstrapRefusal e =
     (if errIs e ErrBootstrapUnknown
      then Some ''this session has no bootstrap token matching the one presented''
      else if errIs e ErrBootstrapSpent
      then Some (''this session'' @ CHR 0x27 # ''s bootstrap token has already been exchanged'')
      else if errIs e ErrBootstrapExpired
      then Some (''this session'' @ CHR 0x27 # ''s bootstrap token has expired'')
      else if errIs e ErrBootstrapFenced
      then Some ''this session has been placed again since its bootstrap token was minted''
      else None)"

section \<open>The default egress table (egress.go)\<close>

text \<open>A row of the table; the reason is documentation and is left out.\<close>

record EgressHost =
  eg_Host :: string
  eg_Ecosystem :: string

definition defaultDeveloperEgress :: "EgressHost list" where
  "defaultDeveloperEgress =
     map (\<lambda>(host, eco). \<lparr>eg_Host = host, eg_Ecosystem = eco\<rparr>)
       [(''registry.npmjs.org'', ''npm''), (''registry.yarnpkg.com'', ''npm''),
        (''pypi.org'', ''pypi''), (''files.pythonhosted.org'', ''pypi''),
        (''proxy.golang.org'', ''go''), (''sum.golang.org'', ''go''),
        (''github.com'', ''github-git''), (''codeload.github.com'', ''github-git''),
        (''objects.githubusercontent.com'', ''github-git''), (''api.github.com'', ''github-api''),
        (''raw.githubusercontent.com'', ''github-content''),
        (''release-assets.githubusercontent.com'', ''github-content'')]"

text \<open>A nil \<^verbatim>\<open>keep\<close> keeps every row; the result is never nil.\<close>

definition egressHostsOf :: "string slice \<Rightarrow> string slice" where
  "egressHostsOf keep =
     Some (map eg_Host (filter (\<lambda>row. case keep of None \<Rightarrow> True | Some ks \<Rightarrow> eg_Ecosystem row \<in> set ks)
       defaultDeveloperEgress))"

definition DefaultDeveloperEgressHosts :: "string slice" where
  "DefaultDeveloperEgressHosts = egressHostsOf None"

definition GitHubGitEgressHosts :: "string slice" where
  "GitHubGitEgressHosts = egressHostsOf (Some [''github-git''])"

text \<open>The option is a pointer: unset takes the table, a set slice is taken as it is.\<close>

definition resolveDefaultEgress :: "string slice option \<Rightarrow> string slice" where
  "resolveDefaultEgress opt = (case opt of None \<Rightarrow> DefaultDeveloperEgressHosts | Some hosts \<Rightarrow> hosts)"

section \<open>Facts\<close>

lemma length_setupHash: "length (setupHash img setup) = 64"
  by (simp add: setupHash_def)

lemma AgentsEnv_distinct: "distinct (map fst (AgentsEnv ps))"
proof -
  have "distinct (map fst env) \<Longrightarrow>
    distinct (map fst (fold (\<lambda>p env. upd (ap_HomeEnv p) (HomeMountPath @ ''/'' @ ap_Name p) env) ps env))" for env
    by (induction ps arbitrary: env) auto
  then show ?thesis by (simp add: AgentsEnv_def)
qed

lemma AgentsEnv_keys: "fst ` set (AgentsEnv ps) = insert agentsEnvVar (ap_HomeEnv ` set ps)"
proof -
  have "fst ` set (fold (\<lambda>p env. upd (ap_HomeEnv p) (HomeMountPath @ ''/'' @ ap_Name p) env) ps env)
      = ap_HomeEnv ` set ps \<union> fst ` set env" for env
    by (induction ps arbitrary: env) (auto simp: AList.dom_update)
  then show ?thesis by (simp add: AgentsEnv_def AList.dom_update)
qed

end
