(* ===== verification/EnvironmentService.thy ===== *)
theory EnvironmentService
  imports Launch SessionService
begin

text \<open>
  The environment service (\<^verbatim>\<open>src/controlapp/environments.go\<close>): creation, reads, the patch that
  keeps a stale snapshot visible, and the delete that live sessions block.
\<close>

section \<open>Commands (control/environment.go)\<close>

record CreateEnvironmentCmd =
  ce_Name :: string
  ce_Image :: string
  ce_Setup :: string
  ce_Init :: string
  ce_InitTimeoutSec :: int
  ce_EgressAllow :: "string slice"
  ce_SecretRefs :: "string slice"
  ce_Connectors :: "Connector slice"
  ce_Requirements :: Requirements
  ce_SetupTimeoutSec :: int

text \<open>A nil pointer leaves the field alone.\<close>

record UpdateEnvironmentCmd =
  ue_ID :: envid
  ue_Name :: "string option"
  ue_Image :: "string option"
  ue_Setup :: "string option"
  ue_Init :: "string option"
  ue_InitTimeoutSec :: "int option"
  ue_EgressAllow :: "string slice option"
  ue_SecretRefs :: "string slice option"
  ue_Connectors :: "Connector slice option"
  ue_Requirements :: "Requirements option"
  ue_SetupTimeoutSec :: "int option"

section \<open>Validation\<close>

definition environmentResource :: "Environment \<Rightarrow> Resource" where
  "environmentResource e =
     \<lparr>res_Kind = ResourceEnvironment, res_WorkspaceID = env_WorkspaceID e, res_ID = env_ID e,
      res_CreatorID = ''''\<rparr>"

definition validateEnvironment ::
    "string \<Rightarrow> string \<Rightarrow> int \<Rightarrow> int \<Rightarrow> Requirements \<Rightarrow> string slice \<Rightarrow> Connector slice \<Rightarrow> err option" where
  "validateEnvironment name img setupTimeout initTimeout req secretRefs connectors =
     (if name = '''' \<or> img = '''' then Some ErrInvalid
      else if setupTimeout < 0 \<or> initTimeout < 0 then Some ErrInvalid
      else if req_MinCPU req < 0 \<or> req_MinMemoryBytes req < 0 \<or> req_MinDiskBytes req < 0
      then Some ErrInvalid
      else if list_ex (\<lambda>c. c = '''') (elems (req_Capabilities req)) then Some ErrInvalid
      else if list_ex (\<lambda>r. r = '''') (elems secretRefs) then Some ErrInvalid
      else if list_ex (\<lambda>c. con_Type c = '''' \<or> \<not> json_Valid (con_Raw c)) (elems connectors)
      then Some ErrInvalid
      else None)"

section \<open>Operations\<close>

definition newEnvironment :: "Scope \<Rightarrow> CreateEnvironmentCmd \<Rightarrow> envid \<Rightarrow> time \<Rightarrow> Environment" where
  "newEnvironment scope cmd eid now =
     \<lparr>env_ID = eid, env_WorkspaceID = sco_WorkspaceID scope, env_Name = ce_Name cmd,
      env_Image = ce_Image cmd, env_Setup = ce_Setup cmd,
      env_SetupHash = setupHash (ce_Image cmd) (ce_Setup cmd), env_Init = ce_Init cmd,
      env_InitTimeoutSec = ce_InitTimeoutSec cmd, env_EgressAllow = ce_EgressAllow cmd,
      env_SecretRefs = ce_SecretRefs cmd, env_Connectors = ce_Connectors cmd,
      env_Requirements = ce_Requirements cmd, env_SetupTimeoutSec = ce_SetupTimeoutSec cmd,
      env_Snapshot = emptyCheckpoint, env_SnapshotHash = '''', env_CreatedAt = now,
      env_UpdatedAt = now\<rparr>"

text \<open>The error of a failed write, and the closure of the unit of work a write and its event
  share: the row it captured (\<open>None\<close> after a failure) and its end.\<close>

definition environmentError :: "err \<Rightarrow> err" where
  "environmentError e =
     (if errIs e ErrConflict then ErrConflict else if errIs e ErrNotFound then ErrNotFound else ErrUnavailable)"

definition environmentUnit ::
    "'s host \<Rightarrow> Scope \<Rightarrow> Action \<Rightarrow> 's \<times> (err + Environment) \<Rightarrow> Environment option \<times> ('s \<times> err option)" where
  "environmentUnit h scope action written =
     (case written of
        (s1, Inl e) \<Rightarrow> (None, s1, Some (environmentError e))
      | (s1, Inr stored) \<Rightarrow> (Some stored, recordEvent h s1 scope action (environmentResource stored) 0))"

text \<open>What the caller gets of that unit.\<close>

definition environmentResult ::
    "'s host \<Rightarrow> 's \<Rightarrow> Environment option \<times> ('s \<times> err option) \<Rightarrow> 's \<times> (err + Environment)" where
  "environmentResult h s unit =
     (case runUnit h s (snd unit) of
        (s1, Some e) \<Rightarrow> (s1, Inl e)
      | (s1, None) \<Rightarrow> (s1, Inr (the (fst unit))))"

definition EnvironmentService_CreateEnvironment ::
    "'s host \<Rightarrow> 's \<Rightarrow> Scope \<Rightarrow> CreateEnvironmentCmd \<Rightarrow> 's \<times> (err + Environment)" where
  "EnvironmentService_CreateEnvironment h s scope cmd =
     (if Scope_Validate scope \<noteq> None then (s, Inl ErrInvalid)
      else if validateEnvironment (ce_Name cmd) (ce_Image cmd) (ce_SetupTimeoutSec cmd)
                (ce_InitTimeoutSec cmd) (ce_Requirements cmd) (ce_SecretRefs cmd) (ce_Connectors cmd) \<noteq> None
      then (s, Inl ErrInvalid)
      else if h_Authorize h s scope ActionCreate
                \<lparr>res_Kind = ResourceEnvironment, res_WorkspaceID = sco_WorkspaceID scope, res_ID = '''',
                 res_CreatorID = ''''\<rparr> \<noteq> None
      then (s, Inl ErrDenied)
      else
        let (s1, eid) = h_NewEnvironmentID h s
        in if eid = '''' then (s1, Inl ErrUnavailable)
           else
             let (s2, now) = h_Now h s1
             in environmentResult h s2
                  (environmentUnit h scope ActionCreate
                     (h_CreateEnvironment h s2 (sco_WorkspaceID scope) (newEnvironment scope cmd eid now))))"

text \<open>The guard every command on one environment opens with.\<close>

definition authorizedEnvironment ::
    "'s host \<Rightarrow> 's \<Rightarrow> Scope \<Rightarrow> Action \<Rightarrow> envid \<Rightarrow> err + Environment" where
  "authorizedEnvironment h s scope action eid =
     (if Scope_Validate scope \<noteq> None then Inl ErrInvalid
      else case h_GetEnvironment h s (sco_WorkspaceID scope) eid of
        Inl e \<Rightarrow> Inl (if errIs e ErrNotFound then ErrNotFound else ErrUnavailable)
      | Inr row \<Rightarrow>
        (if h_Authorize h s scope action (environmentResource row) \<noteq> None then Inl ErrDenied
         else Inr row))"

definition EnvironmentService_GetEnvironment ::
    "'s host \<Rightarrow> 's \<Rightarrow> Scope \<Rightarrow> envid \<Rightarrow> err + Environment" where
  "EnvironmentService_GetEnvironment h s scope eid = authorizedEnvironment h s scope ActionGet eid"

definition EnvironmentService_ListEnvironments ::
    "'s host \<Rightarrow> 's \<Rightarrow> Scope \<Rightarrow> EnvironmentQuery \<Rightarrow> err + (Environment list \<times> string)" where
  "EnvironmentService_ListEnvironments h s scope q =
     (if Scope_Validate scope \<noteq> None then Inl ErrInvalid
      else if h_Authorize h s scope ActionList
                \<lparr>res_Kind = ResourceEnvironment, res_WorkspaceID = sco_WorkspaceID scope, res_ID = '''',
                 res_CreatorID = ''''\<rparr> \<noteq> None
      then Inl ErrDenied
      else case h_ListEnvironments h s (sco_WorkspaceID scope) q of
        Inl _ \<Rightarrow> Inl ErrUnavailable | Inr page \<Rightarrow> Inr page)"

definition orKeep :: "'a \<Rightarrow> 'a option \<Rightarrow> 'a" where
  "orKeep old new = (case new of None \<Rightarrow> old | Some v \<Rightarrow> v)"

definition patchEnvironment :: "Environment \<Rightarrow> UpdateEnvironmentCmd \<Rightarrow> Environment" where
  "patchEnvironment cur cmd =
     cur\<lparr>env_Name := orKeep (env_Name cur) (ue_Name cmd),
         env_Image := orKeep (env_Image cur) (ue_Image cmd),
         env_Setup := orKeep (env_Setup cur) (ue_Setup cmd),
         env_Init := orKeep (env_Init cur) (ue_Init cmd),
         env_InitTimeoutSec := orKeep (env_InitTimeoutSec cur) (ue_InitTimeoutSec cmd),
         env_EgressAllow := orKeep (env_EgressAllow cur) (ue_EgressAllow cmd),
         env_SecretRefs := orKeep (env_SecretRefs cur) (ue_SecretRefs cmd),
         env_Connectors := orKeep (env_Connectors cur) (ue_Connectors cmd),
         env_Requirements := orKeep (env_Requirements cur) (ue_Requirements cmd),
         env_SetupTimeoutSec := orKeep (env_SetupTimeoutSec cur) (ue_SetupTimeoutSec cmd)\<rparr>"

definition EnvironmentService_UpdateEnvironment ::
    "'s host \<Rightarrow> 's \<Rightarrow> Scope \<Rightarrow> UpdateEnvironmentCmd \<Rightarrow> 's \<times> (err + Environment)" where
  "EnvironmentService_UpdateEnvironment h s scope cmd =
     (case authorizedEnvironment h s scope ActionUpdate (ue_ID cmd) of
        Inl e \<Rightarrow> (s, Inl e)
      | Inr cur \<Rightarrow>
        (let next = patchEnvironment cur cmd
         in if validateEnvironment (env_Name next) (env_Image next) (env_SetupTimeoutSec next)
                 (env_InitTimeoutSec next) (env_Requirements next) (env_SecretRefs next)
                 (env_Connectors next) \<noteq> None
            then (s, Inl ErrInvalid)
            else environmentResult h s
              (environmentUnit h scope ActionUpdate
                 (h_UpdateEnvironment h s (sco_WorkspaceID scope)
                    (next\<lparr>env_SetupHash := setupHash (env_Image next) (env_Setup next)\<rparr>)))))"

definition EnvironmentService_DeleteEnvironment ::
    "'s host \<Rightarrow> 's \<Rightarrow> Scope \<Rightarrow> envid \<Rightarrow> 's \<times> err option" where
  "EnvironmentService_DeleteEnvironment h s scope eid =
     (case authorizedEnvironment h s scope ActionDelete eid of
        Inl e \<Rightarrow> (s, Some e)
      | Inr row \<Rightarrow>
        (case h_CountSessionsByEnvironment h s (sco_WorkspaceID scope) eid NonTerminal of
           Inl _ \<Rightarrow> (s, Some ErrUnavailable)
         | Inr n \<Rightarrow>
           (if n \<noteq> 0 then (s, Some ErrConflict)
            else runUnit h s
              (case h_DeleteEnvironment h s (sco_WorkspaceID scope) eid of
                 (s1, Some e) \<Rightarrow> (s1, Some (if errIs e ErrNotFound then ErrNotFound else ErrUnavailable))
               | (s1, None) \<Rightarrow> recordEvent h s1 scope ActionDelete (environmentResource row) 0))))"

end
