(* ===== verification/FleetService.thy ===== *)
theory FleetService
  imports Utf8 SessionService
begin

text \<open>
  The runner-facing half of the fleet service (\<^verbatim>\<open>src/controlapp/fleet.go\<close>): registration,
  reconciliation of a runner's announced sessions with the stored ones, and the application
  of unsolicited runner events, each fenced by the runner's and the session's generations.
  Scheduling is in the theory of the scheduler; the wake-up queue is with the ports.
\<close>

section \<open>Registration\<close>

definition findRunner :: "runnerid \<Rightarrow> Runner list \<Rightarrow> Runner option" where
  "findRunner rid runners = find (\<lambda>r. run_ID r = rid) runners"

definition validateRegistration :: "RunnerRegistration \<Rightarrow> bool \<Rightarrow> err option" where
  "validateRegistration r poolScoped =
     (case ValidateCapacityPlacements (reg_CapacityUsed r) (reg_CapacityPlacements r) of
        Some e \<Rightarrow> Some e
      | None \<Rightarrow>
        (if (\<not> poolScoped \<and> reg_WorkspaceID r = '''') \<or> reg_PoolID r = '''' \<or> reg_RunnerID r = ''''
            \<or> reg_Generation r = 0 \<or> reg_CapacityUsed r < 0 \<or> reg_CapacityTotal r < 0
            \<or> reg_CapacityUsed r > reg_CapacityTotal r
         then Some ErrInvalid
         else if \<not> distinct (elems (reg_Capabilities r)) then Some ErrInvalid
         else None))"

definition authoritativeGeneration :: "'s host \<Rightarrow> 's \<Rightarrow> poolid \<Rightarrow> runnerid \<Rightarrow> err + u64" where
  "authoritativeGeneration h s pool rid =
     (case h_ListRunners h s pool of
        Inl e \<Rightarrow> Inl (portError e)
      | Inr runners \<Rightarrow>
        Inr (case findRunner rid runners of None \<Rightarrow> 0 | Some r \<Rightarrow> run_Generation r))"

definition registeredRunner :: "RunnerRegistration \<Rightarrow> time \<Rightarrow> Runner" where
  "registeredRunner r now =
     \<lparr>run_ID = reg_RunnerID r, run_PoolID = reg_PoolID r, run_CapacityUsed = reg_CapacityUsed r,
      run_CapacityTotal = reg_CapacityTotal r, run_CapacityPlacements = reg_CapacityPlacements r,
      run_Connected = True, run_Generation = reg_Generation r, run_Capabilities = reg_Capabilities r,
      run_LastSeenAt = now\<rparr>"

definition registerRunner ::
    "'s host \<Rightarrow> 's \<Rightarrow> RunnerRegistration \<Rightarrow> bool \<Rightarrow> 's \<times> (err + RunnerRegistrationResult)" where
  "registerRunner h s r poolScoped =
     (case validateRegistration r poolScoped of
        Some e \<Rightarrow> (s, Inl e)
      | None \<Rightarrow>
        (case h_ListRunners h s (reg_PoolID r) of
           Inl e \<Rightarrow> (s, Inl (portError e))
         | Inr runners \<Rightarrow>
           (let found = findRunner (reg_RunnerID r) runners
            in if found \<noteq> None \<and> reg_Generation r < run_Generation (the found)
               then (s, Inr \<lparr>rr_Accepted = False, rr_Generation = run_Generation (the found)\<rparr>)
               else
                 let (s1, now) = h_Now h s
                 in case h_UpsertRunner h s1 (reg_PoolID r) (registeredRunner r now) of
                      (s2, None) \<Rightarrow> (s2, Inr \<lparr>rr_Accepted = True, rr_Generation = reg_Generation r\<rparr>)
                    | (s2, Some e) \<Rightarrow>
                      (if errIs e ErrStale
                       then (s2, case authoritativeGeneration h s2 (reg_PoolID r) (reg_RunnerID r) of
                                   Inl e' \<Rightarrow> Inl e'
                                 | Inr gen \<Rightarrow> Inr \<lparr>rr_Accepted = False, rr_Generation = gen\<rparr>)
                       else (s2, Inl (portError e))))))"

definition FleetService_RegisterRunner ::
    "'s host \<Rightarrow> 's \<Rightarrow> RunnerRegistration \<Rightarrow> 's \<times> (err + RunnerRegistrationResult)" where
  "FleetService_RegisterRunner h s r = registerRunner h s r False"

definition FleetService_RegisterPoolRunner ::
    "'s host \<Rightarrow> 's \<Rightarrow> RunnerRegistration \<Rightarrow> 's \<times> (err + RunnerRegistrationResult)" where
  "FleetService_RegisterPoolRunner h s r =
     (if reg_WorkspaceID r \<noteq> '''' then (s, Inl ErrInvalid) else registerRunner h s r True)"

section \<open>Reconciliation\<close>

definition lostAtAnnounce :: string where
  "lostAtAnnounce = ''lost at announce''"

definition validateSnapshot :: "RunnerSnapshot \<Rightarrow> bool \<Rightarrow> err option" where
  "validateSnapshot snap poolScoped =
     (case ValidateCapacityPlacements (snap_CapacityUsed snap) (snap_CapacityPlacements snap) of
        Some e \<Rightarrow> Some e
      | None \<Rightarrow>
        (if (\<not> poolScoped \<and> snap_WorkspaceID snap = '''') \<or> snap_PoolID snap = ''''
            \<or> snap_RunnerID snap = '''' \<or> snap_Generation snap = 0
         then Some ErrInvalid
         else if snap_CapacityUsed snap < 0 \<or> snap_CapacityTotal snap < 0
            \<or> snap_CapacityUsed snap > snap_CapacityTotal snap
         then Some ErrInvalid
         else if list_ex (\<lambda>r. rs_SessionID r = '''') (snap_Sessions snap)
            \<or> \<not> distinct (map rs_SessionID (snap_Sessions snap))
         then Some ErrInvalid
         else None))"

definition upsertSnapshotRunner ::
    "'s host \<Rightarrow> 's \<Rightarrow> RunnerSnapshot \<Rightarrow> Runner option \<Rightarrow> 's \<times> err option" where
  "upsertSnapshotRunner h s snap existing =
     (let (s1, now) = h_Now h s
      in h_UpsertRunner h s1 (snap_PoolID snap)
           \<lparr>run_ID = snap_RunnerID snap, run_PoolID = snap_PoolID snap,
            run_CapacityUsed = snap_CapacityUsed snap, run_CapacityTotal = snap_CapacityTotal snap,
            run_CapacityPlacements = snap_CapacityPlacements snap, run_Connected = True,
            run_Generation = snap_Generation snap,
            run_Capabilities = (case existing of None \<Rightarrow> None | Some r \<Rightarrow> run_Capabilities r),
            run_LastSeenAt = now\<rparr>)"

text \<open>\<open>Inr (Some gen)\<close> is fenced at \<open>gen\<close>, \<open>Inr None\<close> recorded.\<close>

definition recordSnapshotAuthority ::
    "'s host \<Rightarrow> 's \<Rightarrow> RunnerSnapshot \<Rightarrow> Runner option \<Rightarrow> 's \<times> (err + u64 option)" where
  "recordSnapshotAuthority h s snap existing =
     (case upsertSnapshotRunner h s snap existing of
        (s1, None) \<Rightarrow> (s1, Inr None)
      | (s1, Some e) \<Rightarrow>
        (if errIs e ErrStale
         then (s1, case authoritativeGeneration h s1 (snap_PoolID snap) (snap_RunnerID snap) of
                     Inl e' \<Rightarrow> Inl e' | Inr gen \<Rightarrow> Inr (Some gen))
         else (s1, Inl (portError e))))"

fun announcedState :: "SessionState \<Rightarrow> SessionState option" where
  "announcedState StateRunning = Some StateRunning"
| "announcedState StateSuspendedWarm = Some StateSuspendedWarm"
| "announcedState StateSuspendedCold = Some StateSuspendedCold"
| "announcedState _ = None"

definition transitionQuiet ::
    "'s host \<Rightarrow> 's \<Rightarrow> wsid \<Rightarrow> sessionid \<Rightarrow> SessionState list \<Rightarrow> SessionState \<Rightarrow> TransitionOpts
       \<Rightarrow> 's \<times> err option" where
  "transitionQuiet h s ws sid from to opts =
     (case h_Transition h s ws sid from to opts of
        (s1, None) \<Rightarrow> (s1, None)
      | (s1, Some e) \<Rightarrow>
        (s1, if errIs e ErrConflict \<or> errIs e ErrNotFound then None else Some (portError e)))"

text \<open>The transition reconciliation makes of one stored row: \<open>None\<close> leaves it alone.\<close>

definition storedMove ::
    "RunnerSession option \<Rightarrow> Session \<Rightarrow> (SessionState list \<times> SessionState \<times> TransitionOpts) option" where
  "storedMove reported row =
     (if ses_State row = StateResuming then None
      else case reported of
        None \<Rightarrow>
          (if ses_State row = StateCreating
           then Some ([StateCreating], StateQueued, noOpts\<lparr>opt_RunnerID := Some ''''\<rparr>)
           else Some (NonTerminal, StateDead, noOpts\<lparr>opt_Error := Some lostAtAnnounce\<rparr>))
      | Some r \<Rightarrow>
          (case announcedState (rs_State r) of
             None \<Rightarrow> None
           | Some want \<Rightarrow>
             (if want = ses_State row then Some ([want], want, noOpts)
              else Some (NonTerminal, want, noOpts))))"

text \<open>The loop over the stored rows; the list is the orphans found so far.\<close>

fun reconcileStored ::
    "'s host \<Rightarrow> RunnerSnapshot \<Rightarrow> bool \<Rightarrow> 's \<Rightarrow> Session list \<Rightarrow> sessionid list
       \<Rightarrow> 's \<times> (err + sessionid list)" where
  "reconcileStored h snap poolScoped s [] destroy = (s, Inr destroy)"
| "reconcileStored h snap poolScoped s (row # rows) destroy =
     (let reported = map_of (map (\<lambda>r. (rs_SessionID r, r)) (rev (snap_Sessions snap))) (ses_ID row)
      in if \<not> poolScoped \<and> ses_WorkspaceID row \<noteq> snap_WorkspaceID snap
         then reconcileStored h snap poolScoped s rows
                (if reported \<noteq> None then destroy @ [ses_ID row] else destroy)
         else case storedMove reported row of
           None \<Rightarrow> reconcileStored h snap poolScoped s rows destroy
         | Some (from, to, opts) \<Rightarrow>
           (case transitionQuiet h s (ses_WorkspaceID row) (ses_ID row) from to opts of
              (s1, Some e) \<Rightarrow> (s1, Inl e)
            | (s1, None) \<Rightarrow> reconcileStored h snap poolScoped s1 rows destroy))"

text \<open>The loop over the reported sessions the store does not hold on this runner.\<close>

fun reconcileReported ::
    "'s host \<Rightarrow> RunnerSnapshot \<Rightarrow> bool \<Rightarrow> sessionid list \<Rightarrow> 's \<Rightarrow> RunnerSession list \<Rightarrow> sessionid list
       \<Rightarrow> 's \<times> (err + sessionid list)" where
  "reconcileReported h snap poolScoped stored s [] destroy = (s, Inr destroy)"
| "reconcileReported h snap poolScoped stored s (r # rs) destroy =
     (if rs_SessionID r \<in> set stored then reconcileReported h snap poolScoped stored s rs destroy
      else if poolScoped
      then reconcileReported h snap poolScoped stored s rs (destroy @ [rs_SessionID r])
      else case h_GetSession h s (snap_WorkspaceID snap) (rs_SessionID r) of
        Inl e \<Rightarrow>
          (if errIs e ErrNotFound
           then reconcileReported h snap poolScoped stored s rs (destroy @ [rs_SessionID r])
           else (s, Inl (portError e)))
      | Inr row \<Rightarrow>
          (if Terminal (ses_State row)
           then reconcileReported h snap poolScoped stored s rs (destroy @ [rs_SessionID r])
           else if ses_WorkspaceID row = snap_WorkspaceID snap \<and> ses_RunnerID row = ''''
              \<and> (ses_PoolID row = '''' \<or> ses_PoolID row = snap_PoolID snap)
           then (case announcedState (rs_State r) of
                   None \<Rightarrow> reconcileReported h snap poolScoped stored s rs destroy
                 | Some want \<Rightarrow>
                   (case transitionQuiet h s (ses_WorkspaceID row) (ses_ID row) NonTerminal want
                           (noOpts\<lparr>opt_RunnerID := Some (snap_RunnerID snap)\<rparr>) of
                      (s1, Some e) \<Rightarrow> (s1, Inl e)
                    | (s1, None) \<Rightarrow> reconcileReported h snap poolScoped stored s1 rs destroy))
           else if ses_WorkspaceID row \<noteq> snap_WorkspaceID snap \<or> ses_PoolID row \<noteq> snap_PoolID snap
              \<or> ses_RunnerID row \<noteq> snap_RunnerID snap
           then reconcileReported h snap poolScoped stored s rs (destroy @ [rs_SessionID r])
           else reconcileReported h snap poolScoped stored s rs destroy))"

definition reconcileSessions ::
    "'s host \<Rightarrow> 's \<Rightarrow> RunnerSnapshot \<Rightarrow> bool \<Rightarrow> 's \<times> (err + sessionid list)" where
  "reconcileSessions h s snap poolScoped =
     (case h_SessionsOnRunner h s (snap_PoolID snap) (snap_RunnerID snap)
             [StateCreating, StateResuming, StateRunning, StateSuspendedWarm, StateSuspendedCold] of
        Inl e \<Rightarrow> (s, Inl (portError e))
      | Inr stored \<Rightarrow>
        (if poolScoped \<and> \<not> distinct (map ses_ID stored) then (s, Inl ErrConflict)
         else case reconcileStored h snap poolScoped s stored [] of
           (s1, Inl e) \<Rightarrow> (s1, Inl e)
         | (s1, Inr destroy) \<Rightarrow>
           (case reconcileReported h snap poolScoped (map ses_ID stored) s1 (snap_Sessions snap) destroy of
              (s2, Inl e) \<Rightarrow> (s2, Inl e)
            | (s2, Inr destroy') \<Rightarrow> (s2, Inr (remdups_adj (sortSlice (<) destroy'))))))"

definition reconcileRunner ::
    "'s host \<Rightarrow> 's \<Rightarrow> RunnerSnapshot \<Rightarrow> bool \<Rightarrow> 's \<times> (err + ReconcileResult)" where
  "reconcileRunner h s snap poolScoped =
     (case validateSnapshot snap poolScoped of
        Some e \<Rightarrow> (s, Inl e)
      | None \<Rightarrow>
        (case h_ListRunners h s (snap_PoolID snap) of
           Inl e \<Rightarrow> (s, Inl (portError e))
         | Inr runners \<Rightarrow>
           (let current = findRunner (snap_RunnerID snap) runners
            in if current \<noteq> None \<and> snap_Generation snap < run_Generation (the current)
               then (s, Inr \<lparr>rec_Generation = run_Generation (the current), rec_Fenced = True,
                             rec_Destroy = []\<rparr>)
               else case recordSnapshotAuthority h s snap current of
                 (s1, Inl e) \<Rightarrow> (s1, Inl e)
               | (s1, Inr (Some gen)) \<Rightarrow>
                 (s1, Inr \<lparr>rec_Generation = gen, rec_Fenced = True, rec_Destroy = []\<rparr>)
               | (s1, Inr None) \<Rightarrow>
                 (case reconcileSessions h s1 snap poolScoped of
                    (s2, Inl e) \<Rightarrow> (s2, Inl e)
                  | (s2, Inr destroy) \<Rightarrow>
                    (h_Wake h s2 (snap_PoolID snap),
                     Inr \<lparr>rec_Generation = snap_Generation snap, rec_Fenced = False,
                          rec_Destroy = destroy\<rparr>)))))"

definition FleetService_ReconcileRunner ::
    "'s host \<Rightarrow> 's \<Rightarrow> RunnerSnapshot \<Rightarrow> 's \<times> (err + ReconcileResult)" where
  "FleetService_ReconcileRunner h s snap = reconcileRunner h s snap False"

definition FleetService_ReconcilePoolRunner ::
    "'s host \<Rightarrow> 's \<Rightarrow> RunnerSnapshot \<Rightarrow> 's \<times> (err + ReconcileResult)" where
  "FleetService_ReconcilePoolRunner h s snap =
     (if snap_WorkspaceID snap \<noteq> '''' then (s, Inl ErrInvalid) else reconcileRunner h s snap True)"

section \<open>Runner events\<close>

fun eventTransitions :: "SessionState \<Rightarrow> SessionState list option" where
  "eventTransitions StateRunning = Some [StateCreating, StateRunning]"
| "eventTransitions StateSuspendedWarm = Some [StateRunning, StateSuspendedWarm]"
| "eventTransitions StateSuspendedCold = Some [StateRunning, StateSuspendedCold]"
| "eventTransitions StateFailed = Some [StateCreating, StateResuming, StateRunning]"
| "eventTransitions StateDead =
     Some [StateCreating, StateResuming, StateRunning, StateSuspendedWarm, StateSuspendedCold]"
| "eventTransitions _ = None"

definition runnerReportedDead :: string where
  "runnerReportedDead = ''runner reported dead''"

definition lifecycleEvent :: "RunnerEvent \<Rightarrow> Session \<Rightarrow> eventid \<Rightarrow> time \<Rightarrow> Event" where
  "lifecycleEvent event row eid now =
     \<lparr>evt_ID = eid, evt_WorkspaceID = rev_WorkspaceID event, evt_ActorID = rev_RunnerID event,
      evt_Action = ActionUpdate,
      evt_Resource = \<lparr>res_Kind = ResourceSession, res_WorkspaceID = rev_WorkspaceID event,
        res_ID = rev_SessionID event, res_CreatorID = ses_CreatorID row\<rparr>,
      evt_At = now, evt_PlacementGeneration = ses_PlacementGeneration row, evt_Command = ''''\<rparr>"

definition recordLifecycleEvent ::
    "'s host \<Rightarrow> 's \<Rightarrow> RunnerEvent \<Rightarrow> Session \<Rightarrow> eventid \<Rightarrow> 's \<times> err option" where
  "recordLifecycleEvent h s event row eid =
     (let (s1, now) = h_Now h s;
          (s2, r) = h_Record h s1 (lifecycleEvent event row eid now)
      in (s2, case r of None \<Rightarrow> None | Some _ \<Rightarrow> Some ErrUnavailable))"

text \<open>The guard of an event: the row and the runner it claims to speak for, at their
  generations.\<close>

definition eventMalformed :: "RunnerEvent \<Rightarrow> bool" where
  "eventMalformed event \<longleftrightarrow>
     rev_WorkspaceID event = '''' \<or> rev_PoolID event = '''' \<or> rev_RunnerID event = ''''
     \<or> rev_SessionID event = '''' \<or> rev_Generation event = 0
     \<or> eventTransitions (rev_State event) = None
     \<or> length (rev_Detail event) > maxDetailBytes \<or> \<not> ValidString (rev_Detail event)"

definition eventRow :: "'s host \<Rightarrow> 's \<Rightarrow> RunnerEvent \<Rightarrow> err + Session" where
  "eventRow h s event =
     (if eventMalformed event then Inl ErrInvalid
      else case h_GetSession h s (rev_WorkspaceID event) (rev_SessionID event) of
        Inl e \<Rightarrow> Inl (if errIs e ErrNotFound then ErrStale else portError e)
      | Inr row \<Rightarrow>
        (if ses_WorkspaceID row \<noteq> rev_WorkspaceID event \<or> ses_PoolID row \<noteq> rev_PoolID event
            \<or> ses_RunnerID row \<noteq> rev_RunnerID event
         then Inl ErrStale
         else case h_ListRunners h s (rev_PoolID event) of
           Inl e \<Rightarrow> Inl (portError e)
         | Inr runners \<Rightarrow>
           (case findRunner (rev_RunnerID event) runners of
              None \<Rightarrow> Inl ErrStale
            | Some r \<Rightarrow>
              (if run_Generation r \<noteq> rev_Generation event then Inl ErrStale
               else if (ses_State row = StateResuming \<and> rev_PlacementGeneration event = 0)
                  \<or> (rev_PlacementGeneration event \<noteq> 0
                     \<and> rev_PlacementGeneration event \<noteq> ses_PlacementGeneration row)
               then Inl ErrStale
               else Inr row))))"

definition eventOpts :: "RunnerEvent \<Rightarrow> Session \<Rightarrow> TransitionOpts" where
  "eventOpts event row =
     (let opts = noOpts\<lparr>opt_ExpectedPlacementGeneration := Some (ses_PlacementGeneration row)\<rparr>
      in if rev_State event = StateFailed then opts\<lparr>opt_Error := Some (boundDetail (rev_Detail event))\<rparr>
         else if rev_State event = StateDead then opts\<lparr>opt_Error := Some runnerReportedDead\<rparr>
         else opts)"

text \<open>The closure of a child exit's unit of work.\<close>

definition childExitUnit ::
    "'s host \<Rightarrow> 's \<Rightarrow> RunnerEvent \<Rightarrow> Session \<Rightarrow> eventid \<Rightarrow> int \<Rightarrow> 's \<times> err option" where
  "childExitUnit h s event row eid code =
     (case h_SetChildExitCode h s (rev_WorkspaceID event) (rev_SessionID event) code of
        (s1, Some e) \<Rightarrow> (s1, Some (if errIs e ErrNotFound then ErrStale else portError e))
      | (s1, None) \<Rightarrow> recordLifecycleEvent h s1 event row eid)"

text \<open>The closure of a transition's unit of work; the boolean is the variable \<^verbatim>\<open>applied\<close>.\<close>

definition eventUnit ::
    "'s host \<Rightarrow> 's \<Rightarrow> RunnerEvent \<Rightarrow> Session \<Rightarrow> eventid \<Rightarrow> bool \<times> ('s \<times> err option)" where
  "eventUnit h s event row eid =
     (case h_Transition h s (rev_WorkspaceID event) (rev_SessionID event)
             (the (eventTransitions (rev_State event))) (rev_State event) (eventOpts event row) of
        (s1, None) \<Rightarrow> (True, recordLifecycleEvent h s1 event row eid)
      | (s1, Some e) \<Rightarrow>
        (False, s1,
         if errIs e ErrConflict
         then (case h_GetSession h s1 (rev_WorkspaceID event) (rev_SessionID event) of
                 Inr cur \<Rightarrow> (if ses_State cur = rev_State event then None else Some ErrConflict)
               | Inl _ \<Rightarrow> Some ErrConflict)
         else if errIs e ErrNotFound then Some ErrStale
         else Some (portError e)))"

definition FleetService_ApplyRunnerEvent :: "'s host \<Rightarrow> 's \<Rightarrow> RunnerEvent \<Rightarrow> 's \<times> err option" where
  "FleetService_ApplyRunnerEvent h s event =
     (case eventRow h s event of
        Inl e \<Rightarrow> (s, Some e)
      | Inr row \<Rightarrow>
        (let (s1, eid) = h_NewEventID h s
         in if eid = '''' then (s1, Some ErrUnavailable)
            else case rev_ChildExitCode event of
              Some code \<Rightarrow>
                (case ses_ChildExitCode row of
                   Some code' \<Rightarrow> (s1, if code' = code then None else Some ErrConflict)
                 | None \<Rightarrow> runUnit h s1 (childExitUnit h s1 event row eid code))
            | None \<Rightarrow>
                (if ses_State row = rev_State event then (s1, None)
                 else
                   let (applied, fin) = eventUnit h s1 event row eid
                   in case runUnit h s1 fin of
                        (s2, Some e) \<Rightarrow> (s2, Some e)
                      | (s2, None) \<Rightarrow>
                        (if applied then h_Wake h s2 (rev_PoolID event) else s2, None))))"

end
