(* ===== verification/Scheduler.thy ===== *)
theory Scheduler
  imports Launch FleetService
begin

text \<open>
  The scheduler of the fleet service (\<^verbatim>\<open>src/controlapp/scheduler.go\<close> and
  \<^verbatim>\<open>resume_reconcile.go\<close>): the placement pass over a pool's queue, the runner specification a
  create carries, its dispatch with the settlement of an uncertain delivery, the settlement
  of lost resume replies, and the loop that drains pools on a wake-up or on a safety tick.
\<close>

section \<open>Host policy\<close>

text \<open>The fields of \<^verbatim>\<open>FleetService\<close> that are configuration, and the package switch of the synthetic
  agent provider.\<close>

record fleetConfig =
  fc_GuestReconnect :: bool
  fc_DefaultEgress :: "string slice"
  fc_DefaultSetupTimeout :: int
  fc_DefaultInitTimeout :: int
  fc_TestAgentProvider :: bool

section \<open>Settling lost resume replies\<close>

text \<open>The closure of one settlement's unit of work.\<close>

definition resumeUnit ::
    "'s host \<Rightarrow> 's \<Rightarrow> runnerid \<Rightarrow> Session \<Rightarrow> SessionState \<Rightarrow> 's \<times> err option" where
  "resumeUnit h s host row target =
     (case h_Transition h s (ses_WorkspaceID row) (ses_ID row) [StateResuming] target
             (noOpts\<lparr>opt_ExpectedPlacementGeneration := Some (ses_PlacementGeneration row)\<rparr>) of
        (s1, Some e) \<Rightarrow>
          (s1, if errIs e ErrConflict \<or> errIs e ErrNotFound then None else Some e)
      | (s1, None) \<Rightarrow>
        (let (s2, eid) = h_NewEventID h s1
         in if eid = '''' then (s2, Some ErrUnavailable)
            else recordLifecycleEvent h s2
                   \<lparr>rev_WorkspaceID = ses_WorkspaceID row, rev_PoolID = '''', rev_RunnerID = host,
                    rev_Generation = 0, rev_SessionID = ses_ID row, rev_State = StateOther '''',
                    rev_Detail = '''', rev_ChildExitCode = None, rev_PlacementGeneration = 0\<rparr>
                   row eid))"

text \<open>A resume that is recent is left to its own dispatch.\<close>

definition resumeYoung :: "'s host \<Rightarrow> 's \<Rightarrow> Session \<Rightarrow> 's \<times> bool" where
  "resumeYoung h s row =
     (if ses_UpdatedAt row = zero_time then (s, False)
      else let (s1, now) = h_Now h s in (s1, now - ses_UpdatedAt row < 120 * second))"

definition settleAnswer ::
    "'s host \<Rightarrow> 's \<Rightarrow> runnerid \<Rightarrow> Session \<Rightarrow> err + FromRunner \<Rightarrow> 's" where
  "settleAnswer h s host row answer =
     (case answer of
        Inl _ \<Rightarrow> s
      | Inr res \<Rightarrow>
        (if \<not> from_OK res \<or> from_PlacementGeneration res \<noteq> ses_PlacementGeneration row
            \<or> ses_PlacementGeneration row = 0
         then s
         else
           let target = toSessionState (from_State res)
           in if target \<noteq> StateRunning \<and> target \<noteq> StateSuspendedCold then s
              else fst (runUnit h s (resumeUnit h s host row target))))"

text \<open>The inner loop over one host's rows: the budget left, or \<open>None\<close> when the pass is over.\<close>

fun settleResumes ::
    "'s host \<Rightarrow> poolid \<Rightarrow> runnerid \<Rightarrow> 's \<Rightarrow> nat \<Rightarrow> Session list \<Rightarrow> 's \<times> nat option" where
  "settleResumes h pool host s remaining [] = (s, Some remaining)"
| "settleResumes h pool host s remaining (row # rows) =
     (let (s1, young) = resumeYoung h s row
      in if young then settleResumes h pool host s1 remaining rows
         else if remaining = 0 \<or> h_Done h s1 then (s1, None)
         else
           let (s2, answer) = h_Dispatch h s1 pool host
                 ((command ''resume_status'' (ses_ID row))
                    \<lparr>to_PlacementGeneration := ses_PlacementGeneration row\<rparr>)
           in settleResumes h pool host (settleAnswer h s2 host row answer) (remaining - 1) rows)"

fun reconcileHosts :: "'s host \<Rightarrow> poolid \<Rightarrow> 's \<Rightarrow> nat \<Rightarrow> Runner list \<Rightarrow> 's" where
  "reconcileHosts h pool s remaining [] = s"
| "reconcileHosts h pool s remaining (host # hosts) =
     (if \<not> run_Connected host then reconcileHosts h pool s remaining hosts
      else case h_SessionsOnRunner h s pool (run_ID host) [StateResuming] of
        Inl _ \<Rightarrow> s
      | Inr rows \<Rightarrow>
        (case settleResumes h pool (run_ID host) s remaining rows of
           (s1, None) \<Rightarrow> s1
         | (s1, Some remaining') \<Rightarrow> reconcileHosts h pool s1 remaining' hosts))"

definition resumeBudget :: nat where
  "resumeBudget = 64"

definition reconcileResumes :: "'s host \<Rightarrow> 's \<Rightarrow> poolid \<Rightarrow> 's" where
  "reconcileResumes h s pool =
     (case h_ListRunners h s pool of
        Inl _ \<Rightarrow> s | Inr hosts \<Rightarrow> reconcileHosts h pool s resumeBudget hosts)"

section \<open>Choosing a runner\<close>

record runnerView =
  rv_id :: runnerid
  rv_free :: int
  rv_caps :: "string slice"

fun runnerViews :: "'s host \<Rightarrow> 's \<Rightarrow> poolid \<Rightarrow> Runner list \<Rightarrow> err + runnerView list" where
  "runnerViews h s pool [] = Inr []"
| "runnerViews h s pool (r # rs) =
     (if \<not> run_Connected r then runnerViews h s pool rs
      else case h_SessionsOnRunner h s pool (run_ID r) [StateCreating, StateResuming] of
        Inl e \<Rightarrow> Inl e
      | Inr creating \<Rightarrow>
        (case runnerViews h s pool rs of
           Inl e \<Rightarrow> Inl e
         | Inr views \<Rightarrow>
           Inr (\<lparr>rv_id = run_ID r, rv_free = AvailableRunnerSlots r creating,
                 rv_caps = run_Capabilities r\<rparr> # views)))"

definition freeCapacity :: "'s host \<Rightarrow> 's \<Rightarrow> poolid \<Rightarrow> err + runnerView list" where
  "freeCapacity h s pool =
     (case h_ListRunners h s pool of Inl e \<Rightarrow> Inl e | Inr runners \<Rightarrow> runnerViews h s pool runners)"

text \<open>One step of the loop of \<^verbatim>\<open>pickRunner\<close>.\<close>

definition betterRunner :: "runnerView \<Rightarrow> runnerView option \<Rightarrow> runnerView option" where
  "betterRunner r best =
     (if rv_free r \<le> 0 then best
      else case best of
        None \<Rightarrow> Some r
      | Some b \<Rightarrow>
        (if rv_free r > rv_free b \<or> rv_free r = rv_free b \<and> rv_id r < rv_id b then Some r else Some b))"

definition pickRunner :: "runnerView list \<Rightarrow> runnerid option" where
  "pickRunner views = map_option rv_id (fold betterRunner views None)"

definition hasAllCapabilities :: "string list \<Rightarrow> string list \<Rightarrow> bool" where
  "hasAllCapabilities caps reqs \<longleftrightarrow> list_all (\<lambda>want. want \<in> set caps) reqs"

definition candidatesFor :: "runnerView list \<Rightarrow> Environment option \<Rightarrow> runnerView list" where
  "candidatesFor views env =
     (case env of
        None \<Rightarrow> views
      | Some e \<Rightarrow>
        (let reqs = elems (req_Capabilities (env_Requirements e))
         in if reqs = [] then views
            else filter (\<lambda>v. hasAllCapabilities (elems (rv_caps v)) reqs) views))"

definition admittedBy :: "runnerView list \<Rightarrow> CheckpointLocation \<Rightarrow> runnerView list" where
  "admittedBy candidates loc =
     (if loc_Portable loc then candidates else filter (\<lambda>v. rv_id v \<in> set (loc_Runners loc)) candidates)"

definition overridesEnvironmentImage :: "Session \<Rightarrow> Environment \<Rightarrow> bool" where
  "overridesEnvironmentImage row env \<longleftrightarrow>
     spec_Image (ses_Spec row) \<noteq> env_Image env \<and> spec_Image (ses_Spec row) \<noteq> cp_Ref (env_Snapshot env)"

definition capabilitiesOf :: "runnerView list \<Rightarrow> runnerid \<Rightarrow> string slice" where
  "capabilitiesOf views rid = (case find (\<lambda>v. rv_id v = rid) views of None \<Rightarrow> None | Some v \<Rightarrow> rv_caps v)"

definition noLocation :: CheckpointLocation where
  "noLocation = \<lparr>loc_Portable = False, loc_Runners = []\<rparr>"

definition placeQueued ::
    "'s host \<Rightarrow> 's \<Rightarrow> Session \<Rightarrow> Environment option \<Rightarrow> runnerView list \<Rightarrow> (runnerid \<times> string option) option" where
  "placeQueued h s row env views =
     (let candidates = candidatesFor views env
      in case env of
        None \<Rightarrow> map_option (\<lambda>rid. (rid, None)) (pickRunner candidates)
      | Some e \<Rightarrow>
        (if \<not> runsCachedSnapshot e \<or> overridesEnvironmentImage row e
         then map_option (\<lambda>rid. (rid, None)) (pickRunner candidates)
         else
           let loc = (case h_LocateCheckpoint h s (ses_WorkspaceID row) (env_Snapshot e) of
                        Inl _ \<Rightarrow> noLocation | Inr l \<Rightarrow> l)
           in case pickRunner (admittedBy candidates loc) of
                Some rid \<Rightarrow> Some (rid, Some (cp_Ref (env_Snapshot e)))
              | None \<Rightarrow> map_option (\<lambda>rid. (rid, Some (env_Image e))) (pickRunner candidates)))"

text \<open>The environment of a queued row, memoized over the pass; the outer \<open>None\<close> is an
  unreadable one.\<close>

type_synonym envCache = "((wsid \<times> envid) \<times> Environment option) list"

definition queuedEnvironment ::
    "'s host \<Rightarrow> 's \<Rightarrow> envCache \<Rightarrow> Session \<Rightarrow> envCache \<times> Environment option option" where
  "queuedEnvironment h s cache row =
     (if ses_EnvironmentID row = '''' then (cache, Some None)
      else
        let key = (ses_WorkspaceID row, ses_EnvironmentID row)
        in case map_of cache key of
             Some env \<Rightarrow> (cache, Some env)
           | None \<Rightarrow>
             (case h_GetEnvironment h s (ses_WorkspaceID row) (ses_EnvironmentID row) of
                Inl e \<Rightarrow> if errIs e ErrNotFound then (upd key None cache, Some None) else (cache, None)
              | Inr env \<Rightarrow> (upd key (Some env) cache, Some (Some env))))"

section \<open>The runner specification of a create\<close>

definition boundOr :: "int \<Rightarrow> int \<Rightarrow> int" where
  "boundOr declared fallback = (if declared > 0 then declared else fallback)"

definition withholdableNames ::
    "(string \<times> string) list \<Rightarrow> (string \<times> string) list \<Rightarrow> string slice" where
  "withholdableNames material reserved =
     (let out = filter (\<lambda>name. map_of reserved name = None) (map fst material)
      in if out = [] then None else Some (sort out))"

text \<open>The specification before the launch material is resolved.\<close>

definition hookSpec :: "fleetConfig \<Rightarrow> Session \<Rightarrow> Environment option \<Rightarrow> RunnerSpec" where
  "hookSpec cfg row env =
     (let spec = \<lparr>rsp_GuestReconnect = 0, rsp_Name = ses_Name row, rsp_Image = spec_Image (ses_Spec row),
            rsp_Cmd = spec_Cmd (ses_Spec row), rsp_EgressAllow = spec_EgressAllow (ses_Spec row),
            rsp_Setup = '''', rsp_SetupTimeoutSec = 0, rsp_Repos = None, rsp_Init = '''',
            rsp_InitTimeoutSec = 0, rsp_GitAuthorName = '''', rsp_GitAuthorEmail = '''', rsp_Env = [],
            rsp_Home = None, rsp_BootstrapToken = '''', rsp_SecretNames = None\<rparr>
      in case env of
        None \<Rightarrow> spec
      | Some e \<Rightarrow>
        (let spec1 = (if env_Setup e \<noteq> '''' \<and> (cp_Ref (env_Snapshot e) = ''''
                          \<or> spec_Image (ses_Spec row) \<noteq> cp_Ref (env_Snapshot e))
                      then spec\<lparr>rsp_Setup := env_Setup e,
                             rsp_SetupTimeoutSec := boundOr (env_SetupTimeoutSec e) (fc_DefaultSetupTimeout cfg)\<rparr>
                      else spec)
         in if env_Init e \<noteq> ''''
            then spec1\<lparr>rsp_Init := env_Init e,
                   rsp_InitTimeoutSec := boundOr (env_InitTimeoutSec e) (fc_DefaultInitTimeout cfg)\<rparr>
            else spec1))"

text \<open>The environment of the sandbox: the agents' own variables are never replaced.\<close>

definition launchEnv ::
    "AgentProvider list \<Rightarrow> (string \<times> string) list \<Rightarrow> (string \<times> string) list" where
  "launchEnv providers env =
     fold (\<lambda>(k, v) agentEnv. if map_of agentEnv k = None then upd k v agentEnv else agentEnv) env
       (AgentsEnv providers)"

definition launchProviders :: "fleetConfig \<Rightarrow> Session \<Rightarrow> AgentProvider list" where
  "launchProviders cfg row = (if ses_CreatorID row = '''' then [] else AgentProviders (fc_TestAgentProvider cfg))"

definition launchFailed :: string where
  "launchFailed = ''could not resolve launch material''"

definition launchSpec ::
    "fleetConfig \<Rightarrow> 's host \<Rightarrow> 's \<Rightarrow> Session \<Rightarrow> Environment option \<Rightarrow> bool \<Rightarrow> string + RunnerSpec" where
  "launchSpec cfg h s row env withheld =
     (case h_ResolveLaunchMaterial h s row env of
        Inl _ \<Rightarrow> Inl launchFailed
      | Inr material \<Rightarrow>
        (let providers = launchProviders cfg row;
             plain = (if withheld then [] else mat_Environment material);
             envs = (if ses_CreatorID row = '''' then plain else launchEnv providers plain);
             names = (if withheld then withholdableNames (mat_Environment material) envs else None)
         in if withheld \<and> list_ex (\<lambda>name. map_of envs name \<noteq> None) (elems names) then Inl launchFailed
            else
              let egress = fold (\<lambda>p out. unionHosts out (ap_Egress p)) providers
                    (unionHosts (spec_EgressAllow (ses_Spec row)) (mat_EgressAllow material))
              in Inr ((hookSpec cfg row env)
                   \<lparr>rsp_Repos := mat_Repos material, rsp_GitAuthorName := mat_GitAuthorName material,
                    rsp_GitAuthorEmail := mat_GitAuthorEmail material, rsp_Env := envs,
                    rsp_Home := (if ses_CreatorID row = '''' then None
                      else Some \<lparr>home_Volume = AgentHomeVolume (ses_WorkspaceID row) (ses_CreatorID row),
                                 home_Path = HomeMountPath\<rparr>),
                    rsp_SecretNames := names,
                    rsp_EgressAllow := unionHosts egress (fc_DefaultEgress cfg)\<rparr>)))"

definition GuestReconnectProtocol :: u64 where
  "GuestReconnectProtocol = 1"

definition createSpec ::
    "fleetConfig \<Rightarrow> 's host \<Rightarrow> 's \<Rightarrow> Session \<Rightarrow> Environment option \<Rightarrow> string slice \<Rightarrow> u64
       \<Rightarrow> 's \<times> (string + RunnerSpec)" where
  "createSpec cfg h s row env runnerCaps gen =
     (let withheld = (CapabilityMicrovmV1 \<in> set (elems runnerCaps))
      in case launchSpec cfg h s row env withheld of
        Inl fail \<Rightarrow> (s, Inl fail)
      | Inr spec \<Rightarrow>
        (let spec1 = (if fc_GuestReconnect cfg \<and> withheld \<and> CapabilityGuestReconnectV1 \<in> set (elems runnerCaps)
                      then spec\<lparr>rsp_GuestReconnect := GuestReconnectProtocol\<rparr> else spec)
         in if \<not> withheld then (s, Inr spec1)
            else case Mint h s (ses_WorkspaceID row) (ses_ID row) gen of
              (s1, Inl _) \<Rightarrow> (s1, Inl (''could not mint this session'' @ CHR 0x27 # ''s bootstrap token''))
            | (s1, Inr token) \<Rightarrow> (s1, Inr (spec1\<lparr>rsp_BootstrapToken := token\<rparr>))))"

text \<open>The caller's context may end while the material is resolved.\<close>

definition ResolveGuestReconnectSpec ::
    "fleetConfig \<Rightarrow> 's host \<Rightarrow> 's \<Rightarrow> Session \<Rightarrow> Environment option \<Rightarrow> 's \<times> (err + RunnerSpec)" where
  "ResolveGuestReconnectSpec cfg h s row env =
     (if h_Done h s then (s, Inl ErrUnavailable)
      else
        let r = launchSpec cfg h s row env True;
            s1 = h_Yield h s
        in case r of
             Inl _ \<Rightarrow> (s1, Inl ErrUnavailable)
           | Inr spec \<Rightarrow> (s1, if h_Done h s1 then Inl ErrUnavailable else Inr spec))"

section \<open>Dispatching a create\<close>

definition placedGeneration :: "'s host \<Rightarrow> 's \<Rightarrow> Session \<Rightarrow> u64 option" where
  "placedGeneration h s row =
     (case h_GetSession h s (ses_WorkspaceID row) (ses_ID row) of
        Inl _ \<Rightarrow> None | Inr placed \<Rightarrow> Some (ses_PlacementGeneration placed))"

definition failCreate :: "'s host \<Rightarrow> 's \<Rightarrow> Session \<Rightarrow> string \<Rightarrow> 's" where
  "failCreate h s row reason =
     h_Wake h (fst (transitionQuiet h s (ses_WorkspaceID row) (ses_ID row) [StateCreating] StateFailed
       (noOpts\<lparr>opt_Error := Some (boundDetail reason)\<rparr>))) (ses_PoolID row)"

definition pinSetupHash :: "'s host \<Rightarrow> 's \<Rightarrow> Session \<Rightarrow> RunnerSpec \<Rightarrow> 's \<times> bool" where
  "pinSetupHash h s row spec =
     (if rsp_Setup spec = '''' then (s, True)
      else case h_SetSessionSetupHash h s (ses_WorkspaceID row) (ses_ID row)
                  (setupHash (rsp_Image spec) (rsp_Setup spec)) of
        (s1, Some _) \<Rightarrow> (failCreate h s1 row ''could not record the setup this session runs'', False)
      | (s1, None) \<Rightarrow> (s1, True))"

text \<open>What becomes of a create whose answer, or failure, has arrived.\<close>

definition settleCreate :: "'s host \<Rightarrow> 's \<Rightarrow> poolid \<Rightarrow> Session \<Rightarrow> runnerid \<Rightarrow> err + FromRunner \<Rightarrow> 's" where
  "settleCreate h s pool row rid answer =
     (case answer of
        Inl _ \<Rightarrow>
          (if h_Connected h s pool rid then s
           else h_Wake h (fst (transitionQuiet h s (ses_WorkspaceID row) (ses_ID row) [StateCreating]
                  StateQueued (noOpts\<lparr>opt_RunnerID := Some ''''\<rparr>))) pool)
      | Inr res \<Rightarrow> (if \<not> from_OK res then failCreate h s row (from_Detail res) else s))"

definition dispatchCreate ::
    "fleetConfig \<Rightarrow> 's host \<Rightarrow> 's \<Rightarrow> poolid \<Rightarrow> Session \<Rightarrow> runnerid \<Rightarrow> string slice \<Rightarrow> Environment option \<Rightarrow> 's" where
  "dispatchCreate cfg h s pool row rid runnerCaps env =
     (let known = placedGeneration h s row;
          gen = (case known of None \<Rightarrow> 0 | Some g \<Rightarrow> g)
      in if known = None \<and> CapabilityMicrovmV1 \<in> set (elems runnerCaps)
         then failCreate h s row (''could not read this session'' @ CHR 0x27 #
                ''s placement to mint its bootstrap token'')
         else case createSpec cfg h s row env runnerCaps gen of
           (s1, Inl fail) \<Rightarrow> failCreate h s1 row fail
         | (s1, Inr spec) \<Rightarrow>
           (case pinSetupHash h s1 row spec of
              (s2, False) \<Rightarrow> s2
            | (s2, True) \<Rightarrow>
              (let (s3, answer) = h_Dispatch h s2 pool rid
                     ((command ''create'' (ses_ID row))
                        \<lparr>to_Spec := Some spec, to_PlacementGeneration := gen\<rparr>)
               in settleCreate h s3 pool row rid answer)))"

section \<open>The placement pass\<close>

text \<open>A create the pass has placed and started a goroutine for: the arguments of its
  \<^verbatim>\<open>dispatchCreate\<close>.\<close>

record createJob =
  job_pool :: poolid
  job_row :: Session
  job_runner :: runnerid
  job_caps :: "string slice"
  job_env :: "Environment option"

definition placementOpts :: "runnerid \<Rightarrow> string option \<Rightarrow> TransitionOpts" where
  "placementOpts rid img = noOpts\<lparr>opt_RunnerID := Some rid, opt_Image := img\<rparr>"

definition placedRow :: "Session \<Rightarrow> string option \<Rightarrow> Session" where
  "placedRow row img =
     (case img of None \<Rightarrow> row | Some i \<Rightarrow> row\<lparr>ses_Spec := (ses_Spec row)\<lparr>spec_Image := i\<rparr>\<rparr>)"

text \<open>One row of the pass, after its capacity was read: the state, and the job it started. The
  error ends the pass.\<close>

definition placeRow ::
    "'s host \<Rightarrow> 's \<Rightarrow> poolid \<Rightarrow> runnerView list \<Rightarrow> Environment option \<Rightarrow> Session
       \<Rightarrow> 's \<times> (err + createJob option)" where
  "placeRow h s pool views env row =
     (case placeQueued h s row env views of
        None \<Rightarrow> (s, Inr None)
      | Some (rid, img) \<Rightarrow>
        (case h_Transition h s (ses_WorkspaceID row) (ses_ID row) [StateQueued] StateCreating
                (placementOpts rid img) of
           (s1, Some e) \<Rightarrow>
             (s1, if errIs e ErrConflict \<or> errIs e ErrNotFound then Inr None else Inl e)
         | (s1, None) \<Rightarrow>
           (s1, Inr (Some \<lparr>job_pool = pool, job_row = placedRow row img, job_runner = rid,
                           job_caps = capabilitiesOf views rid, job_env = env\<rparr>))))"

text \<open>The loop; whatever other goroutines do, the ones the pass started included, happens
  between two rows.\<close>

fun drainRows ::
    "'s host \<Rightarrow> poolid \<Rightarrow> envCache \<Rightarrow> 's \<Rightarrow> Session list \<Rightarrow> 's \<times> createJob list" where
  "drainRows h pool cache s [] = (s, [])"
| "drainRows h pool cache s (row # rows) =
     (let s0 = h_Yield h s
      in case freeCapacity h s0 pool of
        Inl _ \<Rightarrow> (s0, [])
      | Inr views \<Rightarrow>
        (if pickRunner views = None then (s0, [])
         else case queuedEnvironment h s0 cache row of
           (cache', None) \<Rightarrow> drainRows h pool cache' s0 rows
         | (cache', Some env) \<Rightarrow>
           (case placeRow h s0 pool views env row of
              (s1, Inl _) \<Rightarrow> (s1, [])
            | (s1, Inr None) \<Rightarrow> drainRows h pool cache' s1 rows
            | (s1, Inr (Some job)) \<Rightarrow>
              (let (s2, jobs) = drainRows h pool cache' s1 rows in (s2, job # jobs)))))"

definition drainPool :: "'s host \<Rightarrow> 's \<Rightarrow> poolid \<Rightarrow> 's \<times> createJob list" where
  "drainPool h s pool =
     (let s1 = reconcileResumes h s pool
      in case h_OldestQueued h s1 pool of
        Inl _ \<Rightarrow> (s1, []) | Inr rows \<Rightarrow> drainRows h pool [] s1 rows)"

definition runJob :: "fleetConfig \<Rightarrow> 's host \<Rightarrow> 's \<Rightarrow> createJob \<Rightarrow> 's" where
  "runJob cfg h s job = dispatchCreate cfg h s (job_pool job) (job_row job) (job_runner job) (job_caps job) (job_env job)"

end
