(* ===== verification/AppInv.thy ===== *)
theory AppInv
  imports Scheduler EnvironmentService AppSamples
begin

text \<open>
  What every handler of the application preserves. A relation between host states that every
  port call respects (\<open>host_relation\<close>) is respected by every handler: the lemmas are proved
  once for an arbitrary relation, and interpreted for the store invariant, for the wake-up
  queue and for the placement generations of the rows.
\<close>

section \<open>A relation every port call respects\<close>

locale host_relation =
  fixes h :: "'s host" and R :: "'s \<Rightarrow> 's \<Rightarrow> bool"
  assumes R_refl: "R s s"
    and R_trans: "R a b \<Longrightarrow> R b c \<Longrightarrow> R a c"
    and R_create: "R s (fst (h_CreateSession h s ws row))"
    and R_transition: "R s (fst (h_Transition h s ws sid from to opts))"
    and R_setup: "R s (fst (h_SetSessionSetupHash h s ws sid hash))"
    and R_exit: "R s (fst (h_SetChildExitCode h s ws sid code))"
    and R_create_env: "R s (fst (h_CreateEnvironment h s ws env))"
    and R_update_env: "R s (fst (h_UpdateEnvironment h s ws env))"
    and R_delete_env: "R s (fst (h_DeleteEnvironment h s ws eid))"
    and R_upsert: "R s (fst (h_UpsertRunner h s pool run))"
    and R_dispatch: "R s (fst (h_Dispatch h s pool rid msg))"
    and R_record: "R s (fst (h_Record h s ev))"
    and R_run: "R s s1 \<Longrightarrow> R s s2 \<Longrightarrow> R s (fst (h_Run h s1 s2 e))"
    and R_bootstrap: "R s (fst (h_PutSessionBootstrap h s ws sid bs))"
    and R_now: "R s (fst (h_Now h s))"
    and R_session_id: "R s (fst (h_NewSessionID h s))"
    and R_environment_id: "R s (fst (h_NewEnvironmentID h s))"
    and R_event_id: "R s (fst (h_NewEventID h s))"
    and R_rand: "R s (fst (h_Rand h s n))"
    and R_yield: "R s (h_Yield h s)"
    and R_wake: "R s (h_Wake h s pool)"
begin

text \<open>The calls as steps from an equation, so that a handler's case splits chain them.\<close>

lemma step:
  "h_CreateSession h s ws row = (s', r1) \<Longrightarrow> R s s'"
  "h_Transition h s ws sid from to opts = (s', r2) \<Longrightarrow> R s s'"
  "h_SetSessionSetupHash h s ws sid hash = (s', r3) \<Longrightarrow> R s s'"
  "h_SetChildExitCode h s ws sid code = (s', r4) \<Longrightarrow> R s s'"
  "h_CreateEnvironment h s ws env = (s', r5) \<Longrightarrow> R s s'"
  "h_UpdateEnvironment h s ws env = (s', r6) \<Longrightarrow> R s s'"
  "h_DeleteEnvironment h s ws eid = (s', r7) \<Longrightarrow> R s s'"
  "h_UpsertRunner h s pool run = (s', r8) \<Longrightarrow> R s s'"
  "h_Dispatch h s pool rid msg = (s', r9) \<Longrightarrow> R s s'"
  "h_Record h s ev = (s', r10) \<Longrightarrow> R s s'"
  "h_PutSessionBootstrap h s ws sid bs = (s', r11) \<Longrightarrow> R s s'"
  "h_Now h s = (s', r12) \<Longrightarrow> R s s'"
  "h_NewSessionID h s = (s', r13) \<Longrightarrow> R s s'"
  "h_NewEnvironmentID h s = (s', r14) \<Longrightarrow> R s s'"
  "h_NewEventID h s = (s', r15) \<Longrightarrow> R s s'"
  "h_Rand h s n = (s', r16) \<Longrightarrow> R s s'"
  using R_create R_transition R_setup R_exit R_create_env R_update_env R_delete_env R_upsert R_dispatch
    R_record R_bootstrap R_now R_session_id R_environment_id R_event_id R_rand
  by (metis fst_conv)+

lemma run_step: "runUnit h s fin = (s', r) \<Longrightarrow> R s (fst fin) \<Longrightarrow> R s s'"
  unfolding runUnit_def using R_run [OF R_refl] by (metis fst_conv)

lemma wake_step: "R s s' \<Longrightarrow> R s (h_Wake h s' pool)"
  using R_trans R_wake by blast

lemma recordEvent_R: "recordEvent h s scope action res gen = (s', r) \<Longrightarrow> R s s'"
  unfolding recordEvent_def Let_def
  by (auto split: prod.splits if_splits dest!: step intro: R_trans)

text \<open>Each handler's lemma \<open>X\<close> has the form \<open>R s (fst (X h s \<dots>))\<close>. \<open>after [OF X]\<close> reads it off an
  equation, \<open>tail [OF X]\<close> appends it to the steps so far.\<close>

lemma after: "R s (fst x) \<Longrightarrow> x = (s', r) \<Longrightarrow> R s s'"
  by simp

lemmas tail = R_trans [rotated]

lemma recordEvent_fst: "R s (fst (recordEvent h s scope action res gen))"
  using recordEvent_R by (metis prod.collapse)

lemma transitionUnit_R: "R s (fst (transitionUnit h s scope sid row from to opts action))"
  unfolding transitionUnit_def
  by (auto split: prod.splits option.splits dest!: step(2) intro: tail [OF recordEvent_fst])

lemma runUnit_R: "R s (fst fin) \<Longrightarrow> R s (fst (runUnit h s fin))"
  using run_step by (metis prod.collapse)

lemma dispatch_R: "R s (fst (dispatch h s row msg))"
  unfolding dispatch_def by (auto split: prod.splits sum.splits intro: R_refl dest!: step)

lemma reclaim_R: "R s (reclaimWorkspace h s row)"
  unfolding reclaimWorkspace_def using R_refl R_dispatch by simp

lemma unit_after: "R s (fst (snd u)) \<Longrightarrow> runUnit h s (s1, e) = (s', r) \<Longrightarrow> u = (x, s1, e) \<Longrightarrow> R s s'"
  using run_step by simp

subsection \<open>Sessions\<close>

lemma createUnit_R: "R s (fst (snd (createUnit h s scope row)))"
  unfolding createUnit_def
  by (auto split: prod.splits sum.splits dest!: step(1) intro: tail [OF recordEvent_fst])

lemma settle_R: "R s (fst (settle h s scope sid pool row from to opts action))"
  unfolding settle_def Let_def
  using runUnit_R [OF transitionUnit_R]
  by (auto split: prod.splits option.splits intro: wake_step) (metis fst_conv wake_step)+

lemma deleteUnit_R: "R s (fst (deleteUnit h s scope sid row from to))"
  unfolding deleteUnit_def
  using runUnit_R [OF transitionUnit_R]
  by (auto split: prod.splits option.splits intro: wake_step) (metis fst_conv wake_step)+

lemma createQueued_R: "R s (fst (createQueued h s scope cmd env))"
  unfolding createQueued_def Let_def
  by (auto split: prod.splits sum.splits option.splits if_splits
      intro!: R_refl wake_step dest!: step(12,13) unit_after [OF createUnit_R]
      intro: R_trans)

lemma create_R: "R s (fst (SessionService_CreateSession h s scope cmd))"
  unfolding SessionService_CreateSession_def
  by (auto split: sum.splits intro: R_refl createQueued_R)

lemma delete_R: "R s (fst (SessionService_DeleteSession h s scope sid))"
  unfolding SessionService_DeleteSession_def
  by (auto split: sum.splits prod.splits intro: R_refl wake_step deleteUnit_R reclaim_R
      dest!: after [OF dispatch_R] intro: tail [OF deleteUnit_R] tail [OF reclaim_R])

lemma suspend_R: "R s (fst (SessionService_SuspendSession h s scope sid warm))"
  unfolding SessionService_SuspendSession_def
  by (auto split: sum.splits prod.splits intro: R_refl tail [OF settle_R] dest!: after [OF dispatch_R])

lemma claimUnit_R: "R s (fst (snd (claimUnit h s scope row)))"
  unfolding claimUnit_def by (auto split: prod.splits option.splits sum.splits dest!: step(2))

lemma resumeClaimed_R: "R s (fst (resumeClaimed h s scope row claimed))"
  unfolding resumeClaimed_def
  by (auto split: sum.splits prod.splits intro: tail [OF settle_R] dest!: after [OF dispatch_R])

lemma resumeCold_R: "R s (fst (resumeCold h s scope row))"
  unfolding resumeCold_def Let_def
  by (auto split: prod.splits option.splits intro: R_refl tail [OF resumeClaimed_R]
      dest!: unit_after [OF claimUnit_R])

lemma resume_R: "R s (fst (SessionService_ResumeSession h s scope sid))"
  unfolding SessionService_ResumeSession_def
  by (auto split: sum.splits prod.splits intro: R_refl resumeCold_R tail [OF settle_R] dest!: after [OF dispatch_R])

lemma snapshot_R: "R s (fst (SessionService_SnapshotSession h s scope sid))"
  unfolding SessionService_SnapshotSession_def
  by (auto split: sum.splits prod.splits option.splits intro: R_refl
      dest!: after [OF dispatch_R] after [OF runUnit_R [OF recordEvent_fst]] intro: R_trans)

subsection \<open>Environments\<close>

lemma environmentUnit_R: "R s (fst written) \<Longrightarrow> R s (fst (snd (environmentUnit h scope action written)))"
  unfolding environmentUnit_def
  by (auto split: prod.splits sum.splits intro: tail [OF recordEvent_fst])

lemma environmentResult_R: "R s (fst (snd u)) \<Longrightarrow> R s (fst (environmentResult h s u))"
  unfolding environmentResult_def using runUnit_R [of s "snd u"] by (auto split: prod.splits option.splits)

lemmas environment_write_R = environmentResult_R [OF environmentUnit_R]

lemma create_environment_R: "R s (fst (EnvironmentService_CreateEnvironment h s scope cmd))"
  unfolding EnvironmentService_CreateEnvironment_def Let_def
  by (auto split: prod.splits intro: R_refl tail [OF environment_write_R [OF R_create_env]]
      dest!: step(12,14) intro: R_trans)

lemma update_environment_R: "R s (fst (EnvironmentService_UpdateEnvironment h s scope cmd))"
  unfolding EnvironmentService_UpdateEnvironment_def Let_def
  by (auto split: sum.splits intro: R_refl environment_write_R [OF R_update_env])

lemma delete_environment_R: "R s (fst (EnvironmentService_DeleteEnvironment h s scope eid))"
  unfolding EnvironmentService_DeleteEnvironment_def
  by (auto split: sum.splits prod.splits option.splits intro!: R_refl runUnit_R
      dest!: step(7) intro: tail [OF recordEvent_fst])

subsection \<open>The fleet\<close>

lemma register_R: "R s (fst (registerRunner h s r poolScoped))"
  unfolding registerRunner_def Let_def
  by (auto split: option.splits sum.splits prod.splits intro: R_refl dest!: step(8,12) intro: R_trans)

lemma transitionQuiet_R: "R s (fst (transitionQuiet h s ws sid from to opts))"
  unfolding transitionQuiet_def by (auto split: prod.splits option.splits dest!: step(2))

lemma recordSnapshotAuthority_R: "R s (fst (recordSnapshotAuthority h s snap existing))"
  unfolding recordSnapshotAuthority_def upsertSnapshotRunner_def Let_def
  by (auto split: option.splits sum.splits prod.splits intro: R_refl dest!: step(8,12) intro: R_trans)

lemma reconcileStored_R: "R s (fst (reconcileStored h snap poolScoped s rows destroy))"
proof (induction rows arbitrary: s destroy poolScoped)
  case (Cons row rows)
  let ?move = "storedMove (map_of (map (\<lambda>r. (rs_SessionID r, r)) (rev (snap_Sessions snap))) (ses_ID row)) row"
  have "R s (fst (case ?move of
      None \<Rightarrow> reconcileStored h snap poolScoped s rows destroy
    | Some (from, to, opts) \<Rightarrow>
      (case transitionQuiet h s (ses_WorkspaceID row) (ses_ID row) from to opts of
         (s1, Some e) \<Rightarrow> (s1, Inl e)
       | (s1, None) \<Rightarrow> reconcileStored h snap poolScoped s1 rows destroy)))"
    by (cases ?move) (auto simp: Cons split: option.splits prod.splits
      dest!: after [OF transitionQuiet_R] intro: tail [OF Cons])
  then show ?case by (simp only: reconcileStored.simps Let_def) (simp add: Cons split: if_split)
qed (simp add: R_refl)

lemma reconcileReported_R: "R s (fst (reconcileReported h snap poolScoped stored s rs destroy))"
proof (induction rs arbitrary: s destroy poolScoped)
  case (Cons r rs)
  have adopt: "R s (fst (case transitionQuiet h s ws sid from to opts of
      (s1, Some e) \<Rightarrow> (s1, Inl e)
    | (s1, None) \<Rightarrow> reconcileReported h snap scoped stored s1 rs destroy))" for ws sid "from" to opts scoped
    by (auto simp: R_refl split: option.splits prod.splits dest!: after [OF transitionQuiet_R] intro: tail [OF Cons])
  show ?case
    by (cases "h_GetSession h s (snap_WorkspaceID snap) (rs_SessionID r)"; cases "announcedState (rs_State r)")
      (simp_all add: Cons adopt R_refl)
qed (simp add: R_refl)

lemma reconcileSessions_R: "R s (fst (reconcileSessions h s snap poolScoped))"
  unfolding reconcileSessions_def
  by (auto split: sum.splits prod.splits intro: R_refl
      dest!: after [OF reconcileStored_R] after [OF reconcileReported_R] intro: R_trans)

lemma reconcileRunner_R: "R s (fst (reconcileRunner h s snap poolScoped))"
  unfolding reconcileRunner_def Let_def
  by (auto split: sum.splits prod.splits option.splits intro: R_refl wake_step
      dest!: after [OF recordSnapshotAuthority_R] after [OF reconcileSessions_R] intro: R_trans)

lemma recordLifecycle_R: "R s (fst (recordLifecycleEvent h s event row eid))"
  unfolding recordLifecycleEvent_def Let_def
  by (auto split: prod.splits dest!: step(10,12) intro: R_trans)

lemma childExitUnit_R: "R s (fst (childExitUnit h s event row eid code))"
  unfolding childExitUnit_def
  by (auto split: prod.splits option.splits dest!: step(4) intro: tail [OF recordLifecycle_R])

lemma eventUnit_R: "R s (fst (snd (eventUnit h s event row eid)))"
  unfolding eventUnit_def
  by (auto split: prod.splits option.splits dest!: step(2) intro: tail [OF recordLifecycle_R])

lemma apply_event_R: "R s (fst (FleetService_ApplyRunnerEvent h s event))"
  unfolding FleetService_ApplyRunnerEvent_def Let_def
  by (auto split: sum.splits prod.splits option.splits intro: R_refl wake_step
      dest!: step(15) unit_after [OF eventUnit_R] intro: tail [OF runUnit_R [OF childExitUnit_R]] R_trans)

subsection \<open>The scheduler\<close>

lemma resumeUnit_R: "R s (fst (resumeUnit h s host row target))"
  unfolding resumeUnit_def Let_def
  by (auto split: prod.splits option.splits dest!: step(2,15) intro: tail [OF recordLifecycle_R] R_trans)

lemma settleAnswer_R: "R s (settleAnswer h s host row answer)"
  unfolding settleAnswer_def Let_def
  by (auto split: sum.splits intro: R_refl runUnit_R [OF resumeUnit_R])

lemma resumeYoung_R: "R s (fst (resumeYoung h s row))"
  unfolding resumeYoung_def Let_def by (auto split: prod.splits intro: R_refl dest!: step)

lemma settleResumes_R: "R s (fst (settleResumes h pool host s remaining rows))"
proof (induction rows arbitrary: s remaining)
  case (Cons row rows)
  show ?case
    by (auto simp: Let_def split: prod.splits dest!: after [OF resumeYoung_R] step(9)
        intro: tail [OF Cons] R_trans settleAnswer_R)
qed (simp add: R_refl)

lemma reconcileHosts_R: "R s (reconcileHosts h pool s remaining hosts)"
proof (induction hosts arbitrary: s remaining)
  case (Cons host hosts)
  show ?case
    by (auto split: prod.splits sum.splits option.splits dest!: after [OF settleResumes_R]
        intro: R_refl tail [OF Cons] Cons)
qed (simp add: R_refl)

lemma reconcileResumes_R: "R s (reconcileResumes h s pool)"
  unfolding reconcileResumes_def using reconcileHosts_R R_refl by (auto split: sum.splits)

lemma placeRow_R: "R s (fst (placeRow h s pool views env row))"
  unfolding placeRow_def by (auto split: option.splits prod.splits intro: R_refl dest!: step(2))

lemma drainRows_R: "R s (fst (drainRows h pool cache s rows))"
proof (induction rows arbitrary: s cache)
  case (Cons row rows)
  have "R (h_Yield h s) (fst (drainRows h pool cache s (row # rows)))"
    by (auto simp: Let_def split: prod.splits sum.splits option.splits
        dest!: after [OF placeRow_R] after [OF Cons] intro: R_refl R_trans Cons tail [OF Cons])
  then show ?case using R_yield R_trans by blast
qed (simp add: R_refl)

lemma drainPool_R: "R s (fst (drainPool h s pool))"
  unfolding drainPool_def Let_def
  using reconcileResumes_R by (auto split: sum.splits intro: tail [OF drainRows_R])

lemma failCreate_R: "R s (failCreate h s row reason)"
  unfolding failCreate_def by (rule wake_step [OF transitionQuiet_R])

lemma mint_R: "R s (fst (Mint h s ws sid gen))"
  unfolding Mint_def Let_def
  by (auto split: prod.splits option.splits dest!: step(11,12,16) intro: R_trans)

lemma createSpec_R: "R s (fst (createSpec cfg h s row env caps gen))"
  unfolding createSpec_def Let_def
  by (auto split: sum.splits prod.splits intro: R_refl dest!: after [OF mint_R])

lemma pinSetupHash_R: "R s (fst (pinSetupHash h s row spec))"
  unfolding pinSetupHash_def
  by (auto split: prod.splits option.splits intro: R_refl dest!: step(3) intro: tail [OF failCreate_R])

lemma settleCreate_R: "R s (settleCreate h s pool row rid answer)"
  unfolding settleCreate_def
  by (auto split: sum.splits intro: R_refl failCreate_R wake_step [OF transitionQuiet_R])

lemma dispatchCreate_R: "R s (dispatchCreate cfg h s pool row rid caps env)"
  unfolding dispatchCreate_def Let_def
  by (auto split: sum.splits prod.splits bool.splits intro: failCreate_R tail [OF failCreate_R] R_trans
      tail [OF settleCreate_R] dest!: after [OF createSpec_R] after [OF pinSetupHash_R] step(9))

lemma runJob_R: "R s (runJob cfg h s job)"
  unfolding runJob_def by (rule dispatchCreate_R)

lemma reconnectSpec_R: "R s (fst (ResolveGuestReconnectSpec cfg h s row env))"
  unfolding ResolveGuestReconnectSpec_def Let_def by (auto split: sum.splits intro: R_refl R_yield)

end

section \<open>The application as atomic steps over the in-memory store\<close>

text \<open>The store operations behind the ports of the application.\<close>

fun port_op :: "store_op \<Rightarrow> bool" where
  "port_op (OpCreateSession _ _) = True"
| "port_op (OpTransition _ _ _ _ _) = True"
| "port_op (OpSetSessionSetupHash _ _ _) = True"
| "port_op (OpSetChildExitCode _ _ _) = True"
| "port_op (OpCreateEnvironment _ _) = True"
| "port_op (OpUpdateEnvironment _ _) = True"
| "port_op (OpDeleteEnvironment _ _) = True"
| "port_op (OpUpsertRunner _ _) = True"
| "port_op (OpRecord _) = True"
| "port_op (OpPutSessionBootstrap _ _ _) = True"
| "port_op _ = False"

text \<open>One atomic step of an installation: a store operation at the current time, the clock, a
  random draw, a wake-up, or something outside (a command in flight, another goroutine).\<close>

inductive world_step :: "outside \<Rightarrow> world \<Rightarrow> world \<Rightarrow> bool" for out where
  stored: "port_op op \<Longrightarrow> world_step out w (w\<lparr>w_store := fst (store_step (w_store w) (w_now w, op))\<rparr>)"
| clock: "world_step out w (w\<lparr>w_now := w_now w + 1\<rparr>)"
| drawn: "world_step out w (w\<lparr>w_random := tl (w_random w)\<rparr>)"
| woken: "world_step out w (w\<lparr>w_queue := FleetService_Wake (w_queue w) pool\<rparr>)"
| sent: "world_step out w (fst (o_Dispatch out (w\<lparr>w_sent := w_sent w @ [(pool, rid, msg)]\<rparr>) pool rid msg))"
| yielded: "world_step out w (o_Yield out w)"

abbreviation world_steps :: "outside \<Rightarrow> world \<Rightarrow> world \<Rightarrow> bool" where
  "world_steps out \<equiv> rtranclp (world_step out)"

lemma stored_steps:
  "port_op op \<Longrightarrow> fst (f (w_store w)) = fst (store_step (w_store w) (w_now w, op)) \<Longrightarrow> world_steps out w (fst (onStore f w))"
  using world_step.stored [of op out w] by (auto simp: onStore_def case_prod_beta)

lemma draw_steps: "world_steps out w (fst (draw p w))" "world_steps out w (fst (randomBytes w n))"
  using world_step.drawn [of out w] by (auto simp: draw_def randomBytes_def split: list.split)

interpretation app: host_relation "memHost out" "world_steps out" for out
proof unfold_locales
  fix w w1 w2 :: world and e
  show "world_steps out w w1 \<Longrightarrow> world_steps out w w2 \<Longrightarrow> world_steps out w (fst (h_Run (memHost out) w1 w2 e))"
    by (simp add: memHost_def memStore_Run_def)
next
  fix w :: world and ws sid row "from" to opts
  show "world_steps out w (fst (h_CreateSession (memHost out) w ws row))"
    by (simp add: memHost_def stored_steps [of "OpCreateSession ws row"])
  show "world_steps out w (fst (h_Transition (memHost out) w ws sid from to opts))"
    by (simp add: memHost_def stored_steps [of "OpTransition ws sid from to opts"])
next
  fix w :: world and ws sid hash code
  show "world_steps out w (fst (h_SetSessionSetupHash (memHost out) w ws sid hash))"
    by (simp add: memHost_def stored_steps [of "OpSetSessionSetupHash ws sid hash"])
  show "world_steps out w (fst (h_SetChildExitCode (memHost out) w ws sid code))"
    by (simp add: memHost_def stored_steps [of "OpSetChildExitCode ws sid code"])
next
  fix w :: world and ws env eid
  show "world_steps out w (fst (h_CreateEnvironment (memHost out) w ws env))"
    by (simp add: memHost_def stored_steps [of "OpCreateEnvironment ws env"])
  show "world_steps out w (fst (h_UpdateEnvironment (memHost out) w ws env))"
    by (simp add: memHost_def stored_steps [of "OpUpdateEnvironment ws env"])
  show "world_steps out w (fst (h_DeleteEnvironment (memHost out) w ws eid))"
    by (simp add: memHost_def stored_steps [of "OpDeleteEnvironment ws eid"])
next
  fix w :: world and pool run ev ws sid bs
  show "world_steps out w (fst (h_UpsertRunner (memHost out) w pool run))"
    by (simp add: memHost_def stored_steps [of "OpUpsertRunner pool run"])
  show "world_steps out w (fst (h_Record (memHost out) w ev))"
    by (simp add: memHost_def stored_steps [of "OpRecord ev"])
  show "world_steps out w (fst (h_PutSessionBootstrap (memHost out) w ws sid bs))"
    by (simp add: memHost_def stored_steps [of "OpPutSessionBootstrap ws sid bs"])
qed (auto simp: memHost_def draw_steps
    intro!: r_into_rtranclp world_step.clock world_step.woken world_step.sent world_step.yielded)

end
