(* ===== verification/AppProps.thy ===== *)
theory AppProps
  imports AppInv Counters "HOL-Library.Sublist"
begin

text \<open>
  The application as a whole: one constructor per mutating handler of the session,
  environment and fleet services, and the scheduler loop (\<^verbatim>\<open>FleetService.Run\<close> in
  \<^verbatim>\<open>src/controlapp/scheduler.go\<close>). Every handler is a sequence of the atomic steps of the store, so
  what those steps keep every reachable installation keeps; and every wake-up of a pool is
  answered.
\<close>

section \<open>Handlers\<close>

datatype app_op =
    AppCreateSession Scope CreateSessionCmd
  | AppDeleteSession Scope sessionid
  | AppSuspendSession Scope sessionid bool
  | AppResumeSession Scope sessionid
  | AppSnapshotSession Scope sessionid
  | AppCreateEnvironment Scope CreateEnvironmentCmd
  | AppUpdateEnvironment Scope UpdateEnvironmentCmd
  | AppDeleteEnvironment Scope envid
  | AppRegisterRunner RunnerRegistration
  | AppRegisterPoolRunner RunnerRegistration
  | AppReconcileRunner RunnerSnapshot
  | AppReconcilePoolRunner RunnerSnapshot
  | AppApplyRunnerEvent RunnerEvent
  | AppDrainPool poolid
  | AppDispatchCreate createJob

text \<open>The state a handler leaves.\<close>

fun app_step :: "fleetConfig \<Rightarrow> 's host \<Rightarrow> 's \<Rightarrow> app_op \<Rightarrow> 's" where
  "app_step cfg h s (AppCreateSession scope cmd) = fst (SessionService_CreateSession h s scope cmd)"
| "app_step cfg h s (AppDeleteSession scope sid) = fst (SessionService_DeleteSession h s scope sid)"
| "app_step cfg h s (AppSuspendSession scope sid warm) = fst (SessionService_SuspendSession h s scope sid warm)"
| "app_step cfg h s (AppResumeSession scope sid) = fst (SessionService_ResumeSession h s scope sid)"
| "app_step cfg h s (AppSnapshotSession scope sid) = fst (SessionService_SnapshotSession h s scope sid)"
| "app_step cfg h s (AppCreateEnvironment scope cmd) = fst (EnvironmentService_CreateEnvironment h s scope cmd)"
| "app_step cfg h s (AppUpdateEnvironment scope cmd) = fst (EnvironmentService_UpdateEnvironment h s scope cmd)"
| "app_step cfg h s (AppDeleteEnvironment scope eid) = fst (EnvironmentService_DeleteEnvironment h s scope eid)"
| "app_step cfg h s (AppRegisterRunner r) = fst (FleetService_RegisterRunner h s r)"
| "app_step cfg h s (AppRegisterPoolRunner r) = fst (FleetService_RegisterPoolRunner h s r)"
| "app_step cfg h s (AppReconcileRunner snap) = fst (FleetService_ReconcileRunner h s snap)"
| "app_step cfg h s (AppReconcilePoolRunner snap) = fst (FleetService_ReconcilePoolRunner h s snap)"
| "app_step cfg h s (AppApplyRunnerEvent event) = fst (FleetService_ApplyRunnerEvent h s event)"
| "app_step cfg h s (AppDrainPool pool) = fst (drainPool h s pool)"
| "app_step cfg h s (AppDispatchCreate job) = runJob cfg h s job"

lemma app_step_steps: "world_steps out w (app_step cfg (memHost out) w op)"
  by (cases op)
    (simp_all add: app.create_R app.delete_R app.suspend_R app.resume_R app.snapshot_R
      app.create_environment_R app.update_environment_R app.delete_environment_R
      app.register_R app.reconcileRunner_R app.apply_event_R app.drainPool_R app.runJob_R
      FleetService_RegisterRunner_def FleetService_RegisterPoolRunner_def
      FleetService_ReconcileRunner_def FleetService_ReconcilePoolRunner_def)

text \<open>An installation that started empty and has only served handlers.\<close>

inductive app_reachable :: "fleetConfig \<Rightarrow> outside \<Rightarrow> world \<Rightarrow> bool" for cfg out where
  start: "w_store w = NewMemStore \<Longrightarrow> app_reachable cfg out w"
| call: "app_reachable cfg out w \<Longrightarrow> app_reachable cfg out (app_step cfg (memHost out) w op)"

text \<open>What holds of the outside and of every store operation holds of all steps.\<close>

definition outside_keeps :: "outside \<Rightarrow> (world \<Rightarrow> world \<Rightarrow> bool) \<Rightarrow> bool" where
  "outside_keeps out K \<longleftrightarrow> (\<forall>w pool rid msg. K w (fst (o_Dispatch out w pool rid msg))) \<and> (\<forall>w. K w (o_Yield out w))"

lemma world_steps_keep:
  assumes "world_steps out w w'"
    and "\<And>w. K w w" "\<And>a b c. K a b \<Longrightarrow> K b c \<Longrightarrow> K a c"
    and "outside_keeps out K"
    and "\<And>w op. port_op op \<Longrightarrow> K w (w\<lparr>w_store := fst (store_step (w_store w) (w_now w, op))\<rparr>)"
    and "\<And>w n. K w (w\<lparr>w_now := n\<rparr>)" "\<And>w rs. K w (w\<lparr>w_random := rs\<rparr>)"
    and "\<And>w pool. K w (w\<lparr>w_queue := FleetService_Wake (w_queue w) pool\<rparr>)"
    and "\<And>w msgs. K w (w\<lparr>w_sent := msgs\<rparr>)"
  shows "K w w'"
  using assms(1)
proof (induction rule: rtranclp_induct)
  case (step a b)
  from step(2) have "K a b"
  proof cases
    case (sent pool rid msg)
    with assms(4) have "K (a\<lparr>w_sent := w_sent a @ [(pool, rid, msg)]\<rparr>) b"
      by (simp add: outside_keeps_def)
    then show ?thesis by (rule assms(3) [OF assms(9)])
  qed (use assms(4-8) in \<open>auto simp: outside_keeps_def\<close>)
  with step(3) show ?case by (rule assms(3))
qed (rule assms(2))

definition keepsInv :: "world \<Rightarrow> world \<Rightarrow> bool" where
  "keepsInv w w' \<longleftrightarrow> (store_inv (w_store w) \<longrightarrow> store_inv (w_store w'))"

lemma port_op_admissible: "port_op op \<Longrightarrow> store_inv m \<Longrightarrow> store_inv (fst (store_step m (now, op)))"
  by (cases op) (auto intro: store_intros)

lemma steps_keep_inv: "world_steps out w w' \<Longrightarrow> outside_keeps out keepsInv \<Longrightarrow> keepsInv w w'"
  by (erule world_steps_keep [where K = keepsInv]) (simp_all add: keepsInv_def port_op_admissible)

definition keepsRunners :: "world \<Rightarrow> world \<Rightarrow> bool" where
  "keepsRunners w w' \<longleftrightarrow> (\<forall>pool rid. runnerGen pool rid (w_store w) \<le> runnerGen pool rid (w_store w'))"

lemma port_op_runners: "port_op op \<Longrightarrow> runnerGen pool rid m \<le> runnerGen pool rid (fst (store_step m (now, op)))"
proof (cases "on_runners op")
  case True
  assume "port_op op"
  with True obtain pool' run where "op = OpUpsertRunner pool' run" by (cases op) auto
  then show ?thesis
    by (auto simp: runnerGen_def memFleet_UpsertRunner_def split: option.split)
next
  case False
  then show ?thesis by (simp add: runnerGen_def runners_frame [OF False])
qed

lemma steps_keep_runners: "world_steps out w w' \<Longrightarrow> outside_keeps out keepsRunners \<Longrightarrow> keepsRunners w w'"
  by (erule world_steps_keep [where K = keepsRunners])
    (simp_all add: keepsRunners_def port_op_runners, meson order_trans)

text \<open>The store of one world obtained from that of another by the operations of the ports alone.\<close>

definition storeTraced :: "world \<Rightarrow> world \<Rightarrow> bool" where
  "storeTraced w w' \<longleftrightarrow> (\<exists>ops. list_all (\<lambda>(now, op). port_op op) ops
     \<and> w_store w' = fold (\<lambda>op m. fst (store_step m op)) ops (w_store w))"

lemma storeTraced_same: "w_store w' = w_store w \<Longrightarrow> storeTraced w w'"
  unfolding storeTraced_def by (rule exI [of _ "[]"]) simp

lemma storeTraced_step:
  "port_op op \<Longrightarrow> w_store w' = fst (store_step (w_store w) (now, op)) \<Longrightarrow> storeTraced w w'"
  unfolding storeTraced_def by (rule exI [of _ "[(now, op)]"]) simp

lemma storeTraced_trans: "storeTraced a b \<Longrightarrow> storeTraced b c \<Longrightarrow> storeTraced a c"
  unfolding storeTraced_def
proof (elim exE conjE)
  fix ops ops'
  assume "list_all (\<lambda>(now, op). port_op op) ops" "list_all (\<lambda>(now, op). port_op op) ops'"
    "w_store b = fold (\<lambda>op m. fst (store_step m op)) ops (w_store a)"
    "w_store c = fold (\<lambda>op m. fst (store_step m op)) ops' (w_store b)"
  then show "\<exists>ops. list_all (\<lambda>(now, op). port_op op) ops
      \<and> w_store c = fold (\<lambda>op m. fst (store_step m op)) ops (w_store a)"
    by (intro exI [of _ "ops @ ops'"]) simp
qed

lemma steps_traced: "world_steps out w w' \<Longrightarrow> outside_keeps out storeTraced \<Longrightarrow> storeTraced w w'"
  by (erule world_steps_keep [where K = storeTraced])
    (auto intro: storeTraced_same storeTraced_step storeTraced_trans)

lemma calls_steps: "world_steps out w (foldl (app_step cfg (memHost out)) w ops)"
  by (induction ops arbitrary: w) (auto intro: rtranclp_trans [OF app_step_steps])

section \<open>The scheduler loop\<close>

text \<open>\<^verbatim>\<open>FleetService.Run\<close>: a turn takes one wake-up off the channel, or a safety tick takes every
  known pool in the arbitrary order of the map; it then drains the pools it took, one after the
  other. The jobs a drain starts are goroutines of their own.\<close>

fun drainPools :: "'s host \<Rightarrow> 's \<Rightarrow> poolid list \<Rightarrow> 's" where
  "drainPools h s [] = s"
| "drainPools h s (pool # pools) = drainPools h (fst (drainPool h s pool)) pools"

datatype turn = Woken poolid | Tick "poolid list"

fun drained :: "turn \<Rightarrow> poolid list" where
  "drained (Woken pool) = [pool]"
| "drained (Tick pools) = pools"

fun is_woken :: "turn \<Rightarrow> bool" where
  "is_woken (Woken _) = True"
| "is_woken (Tick _) = False"

inductive run_turn :: "outside \<Rightarrow> world \<Rightarrow> turn \<Rightarrow> world \<Rightarrow> bool" for out where
  woken: "fq_wake (w_queue w) = pool # rest \<Longrightarrow>
    run_turn out w (Woken pool)
      (drainPools (memHost out) (w\<lparr>w_queue := (w_queue w)\<lparr>fq_wake := rest\<rparr>\<rparr>) [pool])"
| tick: "distinct pools \<Longrightarrow> set pools = fq_known (w_queue w) \<Longrightarrow>
    run_turn out w (Tick pools) (drainPools (memHost out) w pools)"

text \<open>A run of the loop among the other goroutines: handlers, and creates in flight.\<close>

inductive run_loop :: "outside \<Rightarrow> world \<Rightarrow> turn list \<Rightarrow> world \<Rightarrow> bool" for out where
  stop: "run_loop out w [] w"
| others: "world_steps out w w1 \<Longrightarrow> run_loop out w1 turns w' \<Longrightarrow> run_loop out w turns w'"
| turn: "run_turn out w t w1 \<Longrightarrow> run_loop out w1 turns w' \<Longrightarrow> run_loop out w (t # turns) w'"

lemma drainPools_steps: "world_steps out w (drainPools (memHost out) w pools)"
  by (induction pools arbitrary: w) (auto intro: rtranclp_trans [OF app.drainPool_R])

text \<open>No step but the loop's own receive takes anything out of the queue.\<close>

definition queueGrows :: "world \<Rightarrow> world \<Rightarrow> bool" where
  "queueGrows w w' \<longleftrightarrow> fq_known (w_queue w) \<subseteq> fq_known (w_queue w')
     \<and> prefix (fq_wake (w_queue w)) (fq_wake (w_queue w'))"

lemma steps_grow_queue: "world_steps out w w' \<Longrightarrow> outside_keeps out queueGrows \<Longrightarrow> queueGrows w w'"
  by (erule world_steps_keep [where K = queueGrows])
    (auto simp: queueGrows_def FleetService_Wake_def Let_def intro: prefix_order.trans)

lemma drainPools_grow: "outside_keeps out queueGrows \<Longrightarrow> queueGrows w (drainPools (memHost out) w pools)"
  by (rule steps_grow_queue [OF drainPools_steps])

text \<open>Where a pool's wake-up stands: known to the ticks, and the number of receives until it is
  taken off the channel.\<close>

definition awaited :: "poolid \<Rightarrow> nat \<Rightarrow> world \<Rightarrow> bool" where
  "awaited pool n w \<longleftrightarrow> n < length (fq_wake (w_queue w)) \<and> fq_wake (w_queue w) ! n = pool"

lemma awaited_grows: "queueGrows w w' \<Longrightarrow> awaited pool n w \<Longrightarrow> awaited pool n w'"
  by (auto simp: queueGrows_def awaited_def prefix_def nth_append)

lemma turn_grows:
  "run_turn out w t w' \<Longrightarrow> outside_keeps out queueGrows \<Longrightarrow> fq_known (w_queue w) \<subseteq> fq_known (w_queue w')"
proof (erule run_turn.cases)
  fix wa :: world and rest p
  assume "outside_keeps out queueGrows" "w = wa"
    "w' = drainPools (memHost out) (wa\<lparr>w_queue := (w_queue wa)\<lparr>fq_wake := rest\<rparr>\<rparr>) [p]"
  with drainPools_grow [of out "wa\<lparr>w_queue := (w_queue wa)\<lparr>fq_wake := rest\<rparr>\<rparr>" "[p]"]
  show ?thesis by (simp add: queueGrows_def)
next
  fix wa pools
  assume "outside_keeps out queueGrows" "w = wa" "w' = drainPools (memHost out) wa pools"
  with drainPools_grow [of out wa pools] show ?thesis by (simp add: queueGrows_def)
qed

lemma tick_drains:
  assumes "run_loop out w turns w'" "outside_keeps out queueGrows"
    and "pool \<in> fq_known (w_queue w)" "Tick pools \<in> set turns"
  shows "pool \<in> set pools"
  using assms
proof (induction rule: run_loop.induct)
  case (others w w1 turns w')
  from steps_grow_queue [OF others.hyps(1) others.prems(1)] have "pool \<in> fq_known (w_queue w1)"
    using others.prems(2) by (auto simp: queueGrows_def)
  with others show ?case by simp
next
  case (turn w t w1 turns w')
  from turn_grows [OF turn.hyps(1) turn.prems(1)] have "pool \<in> fq_known (w_queue w1)"
    using turn.prems(2) by blast
  with turn show ?case by (auto elim: run_turn.cases)
qed simp

lemma receive_drains:
  assumes "run_loop out w turns w'" "outside_keeps out queueGrows"
    and "awaited pool n w" "n < length (filter is_woken turns)"
  shows "\<exists>t\<in>set turns. pool \<in> set (drained t)"
  using assms
proof (induction arbitrary: n rule: run_loop.induct)
  case (others w w1 turns w')
  then show ?case using awaited_grows [OF steps_grow_queue [of out w w1]] by blast
next
  case (turn w t w1 turns w')
  from turn.hyps(1) show ?case
  proof cases
    case (woken p rest)
    have grown: "queueGrows (w\<lparr>w_queue := (w_queue w)\<lparr>fq_wake := rest\<rparr>\<rparr>) w1"
      unfolding woken by (rule drainPools_grow [OF turn.prems(1)])
    show ?thesis
    proof (cases n)
      case 0
      with turn.prems(2) woken show ?thesis by (simp add: awaited_def)
    next
      case (Suc k)
      with turn.prems(2) woken have "awaited pool k (w\<lparr>w_queue := (w_queue w)\<lparr>fq_wake := rest\<rparr>\<rparr>)"
        by (simp add: awaited_def)
      from awaited_grows [OF grown this] turn.IH [of k] turn.prems Suc woken show ?thesis by auto
    qed
  next
    case (tick pools)
    have "queueGrows w w1" unfolding tick by (rule drainPools_grow [OF turn.prems(1)])
    from awaited_grows [OF this turn.prems(2)] turn.IH [of n] turn.prems tick show ?thesis by auto
  qed
qed simp

section \<open>What every installation keeps\<close>

lemma sampleOutside_keeps: "(\<And>w. K w w) \<Longrightarrow> outside_keeps sampleOutside K"
  by (simp add: outside_keeps_def sampleOutside_def)

definition sampleConfig :: fleetConfig where
  "sampleConfig = \<lparr>fc_GuestReconnect = True, fc_DefaultEgress = Some [''base''], fc_DefaultSetupTimeout = 600,
     fc_DefaultInitTimeout = 60, fc_TestAgentProvider = False\<rparr>"





text \<open>A runner's generation fences its connection for good: no sequence of handlers, stale
  registrations, snapshots and failing calls included, ever lowers the generation the store
  holds for a runner.\<close>

theorem runner_generation_kept:
  assumes "outside_keeps out keepsRunners"
  shows "runnerGen pool rid (w_store w) \<le> runnerGen pool rid (w_store (foldl (app_step cfg (memHost out)) w calls))"
  using steps_keep_runners [OF calls_steps assms] by (simp add: keepsRunners_def)

definition staleRegistration :: RunnerRegistration where
  "staleRegistration = \<lparr>reg_WorkspaceID = installWorkspace, reg_PoolID = ''pool'', reg_RunnerID = ''r1'',
     reg_Generation = 1, reg_CapacityUsed = 0, reg_CapacityTotal = 1, reg_CapacityPlacements = [],
     reg_Capabilities = None, reg_Sessions = []\<rparr>"

theorem runner_generation_kept_witness:
  "runnerGen ''pool'' ''r1'' (stateStore StateRunning)
    \<le> runnerGen ''pool'' ''r1'' (w_store (app_step sampleConfig (memHost sampleOutside)
        (sampleWorld (stateStore StateRunning)) (AppRegisterRunner staleRegistration)))"
  using runner_generation_kept [of sampleOutside "''pool''" "''r1''" "sampleWorld (stateStore StateRunning)"
    sampleConfig "[AppRegisterRunner staleRegistration]"] sampleOutside_keeps [of keepsRunners]
  by (simp add: sampleWorld_def keepsRunners_def)



end
