(* ===== verification/FleetProps.thy ===== *)
theory FleetProps
  imports AppProps
begin

text \<open>
  Theorems about the runner-facing half of the fleet service over the in-memory store: what an
  event may change and for whom, what registration and reconciliation make of the store, and
  which sandboxes a runner is told to destroy.
\<close>

section \<open>Runner events\<close>

lemma worldRow_draw [simp]: "worldRow (fst (draw p w)) = worldRow w"
  by (simp add: worldRow_def fun_eq_iff)

lemma worldRow_NewEventID: "h_NewEventID (memHost out) w = (w1, eid) \<Longrightarrow> worldRow w1 = worldRow w"
  using mem.event_id_row [of out w] by simp

lemma worldRow_Now: "h_Now (memHost out) w = (w1, t) \<Longrightarrow> worldRow w1 = worldRow w"
  using mem.now_row [of out w] by simp

lemma worldRow_lifecycle [simp]: "worldRow (fst (recordLifecycleEvent (memHost out) w event row eid)) = worldRow w"
  unfolding recordLifecycleEvent_def Let_def
  using mem.record_row [of out] mem.now_row [of out w] by (simp add: case_prod_beta)

lemma runUnit_mem [simp]: "runUnit (memHost out) w fin = fin"
  by (simp add: runUnit_def memHost_def memStore_Run_def)

text \<open>What an accepted event finds.\<close>

definition speaksFor :: "world \<Rightarrow> RunnerEvent \<Rightarrow> Session \<Rightarrow> bool" where
  "speaksFor w event row \<longleftrightarrow>
     ses_PoolID row = rev_PoolID event \<and> ses_RunnerID row = rev_RunnerID event \<and> rev_RunnerID event \<noteq> ''''
     \<and> runnerGen (rev_PoolID event) (rev_RunnerID event) (w_store w) = rev_Generation event
     \<and> (rev_PlacementGeneration event = 0 \<and> ses_State row \<noteq> StateResuming
        \<or> rev_PlacementGeneration event = ses_PlacementGeneration row)"

text \<open>The runner a listing finds is the stored one.\<close>

lemma findRunner_stored:
  assumes "store_inv m" and "memFleet_ListRunners m pool = Inr runners"
  shows "findRunner rid runners = runnerAt m pool rid"
proof -
  have keyed: "distinct (map fst (ms_runners m))"
    using inv_runners [OF assms(1)] by (simp add: table_ok_def)
  have runners: "set runners = {r. runnerAt m pool (run_ID r) = Some r}"
    using assms(2) set_rows_where [OF keyed, of "\<lambda>k r. fst k = pool"] inv_runner_row [OF assms(1)]
    by (auto simp: memFleet_ListRunners_def split: if_splits)
  show ?thesis
  proof (cases "runnerAt m pool rid")
    case None
    with runners show ?thesis by (auto simp: findRunner_def find_None_iff)
  next
    case (Some r)
    with inv_runner_row [OF assms(1) Some] runners have "r \<in> set runners \<and> run_ID r = rid" by auto
    then obtain r' where r': "findRunner rid runners = Some r'"
      by (cases "findRunner rid runners") (auto simp: findRunner_def find_None_iff)
    then have "r' \<in> set runners \<and> run_ID r' = rid"
      by (auto simp: findRunner_def find_Some_iff)
    with runners Some r' show ?thesis by auto
  qed
qed

lemma eventRow_speaks:
  assumes "store_inv (w_store w)" and "eventRow (memHost out) w event = Inr row"
  shows "worldRow w (rev_WorkspaceID event) (rev_SessionID event) = Some row \<and> speaksFor w event row
    \<and> \<not> eventMalformed event"
  using assms(2) findRunner_stored [OF assms(1), of "rev_PoolID event" _ "rev_RunnerID event"]
  by (auto simp: eventRow_def speaksFor_def runnerGen_def memHost_def memSessions_GetSession_def worldRow_def
      eventMalformed_def split: if_splits sum.splits option.splits)

text \<open>What the two units of work do to the rows.\<close>

lemma childExit_rows:
  assumes "worldRow w (rev_WorkspaceID event) (rev_SessionID event) = Some row" and "\<not> eventMalformed event"
  shows "worldRow (fst (childExitUnit (memHost out) w event row eid code)) ws sid =
    (if ws = rev_WorkspaceID event \<and> sid = rev_SessionID event
     then Some (row\<lparr>ses_ChildExitCode := Some code, ses_UpdatedAt := w_now w\<rparr>) else worldRow w ws sid)"
proof -
  let ?set = "memSessions_SetChildExitCode (w_store w) (w_now w) (rev_WorkspaceID event) (rev_SessionID event) code"
  from assms have "?set = (putSession (w_store w) (rev_WorkspaceID event) (rev_SessionID event)
      (row\<lparr>ses_ChildExitCode := Some code, ses_UpdatedAt := w_now w\<rparr>), None)"
    by (simp add: memSessions_SetChildExitCode_def worldRow_def eventMalformed_def)
  then have "h_SetChildExitCode (memHost out) w (rev_WorkspaceID event) (rev_SessionID event) code
      = (w\<lparr>w_store := fst ?set\<rparr>, None)"
    by (simp add: memHost_def onStore_def)
  then show ?thesis using \<open>?set = _\<close> by (simp add: childExitUnit_def) (simp add: worldRow_def)
qed

lemma eventUnit_rows:
  assumes "worldRow w (rev_WorkspaceID event) (rev_SessionID event) = Some row"
    and "worldRow (fst (snd (eventUnit (memHost out) w event row eid))) ws sid \<noteq> worldRow w ws sid"
  shows "ws = rev_WorkspaceID event \<and> sid = rev_SessionID event
    \<and> ses_State row \<in> set (the (eventTransitions (rev_State event)))
    \<and> (\<exists>row'. worldRow (fst (snd (eventUnit (memHost out) w event row eid))) ws sid = Some row'
         \<and> transitioned (rev_State event) (eventOpts event row) row row')"
proof -
  let ?t = "h_Transition (memHost out) w (rev_WorkspaceID event) (rev_SessionID event)
    (the (eventTransitions (rev_State event))) (rev_State event) (eventOpts event row)"
  obtain w1 r where t: "?t = (w1, r)" by fastforce
  have rows: "worldRow (fst (snd (eventUnit (memHost out) w event row eid))) = worldRow w1"
    by (simp add: eventUnit_def t split: option.split)
  from assms(2) rows have changed: "worldRow w1 ws sid \<noteq> worldRow w ws sid" by simp
  have "r = None"
  proof (cases r)
    case (Some e)
    with mem.refuses [OF t [unfolded Some]] changed show ?thesis by simp
  qed
  from mem.moves [OF t [unfolded this]] assms(1)
  obtain row' where row': "expects (the (eventTransitions (rev_State event))) (eventOpts event row) row"
      "transitioned (rev_State event) (eventOpts event row) row row'"
      "worldRow w1 (rev_WorkspaceID event) (rev_SessionID event) = Some row'"
    and others: "\<And>k. k \<noteq> (rev_WorkspaceID event, rev_SessionID event) \<Longrightarrow>
      worldRow w1 (fst k) (snd k) = worldRow w (fst k) (snd k)" by auto
  from changed others [of "(ws, sid)"] have "ws = rev_WorkspaceID event \<and> sid = rev_SessionID event" by auto
  with row' rows show ?thesis by (simp add: expects_def)
qed

lemma apply_event_row:
  assumes "eventRow (memHost out) w event = Inr row"
    and "FleetService_ApplyRunnerEvent (memHost out) w event = (w', r)"
  obtains eid w1 where "w1 = fst (h_NewEventID (memHost out) w)"
    and "worldRow w' = worldRow w
      \<or> (\<exists>code. rev_ChildExitCode event = Some code \<and> ses_ChildExitCode row = None
          \<and> w' = fst (childExitUnit (memHost out) w1 event row eid code))
      \<or> rev_ChildExitCode event = None \<and> ses_State row \<noteq> rev_State event
          \<and> worldRow w' = worldRow (fst (snd (eventUnit (memHost out) w1 event row eid)))"
proof -
  obtain w1 eid where id: "h_NewEventID (memHost out) w = (w1, eid)" by fastforce
  note rows = worldRow_NewEventID [OF id]
  from assms id have "worldRow w' = worldRow w
      \<or> (\<exists>code. rev_ChildExitCode event = Some code \<and> ses_ChildExitCode row = None
          \<and> w' = fst (childExitUnit (memHost out) w1 event row eid code))
      \<or> rev_ChildExitCode event = None \<and> ses_State row \<noteq> rev_State event
          \<and> worldRow w' = worldRow (fst (snd (eventUnit (memHost out) w1 event row eid)))"
    using rows mem.wake_row [of out]
    by (auto simp: FleetService_ApplyRunnerEvent_def Let_def split: if_splits option.splits prod.splits)
  with id show thesis by (intro that [of w1 eid]) simp_all
qed

text \<open>C3. A runner's event changes at most the session it names, and only when it speaks for that
  session: the row is on the runner, in its pool, the runner's stored generation is the event's,
  and the placement generation is the row's own (an event that states none is refused while a
  resume is in flight). It then only records a child's exit code that was not known, or makes a
  transition the event is allowed to make; every other event leaves every row as it was.\<close>

theorem runner_event_fenced:
  assumes "store_inv (w_store w)"
    and "FleetService_ApplyRunnerEvent (memHost out) w event = (w', r)"
    and "worldRow w' ws sid \<noteq> worldRow w ws sid"
  shows "ws = rev_WorkspaceID event \<and> sid = rev_SessionID event
    \<and> (\<exists>row row'. worldRow w ws sid = Some row \<and> worldRow w' ws sid = Some row' \<and> speaksFor w event row
         \<and> (case rev_ChildExitCode event of
              Some code \<Rightarrow> ses_ChildExitCode row = None
                \<and> row' = row\<lparr>ses_ChildExitCode := Some code, ses_UpdatedAt := w_now w\<rparr>
            | None \<Rightarrow> ses_State row \<in> set (the (eventTransitions (rev_State event)))
                \<and> transitioned (rev_State event) (eventOpts event row) row row'))"
proof (cases "eventRow (memHost out) w event")
  case (Inl e)
  with assms show ?thesis by (simp add: FleetService_ApplyRunnerEvent_def)
next
  case (Inr row)
  from eventRow_speaks [OF assms(1) Inr]
  have row: "worldRow w (rev_WorkspaceID event) (rev_SessionID event) = Some row"
    and speaks: "speaksFor w event row" and formed: "\<not> eventMalformed event" by auto
  from apply_event_row [OF Inr assms(2)] obtain eid w1
    where w1: "w1 = fst (h_NewEventID (memHost out) w)"
      and cases: "worldRow w' = worldRow w
      \<or> (\<exists>code. rev_ChildExitCode event = Some code \<and> ses_ChildExitCode row = None
          \<and> w' = fst (childExitUnit (memHost out) w1 event row eid code))
      \<or> rev_ChildExitCode event = None \<and> ses_State row \<noteq> rev_State event
          \<and> worldRow w' = worldRow (fst (snd (eventUnit (memHost out) w1 event row eid)))" .
  from w1 have same: "worldRow w1 = worldRow w" "w_now w1 = w_now w"
    using mem.event_id_row [of out w] by (simp_all add: memHost_def draw_def split: list.split)
  from cases show ?thesis
  proof (elim disjE exE conjE)
    fix code
    assume "rev_ChildExitCode event = Some code" "ses_ChildExitCode row = None"
      "w' = fst (childExitUnit (memHost out) w1 event row eid code)"
    with childExit_rows [of w1 event row out eid code ws sid] formed row speaks same assms(3)
    show ?thesis by (auto split: if_splits)
  next
    assume "rev_ChildExitCode event = None"
      "worldRow w' = worldRow (fst (snd (eventUnit (memHost out) w1 event row eid)))"
    with eventUnit_rows [of w1 event row out eid ws sid] row speaks same assms(3) show ?thesis by auto
  qed (use assms(3) in simp)
qed

definition sampleEvent :: "SessionState \<Rightarrow> RunnerEvent" where
  "sampleEvent st = \<lparr>rev_WorkspaceID = installWorkspace, rev_PoolID = ''pool'', rev_RunnerID = ''r1'',
     rev_Generation = 1, rev_SessionID = ''s1'', rev_State = st, rev_Detail = '''', rev_ChildExitCode = None,
     rev_PlacementGeneration = 2\<rparr>"

text \<open>One session in a given state at placement generation 2, on a runner of generation 1.\<close>

definition fleetStore :: "SessionState \<Rightarrow> memStore" where
  "fleetStore st = fst (memFleet_UpsertRunner (stateStore st) ''pool''
     ((newRunner ''r1'' ''pool'')\<lparr>run_Generation := 1, run_CapacityTotal := 2, run_Connected := True\<rparr>))"

lemma store_inv_sampleStore: "store_inv sampleStore"
  unfolding sampleStore_def by (intro store_intros) (simp add: store_inv_init)

lemma store_inv_fleetStore: "store_inv (fleetStore st)"
  unfolding fleetStore_def stateStore_def by (intro store_intros store_inv_sampleStore)

lemma sampleWorld_store [simp]: "w_store (sampleWorld m) = m"
  by (simp add: sampleWorld_def)

theorem runner_event_fenced_witness:
  "ses_State (the (worldRow (fst (FleetService_ApplyRunnerEvent (memHost sampleOutside)
      (sampleWorld (fleetStore StateCreating)) (sampleEvent StateRunning))) installWorkspace ''s1'')) = StateRunning
   \<and> (\<exists>row. worldRow (sampleWorld (fleetStore StateCreating)) installWorkspace ''s1'' = Some row
        \<and> speaksFor (sampleWorld (fleetStore StateCreating)) (sampleEvent StateRunning) row)"
proof -
  let ?w = "sampleWorld (fleetStore StateCreating)" and ?e = "sampleEvent StateRunning"
  let ?r = "FleetService_ApplyRunnerEvent (memHost sampleOutside) ?w ?e"
  have after: "ses_State (the (worldRow (fst ?r) installWorkspace ''s1'')) = StateRunning"
    by code_simp
  moreover have "ses_State (the (worldRow ?w installWorkspace ''s1'')) = StateCreating" by code_simp
  ultimately have "worldRow (fst ?r) installWorkspace ''s1'' \<noteq> worldRow ?w installWorkspace ''s1''" by auto
  with runner_event_fenced [of ?w sampleOutside ?e "fst ?r" "snd ?r" installWorkspace "''s1''"] after show ?thesis
    by (auto simp: store_inv_fleetStore)
qed

section \<open>Registration\<close>

text \<open>Registration is a compare-and-set on the runner's generation: a valid claim is accepted
  exactly when its generation is not older than the stored one, and the store then holds the
  runner as it described itself, connected and seen now, and nothing else has changed; a stale
  claim changes nothing and is told the generation that fences it.\<close>

theorem registration_compares:
  assumes "store_inv (w_store w)" and "validateRegistration r poolScoped = None"
  shows "let gen = runnerGen (reg_PoolID r) (reg_RunnerID r) (w_store w);
             (w', answer) = registerRunner (memHost out) w r poolScoped
         in if reg_Generation r < gen
            then w' = w \<and> answer = Inr \<lparr>rr_Accepted = False, rr_Generation = gen\<rparr>
            else w_store w' = (w_store w)\<lparr>ms_runners :=
                upd (reg_PoolID r, reg_RunnerID r) (registeredRunner r (w_now w)) (ms_runners (w_store w))\<rparr>
              \<and> answer = Inr \<lparr>rr_Accepted = True, rr_Generation = reg_Generation r\<rparr>"
proof -
  let ?at = "runnerAt (w_store w) (reg_PoolID r) (reg_RunnerID r)"
  have pool: "reg_PoolID r \<noteq> ''''" and valid: "ValidateCapacityPlacements (reg_CapacityUsed r) (reg_CapacityPlacements r) = None"
    using assms(2) by (auto simp: validateRegistration_def split: option.splits if_splits)
  then obtain runners where "memFleet_ListRunners (w_store w) (reg_PoolID r) = Inr runners"
    by (auto simp: memFleet_ListRunners_def)
  with findRunner_stored [OF assms(1) this, of "reg_RunnerID r"]
  have list: "h_ListRunners (memHost out) w (reg_PoolID r) = Inr runners" "findRunner (reg_RunnerID r) runners = ?at"
    by (simp_all add: memHost_def)
  show ?thesis
  proof (cases "reg_Generation r < runnerGen (reg_PoolID r) (reg_RunnerID r) (w_store w)")
    case True
    then obtain cur where "?at = Some cur" by (cases ?at) (simp_all add: runnerGen_def)
    with True assms(2) list show ?thesis by (simp add: registerRunner_def runnerGen_def Let_def)
  next
    case False
    then have guard: "\<not> (?at \<noteq> None \<and> reg_Generation r < run_Generation (the ?at))"
      by (auto simp: runnerGen_def)
    have "memFleet_UpsertRunner (w_store w) (reg_PoolID r) (registeredRunner r now)
        = ((w_store w)\<lparr>ms_runners := upd (reg_PoolID r, reg_RunnerID r) (registeredRunner r now)
            (ms_runners (w_store w))\<rparr>, None)" for now
      using guard pool valid
      by (auto simp: memFleet_UpsertRunner_def registeredRunner_def split: option.split)
    with False guard assms(2) list show ?thesis
      by (simp add: registerRunner_def Let_def) (simp add: memHost_def onStore_def)
  qed
qed

definition sampleRegistration :: "u64 \<Rightarrow> RunnerRegistration" where
  "sampleRegistration gen = staleRegistration\<lparr>reg_Generation := gen\<rparr>"

theorem registration_compares_witness:
  "snd (registerRunner (memHost sampleOutside) (sampleWorld (fleetStore StateRunning)) (sampleRegistration 2) False)
    = Inr \<lparr>rr_Accepted = True, rr_Generation = 2\<rparr>"
proof -
  have valid: "validateRegistration (sampleRegistration 2) False = None" by code_simp
  have gen: "runnerGen (reg_PoolID (sampleRegistration 2)) (reg_RunnerID (sampleRegistration 2)) (fleetStore StateRunning) = 1"
    by code_simp
  from registration_compares [of "sampleWorld (fleetStore StateRunning)" "sampleRegistration 2" False sampleOutside]
  show ?thesis
    by (simp add: valid gen store_inv_fleetStore Let_def case_prod_beta) (simp add: sampleRegistration_def)
qed

end
