(* ===== verification/ReconcileProps.thy ===== *)
theory ReconcileProps
  imports FleetProps
begin

text \<open>
  What reconciliation of a runner's snapshot makes of the store and which sandboxes the runner
  is told to destroy, read off the world the snapshot arrives in.
\<close>

section \<open>The rows reconciliation touches\<close>

definition keyedRows :: "world \<Rightarrow> bool" where
  "keyedRows w \<longleftrightarrow> (\<forall>ws sid row. worldRow w ws sid = Some row \<longrightarrow> ses_WorkspaceID row = ws \<and> ses_ID row = sid)"

lemma keyedRowsI: "store_inv (w_store w) \<Longrightarrow> keyedRows w"
  unfolding keyedRows_def worldRow_def using inv_session_row by blast

lemma transitionQuiet_rows:
  assumes "transitionQuiet (memHost out) w ws sid from to opts = (w1, r)"
  shows "(\<forall>ws' sid'. (ws', sid') \<noteq> (ws, sid) \<longrightarrow> worldRow w1 ws' sid' = worldRow w ws' sid')
    \<and> (keyedRows w \<longrightarrow> keyedRows w1)"
proof -
  from assms obtain r' where t: "h_Transition (memHost out) w ws sid from to opts = (w1, r')"
    by (auto simp: transitionQuiet_def split: prod.splits option.splits)
  show ?thesis
  proof (cases r')
    case None
    from mem.moves [OF t [unfolded None]] obtain row row'
      where row: "worldRow w ws sid = Some row" "transitioned to opts row row'" "worldRow w1 ws sid = Some row'"
        and others: "\<And>k. k \<noteq> (ws, sid) \<Longrightarrow> worldRow w1 (fst k) (snd k) = worldRow w (fst k) (snd k)" by blast
    have same: "worldRow w1 ws' sid' = worldRow w ws' sid'" if "(ws', sid') \<noteq> (ws, sid)" for ws' sid'
      using others [OF that] by simp
    moreover have "keyedRows w1" if "keyedRows w"
      unfolding keyedRows_def
    proof (intro allI impI)
      fix ws' sid' x
      assume "worldRow w1 ws' sid' = Some x"
      with that row same [of ws' sid'] show "ses_WorkspaceID x = ws' \<and> ses_ID x = sid'"
        by (cases "(ws', sid') = (ws, sid)") (auto simp: keyedRows_def transitioned_def)
    qed
    ultimately show ?thesis by blast
  next
    case (Some e)
    with mem.refuses [OF t [unfolded Some]] show ?thesis by simp
  qed
qed

definition reportedIDs :: "RunnerSnapshot \<Rightarrow> sessionid list" where
  "reportedIDs snap = map rs_SessionID (snap_Sessions snap)"

lemma reported_lookup:
  "map_of (map (\<lambda>r. (rs_SessionID r, r)) (rev (snap_Sessions snap))) sid = None \<longleftrightarrow> sid \<notin> set (reportedIDs snap)"
  by (force simp: map_of_eq_None_iff reportedIDs_def)

lemma reconcileStored_rows:
  assumes "reconcileStored (memHost out) snap poolScoped w rows destroy = (w', Inr found)"
  shows "found = destroy @ map ses_ID (filter (\<lambda>row. \<not> poolScoped \<and> ses_WorkspaceID row \<noteq> snap_WorkspaceID snap
        \<and> ses_ID row \<in> set (reportedIDs snap)) rows)
    \<and> (\<forall>ws sid. sid \<notin> ses_ID ` set rows \<longrightarrow> worldRow w' ws sid = worldRow w ws sid)
    \<and> (keyedRows w \<longrightarrow> keyedRows w')"
  using assms
proof (induction rows arbitrary: w destroy)
  case (Cons row rows)
  let ?rep = "map_of (map (\<lambda>r. (rs_SessionID r, r)) (rev (snap_Sessions snap))) (ses_ID row)"
  show ?case
  proof (cases "\<not> poolScoped \<and> ses_WorkspaceID row \<noteq> snap_WorkspaceID snap")
    case True
    with Cons.prems have "reconcileStored (memHost out) snap poolScoped w rows
        (if ses_ID row \<in> set (reportedIDs snap) then destroy @ [ses_ID row] else destroy) = (w', Inr found)"
      using reported_lookup [of snap "ses_ID row"] by (simp add: Let_def split: if_splits)
    from Cons.IH [OF this] True show ?thesis by simp
  next
    case False
    show ?thesis
    proof (cases "storedMove ?rep row")
      case None
      with Cons.prems False have "reconcileStored (memHost out) snap poolScoped w rows destroy = (w', Inr found)"
        by (simp only: reconcileStored.simps Let_def if_False option.case)
      from Cons.IH [OF this] False show ?thesis by auto
    next
      case (Some m)
      then obtain fr to opts where m: "storedMove ?rep row = Some (fr, to, opts)" by (cases m) auto
      obtain w1 r where t: "transitionQuiet (memHost out) w (ses_WorkspaceID row) (ses_ID row) fr to opts = (w1, r)"
        by fastforce
      from Cons.prems False have r: "r = None"
        "reconcileStored (memHost out) snap poolScoped w1 rows destroy = (w', Inr found)"
        by (cases r; simp only: reconcileStored.simps Let_def if_False m t option.case prod.case; simp)+
      from Cons.IH [OF r(2)] transitionQuiet_rows [OF t] False show ?thesis by auto
    qed
  qed
qed simp

lemma reconcileStored_untouched:
  assumes "reconcileStored (memHost out) snap poolScoped w rows destroy = (w', Inr found)"
    and "(ws, sid) \<notin> (\<lambda>row. (ses_WorkspaceID row, ses_ID row)) ` set rows"
  shows "worldRow w' ws sid = worldRow w ws sid"
  using assms
proof (induction rows arbitrary: w destroy)
  case (Cons row rows)
  show ?case
  proof (cases "storedMove (map_of (map (\<lambda>r. (rs_SessionID r, r)) (rev (snap_Sessions snap))) (ses_ID row)) row")
    case None
    with Cons show ?thesis by (simp add: Let_def split: if_splits)
  next
    case (Some m)
    obtain fr to opts where m: "m = (fr, to, opts)" by (cases m) auto
    obtain w1 r where t: "transitionQuiet (memHost out) w (ses_WorkspaceID row) (ses_ID row) fr to opts = (w1, r)"
      by fastforce
    from transitionQuiet_rows [OF t] Cons.prems(2) have "worldRow w1 ws sid = worldRow w ws sid" by auto
    with Cons Some m t show ?thesis by (auto simp: Let_def split: if_splits option.splits)
  qed
qed simp

text \<open>The rows a reported sandbox may belong to: one of this runner, or one not placed yet that its
  pool may adopt.\<close>

definition belongs :: "RunnerSnapshot \<Rightarrow> Session \<Rightarrow> bool" where
  "belongs snap row \<longleftrightarrow> \<not> Terminal (ses_State row) \<and> ses_WorkspaceID row = snap_WorkspaceID snap
     \<and> (ses_PoolID row = snap_PoolID snap \<and> ses_RunnerID row = snap_RunnerID snap
        \<or> ses_RunnerID row = '''' \<and> (ses_PoolID row = '''' \<or> ses_PoolID row = snap_PoolID snap))"

definition stray :: "world \<Rightarrow> RunnerSnapshot \<Rightarrow> bool \<Rightarrow> sessionid \<Rightarrow> bool" where
  "stray w snap poolScoped sid \<longleftrightarrow> poolScoped
     \<or> (case worldRow w (snap_WorkspaceID snap) sid of None \<Rightarrow> True | Some row \<Rightarrow> \<not> belongs snap row)"

lemma reconcileReported_found:
  assumes "reconcileReported (memHost out) snap poolScoped stored w rs destroy = (w', Inr found)"
    and "keyedRows w" and "distinct (map rs_SessionID rs)" and "poolScoped \<or> snap_WorkspaceID snap \<noteq> ''''"
    and "\<And>sid. sid \<in> rs_SessionID ` set rs \<Longrightarrow> sid \<notin> set stored \<Longrightarrow>
      worldRow w (snap_WorkspaceID snap) sid = worldRow w0 (snap_WorkspaceID snap) sid"
  shows "set found = set destroy
    \<union> {sid \<in> rs_SessionID ` set rs. sid \<notin> set stored \<and> stray w0 snap poolScoped sid}"
  using assms
proof (induction rs arbitrary: w destroy)
  case (Cons r rs)
  let ?sid = "rs_SessionID r" and ?ws = "snap_WorkspaceID snap"
  have skip: ?case if "reconcileReported (memHost out) snap poolScoped stored w1 rs destroy = (w', Inr found)"
      "keyedRows w1" "\<forall>sid. sid \<noteq> ?sid \<longrightarrow> worldRow w1 ?ws sid = worldRow w ?ws sid"
      "?sid \<in> set stored \<or> \<not> stray w0 snap poolScoped ?sid" for w1
    using Cons.IH [OF that(1,2)] Cons.prems(3,4) that(3,4) Cons.prems(5) by (fastforce simp: image_iff)
  have drop: ?case if "reconcileReported (memHost out) snap poolScoped stored w rs (destroy @ [?sid]) = (w', Inr found)"
      "?sid \<notin> set stored" "stray w0 snap poolScoped ?sid"
    using Cons.IH [OF that(1) Cons.prems(2)] Cons.prems(3,4) that(2,3) Cons.prems(5) by fastforce
  show ?case
  proof (cases "?sid \<in> set stored \<or> poolScoped")
    case True
    show ?thesis
    proof (cases "?sid \<in> set stored")
      case True
      with Cons.prems(1) have "reconcileReported (memHost out) snap poolScoped stored w rs destroy = (w', Inr found)"
        by simp
      from skip [OF this Cons.prems(2)] True show ?thesis by simp
    next
      case unstored: False
      with True have "stray w0 snap poolScoped ?sid" by (simp add: stray_def)
      with drop unstored True Cons.prems(1) show ?thesis by simp
    qed
  next
    case False
    then have stray: "stray w0 snap poolScoped ?sid \<longleftrightarrow>
        (case worldRow w ?ws ?sid of None \<Rightarrow> True | Some row \<Rightarrow> \<not> belongs snap row)"
      using Cons.prems(5) [of ?sid] by (simp add: stray_def)
    show ?thesis
    proof (cases "worldRow w ?ws ?sid")
      case None
      with False Cons.prems(1,4) drop stray show ?thesis by (simp add: mem.get_row)
    next
      case (Some row)
      with Cons.prems(2) have key: "ses_WorkspaceID row = ?ws" "ses_ID row = ?sid"
        by (auto simp: keyedRows_def)
      have get: "h_GetSession (memHost out) w ?ws ?sid = Inr row"
        using Some False Cons.prems(4) by (simp add: mem.get_row)
      show ?thesis
      proof (cases "\<not> Terminal (ses_State row) \<and> ses_RunnerID row = ''''
          \<and> (ses_PoolID row = '''' \<or> ses_PoolID row = snap_PoolID snap)")
        case True
        then have "belongs snap row" using key by (simp add: belongs_def)
        with stray Some have "\<not> stray w0 snap poolScoped ?sid" by simp
        show ?thesis
        proof (cases "announcedState (rs_State r)")
          case None
          with Cons.prems(1,2) False get key True skip [of w] \<open>\<not> stray _ _ _ _\<close> show ?thesis by simp
        next
          case want: (Some want)
          obtain w1 e where t: "transitionQuiet (memHost out) w ?ws ?sid NonTerminal want
              (noOpts\<lparr>opt_RunnerID := Some (snap_RunnerID snap)\<rparr>) = (w1, e)" by fastforce
          with Cons.prems(1) False get key True want
          have "reconcileReported (memHost out) snap poolScoped stored w1 rs destroy = (w', Inr found)"
            by (cases e) simp_all
          from skip [OF this] transitionQuiet_rows [OF t] Cons.prems(2) \<open>\<not> stray _ _ _ _\<close>
          show ?thesis by simp
        qed
      next
        case other: False
        have "belongs snap row \<longleftrightarrow> \<not> Terminal (ses_State row) \<and> ses_PoolID row = snap_PoolID snap
            \<and> ses_RunnerID row = snap_RunnerID snap"
          using other key by (auto simp: belongs_def)
        with Cons.prems(1,2) False get key other drop skip [of w] stray Some show ?thesis
          by (auto split: if_splits)
      qed
    qed
  qed
qed simp

lemma reconcileReported_untouched:
  assumes "reconcileReported (memHost out) snap poolScoped stored w rs destroy = (w', Inr found)"
    and "keyedRows w" and "sid \<in> set stored"
  shows "worldRow w' ws sid = worldRow w ws sid"
  using assms
proof (induction rs arbitrary: w destroy)
  case (Cons r rs)
  show ?case
  proof (cases "\<exists>row want. h_GetSession (memHost out) w (snap_WorkspaceID snap) (rs_SessionID r) = Inr row
      \<and> announcedState (rs_State r) = Some want \<and> rs_SessionID r \<notin> set stored")
    case True
    then obtain row want where row: "h_GetSession (memHost out) w (snap_WorkspaceID snap) (rs_SessionID r) = Inr row"
      "announcedState (rs_State r) = Some want" "rs_SessionID r \<notin> set stored" by blast
    with mem.get_error [OF row(1)] Cons.prems(2,3) have "ses_ID row \<noteq> sid" by (auto simp: keyedRows_def)
    moreover obtain w1 e where t: "transitionQuiet (memHost out) w (ses_WorkspaceID row) (ses_ID row) NonTerminal want
        (noOpts\<lparr>opt_RunnerID := Some (snap_RunnerID snap)\<rparr>) = (w1, e)" by fastforce
    ultimately have "worldRow w1 ws sid = worldRow w ws sid" "keyedRows w1"
      using transitionQuiet_rows [OF t] Cons.prems(2) by auto
    with Cons row t show ?thesis by (auto split: if_splits option.splits)
  next
    case False
    with Cons show ?thesis by (auto split: if_splits sum.splits option.splits)
  qed
qed simp

section \<open>What becomes of the stored rows\<close>

definition reportOf :: "RunnerSnapshot \<Rightarrow> sessionid \<Rightarrow> RunnerSession option" where
  "reportOf snap sid = map_of (map (\<lambda>r. (rs_SessionID r, r)) (rev (snap_Sessions snap))) sid"

definition movedTo :: "RunnerSnapshot \<Rightarrow> Session \<Rightarrow> Session \<Rightarrow> bool" where
  "movedTo snap row row' \<longleftrightarrow>
     (case storedMove (reportOf snap (ses_ID row)) row of
        None \<Rightarrow> row' = row | Some (from, to, opts) \<Rightarrow> transitioned to opts row row')"

definition rowKey :: "Session \<Rightarrow> wsid \<times> sessionid" where
  "rowKey row = (ses_WorkspaceID row, ses_ID row)"

lemma storedMove_expects:
  "storedMove rep row = Some (from, to, opts) \<Longrightarrow> ses_State row \<in> set NonTerminal \<Longrightarrow> expects from opts row"
  by (auto simp: storedMove_def expects_def noOpts_def split: if_splits option.splits)

lemma transitionQuiet_moves:
  assumes "transitionQuiet (memHost out) w ws sid from to opts = (w1, r)"
    and "worldRow w ws sid = Some row" and "ws \<noteq> ''''" and "expects from opts row"
  shows "r = None \<and> (\<exists>row'. worldRow w1 ws sid = Some row' \<and> transitioned to opts row row')"
proof -
  from assms(1) obtain r' where t: "h_Transition (memHost out) w ws sid from to opts = (w1, r')"
    by (auto simp: transitionQuiet_def split: prod.splits option.splits)
  with mem.moves_expected [OF assms(3,2,4), where out = out and to = to] have "r' = None" by simp
  with mem.moves [OF t [unfolded this]] assms(1,2) t show ?thesis by (auto simp: transitionQuiet_def)
qed

lemma reconcileStored_moves:
  assumes "reconcileStored (memHost out) snap poolScoped w rows destroy = (w', Inr found)"
    and "distinct (map rowKey rows)"
    and "\<And>row. row \<in> set rows \<Longrightarrow> worldRow w (ses_WorkspaceID row) (ses_ID row) = Some row
      \<and> ses_WorkspaceID row \<noteq> '''' \<and> ses_State row \<in> set NonTerminal"
    and "row \<in> set rows" and "poolScoped \<or> ses_WorkspaceID row = snap_WorkspaceID snap"
  shows "\<exists>row'. worldRow w' (ses_WorkspaceID row) (ses_ID row) = Some row' \<and> movedTo snap row row'"
  using assms
proof (induction rows arbitrary: w destroy)
  case (Cons first rows)
  let ?ws = "ses_WorkspaceID first" and ?sid = "ses_ID first"
  have step: "\<exists>w1 destroy'. reconcileStored (memHost out) snap poolScoped w1 rows destroy' = (w', Inr found)
      \<and> (\<forall>ws sid. (ws, sid) \<noteq> rowKey first \<longrightarrow> worldRow w1 ws sid = worldRow w ws sid)
      \<and> (poolScoped \<or> ?ws = snap_WorkspaceID snap \<longrightarrow>
           (\<exists>row'. worldRow w1 ?ws ?sid = Some row' \<and> movedTo snap first row'))"
  proof (cases "\<not> poolScoped \<and> ?ws \<noteq> snap_WorkspaceID snap")
    case True
    with Cons.prems(1) show ?thesis by (auto simp: Let_def)
  next
    case False
    show ?thesis
    proof (cases "storedMove (reportOf snap ?sid) first")
      case None
      with Cons.prems(1,3) False show ?thesis by (auto simp: reportOf_def movedTo_def Let_def)
    next
      case (Some m)
      then obtain fr to opts where m: "storedMove (reportOf snap ?sid) first = Some (fr, to, opts)"
        by (cases m) auto
      obtain w1 r where t: "transitionQuiet (memHost out) w ?ws ?sid fr to opts = (w1, r)" by fastforce
      from transitionQuiet_moves [OF t] storedMove_expects [OF m] Cons.prems(3) [of first]
      have r: "r = None" and moved: "\<exists>row'. worldRow w1 ?ws ?sid = Some row' \<and> movedTo snap first row'"
        by (auto simp: movedTo_def m)
      from Cons.prems(1) False have "reconcileStored (memHost out) snap poolScoped w1 rows destroy = (w', Inr found)"
        by (simp only: reconcileStored.simps Let_def if_False m [unfolded reportOf_def] t r option.case prod.case)
      with moved transitionQuiet_rows [OF t] show ?thesis by (auto simp: rowKey_def)
    qed
  qed
  then obtain w1 destroy' where w1: "reconcileStored (memHost out) snap poolScoped w1 rows destroy' = (w', Inr found)"
    and same: "\<And>ws sid. (ws, sid) \<noteq> rowKey first \<Longrightarrow> worldRow w1 ws sid = worldRow w ws sid"
    and moved: "poolScoped \<or> ?ws = snap_WorkspaceID snap \<Longrightarrow>
      \<exists>row'. worldRow w1 ?ws ?sid = Some row' \<and> movedTo snap first row'" by blast
  have fresh: "rowKey first \<notin> rowKey ` set rows" using Cons.prems(2) by simp
  show ?case
  proof (cases "row = first")
    case False
    have "worldRow w1 (ses_WorkspaceID x) (ses_ID x) = Some x" if "x \<in> set rows" for x
    proof -
      from that fresh have "rowKey x \<noteq> rowKey first" by (metis imageI)
      with same [of "ses_WorkspaceID x" "ses_ID x"] Cons.prems(3) [of x] that show ?thesis
        by (simp add: rowKey_def)
    qed
    with False Cons.IH [OF w1] Cons.prems show ?thesis by simp
  next
    case True
    obtain row' where row': "worldRow w1 ?ws ?sid = Some row'" "movedTo snap first row'"
      using moved Cons.prems(5) True by blast
    have "worldRow w' ?ws ?sid = worldRow w1 ?ws ?sid"
      using fresh reconcileStored_untouched [OF w1] by (auto simp: rowKey_def)
    with row' True show ?thesis by simp
  qed
qed simp

section \<open>The whole pass\<close>

definition heldStates :: "SessionState list" where
  "heldStates = [StateCreating, StateResuming, StateRunning, StateSuspendedWarm, StateSuspendedCold]"

text \<open>The rows the store holds on the runner of a snapshot, of any workspace.\<close>

definition heldRows :: "world \<Rightarrow> RunnerSnapshot \<Rightarrow> Session list" where
  "heldRows w snap = rows_where (\<lambda>k s. ses_PoolID s = snap_PoolID snap \<and> ses_RunnerID s = snap_RunnerID snap
     \<and> ses_State s \<in> set heldStates) (ms_sessions (w_store w))"

definition orphaned :: "world \<Rightarrow> RunnerSnapshot \<Rightarrow> bool \<Rightarrow> sessionid \<Rightarrow> bool" where
  "orphaned w snap poolScoped sid \<longleftrightarrow> sid \<in> set (reportedIDs snap)
     \<and> (if sid \<in> ses_ID ` set (heldRows w snap)
        then \<not> poolScoped \<and> (\<exists>row\<in>set (heldRows w snap). ses_ID row = sid \<and> ses_WorkspaceID row \<noteq> snap_WorkspaceID snap)
        else stray w snap poolScoped sid)"

lemma sorted_destroy: "sorted (remdups_adj (sortSlice (<) xs)) \<and> distinct (remdups_adj (sortSlice (<) (xs :: 'a :: linorder list)))"
proof -
  have "sorted_wrt (\<lambda>a b. \<not> b < a) (sortSlice (<) xs)"
    by (rule sorted_sortSlice) (rule weak_order_key [of "\<lambda>x. x"])
  then have "sorted (sortSlice (<) xs)" by (simp add: not_less)
  moreover have "sorted ys \<Longrightarrow> distinct (remdups_adj ys)" for ys :: "'a list"
    by (induction ys rule: remdups_adj.induct) auto
  ultimately show ?thesis by (simp add: sorted_remdups_adj)
qed

lemma heldRows_rows:
  assumes "store_inv (w_store w)"
  shows "distinct (map rowKey (heldRows w snap))"
    and "row \<in> set (heldRows w snap) \<Longrightarrow> worldRow w (ses_WorkspaceID row) (ses_ID row) = Some row
      \<and> ses_WorkspaceID row \<noteq> '''' \<and> ses_State row \<in> set NonTerminal"
proof -
  have keyed: "distinct (map fst (ms_sessions (w_store w)))"
    using inv_sessions [OF assms] by (simp add: table_ok_def)
  have key: "map_of (ms_sessions (w_store w)) k = Some row \<Longrightarrow> rowKey row = k \<and> fst k \<noteq> ''''" for k row
    using inv_session_row [OF assms, of "fst k" "snd k" row] by (auto simp: rowKey_def)
  then show "row \<in> set (heldRows w snap) \<Longrightarrow> worldRow w (ses_WorkspaceID row) (ses_ID row) = Some row
      \<and> ses_WorkspaceID row \<noteq> '''' \<and> ses_State row \<in> set NonTerminal"
    using set_rows_where [OF keyed] by (fastforce simp: heldRows_def worldRow_def rowKey_def heldStates_def NonTerminal_def)
  have "map rowKey (rows_where P al) = map fst (filter (\<lambda>(k, v). P k v) al)"
    if "\<And>k row. (k, row) \<in> set al \<Longrightarrow> rowKey row = k" for P and al :: "((wsid \<times> sessionid) \<times> Session) list"
    using that by (auto simp: rows_where_def)
  moreover have "\<And>k row. (k, row) \<in> set (ms_sessions (w_store w)) \<Longrightarrow> rowKey row = k"
    using key keyed by auto
  ultimately show "distinct (map rowKey (heldRows w snap))"
    unfolding heldRows_def using keyed by (simp add: distinct_map_filter)
qed

lemma reconcile_recorded:
  assumes "reconcileRunner (memHost out) w snap poolScoped = (w', Inr res)" and "\<not> rec_Fenced res"
  obtains w1 w2 where "ms_sessions (w_store w1) = ms_sessions (w_store w)"
    and "reconcileSessions (memHost out) w1 snap poolScoped = (w2, Inr (rec_Destroy res))"
    and "worldRow w' = worldRow w2" and "validateSnapshot snap poolScoped = None"
    and "rec_Generation res = snap_Generation snap"
proof -
  have sessions: "ms_sessions (w_store w1) = ms_sessions (w_store w)"
    if "recordSnapshotAuthority (memHost out) w snap cur = (w1, Inr None)" for cur w1
    using that
    by (auto simp: recordSnapshotAuthority_def upsertSnapshotRunner_def memHost_def onStore_def
        memFleet_UpsertRunner_def Let_def split: prod.splits option.splits if_splits sum.splits)
  from assms have valid: "validateSnapshot snap poolScoped = None"
    by (auto simp: reconcileRunner_def split: option.splits)
  from assms valid obtain cur w1 w2 where "recordSnapshotAuthority (memHost out) w snap cur = (w1, Inr None)"
    and reconciled: "reconcileSessions (memHost out) w1 snap poolScoped = (w2, Inr (rec_Destroy res))"
    and "w' = h_Wake (memHost out) w2 (snap_PoolID snap)" "rec_Generation res = snap_Generation snap"
    by (auto simp: reconcileRunner_def Let_def split: option.splits sum.splits prod.splits if_splits)
  with valid sessions mem.wake_row [of out w2] show thesis by (intro that [OF _ reconciled]) simp_all
qed

lemma reconcileSessions_passes:
  assumes "reconcileSessions (memHost out) w snap poolScoped = (w2, Inr destroy)"
  obtains w1 found found' where
    "reconcileStored (memHost out) snap poolScoped w (heldRows w snap) [] = (w1, Inr found)"
    and "reconcileReported (memHost out) snap poolScoped (map ses_ID (heldRows w snap)) w1 (snap_Sessions snap) found
      = (w2, Inr found')"
    and "destroy = remdups_adj (sortSlice (<) found')"
proof -
  have "h_SessionsOnRunner (memHost out) w (snap_PoolID snap) (snap_RunnerID snap)
      [StateCreating, StateResuming, StateRunning, StateSuspendedWarm, StateSuspendedCold]
    = (if snap_PoolID snap = '''' then Inl ErrInvalid else Inr (heldRows w snap))"
    by (simp add: memHost_def memFleet_SessionsOnRunner_def heldRows_def heldStates_def)
  with assms that show thesis
    by (auto simp: reconcileSessions_def split: if_splits prod.splits sum.splits)
qed

lemma reconcileSessions_found:
  assumes "reconcileSessions (memHost out) w snap poolScoped = (w2, Inr destroy)"
    and "keyedRows w" and "validateSnapshot snap poolScoped = None"
  shows "sorted destroy \<and> distinct destroy \<and> set destroy = {sid. orphaned w snap poolScoped sid}"
proof -
  obtain w1 found found' where
    stored: "reconcileStored (memHost out) snap poolScoped w (heldRows w snap) [] = (w1, Inr found)" and
    reported: "reconcileReported (memHost out) snap poolScoped (map ses_ID (heldRows w snap)) w1
      (snap_Sessions snap) found = (w2, Inr found')" and
    destroy: "destroy = remdups_adj (sortSlice (<) found')"
    using reconcileSessions_passes [OF assms(1)] .
  from assms(3) have valid: "distinct (map rs_SessionID (snap_Sessions snap))" "poolScoped \<or> snap_WorkspaceID snap \<noteq> ''''"
    by (auto simp: validateSnapshot_def split: option.splits if_splits)
  note rows = reconcileStored_rows [OF stored]
  have "set found' = set found \<union> {sid \<in> rs_SessionID ` set (snap_Sessions snap).
      sid \<notin> set (map ses_ID (heldRows w snap)) \<and> stray w snap poolScoped sid}"
    by (rule reconcileReported_found [OF reported _ valid]) (use rows assms(2) in auto)
  moreover have "set found = {sid \<in> set (reportedIDs snap). \<not> poolScoped
      \<and> (\<exists>row\<in>set (heldRows w snap). ses_ID row = sid \<and> ses_WorkspaceID row \<noteq> snap_WorkspaceID snap)}"
    using rows by auto
  ultimately have "sid \<in> set found' \<longleftrightarrow> orphaned w snap poolScoped sid" for sid
    unfolding orphaned_def reportedIDs_def by (cases "sid \<in> ses_ID ` set (heldRows w snap)") (auto, metis image_eqI)
  then have "set found' = {sid. orphaned w snap poolScoped sid}" by blast
  with destroy sorted_destroy [of found'] show ?thesis by simp
qed

lemma same_sessions:
  assumes "ms_sessions (w_store w1) = ms_sessions (w_store w)"
  shows "worldRow w1 = worldRow w" "heldRows w1 snap = heldRows w snap" "keyedRows w1 = keyedRows w"
    "orphaned w1 = orphaned w"
  using assms by (simp_all add: fun_eq_iff worldRow_def heldRows_def keyedRows_def orphaned_def stray_def)

text \<open>C4. The sandboxes a runner is told to destroy are exactly the orphans it reported, in
  ascending order and each once. A reported sandbox whose session the store holds on this runner
  is spared, unless that session is another workspace's; of the others, a pool-wide snapshot
  spares none, and a workspace's snapshot spares those whose session is live in the workspace and
  either belongs to this runner or is not placed and may be adopted by its pool.\<close>

theorem reconcile_destroys_orphans:
  assumes "store_inv (w_store w)"
    and "reconcileRunner (memHost out) w snap poolScoped = (w', Inr res)" and "\<not> rec_Fenced res"
  shows "sorted (rec_Destroy res) \<and> distinct (rec_Destroy res)
    \<and> set (rec_Destroy res) = {sid. orphaned w snap poolScoped sid}"
proof -
  from reconcile_recorded [OF assms(2,3)] obtain w1 w2
    where same: "ms_sessions (w_store w1) = ms_sessions (w_store w)"
      and r: "reconcileSessions (memHost out) w1 snap poolScoped = (w2, Inr (rec_Destroy res))"
      and v: "validateSnapshot snap poolScoped = None" by blast
  from reconcileSessions_found [OF r _ v] keyedRowsI [OF assms(1)] show ?thesis
    by (simp add: same_sessions [OF same])
qed

definition sampleSnapshot :: "RunnerSession list \<Rightarrow> RunnerSnapshot" where
  "sampleSnapshot sessions = \<lparr>snap_WorkspaceID = installWorkspace, snap_PoolID = ''pool'', snap_RunnerID = ''r1'',
     snap_Generation = 1, snap_CapacityUsed = 0, snap_CapacityTotal = 2, snap_CapacityPlacements = [],
     snap_Sessions = sessions\<rparr>"

theorem reconcile_destroys_orphans_witness:
  "{sid. orphaned (sampleWorld (fleetStore StateRunning))
     (sampleSnapshot [\<lparr>rs_SessionID = ''zz'', rs_State = StateRunning\<rparr>, \<lparr>rs_SessionID = ''s1'', rs_State = StateRunning\<rparr>,
        \<lparr>rs_SessionID = ''yy'', rs_State = StateDead\<rparr>]) False sid} = {''yy'', ''zz''}"
proof -
  let ?w = "sampleWorld (fleetStore StateRunning)"
  let ?snap = "sampleSnapshot [\<lparr>rs_SessionID = ''zz'', rs_State = StateRunning\<rparr>, \<lparr>rs_SessionID = ''s1'', rs_State = StateRunning\<rparr>,
    \<lparr>rs_SessionID = ''yy'', rs_State = StateDead\<rparr>]"
  let ?r = "reconcileRunner (memHost sampleOutside) ?w ?snap False"
  have "snd ?r = Inr \<lparr>rec_Generation = 1, rec_Fenced = False, rec_Destroy = [''yy'', ''zz'']\<rparr>" by code_simp
  then have "?r = (fst ?r, Inr \<lparr>rec_Generation = 1, rec_Fenced = False, rec_Destroy = [''yy'', ''zz'']\<rparr>)"
    by (simp add: prod_eq_iff)
  from reconcile_destroys_orphans [OF _ this] show ?thesis by (simp add: store_inv_fleetStore)
qed

text \<open>C30. What reconciliation makes of a session the store holds on the runner, in the workspace of
  the snapshot or in any when the snapshot is the pool's: a resume in flight is left to its own
  settlement; a session the runner does not report is queued again without a runner if it was
  being created, and is dead otherwise; a reported one takes the state the runner announces when
  that is one of running and the two suspended ones, on the same runner and at the same placement
  generation.\<close>

theorem reconcile_settles_rows:
  assumes "store_inv (w_store w)"
    and "reconcileRunner (memHost out) w snap poolScoped = (w', Inr res)" and "\<not> rec_Fenced res"
    and "row \<in> set (heldRows w snap)" and "poolScoped \<or> ses_WorkspaceID row = snap_WorkspaceID snap"
  shows "\<exists>row'. worldRow w' (ses_WorkspaceID row) (ses_ID row) = Some row'
    \<and> (if ses_State row = StateResuming then row' = row
       else case reportOf snap (ses_ID row) of
         None \<Rightarrow> if ses_State row = StateCreating then ses_State row' = StateQueued \<and> ses_RunnerID row' = ''''
                 else ses_State row' = StateDead \<and> ses_Error row' = lostAtAnnounce
       | Some r \<Rightarrow> ses_RunnerID row' = ses_RunnerID row
           \<and> ses_PlacementGeneration row' = ses_PlacementGeneration row
           \<and> ses_State row' = (case announcedState (rs_State r) of None \<Rightarrow> ses_State row | Some want \<Rightarrow> want))"
proof -
  from reconcile_recorded [OF assms(2,3)] obtain w1 w2
    where same: "ms_sessions (w_store w1) = ms_sessions (w_store w)"
      and r: "reconcileSessions (memHost out) w1 snap poolScoped = (w2, Inr (rec_Destroy res))"
      and w': "worldRow w' = worldRow w2" by blast
  from reconcileSessions_passes [OF r] obtain w3 found found' where
    stored: "reconcileStored (memHost out) snap poolScoped w1 (heldRows w snap) [] = (w3, Inr found)" and
    reported: "reconcileReported (memHost out) snap poolScoped (map ses_ID (heldRows w snap)) w3
      (snap_Sessions snap) found = (w2, Inr found')" unfolding same_sessions [OF same] .
  have "\<exists>row'. worldRow w3 (ses_WorkspaceID row) (ses_ID row) = Some row' \<and> movedTo snap row row'"
    by (rule reconcileStored_moves [OF stored heldRows_rows(1) [OF assms(1)] _ assms(4,5)])
      (use heldRows_rows(2) [OF assms(1)] same_sessions [OF same] in simp)
  moreover have "worldRow w2 (ses_WorkspaceID row) (ses_ID row) = worldRow w3 (ses_WorkspaceID row) (ses_ID row)"
    by (rule reconcileReported_untouched [OF reported]) (use assms(1,4) reconcileStored_rows [OF stored]
      keyedRowsI [OF assms(1)] same_sessions [OF same] in auto)
  ultimately show ?thesis
    by (force simp: w' movedTo_def storedMove_def transitioned_def noOpts_def split: option.splits if_splits)
qed

theorem reconcile_settles_rows_witness:
  "\<exists>row'. worldRow (fst (reconcileRunner (memHost sampleOutside) (sampleWorld (fleetStore StateCreating))
       (sampleSnapshot []) False)) installWorkspace ''s1'' = Some row' \<and> ses_State row' = StateQueued \<and> ses_RunnerID row' = ''''"
proof -
  let ?w = "sampleWorld (fleetStore StateCreating)"
  let ?r = "reconcileRunner (memHost sampleOutside) ?w (sampleSnapshot []) False"
  have "snd ?r = Inr \<lparr>rec_Generation = 1, rec_Fenced = False, rec_Destroy = []\<rparr>" by code_simp
  then have r: "?r = (fst ?r, Inr \<lparr>rec_Generation = 1, rec_Fenced = False, rec_Destroy = []\<rparr>)"
    by (simp add: prod_eq_iff)
  have row: "map (\<lambda>row. (ses_WorkspaceID row, ses_ID row, ses_State row)) (heldRows ?w (sampleSnapshot []))
      = [(installWorkspace, ''s1'', StateCreating)]" by code_simp
  then obtain row where "row \<in> set (heldRows ?w (sampleSnapshot []))"
    "ses_WorkspaceID row = installWorkspace" "ses_ID row = ''s1''" "ses_State row = StateCreating" by auto
  moreover have "snap_WorkspaceID (sampleSnapshot []) = installWorkspace" "reportOf (sampleSnapshot []) ''s1'' = None"
    by (simp_all add: sampleSnapshot_def reportOf_def)
  ultimately show ?thesis
    using reconcile_settles_rows [OF _ r, of row] by (simp add: store_inv_fleetStore)
qed

end
