(* ===== verification/SchedProps.thy ===== *)
theory SchedProps
  imports FleetProps
begin

text \<open>
  Theorems about the scheduler: which runner a queued session is placed on, what a create tells
  the runner and what it withholds, and that the bootstrap token it carries is redeemed once.
\<close>

section \<open>Choosing a runner\<close>

definition bestRunner :: "runnerView list \<Rightarrow> runnerView \<Rightarrow> bool" where
  "bestRunner views v \<longleftrightarrow> v \<in> set views \<and> 0 < rv_free v
     \<and> (\<forall>u\<in>set views. rv_free u < rv_free v \<or> rv_free u = rv_free v \<and> rv_id v \<le> rv_id u)"

lemma betterRunner_best:
  "case fold betterRunner views best of
     None \<Rightarrow> best = None \<and> (\<forall>u\<in>set views. rv_free u \<le> 0)
   | Some v \<Rightarrow> (v \<in> set views \<and> 0 < rv_free v \<or> best = Some v)
       \<and> (\<forall>u\<in>set views. rv_free u \<le> 0 \<or> rv_free u < rv_free v \<or> rv_free u = rv_free v \<and> rv_id v \<le> rv_id u)
       \<and> (\<forall>b. best = Some b \<longrightarrow> rv_free b < rv_free v \<or> rv_free b = rv_free v \<and> rv_id v \<le> rv_id b)"
proof (induction views arbitrary: best)
  case (Cons r views)
  show ?case
    using Cons [of "betterRunner r best"]
    by (cases best) (auto simp: betterRunner_def split: option.splits if_splits)
qed (simp split: option.split)

lemma pickRunner_None: "pickRunner views = None \<longleftrightarrow> (\<forall>u\<in>set views. rv_free u \<le> 0)"
  using betterRunner_best [where views = views and best = None] by (force simp: pickRunner_def split: option.splits)

lemma pickRunner_Some: "pickRunner views = Some rid \<Longrightarrow> \<exists>v. bestRunner views v \<and> rv_id v = rid"
  using betterRunner_best [where views = views and best = None] by (force simp: pickRunner_def bestRunner_def split: option.splits)

lemma set_candidatesFor:
  "set (candidatesFor views env) = {v \<in> set views. \<forall>e. env = Some e \<longrightarrow>
     set (elems (req_Capabilities (env_Requirements e))) \<subseteq> set (elems (rv_caps v))}"
  by (cases env) (auto simp: candidatesFor_def hasAllCapabilities_def Let_def list_all_iff)

text \<open>C32. A queued session goes to the eligible runner with the most free capacity, the smallest
  identity among equals, where the eligible runners hold every capability its environment
  requires; it waits exactly when none of them has room. Where the environment has a usable
  snapshot that the session does not override, the best of the runners that can reach the
  snapshot takes it and runs the snapshot; only when none of those has room does the session go
  to the best of all with the plain image.\<close>

theorem placement_best:
  "case placeQueued h s row env views of
     None \<Rightarrow> \<forall>v\<in>set (candidatesFor views env). rv_free v \<le> 0
   | Some (rid, img) \<Rightarrow>
       \<exists>chosen v. bestRunner chosen v \<and> rv_id v = rid \<and> set chosen \<subseteq> set (candidatesFor views env)
         \<and> (case env of
              None \<Rightarrow> chosen = views \<and> img = None
            | Some e \<Rightarrow>
              (let cached = runsCachedSnapshot e \<and> \<not> overridesEnvironmentImage row e;
                   loc = h_LocateCheckpoint h s (ses_WorkspaceID row) (env_Snapshot e)
               in if \<not> cached then chosen = candidatesFor views env \<and> img = None
                  else (\<exists>l. loc = Inr l \<and> chosen = admittedBy (candidatesFor views env) l
                          \<and> img = Some (cp_Ref (env_Snapshot e)))
                    \<or> chosen = candidatesFor views env \<and> img = Some (env_Image e)
                        \<and> (\<forall>l. loc = Inr l \<longrightarrow>
                             (\<forall>u\<in>set (admittedBy (candidatesFor views env) l). rv_free u \<le> 0))))"
proof (cases env)
  case None
  then show ?thesis
    using pickRunner_None [of views] pickRunner_Some [of views]
    by (cases "pickRunner views") (auto simp: placeQueued_def candidatesFor_def)
next
  case (Some e)
  let ?c = "candidatesFor views env"
  show ?thesis
  proof (cases "runsCachedSnapshot e \<and> \<not> overridesEnvironmentImage row e")
    case False
    with Some show ?thesis
      using pickRunner_None [of ?c] pickRunner_Some [of ?c]
      by (cases "pickRunner ?c") (auto simp: placeQueued_def Let_def)
  next
    case True
    let ?loc = "h_LocateCheckpoint h s (ses_WorkspaceID row) (env_Snapshot e)"
    let ?l = "case ?loc of Inl _ \<Rightarrow> noLocation | Inr l \<Rightarrow> l"
    have none: "admittedBy ?c noLocation = []" by (simp add: admittedBy_def noLocation_def)
    show ?thesis
    proof (cases "pickRunner (admittedBy ?c ?l)")
      case pick: None
      then have "\<forall>l. ?loc = Inr l \<longrightarrow> (\<forall>u\<in>set (admittedBy ?c l). rv_free u \<le> 0)"
        by (auto simp: pickRunner_None)
      with True Some pick show ?thesis
        using pickRunner_None [of ?c] pickRunner_Some [of ?c]
        by (cases "pickRunner ?c") (auto simp: placeQueued_def Let_def)
    next
      case pick: (Some rid)
      then obtain l where l: "?loc = Inr l" using none by (cases ?loc) (simp_all add: pickRunner_def)
      moreover have "set (admittedBy ?c l) \<subseteq> set ?c" by (auto simp: admittedBy_def)
      ultimately show ?thesis
        using True Some pick pickRunner_Some [OF pick] by (auto simp: placeQueued_def Let_def)
    qed
  qed
qed

definition sampleViews :: "runnerView list" where
  "sampleViews = [\<lparr>rv_id = ''a'', rv_free = 1, rv_caps = None\<rparr>, \<lparr>rv_id = ''c'', rv_free = 3, rv_caps = None\<rparr>,
     \<lparr>rv_id = ''b'', rv_free = 3, rv_caps = None\<rparr>]"

theorem placement_best_witness: "\<exists>v. bestRunner sampleViews v \<and> rv_id v = ''b''"
proof -
  have "placeQueued (memHost sampleOutside) (sampleWorld sampleStore) (sampleSession ''s1'' ''k'') None sampleViews
      = Some (''b'', None)" by code_simp
  then show ?thesis
    using placement_best [where h = "memHost sampleOutside" and s = "sampleWorld sampleStore"
        and row = "sampleSession ''s1'' ''k''" and env = None and views = sampleViews]
    by auto
qed

section \<open>The launch environment\<close>

text \<open>Launch material that differs at most in the values of its variables.\<close>

definition sameNames :: "LaunchMaterial \<Rightarrow> LaunchMaterial \<Rightarrow> bool" where
  "sameNames m m' \<longleftrightarrow> map fst (mat_Environment m') = map fst (mat_Environment m)
     \<and> m'\<lparr>mat_Environment := mat_Environment m\<rparr> = m"

lemma launchSpec_withheld:
  assumes "h_ResolveLaunchMaterial h s row env = Inr m"
  shows "launchSpec cfg h s row env True =
    (let envs = (if ses_CreatorID row = '''' then [] else AgentsEnv (launchProviders cfg row));
         egress = fold (\<lambda>p out. unionHosts out (ap_Egress p)) (launchProviders cfg row)
           (unionHosts (spec_EgressAllow (ses_Spec row)) (mat_EgressAllow m))
     in Inr ((hookSpec cfg row env)
       \<lparr>rsp_Repos := mat_Repos m, rsp_GitAuthorName := mat_GitAuthorName m,
        rsp_GitAuthorEmail := mat_GitAuthorEmail m, rsp_Env := envs,
        rsp_Home := (if ses_CreatorID row = '''' then None
          else Some \<lparr>home_Volume = AgentHomeVolume (ses_WorkspaceID row) (ses_CreatorID row),
                     home_Path = HomeMountPath\<rparr>),
        rsp_SecretNames := withholdableNames (mat_Environment m) envs,
        rsp_EgressAllow := unionHosts egress (fc_DefaultEgress cfg)\<rparr>))"
proof -
  have "list_ex (\<lambda>name. map_of envs name \<noteq> None) (elems (withholdableNames (mat_Environment m) envs)) = False" for envs
    by (auto simp: list_ex_iff withholdableNames_def Let_def split: if_splits)
  then show ?thesis by (simp add: launchSpec_def assms Let_def launchEnv_def)
qed

lemma withholdableNames_names:
  "map fst material = map fst material' \<Longrightarrow> withholdableNames material envs = withholdableNames material' envs"
  by (simp add: withholdableNames_def)

lemma Mint_other_resolver: "Mint (h\<lparr>h_ResolveLaunchMaterial := f\<rparr>) = Mint h"
  by (auto simp: Mint_def Let_def fun_eq_iff split: prod.split option.split)

text \<open>C5. A create for a runner of isolated microVMs carries no secret: its specification, token
  included, does not depend on any value of the resolved environment. Two resolutions that agree
  on everything but the values of the variables give the same specification, which lists the
  names of the withheld variables and contains no variable but the agents' own.\<close>

theorem secrets_withheld:
  assumes "CapabilityMicrovmV1 \<in> set (elems caps)"
    and "h_ResolveLaunchMaterial h s row env = Inr m" and "f s row env = Inr m'" and "sameNames m m'"
  shows "createSpec cfg (h\<lparr>h_ResolveLaunchMaterial := f\<rparr>) s row env caps gen = createSpec cfg h s row env caps gen
    \<and> (\<forall>s' spec. createSpec cfg h s row env caps gen = (s', Inr spec) \<longrightarrow>
         rsp_Env spec = (if ses_CreatorID row = '''' then [] else AgentsEnv (launchProviders cfg row))
         \<and> set (elems (rsp_SecretNames spec)) = fst ` set (mat_Environment m) - fst ` set (rsp_Env spec))"
proof -
  have m': "mat_Repos m' = mat_Repos m" "mat_GitAuthorName m' = mat_GitAuthorName m"
    "mat_GitAuthorEmail m' = mat_GitAuthorEmail m" "mat_EgressAllow m' = mat_EgressAllow m"
    "map fst (mat_Environment m') = map fst (mat_Environment m)"
    using assms(4) by (cases m; cases m'; simp add: sameNames_def)+
  have spec: "launchSpec cfg (h\<lparr>h_ResolveLaunchMaterial := f\<rparr>) s row env True = launchSpec cfg h s row env True"
    using launchSpec_withheld [OF assms(2)] launchSpec_withheld [of "h\<lparr>h_ResolveLaunchMaterial := f\<rparr>" s row env m']
      assms(3) withholdableNames_names [OF m'(5)] by (simp add: m')
  have names: "set (elems (withholdableNames (mat_Environment m) envs)) = fst ` set (mat_Environment m) - fst ` set envs" for envs
    by (auto simp: withholdableNames_def Let_def map_of_eq_None_iff filter_empty_conv)
  have "rsp_Env sp = (if ses_CreatorID row = '''' then [] else AgentsEnv (launchProviders cfg row))
      \<and> set (elems (rsp_SecretNames sp)) = fst ` set (mat_Environment m) - fst ` set (rsp_Env sp)"
    if "createSpec cfg h s row env caps gen = (s', Inr sp)" for s' sp
  proof -
    let ?envs = "if ses_CreatorID row = '''' then [] else AgentsEnv (launchProviders cfg row)"
    obtain l where l: "launchSpec cfg h s row env True = Inr l" "rsp_Env l = ?envs"
        "rsp_SecretNames l = withholdableNames (mat_Environment m) ?envs"
      unfolding launchSpec_withheld [OF assms(2)] Let_def by simp
    from that assms(1) l(1) have "rsp_Env sp = rsp_Env l \<and> rsp_SecretNames sp = rsp_SecretNames l"
      by (auto simp: createSpec_def Let_def split: prod.splits sum.splits if_splits)
    with l names [of ?envs] show ?thesis by simp
  qed
  moreover have "createSpec cfg (h\<lparr>h_ResolveLaunchMaterial := f\<rparr>) s row env caps gen = createSpec cfg h s row env caps gen"
    using assms(1) spec unfolding createSpec_def Mint_other_resolver Let_def by simp
  ultimately show ?thesis by blast
qed

theorem secrets_withheld_witness:
  "createSpec sampleConfig ((memHost sampleOutside)\<lparr>h_ResolveLaunchMaterial := \<lambda>w row env.
       Inr (sampleMaterial\<lparr>mat_Environment := [(''TOKEN'', ''other''), (''KEY'', ''values'')]\<rparr>)\<rparr>)
     (sampleWorld sampleStore) (sampleSession ''s1'' ''k'') None (Some [CapabilityMicrovmV1]) 2
   = createSpec sampleConfig (memHost sampleOutside) (sampleWorld sampleStore) (sampleSession ''s1'' ''k'') None
       (Some [CapabilityMicrovmV1]) 2"
  by (rule secrets_withheld [THEN conjunct1, of _ _ _ _ _ sampleMaterial _
        "sampleMaterial\<lparr>mat_Environment := [(''TOKEN'', ''other''), (''KEY'', ''values'')]\<rparr>"])
    (simp_all add: sameNames_def sampleMaterial_def memHost_def sampleOutside_def)

section \<open>The bootstrap token\<close>

lemma hash_nonempty: "HashSessionBootstrapToken x \<noteq> ''''"
proof -
  have "length (HashSessionBootstrapToken x) = 64" by (simp add: HashSessionBootstrapToken_def)
  then show ?thesis by auto
qed

text \<open>C29. The token a create carries opens its session once: before it expires, a redemption that
  presents it for the placement it was minted for succeeds, and the next one is told it is spent;
  another token is unknown, another placement generation is fenced, and two minutes after the
  mint it has expired.\<close>

theorem minted_token_redeemed_once:
  assumes "Mint (memHost out) w ws sid gen = (w', Inr token)"
  shows "let redeem = (\<lambda>m t g now. memBootstraps_ConsumeSessionBootstrap m ws sid (HashSessionBootstrapToken t) g now)
    in (now < w_now w + SessionBootstrapTTL \<longrightarrow>
          snd (redeem (w_store w') token gen now) = None
          \<and> snd (redeem (fst (redeem (w_store w') token gen now)) token gen now) = Some ErrBootstrapSpent)
     \<and> (w_now w + SessionBootstrapTTL \<le> now \<longrightarrow> redeem (w_store w') token gen now = (w_store w', Some ErrBootstrapExpired))
     \<and> (g \<noteq> gen \<longrightarrow> redeem (w_store w') token g now = (w_store w', Some ErrBootstrapFenced))
     \<and> (HashSessionBootstrapToken t \<noteq> HashSessionBootstrapToken token \<longrightarrow>
          redeem (w_store w') t g now = (w_store w', Some ErrBootstrapUnknown))"
proof -
  note hash = hash_nonempty
  from assms obtain "ws \<noteq> ''''" "sid \<noteq> ''''" and
    row: "ms_bootstraps (w_store w') (ws, sid) = Some \<lparr>btr_hash = HashSessionBootstrapToken token, btr_gen = gen,
      btr_expiresAt = w_now w + SessionBootstrapTTL, btr_spent = False\<rparr>"
    using hash
    by (auto simp: Mint_def Let_def memHost_def onStore_def randomBytes_def memBootstraps_PutSessionBootstrap_def
        split: prod.splits option.splits if_splits list.splits)
  then show ?thesis using hash by (simp add: memBootstraps_ConsumeSessionBootstrap_def Let_def)
qed

theorem minted_token_redeemed_once_witness:
  "\<exists>w' token. Mint (memHost sampleOutside) (sampleWorld sampleStore) installWorkspace ''s1'' 2 = (w', Inr token)
    \<and> snd (memBootstraps_ConsumeSessionBootstrap (w_store w') installWorkspace ''s1''
        (HashSessionBootstrapToken token) 2 60) = None"
proof -
  obtain w' token where mint: "Mint (memHost sampleOutside) (sampleWorld sampleStore) installWorkspace ''s1'' 2
      = (w', Inr token)"
    by (simp add: Mint_def memHost_def onStore_def randomBytes_def memBootstraps_PutSessionBootstrap_def
        sampleWorld_def hash_nonempty installWorkspace_def Let_def)
  have "(60 :: time) < w_now (sampleWorld sampleStore) + SessionBootstrapTTL"
    by (simp add: sampleWorld_def SessionBootstrapTTL_def second_def)
  with minted_token_redeemed_once [OF mint, of 60] mint show ?thesis by (auto simp: Let_def)
qed

section \<open>Settling a create\<close>

text \<open>C34. A create that has been answered is settled by compare-and-set, so that a session that has
  moved on is never touched. Only a session still being created changes: it fails, with the
  runner's bounded explanation, when the runner refused it; it goes back to the queue without a
  runner when the delivery failed and the runner is gone; after an acceptance, or a failed
  delivery to a runner that is still connected, its own events or its next reconciliation decide.\<close>

theorem create_settled:
  "worldRow (settleCreate (memHost out) w pool row rid answer) ws sid =
     (if (ws, sid) = (ses_WorkspaceID row, ses_ID row) \<and> ws \<noteq> ''''
      then (case worldRow w ws sid of
              None \<Rightarrow> None
            | Some cur \<Rightarrow> Some
              (if ses_State cur \<noteq> StateCreating then cur
               else case answer of
                 Inl _ \<Rightarrow> if o_Connected out w pool rid then cur
                   else cur\<lparr>ses_State := StateQueued, ses_RunnerID := '''', ses_UpdatedAt := w_now w, ses_LastEventAt := w_now w\<rparr>
               | Inr res \<Rightarrow> if from_OK res then cur
                   else cur\<lparr>ses_State := StateFailed, ses_Error := boundDetail (from_Detail res),
                          ses_UpdatedAt := w_now w, ses_LastEventAt := w_now w\<rparr>))
      else worldRow w ws sid)"
  by (cases answer)
    (auto simp: settleCreate_def failCreate_def transitionQuiet_def memHost_def onStore_def worldRow_def
      memSessions_Transition_def noOpts_def Let_def split: option.splits)

end
