(* ===== verification/CapacityProps.thy ===== *)
theory CapacityProps
  imports SchedProps
begin

text \<open>
  The placement pass and the capacity of the runners: the slots a runner has left, what a
  transition makes of them, and that a pass over a pool never takes a slot that is not free.
\<close>

section \<open>Slots\<close>

definition takesSlot :: "Runner \<Rightarrow> Session \<Rightarrow> bool" where
  "takesSlot r s \<longleftrightarrow> ses_PoolID s = run_PoolID r \<and> ses_RunnerID s = run_ID r
     \<and> ses_State s \<in> set [StateCreating, StateResuming]"

definition slotsOf :: "memStore \<Rightarrow> Runner \<Rightarrow> int" where
  "slotsOf m r = AvailableRunnerSlots r (rows_where (\<lambda>k. takesSlot r) (ms_sessions m))"

lemma reserved_upd:
  assumes "distinct (map fst al)" and "map_of al k = Some old"
  shows "reservedSlots r (rows_where P (upd k v al)) + (if P k old then reservedSlots r [old] else 0)
    = reservedSlots r (rows_where P al) + (if P k v then reservedSlots r [v] else 0)"
  using assms
proof (induction al)
  case (Cons kv al)
  obtain k' x where [simp]: "kv = (k', x)" by (cases kv)
  show ?case
  proof (cases "k' = k")
    case True
    with Cons.prems show ?thesis by simp
  next
    case False
    with Cons.prems Cons.IH show ?thesis by simp
  qed
qed simp

lemma slotsOf_put:
  assumes "store_inv m" and "sessionAt m ws sid = Some old"
  shows "slotsOf (putSession m ws sid new) r + (if takesSlot r new then reservedSlots r [new] else 0)
    = slotsOf m r + (if takesSlot r old then reservedSlots r [old] else 0)"
proof -
  have "distinct (map fst (ms_sessions m))" using inv_sessions [OF assms(1)] by (simp add: table_ok_def)
  from reserved_upd [OF this assms(2), of r "\<lambda>k. takesSlot r" new] show ?thesis
    by (simp add: slotsOf_def AvailableRunnerSlots_def)
qed

text \<open>No runner is left with fewer slots than none, unless it already was; the runners stay as they
  are and the sessions stay in their pools.\<close>

definition keepsRoom :: "world \<Rightarrow> world \<Rightarrow> bool" where
  "keepsRoom w w' \<longleftrightarrow> (store_inv (w_store w) \<longrightarrow> store_inv (w_store w')
     \<and> (\<forall>pool rid r. runnerAt (w_store w) pool rid = Some r \<longrightarrow> runnerAt (w_store w') pool rid = Some r
          \<and> min 0 (slotsOf (w_store w) r) \<le> slotsOf (w_store w') r)
     \<and> (\<forall>ws sid row. worldRow w ws sid = Some row \<longrightarrow>
          (\<exists>row'. worldRow w' ws sid = Some row' \<and> ses_PoolID row' = ses_PoolID row)))"

lemma keepsRoom_refl: "keepsRoom w w"
  by (simp add: keepsRoom_def)

lemma keepsRoom_trans: "keepsRoom a b \<Longrightarrow> keepsRoom b c \<Longrightarrow> keepsRoom a c"
  unfolding keepsRoom_def by (elim impCE) (simp_all, fastforce)

lemma keepsRoom_same:
  "ms_sessions (w_store w') = ms_sessions (w_store w) \<Longrightarrow> ms_runners (w_store w') = ms_runners (w_store w)
   \<Longrightarrow> (store_inv (w_store w) \<Longrightarrow> store_inv (w_store w')) \<Longrightarrow> keepsRoom w w'"
  by (auto simp: keepsRoom_def slotsOf_def worldRow_def)

section \<open>Transitions\<close>

text \<open>A transition takes at most one slot, on the runner it leaves the row on, and only for a row that
  holds none.\<close>

lemma transition_room:
  assumes "h_Transition (memHost out) w ws sid from to opts = (w', e)"
    and free: "\<And>row row' r. store_inv (w_store w) \<Longrightarrow> worldRow w ws sid = Some row \<Longrightarrow> expects from opts row \<Longrightarrow>
      transitioned to opts row row' \<Longrightarrow> takesSlot r row' \<Longrightarrow>
      runnerAt (w_store w) (run_PoolID r) (run_ID r) = Some r \<Longrightarrow> 0 < slotsOf (w_store w) r"
  shows "keepsRoom w w'"
proof (cases "store_inv (w_store w) \<and> e = None")
  case False
  show ?thesis
  proof (cases e)
    case (Some x)
    with mem.refuses [OF assms(1) [unfolded Some]] show ?thesis by (simp add: keepsRoom_refl)
  next
    case None
    with False show ?thesis by (simp add: keepsRoom_def)
  qed
next
  case True
  then have t: "memSessions_Transition (w_store w) (w_now w) ws sid from to opts = (w_store w', None)"
    and inv: "store_inv (w_store w)"
    using assms(1) by (auto simp: memHost_def onStore_eq)
  from Transition_moves [OF t] obtain row row' where put: "w_store w' = putSession (w_store w) ws sid row'"
    and row: "sessionAt (w_store w) ws sid = Some row" "expects from opts row" "transitioned to opts row row'" by blast
  have "store_inv (w_store w')"
    using port_op_admissible [of "OpTransition ws sid from to opts" "w_store w" "w_now w"] inv t by simp
  moreover have "min 0 (slotsOf (w_store w) r) \<le> slotsOf (w_store w') r"
    if r: "runnerAt (w_store w) pool rid = Some r" for pool rid r
  proof -
    have "runnerAt (w_store w) (run_PoolID r) (run_ID r) = Some r" using inv_runner_row [OF inv r] r by simp
    then have "takesSlot r row' \<Longrightarrow> 0 < slotsOf (w_store w) r"
      using free [OF inv _ row(2,3)] row(1) by (simp add: worldRow_def)
    moreover have "0 \<le> reservedSlots r [row]" "reservedSlots r [row'] \<le> 1"
      using reservedSlots_bounds [of r "[row]"] reservedSlots_bounds [of r "[row']"] by simp_all
    ultimately show ?thesis
      using slotsOf_put [OF inv row(1), of row' r] put by (auto split: if_splits)
  qed
  ultimately show ?thesis using inv put row by (auto simp: keepsRoom_def worldRow_def transitioned_def)
qed

lemma lifecycle_room: "keepsRoom w (fst (recordLifecycleEvent (memHost out) w event row eid))"
proof (rule keepsRoom_same)
  let ?ev = "lifecycleEvent event row eid (w_now w)"
  have "w_store (fst (recordLifecycleEvent (memHost out) w event row eid)) = fst (memStore_Record (w_store w) ?ev)"
    by (simp add: recordLifecycleEvent_def Let_def memHost_def case_prod_beta)
  then show "ms_sessions (w_store (fst (recordLifecycleEvent (memHost out) w event row eid))) = ms_sessions (w_store w)"
    "ms_runners (w_store (fst (recordLifecycleEvent (memHost out) w event row eid))) = ms_runners (w_store w)"
    "store_inv (w_store w) \<Longrightarrow> store_inv (w_store (fst (recordLifecycleEvent (memHost out) w event row eid)))"
    using port_op_admissible [of "OpRecord ?ev" "w_store w" "w_now w"]
    by (simp_all add: memStore_Record_def split: if_splits)
qed

lemma event_id_room: "h_NewEventID (memHost out) w = (w1, eid) \<Longrightarrow> keepsRoom w w1"
  by (rule keepsRoom_same) (auto simp: memHost_def draw_def split: list.splits)

lemma clock_room: "h_Now (memHost out) w = (w1, t) \<Longrightarrow> keepsRoom w w1"
  by (rule keepsRoom_same) (auto simp: memHost_def)

lemma resumeUnit_room:
  assumes "target = StateRunning \<or> target = StateSuspendedCold"
  shows "keepsRoom w (fst (resumeUnit (memHost out) w host row target))"
proof -
  let ?opts = "noOpts\<lparr>opt_ExpectedPlacementGeneration := Some (ses_PlacementGeneration row)\<rparr>"
  obtain w1 e where t: "h_Transition (memHost out) w (ses_WorkspaceID row) (ses_ID row) [StateResuming] target ?opts = (w1, e)"
    by fastforce
  obtain w2 eid where n: "h_NewEventID (memHost out) w1 = (w2, eid)" by fastforce
  have "keepsRoom w w1"
    by (rule transition_room [OF t]) (use assms in \<open>auto simp: transitioned_def takesSlot_def\<close>)
  with event_id_room [OF n] show ?thesis
    by (auto simp: resumeUnit_def t n Let_def split: option.split
        intro: keepsRoom_trans [OF _ lifecycle_room] keepsRoom_trans)
qed

section \<open>The placement pass\<close>

lemma settleAnswer_room: "keepsRoom w (settleAnswer (memHost out) w host row answer)"
  unfolding settleAnswer_def Let_def
  using resumeUnit_room by (auto split: sum.splits simp: keepsRoom_refl)

lemma dispatch_room:
  assumes "outside_keeps out keepsRoom" and "h_Dispatch (memHost out) w pool rid msg = (w1, r)"
  shows "keepsRoom w w1"
proof -
  have "keepsRoom w (w\<lparr>w_sent := w_sent w @ [(pool, rid, msg)]\<rparr>)" by (rule keepsRoom_same) simp_all
  moreover have "keepsRoom (w\<lparr>w_sent := w_sent w @ [(pool, rid, msg)]\<rparr>) w1"
    using assms by (auto simp: outside_keeps_def memHost_def) (metis fst_conv)
  ultimately show ?thesis by (rule keepsRoom_trans)
qed

lemma settleResumes_room:
  assumes "outside_keeps out keepsRoom"
  shows "keepsRoom w (fst (settleResumes (memHost out) pool host w remaining rows))"
proof (induction rows arbitrary: w remaining)
  case (Cons row rows)
  obtain w1 young where y: "resumeYoung (memHost out) w row = (w1, young)" by fastforce
  then have "keepsRoom w w1"
    by (auto simp: resumeYoung_def keepsRoom_refl split: if_splits prod.splits dest: clock_room)
  moreover obtain w2 answer where d: "h_Dispatch (memHost out) w1 pool host
      ((command ''resume_status'' (ses_ID row))\<lparr>to_PlacementGeneration := ses_PlacementGeneration row\<rparr>) = (w2, answer)"
    by fastforce
  moreover have "keepsRoom w1 (settleAnswer (memHost out) w2 host row answer)"
    by (rule keepsRoom_trans [OF dispatch_room [OF assms d] settleAnswer_room])
  ultimately have "keepsRoom w w1" "keepsRoom w (settleAnswer (memHost out) w2 host row answer)"
    by (auto intro: keepsRoom_trans)
  with Cons show ?case by (auto simp: y d intro: keepsRoom_trans)
qed (simp add: keepsRoom_refl)

lemma reconcileResumes_room:
  assumes "outside_keeps out keepsRoom"
  shows "keepsRoom w (reconcileResumes (memHost out) w pool)"
proof -
  have "keepsRoom w (reconcileHosts (memHost out) pool w remaining hosts)" for hosts remaining
  proof (induction hosts arbitrary: w remaining)
    case (Cons host hosts)
    show ?case
    proof (cases "h_SessionsOnRunner (memHost out) w pool (run_ID host) [StateResuming]")
      case (Inr rows)
      obtain w1 left where "settleResumes (memHost out) pool (run_ID host) w remaining rows = (w1, left)" by fastforce
      with settleResumes_room [OF assms, of w pool "run_ID host" remaining rows] Cons Inr show ?thesis
        by (auto split: option.split intro: keepsRoom_trans)
    qed (simp add: Cons keepsRoom_refl)
  qed (simp add: keepsRoom_refl)
  then show ?thesis by (simp add: reconcileResumes_def keepsRoom_refl split: sum.split)
qed

text \<open>What the capacity read at the start of a row's placement shows.\<close>

lemma freeCapacity_slots:
  assumes "store_inv (w_store w)" and "freeCapacity (memHost out) w pool = Inr views" and "v \<in> set views"
  shows "\<exists>r. runnerAt (w_store w) pool (rv_id v) = Some r \<and> rv_free v = slotsOf (w_store w) r"
proof -
  obtain runners where list: "memFleet_ListRunners (w_store w) pool = Inr runners"
    and views: "runnerViews (memHost out) w pool runners = Inr views"
    using assms(2) by (auto simp: freeCapacity_def memHost_def split: sum.splits)
  have "\<exists>r\<in>set rs. rv_id v = run_ID r \<and> rv_free v = AvailableRunnerSlots r (rows_where (\<lambda>k s. ses_PoolID s = pool
      \<and> ses_RunnerID s = run_ID r \<and> ses_State s \<in> set [StateCreating, StateResuming]) (ms_sessions (w_store w)))"
    if "runnerViews (memHost out) w pool rs = Inr vs" "v \<in> set vs" for rs vs
    using that
    by (induction rs arbitrary: vs)
      (fastforce simp: memHost_def memFleet_SessionsOnRunner_def split: if_splits sum.splits)+
  from this [OF views assms(3)] obtain r where r: "r \<in> set runners" "rv_id v = run_ID r"
    and free: "rv_free v = AvailableRunnerSlots r (rows_where (\<lambda>k s. ses_PoolID s = pool
      \<and> ses_RunnerID s = run_ID r \<and> ses_State s \<in> set [StateCreating, StateResuming]) (ms_sessions (w_store w)))"
    by blast
  from r(1) list have "findRunner (run_ID r) runners \<noteq> None" by (auto simp: findRunner_def find_None_iff)
  then obtain r' where r': "runnerAt (w_store w) pool (run_ID r) = Some r'" "findRunner (run_ID r) runners = Some r'"
    using findRunner_stored [OF assms(1) list, of "run_ID r"] by auto
  have "runnerAt (w_store w) pool (run_ID r) = Some r"
  proof -
    have "distinct (map fst (ms_runners (w_store w)))" using inv_runners [OF assms(1)] by (simp add: table_ok_def)
    from set_rows_where [OF this, of "\<lambda>k r. fst k = pool"] list r(1)
    obtain rid where "runnerAt (w_store w) pool rid = Some r"
      by (auto simp: memFleet_ListRunners_def split: if_splits)
    with inv_runner_row [OF assms(1) this] show ?thesis by simp
  qed
  with inv_runner_row [OF assms(1) this] r(2) free show ?thesis
    by (auto simp: slotsOf_def takesSlot_def [abs_def])
qed

lemma placeQueued_free:
  assumes "placeQueued h s row env views = Some (rid, img)"
  shows "\<exists>v\<in>set views. rv_id v = rid \<and> 0 < rv_free v"
proof -
  from assms obtain vs where "pickRunner vs = Some rid" "set vs \<subseteq> set (candidatesFor views env)"
    by (auto simp: placeQueued_def Let_def admittedBy_def split: option.splits if_splits sum.splits)
  with pickRunner_Some [of vs rid] show ?thesis
    by (auto simp: bestRunner_def set_candidatesFor)
qed

lemma placeRow_room:
  assumes "freeCapacity (memHost out) w pool = Inr views"
    and "\<And>cur. worldRow w (ses_WorkspaceID row) (ses_ID row) = Some cur \<Longrightarrow> ses_PoolID cur = pool"
  shows "keepsRoom w (fst (placeRow (memHost out) w pool views env row))"
proof (cases "placeQueued (memHost out) w row env views")
  case (Some choice)
  then obtain rid img where place: "placeQueued (memHost out) w row env views = Some (rid, img)" by (cases choice) auto
  obtain w1 e where t: "h_Transition (memHost out) w (ses_WorkspaceID row) (ses_ID row) [StateQueued] StateCreating
      (placementOpts rid img) = (w1, e)" by fastforce
  have "keepsRoom w w1"
  proof (rule transition_room [OF t])
    fix cur cur' r
    assume inv: "store_inv (w_store w)" and cur: "worldRow w (ses_WorkspaceID row) (ses_ID row) = Some cur"
      and moved: "transitioned StateCreating (placementOpts rid img) cur cur'" "takesSlot r cur'"
      and r: "runnerAt (w_store w) (run_PoolID r) (run_ID r) = Some r"
    from placeQueued_free [OF place] obtain v where v: "v \<in> set views" "rv_id v = rid" "0 < rv_free v" by blast
    from freeCapacity_slots [OF inv assms(1) v(1)] v obtain host
      where host: "runnerAt (w_store w) pool rid = Some host" "rv_free v = slotsOf (w_store w) host" by auto
    from moved assms(2) [OF cur] have "run_PoolID r = pool" "run_ID r = rid"
      by (auto simp: transitioned_def takesSlot_def placementOpts_def noOpts_def)
    with r host v show "0 < slotsOf (w_store w) r" by simp
  qed
  then show ?thesis by (simp add: placeRow_def place t split: option.split)
qed (simp add: placeRow_def keepsRoom_refl)

definition inPool :: "world \<Rightarrow> poolid \<Rightarrow> Session list \<Rightarrow> bool" where
  "inPool w pool rows \<longleftrightarrow> (\<forall>row\<in>set rows. \<exists>cur. worldRow w (ses_WorkspaceID row) (ses_ID row) = Some cur \<and> ses_PoolID cur = pool)"

lemma inPool_keeps: "store_inv (w_store w) \<Longrightarrow> keepsRoom w w' \<Longrightarrow> inPool w pool rows \<Longrightarrow> inPool w' pool rows"
  unfolding inPool_def keepsRoom_def by metis

lemma drainRows_room:
  assumes "outside_keeps out keepsRoom" and "store_inv (w_store w)" and "inPool w pool rows"
  shows "keepsRoom w (fst (drainRows (memHost out) pool cache w rows))"
  using assms(2,3)
proof (induction rows arbitrary: w cache)
  case (Cons row rows)
  let ?w0 = "h_Yield (memHost out) w"
  have y: "keepsRoom w ?w0" using assms(1) by (simp add: outside_keeps_def memHost_def)
  with Cons.prems have w0: "store_inv (w_store ?w0)" "inPool ?w0 pool (row # rows)"
    using inPool_keeps by (auto simp: keepsRoom_def)
  have rest: "keepsRoom w (fst (drainRows (memHost out) pool cache' w1 rows))" if "keepsRoom ?w0 w1" for w1 cache'
  proof -
    have "store_inv (w_store w1)" "inPool w1 pool rows"
      using that w0 inPool_keeps [OF w0(1) that, of pool rows] by (auto simp: keepsRoom_def inPool_def)
    from Cons.IH [OF this] that y show ?thesis by (blast intro: keepsRoom_trans)
  qed
  show ?case
  proof (cases "freeCapacity (memHost out) ?w0 pool")
    case (Inr views)
    have place: "keepsRoom ?w0 (fst (placeRow (memHost out) ?w0 pool views env row))" for env
      by (rule placeRow_room [OF Inr]) (use w0(2) in \<open>auto simp: inPool_def\<close>)
    show ?thesis
      using Inr rest [OF keepsRoom_refl] rest [OF place] keepsRoom_trans [OF y place] y
      by (auto simp: Let_def case_prod_beta split: sum.split option.split)
  qed (simp add: Let_def y)
qed (simp add: keepsRoom_refl)

lemma drainPool_room:
  assumes "outside_keeps out keepsRoom" and "store_inv (w_store w)"
  shows "keepsRoom w (fst (drainPool (memHost out) w pool))"
proof -
  let ?w1 = "reconcileResumes (memHost out) w pool"
  have w1: "keepsRoom w ?w1" by (rule reconcileResumes_room [OF assms(1)])
  with assms(2) have inv: "store_inv (w_store ?w1)" by (simp add: keepsRoom_def)
  show ?thesis
  proof (cases "h_OldestQueued (memHost out) ?w1 pool")
    case (Inr rows)
    have "distinct (map fst (ms_sessions (w_store ?w1)))" using inv_sessions [OF inv] by (simp add: table_ok_def)
    from set_rows_where [OF this, of "\<lambda>k s. ses_PoolID s = pool \<and> ses_State s = StateQueued"] Inr inv_session_row [OF inv]
    have "inPool ?w1 pool rows"
      by (fastforce simp: inPool_def memHost_def memFleet_OldestQueued_def worldRow_def split: if_splits)
    from keepsRoom_trans [OF w1 drainRows_room [OF assms(1) inv this]] Inr show ?thesis
      by (simp add: drainPool_def Let_def)
  qed (simp add: drainPool_def Let_def w1)
qed



end
