(* ===== verification/Paths.thy ===== *)
theory Paths
  imports Prelude "HOL-Library.Sublist"
begin

text \<open>
  Slash-separated paths: the parts of Go's \<^verbatim>\<open>path\<close>, \<^verbatim>\<open>path/filepath\<close> (on a Unix system, where the two
  agree and \<^verbatim>\<open>ToSlash\<close> is the identity) and \<^verbatim>\<open>strings.Split\<close> that the workspace protocol uses, and the
  path rules of \<^verbatim>\<open>src/protocol/workspace/path.go\<close>. Cleaning is given on the elements of a path; what
  a path names is given by a walk over them.
\<close>

section \<open>Elements\<close>

abbreviation slash :: char where
  "slash \<equiv> CHR ''/''"

fun splitSlash :: "string \<Rightarrow> string list" where
  "splitSlash [] = [[]]"
| "splitSlash (c # s) =
     (if c = slash then [] # splitSlash s
      else case splitSlash s of [] \<Rightarrow> [[c]] | e # es \<Rightarrow> (c # e) # es)"

fun joinSlash :: "string list \<Rightarrow> string" where
  "joinSlash [] = []"
| "joinSlash [e] = e"
| "joinSlash (e # es) = e @ slash # joinSlash es"

lemma splitSlash_nonempty [simp]: "splitSlash s \<noteq> []"
  by (induction s) (auto split: list.split)

lemma splitSlash_no_slash: "e \<in> set (splitSlash s) \<Longrightarrow> slash \<notin> set e"
proof (induction s arbitrary: e)
  case (Cons c s)
  then show ?case by (cases "splitSlash s") (auto split: if_splits)
qed simp

lemma joinSlash_Cons: "es \<noteq> [] \<Longrightarrow> joinSlash (e # es) = e @ slash # joinSlash es"
  by (cases es) simp_all

lemma joinSlash_splitSlash [simp]: "joinSlash (splitSlash s) = s"
proof (induction s)
  case (Cons c s)
  obtain e es where split: "splitSlash s = e # es" by (cases "splitSlash s") auto
  with Cons show ?case by (cases es) (auto simp: joinSlash_Cons)
qed simp

lemma splitSlash_append:
  "slash \<notin> set e \<Longrightarrow> splitSlash (e @ slash # s) = e # splitSlash s"
  by (induction e) auto

lemma splitSlash_element: "slash \<notin> set e \<Longrightarrow> splitSlash e = [e]"
  by (induction e) auto

lemma splitSlash_joinSlash:
  "es \<noteq> [] \<Longrightarrow> (\<And>e. e \<in> set es \<Longrightarrow> slash \<notin> set e) \<Longrightarrow> splitSlash (joinSlash es) = es"
proof (induction es)
  case (Cons e es)
  then show ?case by (cases es) (auto simp: splitSlash_element splitSlash_append)
qed simp

lemma splitSlash_concat: "splitSlash (a @ slash # b) = splitSlash a @ splitSlash b"
proof (induction a)
  case (Cons c a)
  then show ?case by (cases "splitSlash a") auto
qed simp

section \<open>Cleaning (path.Clean, path.Dir, path.Base, path.Join)\<close>

definition IsAbs :: "string \<Rightarrow> bool" where
  "IsAbs p \<longleftrightarrow> (case p of [] \<Rightarrow> False | c # _ \<Rightarrow> c = slash)"

text \<open>The elements kept so far, last first. An element \<^verbatim>\<open>..\<close> removes the one before it; at the root it is
  dropped, and at the start of a relative path it is kept.\<close>

fun cleanElems :: "bool \<Rightarrow> string list \<Rightarrow> string list \<Rightarrow> string list" where
  "cleanElems rooted kept [] = rev kept"
| "cleanElems rooted kept (e # es) =
     (if e = '''' \<or> e = ''.'' then cleanElems rooted kept es
      else if e = ''..''
      then (if kept \<noteq> [] \<and> hd kept \<noteq> ''..'' then cleanElems rooted (tl kept) es
            else if rooted then cleanElems rooted kept es
            else cleanElems rooted (''..'' # kept) es)
      else cleanElems rooted (e # kept) es)"

definition Clean :: "string \<Rightarrow> string" where
  "Clean p =
     (let es = cleanElems (IsAbs p) [] (splitSlash p)
      in if IsAbs p then slash # joinSlash es
         else if es = [] then ''.'' else joinSlash es)"

text \<open>The prefix of a path up to its last slash, cleaned.\<close>

definition Dir :: "string \<Rightarrow> string" where
  "Dir p = Clean (rev (dropWhile (\<lambda>c. c \<noteq> slash) (rev p)))"

definition Base :: "string \<Rightarrow> string" where
  "Base p =
     (if p = '''' then ''.''
      else
        let stripped = rev (dropWhile (\<lambda>c. c = slash) (rev p));
            name = rev (takeWhile (\<lambda>c. c \<noteq> slash) (rev stripped))
        in if name = '''' then [slash] else name)"

definition Join :: "string \<Rightarrow> string \<Rightarrow> string" where
  "Join a b =
     (if a = '''' then (if b = '''' then '''' else Clean b) else Clean (a @ slash # b))"

section \<open>Path rules (protocol/workspace/path.go)\<close>

definition WorkspaceRoot :: string where
  "WorkspaceRoot = ''/workspace''"

definition contains :: "string \<Rightarrow> string \<Rightarrow> bool" where
  "contains root p \<longleftrightarrow> p = root \<or> prefix (root @ [slash]) p"

definition noParentElements :: "string \<Rightarrow> bool" where
  "noParentElements p \<longleftrightarrow> list_all (\<lambda>e. e \<noteq> ''..'') (splitSlash p)"

text \<open>Accepts or refuses; the text of the error is left out.\<close>

definition ValidatePath :: "string \<Rightarrow> bool" where
  "ValidatePath p \<longleftrightarrow>
     (if p = '''' then False
      else if CHR 0x00 \<in> set p then False
      else if \<not> noParentElements p then False
      else if \<not> IsAbs p then True
      else Clean p = WorkspaceRoot \<or> prefix (WorkspaceRoot @ [slash]) (Clean p))"

text \<open>What \<^verbatim>\<open>filepath.EvalSymlinks\<close> answers for a name: the file system is outside this library.\<close>

datatype evaluated = Real string | NotExist | EvalFailed

text \<open>How long the elements are, each with the slash before it.\<close>

definition weight :: "string list \<Rightarrow> nat" where
  "weight es = sum_list (map (\<lambda>e. Suc (length e)) es)"

lemma weight_simps [simp]:
  "weight [] = 0" "weight (e # es) = Suc (length e) + weight es" "weight (es @ fs) = weight es + weight fs"
  "weight (rev es) = weight es"
  by (simp_all add: weight_def flip: rev_map)

lemma length_joinSlash: "es \<noteq> [] \<Longrightarrow> Suc (length (joinSlash es)) = weight es"
proof (induction es)
  case (Cons e es)
  then show ?case by (cases es) auto
qed simp

lemma weight_splitSlash: "weight (splitSlash s) = Suc (length s)"
  using length_joinSlash [of "splitSlash s"] by simp

lemma weight_cleanElems: "weight (cleanElems rooted kept es) \<le> weight kept + weight (filter (\<lambda>e. e \<noteq> '''') es)"
proof (induction rooted kept es rule: cleanElems.induct)
  case (2 rooted kept e es)
  have "weight (tl kept) \<le> weight kept" by (cases kept) auto
  with 2 show ?case by auto
qed simp

lemma splitSlash_snoc_slash: "splitSlash (s @ [slash]) = splitSlash s @ ['''']"
  using splitSlash_concat [of s "[]"] by simp

lemma weight_filter: "weight (filter P es) \<le> weight es"
  by (induction es) auto

lemma length_Clean_shorter:
  assumes "s \<noteq> ''''"
  shows "length (Clean (s @ [slash])) < length (s @ [slash])"
proof -
  let ?q = "s @ [slash]"
  let ?es = "cleanElems (IsAbs ?q) [] (splitSlash ?q)"
  have kept: "weight ?es \<le> weight (filter (\<lambda>e. e \<noteq> '''') (splitSlash s))"
    using weight_cleanElems [of "IsAbs ?q" "[]" "splitSlash ?q"] by (simp add: splitSlash_snoc_slash)
  have whole: "weight (filter (\<lambda>e. e \<noteq> '''') (splitSlash s)) \<le> Suc (length s)"
    using weight_filter [of "\<lambda>e. e \<noteq> ''''" "splitSlash s"] by (simp add: weight_splitSlash)
  show ?thesis
  proof (cases "IsAbs ?q")
    case True
    then obtain s' where s: "s = slash # s'" using assms by (cases s) (auto simp: IsAbs_def)
    then have "weight (filter (\<lambda>e. e \<noteq> '''') (splitSlash s)) \<le> Suc (length s')"
      using weight_filter [of "\<lambda>e. e \<noteq> ''''" "splitSlash s'"] by (simp add: weight_splitSlash)
    with kept s have "weight ?es \<le> length s" by simp
    with True s length_joinSlash [of ?es] show ?thesis by (cases "?es = []") (auto simp: Clean_def Let_def)
  next
    case False
    with kept whole length_joinSlash [of ?es] assms show ?thesis
      by (cases "?es = []") (auto simp: Clean_def Let_def Suc_le_eq)
  qed
qed

definition parentMeasure :: "string \<Rightarrow> nat" where
  "parentMeasure p = (if p = '''' then 3 else if p = ''.'' then 2 else 2 * length p + 1)"

lemma Clean_nonempty: "Clean p \<noteq> ''''"
proof -
  have "es \<noteq> [] \<Longrightarrow> (\<And>e. e \<in> set es \<Longrightarrow> e \<noteq> '''') \<Longrightarrow> joinSlash es \<noteq> ''''" for es
    by (cases es rule: joinSlash.cases) auto
  moreover have elems: "(\<And>e. e \<in> set kept \<Longrightarrow> e \<noteq> '''') \<Longrightarrow> e \<in> set (cleanElems r kept es) \<Longrightarrow> e \<noteq> ''''" for r kept es e
  proof (induction r kept es rule: cleanElems.induct)
    case (2 rooted kept x es)
    have "e \<in> set (tl kept) \<Longrightarrow> e \<in> set kept" for e by (cases kept) auto
    with 2 show ?case by (auto split: if_splits)
  qed simp
  moreover have "e \<in> set (cleanElems r [] es) \<Longrightarrow> e \<noteq> ''''" for r es e using elems [of "[]"] by simp
  ultimately show ?thesis unfolding Clean_def Let_def by (simp add: if_splits)
qed

lemma Dir_smaller: "Dir p \<noteq> p \<Longrightarrow> parentMeasure (Dir p) < parentMeasure p"
proof -
  assume moved: "Dir p \<noteq> p"
  let ?q = "rev (dropWhile (\<lambda>c. c \<noteq> slash) (rev p))"
  obtain r where p: "p = ?q @ r"
    by (metis rev_append rev_rev_ident takeWhile_dropWhile_id)
  show ?thesis
  proof (cases "?q = ''''")
    case True
    have "Dir p = ''.''" unfolding Dir_def True by (simp add: Clean_def IsAbs_def)
    with moved show ?thesis by (cases p) (auto simp: parentMeasure_def)
  next
    case False
    then have "dropWhile (\<lambda>c. c \<noteq> slash) (rev p) \<noteq> []" by simp
    then obtain d ds where d: "dropWhile (\<lambda>c. c \<noteq> slash) (rev p) = d # ds"
      by (cases "dropWhile (\<lambda>c. c \<noteq> slash) (rev p)") simp
    with hd_dropWhile [of "\<lambda>c. c \<noteq> slash" "rev p"] have "d = slash" by simp
    with d obtain s where q: "?q = s @ [slash]" by simp
    show ?thesis
    proof (cases "s = ''''")
      case True
      have "Dir p = [slash]" unfolding Dir_def q True by (simp add: Clean_def IsAbs_def)
      with moved p q True show ?thesis by (cases r) (auto simp: parentMeasure_def)
    next
      case False
      have "length (Dir p) < length (s @ [slash])"
        unfolding Dir_def q by (rule length_Clean_shorter [OF False])
      also have "\<dots> \<le> length p" using p q by (metis length_append le_add1)
      finally have "length (Dir p) < length p" .
      moreover have "p = s @ slash # r" using p unfolding q by simp
      then have "slash \<in> set p" by simp
      then have "p \<noteq> ''.''" "p \<noteq> ''''" by auto
      moreover have "Dir p \<noteq> ''''" by (simp add: Dir_def Clean_nonempty)
      ultimately show ?thesis by (cases p) (auto simp: parentMeasure_def)
    qed
  qed
qed

text \<open>The loop of \<^verbatim>\<open>containsResolved\<close>: from a name to its nearest ancestor that can be resolved.\<close>

function containsFrom :: "(string \<Rightarrow> evaluated) \<Rightarrow> string \<Rightarrow> string \<Rightarrow> bool" where
  "containsFrom evalLinks realRoot probe =
     (case evalLinks probe of
        Real real \<Rightarrow> contains realRoot real
      | EvalFailed \<Rightarrow> False
      | NotExist \<Rightarrow> if Dir probe = probe then False else containsFrom evalLinks realRoot (Dir probe))"
  by pat_completeness auto
termination
  by (relation "measure (\<lambda>(ev, root, p). parentMeasure p)") (auto intro: Dir_smaller)

declare containsFrom.simps [simp del]

definition containsResolved :: "(string \<Rightarrow> evaluated) \<Rightarrow> string \<Rightarrow> string \<Rightarrow> bool" where
  "containsResolved evalLinks root p =
     (case evalLinks root of Real realRoot \<Rightarrow> containsFrom evalLinks realRoot p | _ \<Rightarrow> True)"

text \<open>\<open>None\<close> refuses the path.\<close>

definition Resolve :: "(string \<Rightarrow> evaluated) \<Rightarrow> string \<Rightarrow> string \<Rightarrow> string option" where
  "Resolve evalLinks root p =
     (if p = '''' then None
      else if CHR 0x00 \<in> set p then None
      else if \<not> noParentElements p then None
      else
        let root' = Clean root;
            abs = Clean (if IsAbs p then p else Join root' p)
        in if \<not> contains root' abs then None
           else if \<not> containsResolved evalLinks root' abs then None
           else Some abs)"

section \<open>What a path names\<close>

text \<open>The position a walk over elements reaches, last name first: \<^verbatim>\<open>..\<close> goes up, and nowhere from the
  root. Without symbolic links this is how the kernel reads a path.\<close>

fun step :: "string list \<Rightarrow> string \<Rightarrow> string list" where
  "step pos e = (if e = '''' \<or> e = ''.'' then pos else if e = ''..'' then tl pos else e # pos)"

definition walk :: "string list \<Rightarrow> string list \<Rightarrow> string list" where
  "walk pos es = foldl step pos es"

definition position :: "string \<Rightarrow> string list" where
  "position p = walk [] (splitSlash p)"

text \<open>A walk that never goes above the directory it is \<open>d\<close> levels below.\<close>

fun stays :: "nat \<Rightarrow> string list \<Rightarrow> bool" where
  "stays d [] = True"
| "stays d (e # es) =
     (if e = '''' \<or> e = ''.'' then stays d es
      else if e = ''..'' then 0 < d \<and> stays (d - 1) es
      else stays (Suc d) es)"

definition plain :: "string \<Rightarrow> bool" where
  "plain e \<longleftrightarrow> e \<noteq> '''' \<and> e \<noteq> ''.'' \<and> e \<noteq> ''..'' \<and> slash \<notin> set e"

lemma plainI: "e \<noteq> '''' \<Longrightarrow> e \<noteq> ''.'' \<Longrightarrow> e \<noteq> ''..'' \<Longrightarrow> slash \<notin> set e \<Longrightarrow> plain e"
  by (simp add: plain_def)

lemma plain_dots [simp]: "\<not> plain ''..''" "\<not> plain ''.''" "\<not> plain ''''"
  by (simp_all add: plain_def)

lemma plain_neq [simp]: "plain e \<Longrightarrow> e \<noteq> ''..''"
  by auto

lemma walk_simps [simp]:
  "walk pos [] = pos" "walk pos (e # es) = walk (step pos e) es" "walk pos (es @ fs) = walk (walk pos es) fs"
  by (simp_all add: walk_def)

lemma walk_plain: "list_all plain es \<Longrightarrow> walk pos es = rev es @ pos"
  by (induction es arbitrary: pos) (auto simp: plain_def)

text \<open>A rooted path is cleaned to the names of its position, and a cleaned name is never empty, a dot
  or two.\<close>

lemma cleanElems_rooted:
  "list_all plain kept \<Longrightarrow> (\<And>e. e \<in> set es \<Longrightarrow> slash \<notin> set e) \<Longrightarrow>
   cleanElems True kept es = rev (walk kept es) \<and> list_all plain (cleanElems True kept es)"
proof (induction es arbitrary: kept)
  case (Cons e es)
  show ?case
  proof (cases "e = ''..''")
    case True
    with Cons.prems Cons.IH [of "tl kept"] show ?thesis by (cases kept) auto
  next
    case False
    with Cons.prems Cons.IH [of kept] Cons.IH [of "e # kept"] show ?thesis by (auto simp: plainI)
  qed
qed (simp add: list_all_rev)

text \<open>A relative path is cleaned to the names of a walk that stays, and to one that starts with two
  dots otherwise.\<close>

lemma cleanElems_up: "cleanElems False (ns @ replicate (Suc n) ''..'') es \<noteq> [] \<and>
    hd (cleanElems False (ns @ replicate (Suc n) ''..'') es) = ''..''"
proof (induction es arbitrary: ns n)
  case Nil
  show ?case by (cases n) (auto simp: hd_append)
next
  case (Cons e es)
  show ?case
  proof (cases "e = ''..''")
    case True
    show ?thesis
    proof (cases ns)
      case Nil
      with True Cons.IH [of "[]" "Suc n"] show ?thesis by simp
    next
      case (Cons m ms)
      with True Cons.IH [of ms n] Cons.IH [of "''..'' # m # ms" n] show ?thesis by (cases "m = ''..''") simp_all
    qed
  next
    case False
    with Cons.IH [of ns n] Cons.IH [of "e # ns" n] show ?thesis by simp
  qed
qed

lemma cleanElems_relative:
  "list_all plain kept \<Longrightarrow> (\<And>e. e \<in> set es \<Longrightarrow> slash \<notin> set e) \<Longrightarrow>
   (if stays (length kept) es
    then cleanElems False kept es = rev (walk kept es) \<and> list_all plain (cleanElems False kept es)
    else cleanElems False kept es \<noteq> [] \<and> hd (cleanElems False kept es) = ''..'')"
proof (induction es arbitrary: kept)
  case (Cons e es)
  show ?case
  proof (cases "e = ''..''")
    case True
    show ?thesis
    proof (cases kept)
      case Nil
      with True cleanElems_up [of "[]" 0 es] show ?thesis by simp
    next
      case (Cons k ks)
      with True Cons.prems Cons.IH [of ks] show ?thesis by auto
    qed
  next
    case False
    with Cons.prems Cons.IH [of kept] Cons.IH [of "e # kept"] show ?thesis by (auto simp: plainI split: if_splits)
  qed
qed (simp add: list_all_rev)

end
