(* ===== verification/Archive.thy ===== *)
theory Archive
  imports Paths
begin

text \<open>
  Reading a workspace archive (\<^verbatim>\<open>src/protocol/workspace/archive.go\<close>): the two passes of \<^verbatim>\<open>UntarGz\<close> over
  an untrusted archive. The tar and gzip readers and the operating system are outside: an archive is
  the sequence of headers its reader yields, with the error it ends in where it does not reach
  the end, and a file-system call is an operation handed to the host.
\<close>

section \<open>Archives and file-system calls\<close>

datatype typeflag = TypeDir | TypeReg | TypeSymlink | TypeOther

record tarHeader =
  hdr_Name :: string
  hdr_Typeflag :: typeflag
  hdr_Linkname :: string
  hdr_Size :: int
  hdr_Mode :: nat

record tarArchive =
  arc_Headers :: "tarHeader list"
  arc_Broken :: bool

datatype archiveError =
    Escapes | LinkEmpty | LinkAbsolute | LinkEscapes | NotOrdinary | ErrTooLarge | ReadFailed | HostFailed

text \<open>The calls of the extracting pass; \<open>WriteFile\<close> is \<^verbatim>\<open>writeFile\<close> after its directory was made.\<close>

datatype fsCall =
    MkdirAll string nat
  | WriteFile string nat int
  | RemoveAll string
  | Symlink string string

fun callPath :: "fsCall \<Rightarrow> string" where
  "callPath (MkdirAll p _) = p"
| "callPath (WriteFile p _ _) = p"
| "callPath (RemoveAll p) = p"
| "callPath (Symlink _ p) = p"

section \<open>Entries\<close>

text \<open>\<open>Inr None\<close> is the destination itself.\<close>

definition entryPath :: "string \<Rightarrow> string \<Rightarrow> archiveError + string option" where
  "entryPath dest name =
     (let clean = Clean name
      in if clean = ''.'' \<or> clean = ''/'' then Inr None
         else if IsAbs clean \<or> clean = ''..'' \<or> prefix ''../'' clean then Inl Escapes
         else
           let target = Join dest clean
           in if \<not> contains (Clean dest) target then Inl Escapes else Inr (Some target))"

definition checkLink :: "string \<Rightarrow> string \<Rightarrow> archiveError option" where
  "checkLink name link =
     (if link = '''' then Some LinkEmpty
      else if IsAbs link then Some LinkAbsolute
      else
        let resolved = Join (Dir (Clean name)) link
        in if resolved = ''..'' \<or> prefix ''../'' resolved then Some LinkEscapes else None)"

definition entryMode :: "tarHeader \<Rightarrow> nat \<Rightarrow> nat" where
  "entryMode hdr deflt = (let mode = hdr_Mode hdr mod 512 in if mode = 0 then deflt else mode)"

section \<open>The validating pass\<close>

text \<open>The running total is an \<^verbatim>\<open>int64\<close>, whose addition wraps.\<close>

definition int64 :: "int \<Rightarrow> int" where
  "int64 x = (x + 2 ^ 63) mod 2 ^ 64 - 2 ^ 63"

lemma int64_id: "- (2 ^ 63) \<le> x \<Longrightarrow> x < 2 ^ 63 \<Longrightarrow> int64 x = x"
  by (simp add: int64_def mod_pos_pos_trivial)

fun scanEntries :: "string \<Rightarrow> int \<Rightarrow> bool \<Rightarrow> int \<Rightarrow> tarHeader list \<Rightarrow> archiveError option" where
  "scanEntries dest limit broken sofar [] = (if broken then Some ReadFailed else None)"
| "scanEntries dest limit broken sofar (hdr # hdrs) =
     (case entryPath dest (hdr_Name hdr) of
        Inl e \<Rightarrow> Some e
      | Inr _ \<Rightarrow>
        (if hdr_Typeflag hdr = TypeDir \<or> hdr_Typeflag hdr = TypeReg
         then
           let sum = int64 (sofar + hdr_Size hdr)
           in if limit > 0 \<and> sum > limit then Some ErrTooLarge
              else scanEntries dest limit broken sum hdrs
         else if hdr_Typeflag hdr = TypeSymlink
         then (case checkLink (hdr_Name hdr) (hdr_Linkname hdr) of
                 Some e \<Rightarrow> Some e
               | None \<Rightarrow> scanEntries dest limit broken sofar hdrs)
         else Some NotOrdinary))"

definition scanArchive :: "tarArchive \<Rightarrow> string \<Rightarrow> int \<Rightarrow> archiveError option" where
  "scanArchive archive dest limit = scanEntries dest limit (arc_Broken archive) 0 (arc_Headers archive)"

section \<open>The writing pass\<close>

text \<open>A call to the host, which may fail; then the rest.\<close>

definition call ::
    "('s \<Rightarrow> fsCall \<Rightarrow> 's \<times> bool) \<Rightarrow> 's \<Rightarrow> fsCall \<Rightarrow> ('s \<Rightarrow> 's \<times> archiveError option) \<Rightarrow> 's \<times> archiveError option" where
  "call os s c rest = (case os s c of (s1, True) \<Rightarrow> rest s1 | (s1, False) \<Rightarrow> (s1, Some HostFailed))"

fun extractEntries ::
    "('s \<Rightarrow> fsCall \<Rightarrow> 's \<times> bool) \<Rightarrow> string \<Rightarrow> bool \<Rightarrow> 's \<Rightarrow> tarHeader list \<Rightarrow> 's \<times> archiveError option" where
  "extractEntries os dest broken s [] = (s, if broken then Some ReadFailed else None)"
| "extractEntries os dest broken s (hdr # hdrs) =
     (case entryPath dest (hdr_Name hdr) of
        Inl e \<Rightarrow> (s, Some e)
      | Inr None \<Rightarrow> extractEntries os dest broken s hdrs
      | Inr (Some target) \<Rightarrow>
        (case hdr_Typeflag hdr of
           TypeDir \<Rightarrow>
             call os s (MkdirAll target (or (entryMode hdr 493) 448)) (\<lambda>s1. extractEntries os dest broken s1 hdrs)
         | TypeReg \<Rightarrow>
             call os s (MkdirAll (Dir target) 493) (\<lambda>s1.
             call os s1 (WriteFile target (entryMode hdr 420) (hdr_Size hdr)) (\<lambda>s2.
             extractEntries os dest broken s2 hdrs))
         | TypeSymlink \<Rightarrow>
             (case checkLink (hdr_Name hdr) (hdr_Linkname hdr) of
                Some e \<Rightarrow> (s, Some e)
              | None \<Rightarrow>
                call os s (RemoveAll target) (\<lambda>s1.
                call os s1 (MkdirAll (Dir target) 493) (\<lambda>s2.
                call os s2 (Symlink (hdr_Linkname hdr) target) (\<lambda>s3.
                extractEntries os dest broken s3 hdrs))))
         | TypeOther \<Rightarrow> (s, Some NotOrdinary)))"

definition extractArchive ::
    "('s \<Rightarrow> fsCall \<Rightarrow> 's \<times> bool) \<Rightarrow> 's \<Rightarrow> tarArchive \<Rightarrow> string \<Rightarrow> 's \<times> archiveError option" where
  "extractArchive os s archive dest =
     call os s (MkdirAll dest 493) (\<lambda>s1. extractEntries os dest (arc_Broken archive) s1 (arc_Headers archive))"

definition UntarGz ::
    "('s \<Rightarrow> fsCall \<Rightarrow> 's \<times> bool) \<Rightarrow> 's \<Rightarrow> tarArchive \<Rightarrow> string \<Rightarrow> int \<Rightarrow> 's \<times> archiveError option" where
  "UntarGz os s archive dest limit =
     (case scanArchive archive dest limit of
        Some e \<Rightarrow> (s, Some e) | None \<Rightarrow> extractArchive os s archive dest)"

end
