(* ===== verification/ArchiveProps.thy ===== *)
theory ArchiveProps
  imports Archive
begin

text \<open>
  Theorems about transfer paths and archives: a resolved path stays under its root, with symbolic
  links followed; an accepted archive writes under its destination only, and plants no link that
  leads out of it.
\<close>

section \<open>Cleaned paths\<close>

lemma split_slashless: "e \<in> set (splitSlash p) \<longrightarrow> slash \<notin> set e"
  using splitSlash_no_slash by blast

lemma clean_rooted: "cleanElems True [] (splitSlash p) = rev (position p)"
  and position_plain: "list_all plain (position p)"
proof -
  have "cleanElems True [] (splitSlash p) = rev (walk [] (splitSlash p))
      \<and> list_all plain (cleanElems True [] (splitSlash p))"
    by (rule cleanElems_rooted) (simp_all add: split_slashless)
  then show "cleanElems True [] (splitSlash p) = rev (position p)" "list_all plain (position p)"
    by (auto simp: position_def list_all_rev)
qed

lemma Clean_absolute: "IsAbs p \<Longrightarrow> Clean p = slash # joinSlash (rev (position p))"
  by (simp add: Clean_def Let_def clean_rooted)

lemma plain_slashless: "list_all plain ns \<Longrightarrow> e \<in> set ns \<Longrightarrow> slash \<notin> set e"
  by (auto simp: list_all_iff plain_def)

lemma position_rooted: "list_all plain ns \<Longrightarrow> position (slash # joinSlash ns) = rev ns"
proof (cases "ns = []")
  case False
  assume plain: "list_all plain ns"
  have "splitSlash (slash # joinSlash ns) = '''' # ns"
    using splitSlash_joinSlash [OF False] plain_slashless [OF plain] by simp
  then show ?thesis using plain by (simp add: position_def walk_plain)
qed (simp add: position_def)

lemma position_Clean: "IsAbs p \<Longrightarrow> position (Clean p) = position p"
  using position_rooted [of "rev (position p)"] position_plain [of p] by (simp add: Clean_absolute list_all_rev)

lemma IsAbs_Clean [simp]: "IsAbs p \<Longrightarrow> IsAbs (Clean p)"
  by (simp add: Clean_absolute) (simp add: IsAbs_def)

text \<open>A relative path is cleaned to its names, or to something that starts with two dots.\<close>

lemma dots_prefix:
  assumes "list_all (\<lambda>e. slash \<notin> set e) es" and "es \<noteq> []"
  shows "joinSlash es = ''..'' \<or> prefix ''../'' (joinSlash es) \<longleftrightarrow> hd es = ''..''"
proof -
  obtain e fs where es: "es = e # fs" using assms(2) by (cases es) auto
  have split: "splitSlash (joinSlash es) = es"
    using assms by (intro splitSlash_joinSlash) (auto simp: list_all_iff)
  show ?thesis
  proof
    assume "joinSlash es = ''..'' \<or> prefix ''../'' (joinSlash es)"
    then show "hd es = ''..''"
    proof
      assume "joinSlash es = ''..''"
      with split show ?thesis by auto
    next
      assume "prefix ''../'' (joinSlash es)"
      then obtain z where "joinSlash es = ''..'' @ slash # z" by (auto simp: prefix_def)
      with split splitSlash_append [of "''..''" z] show ?thesis by auto
    qed
  next
    assume "hd es = ''..''"
    with es show "joinSlash es = ''..'' \<or> prefix ''../'' (joinSlash es)"
      by (cases fs) (auto simp: prefix_def)
  qed
qed

lemma Clean_relative:
  assumes "\<not> IsAbs p" and "Clean p \<noteq> ''..''" and "\<not> prefix ''../'' (Clean p)"
  shows "stays 0 (splitSlash p) \<and> Clean p = (if position p = [] then ''.'' else joinSlash (rev (position p)))"
proof -
  let ?es = "cleanElems False [] (splitSlash p)"
  have rel: "if stays 0 (splitSlash p) then ?es = rev (position p) \<and> list_all plain ?es
      else ?es \<noteq> [] \<and> hd ?es = ''..''"
    using cleanElems_relative [of "[]" "splitSlash p"] split_slashless by (auto simp: position_def split: if_splits)
  have "stays 0 (splitSlash p)"
  proof (rule ccontr)
    assume "\<not> stays 0 (splitSlash p)"
    with rel have dots: "?es \<noteq> []" "hd ?es = ''..''" by simp_all
    have "list_all (\<lambda>e. slash \<notin> set e) (cleanElems r kept es)"
      if "list_all (\<lambda>e. slash \<notin> set e) kept" "list_all (\<lambda>e. slash \<notin> set e) es" for r kept es
      using that
    proof (induction r kept es rule: cleanElems.induct)
      case (2 rooted kept e es)
      have "list_all (\<lambda>e. slash \<notin> set e) (tl kept)" using "2.prems"(1) by (cases kept) auto
      with 2 show ?case by auto
    qed (simp add: list_all_rev)
    from this [of "[]" "splitSlash p" False] have "list_all (\<lambda>e. slash \<notin> set e) ?es"
      using splitSlash_no_slash by (auto simp: list_all_iff)
    with dots_prefix [OF this dots(1)] dots have "joinSlash ?es = ''..'' \<or> prefix ''../'' (joinSlash ?es)" by simp
    moreover have "Clean p = joinSlash ?es" using assms(1) dots(1) by (simp add: Clean_def Let_def)
    ultimately show False using assms(2,3) by simp
  qed
  with rel show ?thesis using assms(1) by (simp add: Clean_def Let_def)
qed

lemma cleanElems_plain: "list_all plain ds \<Longrightarrow> cleanElems rooted kept (ds @ es) = cleanElems rooted (rev ds @ kept) es"
  by (induction ds arbitrary: kept) (auto simp: plain_def)

lemma stays_plain: "list_all plain ds \<Longrightarrow> stays k (ds @ es) = stays (k + length ds) es"
  by (induction ds arbitrary: k) (auto simp: plain_def)

section \<open>Directories\<close>

text \<open>The directory of a path is the path without its last element.\<close>

lemma dir_part:
  assumes "slash \<notin> set r"
  shows "Dir (s @ slash # r) = Clean (s @ [slash])" and "Dir r = ''.''"
proof -
  have "dropWhile (\<lambda>c. c \<noteq> slash) (rev r @ xs) = dropWhile (\<lambda>c. c \<noteq> slash) xs" for xs
    using assms by (intro dropWhile_append2) auto
  note drop = this [of "slash # rev s"] this [of "[]", simplified append_Nil2]
  show "Dir (s @ slash # r) = Clean (s @ [slash])" using drop(1) by (simp add: Dir_def)
  have "Dir r = Clean ''''" unfolding Dir_def drop(2) by simp
  then show "Dir r = ''.''" by (simp add: Clean_def IsAbs_def)
qed

lemma position_Dir:
  assumes "IsAbs p" and "position p = n # ns" and "p = Clean p"
  shows "position (Dir p) = ns"
proof -
  have plain: "list_all plain (n # ns)" using position_plain [of p] assms(2) by simp
  have p: "p = slash # joinSlash (rev ns @ [n])" using Clean_absolute [OF assms(1)] assms by simp
  have "joinSlash (es @ [n]) = (if es = [] then n else joinSlash es @ slash # n)" for es
    by (induction es rule: joinSlash.induct) (simp_all add: joinSlash_Cons)
  with p have split: "p = (if ns = [] then [] else slash # joinSlash (rev ns)) @ slash # n" by simp
  have "slash \<notin> set n" using plain by (simp add: plain_def)
  from dir_part(1) [OF this, of "if ns = [] then [] else slash # joinSlash (rev ns)"] split
  have dir: "Dir p = Clean ((if ns = [] then [] else slash # joinSlash (rev ns)) @ [slash])" by simp
  show ?thesis
  proof (cases "ns = []")
    case True
    with dir show ?thesis by (simp add: Clean_def IsAbs_def position_def)
  next
    case False
    have "position ((slash # joinSlash (rev ns)) @ [slash]) = position (slash # joinSlash (rev ns))"
      using splitSlash_snoc_slash [of "slash # joinSlash (rev ns)"] by (simp add: position_def)
    also have "\<dots> = ns" using position_rooted [of "rev ns"] plain by (simp add: list_all_rev)
    finally show ?thesis using dir False position_Clean [of "(slash # joinSlash (rev ns)) @ [slash]"]
      by (simp add: IsAbs_def)
  qed
qed

section \<open>Entries\<close>

definition under :: "string \<Rightarrow> string list \<Rightarrow> string \<Rightarrow> bool" where
  "under dest ns p \<longleftrightarrow> IsAbs p \<and> position p = rev ns @ position dest"

lemma entryPath_under:
  assumes "entryPath dest name = Inr (Some target)" and "IsAbs dest"
  shows "\<exists>ns. ns \<noteq> [] \<and> list_all plain ns \<and> Clean name = joinSlash ns \<and> under dest ns target \<and> Clean target = target"
proof -
  from assms(1) have clean: "Clean name \<noteq> ''.''" "\<not> IsAbs (Clean name)" "Clean name \<noteq> ''..''" "\<not> prefix ''../'' (Clean name)"
    and target: "target = Join dest (Clean name)"
    by (auto simp: entryPath_def Let_def split: if_splits)
  have "\<not> IsAbs name" using clean(2) IsAbs_Clean by blast
  from Clean_relative [OF this clean(3,4)] clean(1)
  have names: "position name \<noteq> []" "Clean name = joinSlash (rev (position name))" by (auto split: if_splits)
  let ?ns = "rev (position name)"
  have plain: "list_all plain ?ns" using position_plain [of name] by (simp add: list_all_rev)
  have "IsAbs (dest @ slash # Clean name)" using assms(2) by (cases dest) (auto simp: IsAbs_def)
  moreover have "splitSlash (Clean name) = ?ns"
    unfolding names(2) using names(1) plain_slashless [OF plain] by (intro splitSlash_joinSlash) auto
  then have "position (dest @ slash # Clean name) = rev ?ns @ position dest"
    using plain by (simp add: position_def splitSlash_concat walk_plain)
  moreover have "dest \<noteq> ''''" using assms(2) by (auto simp: IsAbs_def)
  ultimately have "under dest ?ns target" "Clean target = target"
    unfolding under_def target
    by (simp_all add: Join_def position_Clean Clean_absolute [OF IsAbs_Clean])
      (simp_all add: Clean_absolute)
  with names plain show ?thesis by (intro exI [of _ ?ns]) auto
qed

lemma checkLink_stays:
  assumes "checkLink name link = None" and "Clean name = joinSlash ns" and "ns \<noteq> []" and "list_all plain ns"
  shows "stays (length ns - 1) (splitSlash link)"
proof -
  from assms(1) have link: "link \<noteq> ''''" "\<not> IsAbs link" and
    resolved: "Join (Dir (Clean name)) link \<noteq> ''..''" "\<not> prefix ''../'' (Join (Dir (Clean name)) link)"
    by (auto simp: checkLink_def Let_def split: if_splits)
  obtain ds n where ns: "ns = ds @ [n]" using assms(3) by (metis append_butlast_last_id)
  have plain: "list_all plain ds" "slash \<notin> set n" using assms(4) ns by (auto simp: plain_def)
  define d where "d = (if ds = [] then ''.'' else joinSlash ds)"
  have join: "joinSlash (ds @ [n]) = (if ds = [] then n else joinSlash ds @ slash # n)"
    by (induction ds rule: joinSlash.induct) (simp_all add: joinSlash_Cons)
  have splitd: "splitSlash d = (if ds = [] then [''.''] else ds)"
    unfolding d_def using plain_slashless [OF plain(1)] splitSlash_joinSlash [of ds] by simp
  have rel: "\<not> IsAbs d" "d \<noteq> ''''"
  proof -
    have "hd (splitSlash d) \<noteq> ''''" using splitd plain(1) by (cases ds) (auto simp: plain_def)
    then show "\<not> IsAbs d" "d \<noteq> ''''" by (auto simp: IsAbs_def split: list.splits)
  qed
  have "Dir (Clean name) = d"
  proof (cases "ds = []")
    case True
    then show ?thesis using assms(2) ns join dir_part(2) [OF plain(2)] by (simp add: d_def)
  next
    case False
    have "cleanElems False [] (ds @ ['''']) = ds"
      using plain(1) by (simp add: cleanElems_plain)
    moreover have "\<not> IsAbs (d @ [slash])" using rel by (cases d) (auto simp: IsAbs_def)
    ultimately have "Clean (d @ [slash]) = d"
      using False splitd by (simp add: Clean_def splitSlash_snoc_slash Let_def) (simp add: d_def)
    then show ?thesis using assms(2) ns join False dir_part(1) [OF plain(2), of "joinSlash ds"] by (simp add: d_def)
  qed
  with resolved rel have "stays 0 (splitSlash (d @ slash # link))"
    using Clean_relative [of "d @ slash # link"] by (cases d) (auto simp: Join_def IsAbs_def)
  then show ?thesis using splitd plain(1) ns by (auto simp: splitSlash_concat stays_plain split: if_splits)
qed

section \<open>Extraction\<close>

text \<open>A host that keeps the calls it was handed.\<close>

definition logged :: "('s \<Rightarrow> fsCall \<Rightarrow> 's \<times> bool) \<Rightarrow> 's \<times> fsCall list \<Rightarrow> fsCall \<Rightarrow> ('s \<times> fsCall list) \<times> bool" where
  "logged os = (\<lambda>(s, calls) c. let (s1, ok) = os s c in ((s1, calls @ [c]), ok))"

text \<open>A call on the destination or below it; a link it plants cannot be followed to above it.\<close>

definition callInside :: "string \<Rightarrow> fsCall \<Rightarrow> bool" where
  "callInside dest c \<longleftrightarrow> (\<exists>ns. list_all plain ns \<and> under dest ns (callPath c)
     \<and> (case c of MkdirAll _ _ \<Rightarrow> True
         | Symlink link _ \<Rightarrow> ns \<noteq> [] \<and> stays (length ns - 1) (splitSlash link)
         | _ \<Rightarrow> ns \<noteq> []))"

lemma callInside_entry:
  assumes "entryPath dest name = Inr (Some target)" and "IsAbs dest"
  shows "callInside dest (MkdirAll target m)" "callInside dest (MkdirAll (Dir target) m)"
    "callInside dest (WriteFile target m n)" "callInside dest (RemoveAll target)"
    "checkLink name link = None \<Longrightarrow> callInside dest (Symlink link target)"
proof -
  from entryPath_under [OF assms] obtain ns where ns: "ns \<noteq> []" "list_all plain ns" "Clean name = joinSlash ns"
    "under dest ns target" and clean: "Clean target = target" by blast
  then show "callInside dest (MkdirAll target m)" "callInside dest (WriteFile target m n)"
    "callInside dest (RemoveAll target)" by (auto simp: callInside_def)
  show "checkLink name link = None \<Longrightarrow> callInside dest (Symlink link target)"
    using ns checkLink_stays [of name link ns] by (auto simp: callInside_def)
  obtain ds d where ds: "ns = ds @ [d]" using ns(1) by (metis append_butlast_last_id)
  with ns(4) have at: "IsAbs target" "position target = d # rev ds @ position dest" by (auto simp: under_def)
  have "IsAbs (Dir target)"
  proof -
    from at(1) obtain z where z: "target = slash # z" by (auto simp: IsAbs_def split: list.splits)
    let ?q = "rev (dropWhile (\<lambda>c. c \<noteq> slash) (rev target))"
    have "?q \<noteq> []" using z by (auto simp: dropWhile_eq_Nil_conv)
    moreover have "prefix ?q target"
      by (metis prefixI rev_append rev_rev_ident takeWhile_dropWhile_id)
    ultimately have "IsAbs ?q" using z by (cases ?q) (auto simp: IsAbs_def)
    then show ?thesis by (simp add: Dir_def)
  qed
  with position_Dir [OF at clean [symmetric]] ns(2) ds show "callInside dest (MkdirAll (Dir target) m)"
    by (auto simp: callInside_def under_def intro!: exI [of _ ds])
qed

text \<open>One more call: the log grows by it, and then by what the rest of the pass does.\<close>

lemma call_logged:
  assumes "call (logged os) (s, cs) c rest = ((s', cs'), r)" and "callInside dest c"
    and "\<And>s1. rest (s1, cs @ [c]) = ((s', cs'), r) \<Longrightarrow> \<exists>new. cs' = (cs @ [c]) @ new \<and> list_all (callInside dest) new"
  shows "\<exists>new. cs' = cs @ new \<and> list_all (callInside dest) new"
proof -
  obtain s1 ok where os: "os s c = (s1, ok)" by fastforce
  show ?thesis
  proof (cases ok)
    case True
    with os assms(1) have "rest (s1, cs @ [c]) = ((s', cs'), r)" by (simp add: call_def logged_def)
    from assms(3) [OF this] obtain new where "cs' = cs @ c # new" "list_all (callInside dest) new" by auto
    with assms(2) show ?thesis by (intro exI [of _ "c # new"]) simp
  next
    case False
    with os assms(1,2) show ?thesis by (auto simp: call_def logged_def)
  qed
qed

lemma extractEntries_inside:
  assumes "IsAbs dest" and "extractEntries (logged os) dest broken (s, cs) hdrs = ((s', cs'), r)"
  shows "\<exists>new. cs' = cs @ new \<and> list_all (callInside dest) new"
  using assms(2)
proof (induction hdrs arbitrary: s cs)
  case (Cons hdr hdrs)
  show ?case
  proof (cases "entryPath dest (hdr_Name hdr)")
    case (Inr entry)
    show ?thesis
    proof (cases entry)
      case None
      with Cons Inr show ?thesis by simp
    next
      case (Some target)
      note inside = callInside_entry [OF Inr [unfolded Some] assms(1)]
      show ?thesis
      proof (cases "hdr_Typeflag hdr")
        case TypeDir
        with Cons.prems Inr Some show ?thesis
          by simp (erule call_logged [OF _ inside(1)], erule Cons.IH)
      next
        case TypeReg
        with Cons.prems Inr Some show ?thesis
          by simp (erule call_logged [OF _ inside(2)], erule call_logged [OF _ inside(3)], erule Cons.IH)
      next
        case TypeSymlink
        with Cons.prems Inr Some show ?thesis
          by (cases "checkLink (hdr_Name hdr) (hdr_Linkname hdr)")
            (simp, erule call_logged [OF _ inside(4)], erule call_logged [OF _ inside(2)],
              erule call_logged [OF _ inside(5)], simp, erule Cons.IH, simp)
      qed (use Cons.prems Inr Some in simp)
    qed
  qed (use Cons.prems in simp)
qed simp

definition hostOnly :: "archiveError option \<Rightarrow> bool" where
  "hostOnly r \<longleftrightarrow> r = None \<or> r = Some HostFailed"

lemma hostOnly_call: "(\<And>s1. hostOnly (snd (rest s1))) \<Longrightarrow> hostOnly (snd (call os s c rest))"
  by (auto simp: call_def hostOnly_def split: prod.split bool.split)

lemma scanned_extracts:
  "scanEntries dest limit broken sofar hdrs = None \<Longrightarrow> hostOnly (snd (extractEntries os dest broken s hdrs))"
proof (induction hdrs arbitrary: s sofar)
  case (Cons hdr hdrs)
  then show ?case
    by (cases "hdr_Typeflag hdr")
      (auto simp: Let_def split: sum.splits option.splits if_splits intro!: hostOnly_call)
qed (simp add: hostOnly_def split: if_splits)


definition sampleArchive :: tarArchive where
  "sampleArchive = \<lparr>arc_Headers =
     [\<lparr>hdr_Name = ''a/./b'', hdr_Typeflag = TypeReg, hdr_Linkname = '''', hdr_Size = 3, hdr_Mode = 420\<rparr>,
      \<lparr>hdr_Name = ''a/l'', hdr_Typeflag = TypeSymlink, hdr_Linkname = ''../a/b'', hdr_Size = 0, hdr_Mode = 511\<rparr>],
     arc_Broken = False\<rparr>"


section \<open>Transfer paths\<close>

lemma splitSlash_clean:
  assumes "IsAbs p" and "Clean p = p"
  shows "splitSlash p = '''' # (if position p = [] then [''''] else rev (position p))"
proof -
  have p: "p = slash # joinSlash (rev (position p))" using Clean_absolute [OF assms(1)] assms(2) by simp
  have "splitSlash (joinSlash (rev (position p))) = (if position p = [] then [''''] else rev (position p))"
    using plain_slashless [OF position_plain [of p]] by (auto intro!: splitSlash_joinSlash)
  then show ?thesis by (subst p) simp
qed

lemma contains_under:
  assumes "IsAbs root" and "Clean root = root" and "IsAbs p" and "Clean p = p" and "contains root p"
  shows "\<exists>ns. list_all plain ns \<and> under root ns p"
proof (cases "p = root")
  case True
  with assms(1) show ?thesis by (intro exI [of _ "[]"]) (simp add: under_def)
next
  case False
  with assms(5) obtain z where p: "p = root @ slash # z" by (auto simp: contains_def prefix_def)
  have plainp: "list_all plain (rev (position p))" using position_plain by (simp add: list_all_rev)
  from p have "splitSlash p = splitSlash root @ splitSlash z" by (simp add: splitSlash_concat)
  with splitSlash_clean [OF assms(1,2)] splitSlash_clean [OF assms(3,4)]
  have names: "(if position p = [] then [''''] else rev (position p))
      = (if position root = [] then [''''] else rev (position root)) @ splitSlash z" by simp
  have "position root \<noteq> []"
  proof
    assume "position root = []"
    with names have first: "(if position p = [] then [''''] else rev (position p)) = '''' # splitSlash z" by simp
    show False
    proof (cases "position p = []")
      case False
      with first have "rev (position p) = '''' # splitSlash z" by simp
      with plainp show ?thesis by (metis list.pred_inject(2) plain_dots(3))
    qed (use first splitSlash_nonempty [of z] in simp)
  qed
  moreover have "position p \<noteq> []"
  proof
    assume "position p = []"
    with names \<open>position root \<noteq> []\<close> have "length (rev (position root) @ splitSlash z) = 1" by (metis length_Cons list.size(3) One_nat_def)
    with \<open>position root \<noteq> []\<close> show False by (cases "splitSlash z") auto
  qed
  ultimately have "rev (position p) = rev (position root) @ splitSlash z" using names by simp
  with plainp have "list_all plain (splitSlash z)" "position p = rev (splitSlash z) @ position root"
    by (metis list_all_append, metis rev_append rev_rev_ident)
  with assms(3) show ?thesis by (auto simp: under_def)
qed

lemma containsFrom_nearest:
  "containsFrom evalLinks realRoot p \<longleftrightarrow>
     (\<exists>n real. (\<forall>m<n. evalLinks ((Dir ^^ m) p) = NotExist) \<and> evalLinks ((Dir ^^ n) p) = Real real \<and> contains realRoot real)"
    (is "_ \<longleftrightarrow> ?near p")
proof (induction evalLinks realRoot p rule: containsFrom.induct)
  case (1 evalLinks realRoot p)
  let ?near = "\<lambda>p. \<exists>n real. (\<forall>m<n. evalLinks ((Dir ^^ m) p) = NotExist) \<and> evalLinks ((Dir ^^ n) p) = Real real
    \<and> contains realRoot real"
  show ?case
  proof (cases "evalLinks p")
    case (Real real)
    have "?near p \<longleftrightarrow> contains realRoot real"
    proof
      assume "?near p"
      then obtain n real' where n: "\<forall>m<n. evalLinks ((Dir ^^ m) p) = NotExist" "evalLinks ((Dir ^^ n) p) = Real real'"
        "contains realRoot real'" by blast
      have "n = 0" using n(1) Real by (cases n) (auto dest: spec [of _ 0])
      with n Real show "contains realRoot real" by simp
    qed (use Real in \<open>auto intro!: exI [of _ 0]\<close>)
    then show ?thesis by (simp add: containsFrom.simps [of evalLinks realRoot p] Real)
  next
    case NotExist
    have step: "?near p \<longleftrightarrow> ?near (Dir p)"
    proof
      assume "?near p"
      then obtain n real where n: "\<forall>m<n. evalLinks ((Dir ^^ m) p) = NotExist" "evalLinks ((Dir ^^ n) p) = Real real"
        "contains realRoot real" by blast
      obtain k where k: "n = Suc k" using n(2) NotExist by (cases n) auto
      have "\<forall>m<k. evalLinks ((Dir ^^ m) (Dir p)) = NotExist"
        using n(1) k by (metis Suc_mono comp_apply funpow_Suc_right)
      with n(2,3) k show "?near (Dir p)" by (auto simp: funpow_Suc_right simp del: funpow.simps)
    next
      assume "?near (Dir p)"
      then obtain n real where n: "\<forall>m<n. evalLinks ((Dir ^^ m) (Dir p)) = NotExist"
        "evalLinks ((Dir ^^ n) (Dir p)) = Real real" "contains realRoot real" by blast
      have "evalLinks ((Dir ^^ m) p) = NotExist" if "m < Suc n" for m
        using that n(1) NotExist by (cases m) (auto simp: funpow_Suc_right simp del: funpow.simps)
      with n(2,3) show "?near p"
        by (intro exI [of _ "Suc n"] exI [of _ real]) (auto simp: funpow_Suc_right simp del: funpow.simps)
    qed
    show ?thesis
    proof (cases "Dir p = p")
      case True
      have "(Dir ^^ n) p = p" for n by (induction n) (simp_all add: True)
      with NotExist True show ?thesis by (simp add: containsFrom.simps [of evalLinks realRoot p])
    next
      case False
      with NotExist step 1 [OF NotExist False] show ?thesis by (simp add: containsFrom.simps [of evalLinks realRoot p])
    qed
  next
    case EvalFailed
    have "\<not> ?near p"
    proof
      assume "?near p"
      then obtain n real where n: "\<forall>m<n. evalLinks ((Dir ^^ m) p) = NotExist" "evalLinks ((Dir ^^ n) p) = Real real" by blast
      show False using n EvalFailed by (cases n) (auto dest: spec [of _ 0])
    qed
    then show ?thesis by (simp add: containsFrom.simps [of evalLinks realRoot p] EvalFailed)
  qed
qed


definition sampleLinks :: "string \<Rightarrow> evaluated" where
  "sampleLinks p = (if p = ''/w'' then Real ''/mnt/w'' else if p = ''/w/a'' then Real ''/mnt/w/x'' else NotExist)"


section \<open>The extraction limit\<close>

definition expands :: "tarHeader list \<Rightarrow> int" where
  "expands hdrs = sum_list (map hdr_Size (filter (\<lambda>h. hdr_Typeflag h \<noteq> TypeSymlink) hdrs))"

lemma scan_total:
  assumes "scanEntries dest limit broken sofar hdrs = None" and "limit > 0"
    and "list_all (\<lambda>h. 0 \<le> hdr_Size h) hdrs" and "0 \<le> sofar" "sofar \<le> limit" and "limit + expands hdrs < 2 ^ 63"
  shows "sofar + expands hdrs \<le> limit"
  using assms
proof (induction hdrs arbitrary: sofar)
  case (Cons h hdrs)
  have nonneg: "list_all (\<lambda>h. 0 \<le> hdr_Size h) hs \<Longrightarrow> 0 \<le> expands hs" for hs
    by (induction hs) (auto simp: expands_def)
  show ?case
  proof (cases "hdr_Typeflag h = TypeSymlink")
    case True
    with Cons show ?thesis by (auto simp: expands_def split: sum.splits option.splits)
  next
    case False
    have bounds: "0 \<le> hdr_Size h" "0 \<le> expands hdrs" using Cons.prems(3) nonneg [of hdrs] by simp_all
    have "expands (h # hdrs) = hdr_Size h + expands hdrs" using False by (simp add: expands_def)
    with bounds Cons.prems have wrap: "int64 (sofar + hdr_Size h) = sofar + hdr_Size h" by (intro int64_id) auto
    with Cons.prems False have "scanEntries dest limit broken (sofar + hdr_Size h) hdrs = None" "sofar + hdr_Size h \<le> limit"
      by (auto simp: Let_def split: sum.splits if_splits)
    from Cons.IH [OF this(1) Cons.prems(2) _ _ this(2)] bounds Cons.prems \<open>expands (h # hdrs) = _\<close>
    show ?thesis by simp
  qed
qed (simp add: expands_def)

text \<open>C37. The extraction limit holds as long as the declared sizes do not add up past the 64-bit
  range: an archive accepted under a positive limit then expands to at most that many bytes.\<close>

theorem extract_limit:
  assumes "scanArchive archive dest limit = None" and "limit > 0"
    and "list_all (\<lambda>h. 0 \<le> hdr_Size h) (arc_Headers archive)" and "limit + expands (arc_Headers archive) < 2 ^ 63"
  shows "expands (arc_Headers archive) \<le> limit"
  using scan_total [OF assms(1) [unfolded scanArchive_def] assms(2,3) order_refl _ assms(4)] assms(2) by simp

theorem extract_limit_witness: "expands (arc_Headers sampleArchive) \<le> 1000"
proof -
  have "scanArchive sampleArchive ''/d'' 1000 = None" by code_simp
  from extract_limit [OF this] show ?thesis by (simp add: sampleArchive_def expands_def)
qed

text \<open>Past that range the running total wraps, and the limit does not hold: two sizes that are each
  an \<^verbatim>\<open>int64\<close> pass under the limit of one gigabyte.\<close>

lemma extract_limit_wraps:
  "scanArchive \<lparr>arc_Headers =
      [\<lparr>hdr_Name = ''a'', hdr_Typeflag = TypeReg, hdr_Linkname = '''', hdr_Size = 1, hdr_Mode = 420\<rparr>,
       \<lparr>hdr_Name = ''b'', hdr_Typeflag = TypeReg, hdr_Linkname = '''', hdr_Size = 2 ^ 63 - 1, hdr_Mode = 420\<rparr>],
     arc_Broken = False\<rparr> ''/d'' 1073741824 = None"
  by code_simp

end
