(* ===== verification/Attach.thy ===== *)
theory Attach
  imports SessionService Sha256 Utf8 Paths
begin

text \<open>
  The attachment service (\<^verbatim>\<open>src/controlapp/attachments.go\<close>) and the exec half of it
  (\<^verbatim>\<open>src/controlapp/exec.go\<close>): who may attach and in which mode, the controller lease an attach
  takes and the keeper it is handled through afterwards, and the shape and audit record of an
  exec. The brokers and the attachment policy are ports of their own; a terminal stream is opaque.
\<close>

section \<open>Ports\<close>

record controllerKeeper =
  kp_scope :: Scope
  kp_resource :: Resource
  kp_ws :: wsid
  kp_id :: sessionid
  kp_holder :: string

record AttachTarget =
  tgt_WorkspaceID :: wsid
  tgt_SessionID :: sessionid
  tgt_PoolID :: poolid
  tgt_RunnerID :: runnerid
  tgt_PlacementGeneration :: u64
  tgt_ControllerGeneration :: u64
  tgt_Mode :: AttachmentMode
  tgt_Negotiated :: bool
  tgt_MayClaim :: bool
  tgt_Policy :: InputPolicy
  tgt_Controller :: "controllerKeeper option"

record ExecCmd =
  ex_SessionID :: sessionid
  ex_Argv :: "string list"
  ex_Cwd :: string
  ex_Env :: "(string \<times> string) list"
  ex_TTY :: bool
  ex_Cols :: int
  ex_Rows :: int
  ex_Detach :: bool
  ex_Log :: string

text \<open>The exec plane is optional; \<open>p_Tell\<close> is the one message sent to a refused stream.\<close>

record 's attachPorts =
  p_Authorize :: "'s \<Rightarrow> Scope \<Rightarrow> Resource \<Rightarrow> AttachmentMode \<Rightarrow> err option"
  p_Attach :: "'s \<Rightarrow> AttachTarget \<Rightarrow> 's \<times> err option"
  p_Exec :: "('s \<Rightarrow> AttachTarget \<Rightarrow> ExecCmd \<Rightarrow> 's \<times> err option) option"
  p_Tell :: "'s \<Rightarrow> string \<Rightarrow> 's"
  p_Close :: "'s \<Rightarrow> 's"
  p_InputPolicy :: InputPolicy

section \<open>Sessions\<close>

definition authorizedSession :: "'s host \<Rightarrow> 's \<Rightarrow> Scope \<Rightarrow> sessionid \<Rightarrow> Action \<Rightarrow> err + Session" where
  "authorizedSession h s scope sid action =
     (if Scope_Validate scope \<noteq> None \<or> sid = '''' then Inl ErrInvalid
      else case h_GetSession h s (sco_WorkspaceID scope) sid of
        Inl e \<Rightarrow> Inl (portError e)
      | Inr row \<Rightarrow>
        (if h_Authorize h s scope action (sessionResource row) \<noteq> None then Inl ErrDenied else Inr row))"

definition attachable :: "'s host \<Rightarrow> 's \<Rightarrow> Session \<Rightarrow> bool" where
  "attachable h s row =
     (if ses_State row = StateRunning then True
      else if ses_State row = StateFailed
      then ses_RunnerID row \<noteq> '''' \<and> h_Connected h s (ses_PoolID row) (ses_RunnerID row)
      else False)"

section \<open>The controller lease\<close>

definition Renew :: "'s host \<Rightarrow> 's \<Rightarrow> controllerKeeper \<Rightarrow> u64 \<Rightarrow> 's \<times> err option" where
  "Renew h s k generation =
     (let (s1, now) = h_Now h s
      in case h_RenewControllerLease h s1 (kp_ws k) (kp_id k)
                \<lparr>lease_Generation = generation, lease_Holder = kp_holder k,
                 lease_ExpiresAt = now + ControllerLeaseTTL\<rparr> of
           (s2, None) \<Rightarrow> (s2, None)
         | (s2, Some e) \<Rightarrow> (s2, Some (if errIs e ErrStale then ErrStale else portError e)))"

definition claimAuthorized :: "'s host \<Rightarrow> 's \<Rightarrow> controllerKeeper \<Rightarrow> u64 \<Rightarrow> 's \<times> (err + u64)" where
  "claimAuthorized h s k expected =
     (case h_CompareAndAdvanceControllerGeneration h s (kp_ws k) (kp_id k) expected of
        (s1, Inl e) \<Rightarrow> (s1, Inl (if errIs e ErrStale then ErrStale else portError e))
      | (s1, Inr gen) \<Rightarrow>
        (case Renew h s1 k gen of
           (s2, Some e) \<Rightarrow> (s2, if errIs e ErrStale then Inl ErrStale else Inr gen)
         | (s2, None) \<Rightarrow> (s2, Inr gen)))"

text \<open>The policy question of a claim is about the principal that opened the attach.\<close>

definition Claim :: "'s attachPorts \<Rightarrow> 's host \<Rightarrow> 's \<Rightarrow> controllerKeeper \<Rightarrow> u64 \<Rightarrow> 's \<times> (err + u64)" where
  "Claim p h s k expected =
     (if p_Authorize p s (kp_scope k) (kp_resource k) AttachmentController \<noteq> None then (s, Inl ErrDenied)
      else claimAuthorized h s k expected)"

definition Release :: "'s host \<Rightarrow> 's \<Rightarrow> controllerKeeper \<Rightarrow> u64 \<Rightarrow> 's \<times> err option" where
  "Release h s k generation =
     (if generation = 0 then (s, None)
      else case h_CompareAndAdvanceControllerGeneration h s (kp_ws k) (kp_id k) generation of
        (s1, Inl e) \<Rightarrow> (s1, if errIs e ErrStale then None else Some (portError e))
      | (s1, Inr _) \<Rightarrow> (s1, None))"

definition keeperState :: "'s host \<Rightarrow> 's \<Rightarrow> controllerKeeper \<Rightarrow> 's \<times> (err + u64 \<times> bool)" where
  "keeperState h s k =
     (case h_GetSession h s (kp_ws k) (kp_id k) of
        Inl e \<Rightarrow> (s, Inl (portError e))
      | Inr row \<Rightarrow>
        (let (s1, now) = h_Now h s
         in (s1, Inr (ses_ControllerGeneration row, lease_Live (ControllerLeaseOf row) now))))"

section \<open>Granting an attach\<close>

definition newHolderID :: "'s host \<Rightarrow> 's \<Rightarrow> 's \<times> (err + string)" where
  "newHolderID h s =
     (case h_Rand h s 8 of
        (s1, None) \<Rightarrow> (s1, Inl ErrUnavailable)
      | (s1, Some b) \<Rightarrow> (s1, Inr (hexEncode (map (\<lambda>c. int (octet c)) b))))"

type_synonym granted = "AttachmentMode \<times> u64 \<times> controllerKeeper option"

definition viewerAfterStaleClaim :: "'s host \<Rightarrow> 's \<Rightarrow> Session \<Rightarrow> controllerKeeper \<Rightarrow> granted" where
  "viewerAfterStaleClaim h s row keeper =
     (case h_GetSession h s (ses_WorkspaceID row) (ses_ID row) of
        Inl _ \<Rightarrow> (AttachmentViewer, ses_ControllerGeneration row, Some keeper)
      | Inr current \<Rightarrow> (AttachmentViewer, ses_ControllerGeneration current, Some keeper))"

text \<open>The branch of a client that cannot be told it is a viewer.\<close>

definition grantLegacy :: "'s attachPorts \<Rightarrow> 's host \<Rightarrow> 's \<Rightarrow> Session \<Rightarrow> AttachTerminalCmd \<Rightarrow> 's \<times> (err + granted)" where
  "grantLegacy p h s row cmd =
     (if at_Mode cmd = AttachmentViewer then (s, Inr (AttachmentViewer, ses_ControllerGeneration row, None))
      else if policy_Shared (p_InputPolicy p) then (s, Inr (AttachmentController, ses_ControllerGeneration row, None))
      else case h_NextControllerGeneration h s (ses_WorkspaceID row) (ses_ID row) of
        (s1, Inl e) \<Rightarrow> (s1, Inl (if errIs e ErrNotFound then ErrNotFound else portError e))
      | (s1, Inr gen) \<Rightarrow> (s1, Inr (AttachmentController, gen, None)))"

definition grant ::
    "'s attachPorts \<Rightarrow> 's host \<Rightarrow> 's \<Rightarrow> Scope \<Rightarrow> Resource \<Rightarrow> Session \<Rightarrow> AttachTerminalCmd \<Rightarrow> 's \<times> (err + granted)" where
  "grant p h s scope resource row cmd =
     (if \<not> at_Negotiated cmd then grantLegacy p h s row cmd
      else case newHolderID h s of
        (s1, Inl e) \<Rightarrow> (s1, Inl e)
      | (s1, Inr holder) \<Rightarrow>
        (let keeper = \<lparr>kp_scope = scope, kp_resource = resource, kp_ws = ses_WorkspaceID row, kp_id = ses_ID row,
               kp_holder = holder\<rparr>
         in if at_Mode cmd = AttachmentViewer
            then (s1, Inr (AttachmentViewer, ses_ControllerGeneration row, Some keeper))
            else if policy_Shared (p_InputPolicy p)
            then (s1, Inr (AttachmentController, ses_ControllerGeneration row, Some keeper))
            else
              let (s2, now) = h_Now h s1
              in if lease_Live (ControllerLeaseOf row) now \<and> at_ExpectedGeneration cmd \<noteq> ses_ControllerGeneration row
                 then (s2, Inr (AttachmentViewer, ses_ControllerGeneration row, Some keeper))
                 else case claimAuthorized h s2 keeper (ses_ControllerGeneration row) of
                   (s3, Inr gen) \<Rightarrow> (s3, Inr (AttachmentController, gen, Some keeper))
                 | (s3, Inl e) \<Rightarrow>
                   (if errIs e ErrStale then (s3, Inr (viewerAfterStaleClaim h s3 row keeper)) else (s3, Inl e))))"

text \<open>The mode an attach is admitted in, and whether the policy has refused it control.\<close>

definition admit ::
    "'s attachPorts \<Rightarrow> 's \<Rightarrow> Scope \<Rightarrow> Resource \<Rightarrow> AttachTerminalCmd \<Rightarrow> err + (AttachmentMode \<times> bool)" where
  "admit p s scope resource cmd =
     (if p_Authorize p s scope resource (at_Mode cmd) = None then Inr (at_Mode cmd, False)
      else if \<not> at_Negotiated cmd \<or> at_Mode cmd \<noteq> AttachmentController then Inl ErrDenied
      else if p_Authorize p s scope resource AttachmentViewer \<noteq> None then Inl ErrDenied
      else Inr (AttachmentViewer, True))"

definition mayClaim :: "'s attachPorts \<Rightarrow> 's \<Rightarrow> Scope \<Rightarrow> Resource \<Rightarrow> AttachTerminalCmd \<Rightarrow> bool" where
  "mayClaim p s scope resource cmd =
     (if \<not> at_Negotiated cmd then False
      else if at_Mode cmd = AttachmentController then True
      else p_Authorize p s scope resource AttachmentController = None)"

definition newEvent :: "'s host \<Rightarrow> 's \<Rightarrow> 's \<times> (err + eventid)" where
  "newEvent h s = (let (s1, eid) = h_NewEventID h s in (s1, if eid = '''' then Inl ErrUnavailable else Inr eid))"

text \<open>\<^verbatim>\<open>record\<close> and \<^verbatim>\<open>recordExec\<close>, which differ in the command name.\<close>

definition recordMinted ::
    "'s host \<Rightarrow> 's \<Rightarrow> eventid \<Rightarrow> Scope \<Rightarrow> Action \<Rightarrow> Resource \<Rightarrow> u64 \<Rightarrow> string \<Rightarrow> 's \<times> err option" where
  "recordMinted h s eid scope action resource gen name =
     (let (s1, now) = h_Now h s;
          (s2, r) = h_Record h s1
            \<lparr>evt_ID = eid, evt_WorkspaceID = sco_WorkspaceID scope, evt_ActorID = act_ID (sco_Actor scope),
             evt_Action = action, evt_Resource = resource, evt_At = now, evt_PlacementGeneration = gen,
             evt_Command = name\<rparr>
      in (s2, case r of None \<Rightarrow> None | Some _ \<Rightarrow> Some ErrUnavailable))"

definition attachTarget :: "'s attachPorts \<Rightarrow> Session \<Rightarrow> AttachTerminalCmd \<Rightarrow> bool \<Rightarrow> granted \<Rightarrow> AttachTarget" where
  "attachTarget p row cmd claimable granted =
     (case granted of (mode, generation, keeper) \<Rightarrow>
        \<lparr>tgt_WorkspaceID = ses_WorkspaceID row, tgt_SessionID = ses_ID row, tgt_PoolID = ses_PoolID row,
         tgt_RunnerID = ses_RunnerID row, tgt_PlacementGeneration = ses_PlacementGeneration row,
         tgt_ControllerGeneration = generation, tgt_Mode = mode, tgt_Negotiated = at_Negotiated cmd,
         tgt_MayClaim = claimable, tgt_Policy = p_InputPolicy p, tgt_Controller = keeper\<rparr>)"

text \<open>From the admitted mode on: \<open>cmd\<close> already carries it.\<close>

definition attachAdmitted ::
    "'s attachPorts \<Rightarrow> 's host \<Rightarrow> 's \<Rightarrow> Scope \<Rightarrow> Session \<Rightarrow> AttachTerminalCmd \<Rightarrow> bool \<Rightarrow> 's \<times> err option" where
  "attachAdmitted p h s scope row cmd refusedControl =
     (let resource = sessionResource row
      in if \<not> attachable h s row then (s, Some ErrConflict)
         else case newEvent h s of
           (s1, Inl e) \<Rightarrow> (s1, Some e)
         | (s1, Inr eid) \<Rightarrow>
           (let claimable = (\<not> refusedControl \<and> mayClaim p s1 scope resource cmd)
            in case grant p h s1 scope resource row cmd of
              (s2, Inl e) \<Rightarrow> (s2, Some e)
            | (s2, Inr granted) \<Rightarrow>
              (case p_Attach p s2 (attachTarget p row cmd claimable granted) of
                 (s3, Some _) \<Rightarrow> (p_Close p s3, Some ErrUnavailable)
               | (s3, None) \<Rightarrow>
                 runUnit h s3 (recordMinted h s3 eid scope ActionAttach resource (ses_PlacementGeneration row) ''''))))"

definition AttachTerminal ::
    "'s attachPorts \<Rightarrow> 's host \<Rightarrow> 's \<Rightarrow> Scope \<Rightarrow> AttachTerminalCmd \<Rightarrow> bool \<Rightarrow> 's \<times> err option" where
  "AttachTerminal p h s scope cmd streamNil =
     (case authorizedSession h s scope (at_SessionID cmd) ActionAttach of
        Inl e \<Rightarrow> (s, Some e)
      | Inr row \<Rightarrow>
        (if at_Mode cmd \<noteq> AttachmentViewer \<and> at_Mode cmd \<noteq> AttachmentController then (s, Some ErrInvalid)
         else if streamNil then (s, Some ErrInvalid)
         else case admit p s scope (sessionResource row) cmd of
           Inl e \<Rightarrow> (s, Some e)
         | Inr (mode, refusedControl) \<Rightarrow>
           attachAdmitted p h s scope row (cmd\<lparr>at_Mode := mode\<rparr>) refusedControl))"

section \<open>Exec\<close>

definition ExecCommandName :: "string list \<Rightarrow> string" where
  "ExecCommandName argv =
     (case argv of
        [] \<Rightarrow> ''?''
      | arg # _ \<Rightarrow>
        (let name = Base arg
         in if name = '''' \<or> name = ''.'' \<or> name = ''..'' \<or> slash \<in> set name \<or> length name > 64 then ''?''
            else if list_ex (\<lambda>c. octet c < 0x20 \<or> octet c > 0x7E) name then ''?''
            else name))"

definition maxExecArgv :: nat where "maxExecArgv = 4096"

definition maxExecArgvBytes :: nat where "maxExecArgvBytes = 1048576"

definition maxExecEnv :: nat where "maxExecEnv = 256"

text \<open>The empty string carries the command on. The environment is a map: its size is the number of its
  names.\<close>

definition ExecRefusal :: "ExecCmd \<Rightarrow> string" where
  "ExecRefusal cmd =
     (if ex_Argv cmd = [] \<or> hd (ex_Argv cmd) = '''' then ''not_found''
      else if length (ex_Argv cmd) > maxExecArgv then ''not_executable''
      else if list_ex (\<lambda>arg. CHR 0x00 \<in> set arg) (ex_Argv cmd) then ''not_executable''
      else if sum_list (map length (ex_Argv cmd)) > maxExecArgvBytes then ''not_executable''
      else if length (ex_Env cmd) > maxExecEnv then ''env_refused''
      else if list_ex (\<lambda>(name, v). name = '''' \<or> CHR 0x00 \<in> set name \<or> CHR ''='' \<in> set name \<or> CHR 0x00 \<in> set v)
                (ex_Env cmd)
      then ''env_refused''
      else if ex_Cwd cmd \<noteq> '''' \<and> \<not> ValidatePath (ex_Cwd cmd) then ''cwd_refused''
      else if ex_Detach cmd \<and> ex_Log cmd = '''' then ''log_refused''
      else if \<not> ex_Detach cmd \<and> ex_Log cmd \<noteq> '''' then ''log_refused''
      else if ex_Detach cmd \<and> \<not> ValidatePath (ex_Log cmd) then ''log_refused''
      else '''')"

definition ValidateExec :: "ExecCmd \<Rightarrow> err option" where
  "ValidateExec cmd = (if ExecRefusal cmd \<noteq> '''' then Some ErrInvalid else None)"

definition execTarget :: "Session \<Rightarrow> AttachTarget" where
  "execTarget row =
     \<lparr>tgt_WorkspaceID = ses_WorkspaceID row, tgt_SessionID = ses_ID row, tgt_PoolID = ses_PoolID row,
      tgt_RunnerID = ses_RunnerID row, tgt_PlacementGeneration = ses_PlacementGeneration row,
      tgt_ControllerGeneration = ses_ControllerGeneration row, tgt_Mode = AttachmentController,
      tgt_Negotiated = False, tgt_MayClaim = False, tgt_Policy = PolicyEmpty, tgt_Controller = None\<rparr>"

definition ExecCommand ::
    "'s attachPorts \<Rightarrow> 's host \<Rightarrow> 's \<Rightarrow> Scope \<Rightarrow> ExecCmd \<Rightarrow> bool \<Rightarrow> 's \<times> err option" where
  "ExecCommand p h s scope cmd streamNil =
     (if streamNil then (s, Some ErrInvalid)
      else case p_Exec p of
        None \<Rightarrow> (s, Some ErrUnsupported)
      | Some exec \<Rightarrow>
        (case authorizedSession h s scope (ex_SessionID cmd) ActionAttach of
           Inl e \<Rightarrow> (s, Some e)
         | Inr row \<Rightarrow>
           (if p_Authorize p s scope (sessionResource row) AttachmentController \<noteq> None then (s, Some ErrDenied)
            else if ExecRefusal cmd \<noteq> '''' then (p_Tell p s (ExecRefusal cmd), Some ErrInvalid)
            else if ses_State row \<noteq> StateRunning then (s, Some ErrConflict)
            else case newEvent h s of
              (s1, Inl e) \<Rightarrow> (s1, Some e)
            | (s1, Inr eid) \<Rightarrow>
              (case runUnit h s1 (recordMinted h s1 eid scope ActionExec (sessionResource row)
                      (ses_PlacementGeneration row) (ExecCommandName (ex_Argv cmd))) of
                 (s2, Some e) \<Rightarrow> (s2, Some e)
               | (s2, None) \<Rightarrow>
                 (case exec s2 (execTarget row) cmd of
                    (s3, Some _) \<Rightarrow> (p_Close p s3, Some ErrUnavailable)
                  | (s3, None) \<Rightarrow> (s3, None))))))"

end
