(* ===== verification/AttachProps.thy ===== *)
theory AttachProps
  imports Attach AppSamples Counters
begin

text \<open>
  What an attach is granted over the in-memory store, and when an exec reaches the broker: the
  compare-and-advance that decides who controls a session, the lease that follows it, and the audit
  record that precedes a command.
\<close>

section \<open>The keeper over the in-memory store\<close>

lemma newHolderID_mem:
  "w_random w = r # rs \<Longrightarrow>
   newHolderID (memHost out) w =
     (w\<lparr>w_random := rs\<rparr>,
      Inr (hexEncode (map (\<lambda>c. int (octet c)) (take 8 (r @ replicate 8 (CHR 0x00))))))"
  by (simp add: newHolderID_def memHost_def randomBytes_def)

lemma hexEncode_Nil [simp]: "hexEncode bs = [] \<longleftrightarrow> bs = []"
  by (cases bs) (simp_all add: hexEncode_def)

lemma Renew_mem:
  assumes "kp_ws k \<noteq> ''''" and "kp_holder k \<noteq> ''''" and "g \<noteq> 0"
    and "controllerOf (w_store w) (kp_ws k) (kp_id k) = Some l"
    and "lease_Generation l = g" and "lease_Holder l = ''''"
  shows "snd (Renew (memHost out) w k g) = None
    \<and> controllerOf (w_store (fst (Renew (memHost out) w k g))) (kp_ws k) (kp_id k)
        = Some \<lparr>lease_Generation = g, lease_Holder = kp_holder k, lease_ExpiresAt = w_now w + ControllerLeaseTTL\<rparr>"
  using assms
  by (auto simp: Renew_def memHost_def onStore_def controllerOf_def ControllerLeaseOf_def Let_def
      memSessions_RenewControllerLease_def split: option.splits)

text \<open>A claim at the generation that is stored takes the lease at the next one; any other is stale
  and writes nothing.\<close>

lemma claim_mem:
  assumes "kp_ws k \<noteq> ''''" and "kp_holder k \<noteq> ''''" and "expected + 1 \<noteq> 0"
    and "controllerOf (w_store w) (kp_ws k) (kp_id k) = Some l"
    and "claimAuthorized (memHost out) w k expected = (w', r)"
  shows "if lease_Generation l = expected
    then r = Inr (expected + 1)
      \<and> controllerOf (w_store w') (kp_ws k) (kp_id k)
          = Some \<lparr>lease_Generation = expected + 1, lease_Holder = kp_holder k,
                  lease_ExpiresAt = w_now w + ControllerLeaseTTL\<rparr>
    else r = Inl ErrStale \<and> w_store w' = w_store w"
proof (cases "lease_Generation l = expected")
  case False
  with assms show ?thesis
    by (auto simp: claimAuthorized_def memHost_def onStore_def controllerOf_def ControllerLeaseOf_def
        memSessions_CompareAndAdvanceControllerGeneration_def)
next
  case True
  define w1 where
    "w1 = fst (h_CompareAndAdvanceControllerGeneration (memHost out) w (kp_ws k) (kp_id k) expected)"
  have won: "h_CompareAndAdvanceControllerGeneration (memHost out) w (kp_ws k) (kp_id k) expected
      = (w1, Inr (expected + 1))" "w_now w1 = w_now w"
    "\<exists>l1. controllerOf (w_store w1) (kp_ws k) (kp_id k) = Some l1 \<and> lease_Generation l1 = expected + 1
      \<and> lease_Holder l1 = ''''"
    using True assms(1,4)
    by (auto simp: w1_def memHost_def onStore_def controllerOf_def ControllerLeaseOf_def
        memSessions_CompareAndAdvanceControllerGeneration_def advanceController_def Let_def)
  then obtain l1 where "controllerOf (w_store w1) (kp_ws k) (kp_id k) = Some l1"
    "lease_Generation l1 = expected + 1" "lease_Holder l1 = ''''" by blast
  from Renew_mem [OF assms(1-3) this, of out] show ?thesis
    using True assms(5) won(1,2)
    by (cases "Renew (memHost out) w1 k (expected + 1)") (auto simp: claimAuthorized_def)
qed

section \<open>Properties\<close>


text \<open>The second of two attaches on the same row.\<close>

definition samplePorts :: "world attachPorts" where
  "samplePorts =
     \<lparr>p_Authorize = (\<lambda>w scope res mode. None), p_Attach = (\<lambda>w t. (w, None)),
      p_Exec = Some (\<lambda>w t c. (w\<lparr>w_now := w_now w + 100\<rparr>, None)), p_Tell = (\<lambda>w m. w), p_Close = (\<lambda>w. w),
      p_InputPolicy = PolicyExclusive\<rparr>"

definition sampleAttach :: AttachTerminalCmd where
  "sampleAttach = \<lparr>at_SessionID = ''s1'', at_Since = 0, at_Mode = AttachmentController, at_Negotiated = True,
     at_ExpectedGeneration = 0\<rparr>"

definition runningRow :: Session where
  "runningRow = the (sessionAt (stateStore StateRunning) installWorkspace ''s1'')"

definition attachedOnce :: world where
  "attachedOnce = fst (grant samplePorts (memHost sampleOutside) (sampleWorld (stateStore StateRunning)) sampleScope
     (sessionResource runningRow) runningRow sampleAttach)"


section \<open>Exec\<close>

lemma Base_alone: "Base p = [slash] \<or> slash \<notin> set (Base p)"
  by (auto simp: Base_def Let_def dest: set_takeWhileD)

lemma ExecCommandName_safe:
  "length (ExecCommandName argv) \<le> 64 \<and> ExecCommandName argv \<noteq> ''''
   \<and> list_all (\<lambda>c. 0x20 \<le> octet c \<and> octet c \<le> 0x7E \<and> c \<noteq> slash) (ExecCommandName argv)"
  by (auto simp: ExecCommandName_def Let_def list_all_iff list_ex_iff not_less not_le
      split: list.split)

lemma recordMinted_mem:
  assumes "runUnit (memHost out) w (recordMinted (memHost out) w eid scope action res gen name) = (w', None)"
  shows "\<exists>ev. ms_events (w_store w') = ms_events (w_store w) @ [ev] \<and> evt_ID ev = eid
    \<and> evt_WorkspaceID ev = sco_WorkspaceID scope \<and> evt_ActorID ev = act_ID (sco_Actor scope) \<and> evt_Action ev = action
    \<and> evt_Resource ev = res \<and> evt_PlacementGeneration ev = gen \<and> evt_Command ev = name"
  using assms
  by (auto simp: runUnit_def recordMinted_def memHost_def memStore_Run_def onStore_def memStore_Record_def
      Let_def split: if_splits)

lemma exec_recorded:
  assumes "p_Exec p = Some exec" and "ExecCommand p (memHost out) w scope cmd False = (w', r)"
    and "authorizedSession (memHost out) w scope (ex_SessionID cmd) ActionAttach = Inr row"
    and "p_Authorize p w scope (sessionResource row) AttachmentController = None"
    and "ExecRefusal cmd = ''''" "ses_State row = StateRunning" and ev: "newEvent (memHost out) w = (w1, Inr eid)"
    and rec: "runUnit (memHost out) w1 (recordMinted (memHost out) w1 eid scope ActionExec
          (sessionResource row) (ses_PlacementGeneration row) (ExecCommandName (ex_Argv cmd))) = (w2, None)"
  shows "\<exists>ev w3 e. ms_events (w_store w2) = ms_events (w_store w) @ [ev]
       \<and> evt_Action ev = ActionExec \<and> evt_Resource ev = sessionResource row
       \<and> evt_ActorID ev = act_ID (sco_Actor scope) \<and> evt_PlacementGeneration ev = ses_PlacementGeneration row
       \<and> evt_Command ev = ExecCommandName (ex_Argv cmd)
       \<and> exec w2 (execTarget row) cmd = (w3, e)
       \<and> (w', r) = (if e = None then (w3, None) else (p_Close p w3, Some ErrUnavailable))"
proof -
  have w1: "w_store w1 = w_store w"
    using ev by (auto simp: newEvent_def memHost_def draw_def split: if_splits list.splits)
  obtain w3 e where call: "exec w2 (execTarget row) cmd = (w3, e)" by fastforce
  have "(w', r) = (if e = None then (w3, None) else (p_Close p w3, Some ErrUnavailable))"
    using assms call by (cases e) (auto simp: ExecCommand_def)
  with call recordMinted_mem [OF rec] w1 show ?thesis by auto
qed


definition sampleExec :: ExecCmd where
  "sampleExec = \<lparr>ex_SessionID = ''s1'', ex_Argv = [''/usr/bin/make'', ''TOKEN=x''], ex_Cwd = '''', ex_Env = [],
     ex_TTY = False, ex_Cols = 0, ex_Rows = 0, ex_Detach = False, ex_Log = ''''\<rparr>"


end
