(* ===== verification/WorkspaceRpc.thy ===== *)
theory WorkspaceRpc
  imports Attach Archive Json Launch Cursor
begin

text \<open>
  The workspace operations of the attachment service (\<^verbatim>\<open>src/controlapp/workspace_rpc.go\<close>) and their
  messages (\<^verbatim>\<open>src/protocol/workspace/messages.go\<close>): a request to a sandbox and the checks its answer
  has to pass, the bounded diff, and the push and pull of an archive one chunk at a time.
\<close>

section \<open>Messages\<close>

definition ChunkBytes :: nat where "ChunkBytes = 1048576"

definition StatBytes :: nat where "StatBytes = 65536"

record RepoDiff =
  rd_Repo :: string
  rd_BaseBranch :: string
  rd_SessionBranch :: string
  rd_Stat :: string

type_synonym DiffAnswer = "RepoDiff list"

record PushChunk =
  pc_Xfer :: string
  pc_Path :: string
  pc_Seq :: int
  pc_Data :: string
  pc_Done :: bool

record PushAck =
  ack_Seq :: int
  ack_Synced :: bool

record PullRequest =
  pr_Xfer :: string
  pr_Path :: string
  pr_Seq :: int

record PullChunk =
  pl_Seq :: int
  pl_Data :: string
  pl_Done :: bool

text \<open>The envelope of the session RPC, and the messages that carry it down and up. An empty payload is
  no payload.\<close>

record RPCEnvelope =
  rpc_ID :: u64
  rpc_Method :: string
  rpc_OK :: bool
  rpc_Payload :: string

record RpcToRunner = ToRunner +
  to_RPC :: "RPCEnvelope option"

record RpcFromRunner = FromRunner +
  from_Type :: string
  from_Session :: string
  from_RPC :: "RPCEnvelope option"

section \<open>Encoding\<close>

text \<open>Struct fields in their order; \<^verbatim>\<open>omitempty\<close> leaves out empty data and a false flag.\<close>

definition marshalPushChunk :: "PushChunk \<Rightarrow> string" where
  "marshalPushChunk c =
     jsonObject
       ([(''xfer'', jsonString (pc_Xfer c)), (''path'', jsonString (pc_Path c)), (''seq'', Sprint_d (pc_Seq c))]
        @ (if pc_Data c = [] then [] else [(''data'', jsonString (StdEncode (pc_Data c)))])
        @ (if pc_Done c then [(''done'', ''true'')] else []))"

definition marshalPullRequest :: "PullRequest \<Rightarrow> string" where
  "marshalPullRequest r =
     jsonObject [(''xfer'', jsonString (pr_Xfer r)), (''path'', jsonString (pr_Path r)), (''seq'', Sprint_d (pr_Seq r))]"

section \<open>Decoding\<close>

text \<open>Fields of other kinds than strings. A number has to be an integer of 64 bits.\<close>

definition decodeField :: "(jvalue \<Rightarrow> 'a option) \<Rightarrow> 'a \<Rightarrow> string \<Rightarrow> (string \<times> jvalue) list \<Rightarrow> 'a option" where
  "decodeField dec zero name members =
     fold (\<lambda>(k, v) acc.
       if \<not> fieldNamed name k \<or> v = JNull then acc else case acc of None \<Rightarrow> None | Some _ \<Rightarrow> dec v)
     members (Some zero)"

fun decodeInt :: "jvalue \<Rightarrow> int option" where
  "decodeInt (JNumber t) = ParseInt t"
| "decodeInt _ = None"

fun decodeBool :: "jvalue \<Rightarrow> bool option" where
  "decodeBool (JBool b) = Some b"
| "decodeBool _ = None"

text \<open>\<^verbatim>\<open>base64.StdEncoding.Decode\<close>: newlines are skipped, the padding has to complete the last group,
  and nothing follows it.\<close>

definition StdDecode :: "string \<Rightarrow> string option" where
  "StdDecode s =
     (let t = filter (\<lambda>c. c \<noteq> CHR 0x0A \<and> c \<noteq> CHR 0x0D) s;
          pad = length (takeWhile (\<lambda>c. c = CHR ''='') (rev t))
      in if length t mod 4 \<noteq> 0 \<or> pad > 2 then None
         else case those (map (\<lambda>c. index_of c
                ''ABCDEFGHIJKLMNOPQRSTUVWXYZabcdefghijklmnopqrstuvwxyz0123456789+/'') (take (length t - pad) t)) of
           None \<Rightarrow> None | Some ns \<Rightarrow> decodeGroups ns)"

text \<open>A byte slice is base64 text, or an array of small numbers, where \<^verbatim>\<open>null\<close> is zero.\<close>

fun decodeByte :: "jvalue \<Rightarrow> char option" where
  "decodeByte JNull = Some (CHR 0x00)"
| "decodeByte (JNumber t) =
     (case ParseInt t of
        None \<Rightarrow> None
      | Some i \<Rightarrow> if hd t \<noteq> CHR ''-'' \<and> 0 \<le> i \<and> i < 256 then Some (char_of (nat i)) else None)"
| "decodeByte _ = None"

fun decodeBytes :: "jvalue \<Rightarrow> string option" where
  "decodeBytes (JString x) = StdDecode x"
| "decodeBytes (JArray vs) = those (map decodeByte vs)"
| "decodeBytes _ = None"

text \<open>\<^verbatim>\<open>null\<close> in place of an object leaves the zero value. It also empties a slice, so of the members
  named \<^verbatim>\<open>data\<close> or \<^verbatim>\<open>repos\<close> the last counts.\<close>

definition lastOf :: "string \<Rightarrow> (string \<times> jvalue) list \<Rightarrow> (string \<times> jvalue) list" where
  "lastOf name members = (case rev (filter (\<lambda>(k, v). fieldNamed name k) members) of [] \<Rightarrow> [] | m # _ \<Rightarrow> [m])"

fun decodePushAck :: "jvalue \<Rightarrow> PushAck option" where
  "decodePushAck JNull = Some \<lparr>ack_Seq = 0, ack_Synced = False\<rparr>"
| "decodePushAck (JObject ms) =
     (case (decodeField decodeInt 0 ''seq'' ms, decodeField decodeBool False ''synced'' ms) of
        (Some n, Some b) \<Rightarrow> Some \<lparr>ack_Seq = n, ack_Synced = b\<rparr> | _ \<Rightarrow> None)"
| "decodePushAck _ = None"

definition slicesDecode :: "(jvalue \<Rightarrow> 'a option) \<Rightarrow> string \<Rightarrow> (string \<times> jvalue) list \<Rightarrow> bool" where
  "slicesDecode dec name ms = list_all (\<lambda>(k, v). fieldNamed name k \<and> v \<noteq> JNull \<longrightarrow> dec v \<noteq> None) ms"

fun decodePullChunk :: "jvalue \<Rightarrow> PullChunk option" where
  "decodePullChunk JNull = Some \<lparr>pl_Seq = 0, pl_Data = [], pl_Done = False\<rparr>"
| "decodePullChunk (JObject ms) =
     (if \<not> slicesDecode decodeBytes ''data'' ms then None
      else case (decodeField decodeInt 0 ''seq'' ms, decodeField decodeBytes [] ''data'' (lastOf ''data'' ms),
                 decodeField decodeBool False ''done'' ms) of
        (Some n, Some d, Some b) \<Rightarrow> Some \<lparr>pl_Seq = n, pl_Data = d, pl_Done = b\<rparr> | _ \<Rightarrow> None)"
| "decodePullChunk _ = None"

fun decodeRepoDiff :: "jvalue \<Rightarrow> RepoDiff option" where
  "decodeRepoDiff JNull = Some \<lparr>rd_Repo = [], rd_BaseBranch = [], rd_SessionBranch = [], rd_Stat = []\<rparr>"
| "decodeRepoDiff (JObject ms) =
     (case (decodeString ''repo'' ms, decodeString ''base_branch'' ms, decodeString ''session_branch'' ms,
            decodeString ''stat'' ms) of
        (Some a, Some b, Some c, Some d) \<Rightarrow>
          Some \<lparr>rd_Repo = a, rd_BaseBranch = b, rd_SessionBranch = c, rd_Stat = d\<rparr>
      | _ \<Rightarrow> None)"
| "decodeRepoDiff _ = None"

fun decodeRepos :: "jvalue \<Rightarrow> RepoDiff list option" where
  "decodeRepos (JArray vs) = those (map decodeRepoDiff vs)"
| "decodeRepos _ = None"

fun decodeDiffAnswer :: "jvalue \<Rightarrow> DiffAnswer option" where
  "decodeDiffAnswer JNull = Some []"
| "decodeDiffAnswer (JObject ms) =
     (if \<not> slicesDecode decodeRepos ''repos'' ms then None
      else decodeField decodeRepos [] ''repos'' (lastOf ''repos'' ms))"
| "decodeDiffAnswer _ = None"

section \<open>The session RPC\<close>

text \<open>The runner link as these operations use it, and the caller's writer: a write answers how many
  bytes it took.\<close>

record 's rpcPorts =
  r_Dispatch :: "'s \<Rightarrow> poolid \<Rightarrow> runnerid \<Rightarrow> RpcToRunner \<Rightarrow> 's \<times> (err + RpcFromRunner)"
  r_Write :: "'s \<Rightarrow> string \<Rightarrow> 's \<times> int \<times> err option"

definition rpcRequest :: "Session \<Rightarrow> RPCEnvelope \<Rightarrow> RpcToRunner" where
  "rpcRequest row env =
     \<lparr>to_Type = ''session_rpc'', to_Session = ses_ID row, to_Spec = None, to_Warm = False,
      to_PlacementGeneration = 0, to_RPC = Some env\<rparr>"

text \<open>Into a target that is not nil.\<close>

definition decodeRPCAnswer :: "(jvalue \<Rightarrow> 'a option) \<Rightarrow> string \<Rightarrow> err + 'a" where
  "decodeRPCAnswer dec payload =
     (if payload = '''' then Inl ErrUnavailable
      else case parseJson payload of
        None \<Rightarrow> Inl ErrUnavailable
      | Some v \<Rightarrow> (case dec v of None \<Rightarrow> Inl ErrUnavailable | Some x \<Rightarrow> Inr x))"

text \<open>The counter \<^verbatim>\<open>rpcSeq\<close> of the service is threaded beside the state; \<open>out\<close> is what becomes of the
  body of a successful answer. The request bodies of this file always encode.\<close>

definition sessionRPC ::
    "'s rpcPorts \<Rightarrow> 's \<Rightarrow> u64 \<Rightarrow> Session \<Rightarrow> string \<Rightarrow> string \<Rightarrow> (string \<Rightarrow> err + 'a) \<Rightarrow> 's \<times> u64 \<times> (err + 'a)" where
  "sessionRPC r s q row method payload out =
     (let rid = q + 1
      in if rid = 0 then (s, rid, Inl ErrUnavailable)
         else case r_Dispatch r s (ses_PoolID row) (ses_RunnerID row)
                (rpcRequest row \<lparr>rpc_ID = rid, rpc_Method = method, rpc_OK = False, rpc_Payload = payload\<rparr>) of
           (s1, Inl e) \<Rightarrow> (s1, rid, Inl (portError e))
         | (s1, Inr res) \<Rightarrow>
           (s1, rid,
            case from_RPC res of
              None \<Rightarrow> Inl ErrUnavailable
            | Some env \<Rightarrow>
              (if from_Type res \<noteq> ''session_req'' \<or> from_Session res \<noteq> ses_ID row \<or> rpc_ID env \<noteq> rid
                  \<or> rpc_Method env \<noteq> ''resp''
               then Inl ErrUnavailable
               else if \<not> rpc_OK env then Inl ErrRunnerRefused
               else out (rpc_Payload env))))"

definition ErrShortWrite :: err where
  "ErrShortWrite = ErrOther ''short write''"

definition callerIOError :: "err \<Rightarrow> err" where
  "callerIOError e = (if errIs e ErrCanceled \<or> errIs e ErrDeadlineExceeded \<or> errIs e ErrShortWrite then e else ErrInvalid)"

definition newTransferID :: "'s host \<Rightarrow> 's \<Rightarrow> 's \<times> string option" where
  "newTransferID h s =
     (case h_Rand h s 16 of
        (s1, None) \<Rightarrow> (s1, None) | (s1, Some b) \<Rightarrow> (s1, Some (hexEncode (map (\<lambda>c. int (octet c)) b))))"

section \<open>The diff\<close>

definition maxDiffRepos :: nat where "maxDiffRepos = 64"

definition maxDiffLabel :: nat where "maxDiffLabel = 256"

definition clipTo :: "string \<Rightarrow> nat \<Rightarrow> string" where
  "clipTo s n = (if length s \<le> n then s else ToValidUTF8 (take n s))"

definition boundDiff :: "DiffAnswer \<Rightarrow> DiffAnswer" where
  "boundDiff repos =
     map (\<lambda>r. \<lparr>rd_Repo = clipTo (rd_Repo r) maxDiffLabel, rd_BaseBranch = clipTo (rd_BaseBranch r) maxDiffLabel,
               rd_SessionBranch = clipTo (rd_SessionBranch r) maxDiffLabel, rd_Stat = clipTo (rd_Stat r) StatBytes\<rparr>)
       (take maxDiffRepos repos)"

definition WorkspaceDiff ::
    "'s rpcPorts \<Rightarrow> 's host \<Rightarrow> 's \<Rightarrow> u64 \<Rightarrow> Scope \<Rightarrow> sessionid \<Rightarrow> 's \<times> u64 \<times> (err + DiffAnswer)" where
  "WorkspaceDiff r h s q scope sid =
     (case authorizedSession h s scope sid ActionDiff of
        Inl e \<Rightarrow> (s, q, Inl e)
      | Inr row \<Rightarrow>
        (if ses_State row \<noteq> StateRunning then (s, q, Inl ErrConflict)
         else case sessionRPC r s q row ''diff'' '''' (decodeRPCAnswer decodeDiffAnswer) of
           (s1, q1, Inl e) \<Rightarrow> (s1, q1, Inl e)
         | (s1, q1, Inr ans) \<Rightarrow> (s1, q1, Inr (boundDiff ans))))"

section \<open>Push\<close>

text \<open>The caller's reader: the bytes it yields and how it ends. \<^verbatim>\<open>io.ErrUnexpectedEOF\<close> is an end of its
  own, since the loop compares with it.\<close>

datatype readEnd = AtEOF | AtUnexpectedEOF | AtError err

record bodyReader =
  body_Bytes :: string
  body_End :: readEnd

text \<open>\<^verbatim>\<open>io.ReadFull\<close> of one chunk: a full chunk, the last short one, or a failure; then the \<^verbatim>\<open>Peek\<close> that
  finds out whether a full chunk is the last.\<close>

datatype readChunk = Chunk string bool bodyReader | BadRead err

definition readNext :: "bodyReader \<Rightarrow> readChunk" where
  "readNext b =
     (if length (body_Bytes b) < ChunkBytes
      then (case body_End b of AtError e \<Rightarrow> BadRead (callerIOError e) | _ \<Rightarrow> Chunk (body_Bytes b) True (b\<lparr>body_Bytes := []\<rparr>))
      else
        let data = take ChunkBytes (body_Bytes b); rest = drop ChunkBytes (body_Bytes b)
        in if rest \<noteq> [] then Chunk data False (b\<lparr>body_Bytes := rest\<rparr>)
           else case body_End b of
             AtEOF \<Rightarrow> Chunk data True (b\<lparr>body_Bytes := []\<rparr>)
           | AtUnexpectedEOF \<Rightarrow> BadRead ErrInvalid
           | AtError e \<Rightarrow> BadRead (callerIOError e))"

lemma readNext_shorter:
  "readNext b = Chunk data False b' \<Longrightarrow> length (body_Bytes b') < length (body_Bytes b)"
  by (auto simp: readNext_def Let_def ChunkBytes_def split: if_splits readEnd.splits)

definition sendChunk :: "'s rpcPorts \<Rightarrow> 's \<Rightarrow> u64 \<Rightarrow> Session \<Rightarrow> PushChunk \<Rightarrow> 's \<times> u64 \<times> err option" where
  "sendChunk r s q row chunk =
     (case sessionRPC r s q row ''push_files'' (marshalPushChunk chunk) (decodeRPCAnswer decodePushAck) of
        (s1, q1, Inl e) \<Rightarrow> (s1, q1, Some e)
      | (s1, q1, Inr ack) \<Rightarrow>
        (if ack_Seq ack \<noteq> pc_Seq chunk then (s1, q1, Some ErrUnavailable)
         else if pc_Done chunk \<and> \<not> ack_Synced ack then (s1, q1, Some ErrUnavailable)
         else (s1, q1, None)))"

text \<open>The loop of \<^verbatim>\<open>PushWorkspace\<close>. \<open>sofar\<close> is \<^verbatim>\<open>total\<close>, an \<^verbatim>\<open>int64\<close>.\<close>

function pushLoop ::
    "'s rpcPorts \<Rightarrow> 's \<Rightarrow> u64 \<Rightarrow> Session \<Rightarrow> int \<Rightarrow> string \<Rightarrow> string \<Rightarrow> int \<Rightarrow> int \<Rightarrow> bodyReader \<Rightarrow> 's \<times> u64 \<times> err option" where
  "pushLoop r s q row maxTransfer xfer path seq sofar b =
     (case readNext b of
        BadRead e \<Rightarrow> (s, q, Some e)
      | Chunk data fin b' \<Rightarrow>
        (let sum = int64 (sofar + int (length data))
         in if sum > maxTransfer then (s, q, Some ErrInvalid)
            else case sendChunk r s q row
                   \<lparr>pc_Xfer = xfer, pc_Path = path, pc_Seq = seq, pc_Data = data, pc_Done = fin\<rparr> of
              (s1, q1, Some e) \<Rightarrow> (s1, q1, Some e)
            | (s1, q1, None) \<Rightarrow>
              (if fin then (s1, q1, None) else pushLoop r s1 q1 row maxTransfer xfer path (seq + 1) sum b')))"
  by auto
termination
  by (relation "measure (\<lambda>(_, _, _, _, _, _, _, _, _, b). length (body_Bytes b))") (auto dest: readNext_shorter)

declare pushLoop.simps [simp del]

text \<open>What push and pull check before the transfer: the session and the identities they draw.\<close>

definition openTransfer ::
    "'s host \<Rightarrow> 's \<Rightarrow> Scope \<Rightarrow> sessionid \<Rightarrow> string \<Rightarrow> bool \<Rightarrow> Action \<Rightarrow> 's \<times> (err + Session \<times> string \<times> eventid)" where
  "openTransfer h s scope sid path bodyNil action =
     (case authorizedSession h s scope sid action of
        Inl e \<Rightarrow> (s, Inl e)
      | Inr row \<Rightarrow>
        (if bodyNil then (s, Inl ErrInvalid)
         else if \<not> ValidatePath path then (s, Inl ErrInvalid)
         else if ses_State row \<noteq> StateRunning then (s, Inl ErrConflict)
         else case newTransferID h s of
           (s1, None) \<Rightarrow> (s1, Inl ErrUnavailable)
         | (s1, Some xfer) \<Rightarrow>
           (case newEvent h s1 of
              (s2, Inl e) \<Rightarrow> (s2, Inl e) | (s2, Inr eid) \<Rightarrow> (s2, Inr (row, xfer, eid)))))"

definition PushWorkspace ::
    "'s rpcPorts \<Rightarrow> 's host \<Rightarrow> 's \<Rightarrow> u64 \<Rightarrow> int \<Rightarrow> Scope \<Rightarrow> sessionid \<Rightarrow> string \<Rightarrow> bodyReader option \<Rightarrow> 's \<times> u64 \<times> err option" where
  "PushWorkspace r h s q maxTransfer scope sid path body =
     (case openTransfer h s scope sid path (body = None) ActionPush of
        (s1, Inl e) \<Rightarrow> (s1, q, Some e)
      | (s1, Inr (row, xfer, eid)) \<Rightarrow>
        (case pushLoop r s1 q row maxTransfer xfer path 0 0 (the body) of
           (s2, q2, Some e) \<Rightarrow> (s2, q2, Some e)
         | (s2, q2, None) \<Rightarrow>
           (case runUnit h s2 (recordMinted h s2 eid scope ActionPush (sessionResource row)
                   (ses_PlacementGeneration row) '''') of
              (s3, e) \<Rightarrow> (s3, q2, e))))"

section \<open>Pull\<close>

text \<open>\<^verbatim>\<open>writeAll\<close>: a short write goes on where it stopped, one that takes nothing fails.\<close>

function writeAll :: "'s rpcPorts \<Rightarrow> 's \<Rightarrow> string \<Rightarrow> 's \<times> err option" where
  "writeAll r s data =
     (if data = [] then (s, None)
      else case r_Write r s data of
        (s1, n, e) \<Rightarrow>
          (if n < 0 \<or> n > int (length data) then (s1, Some ErrInvalid)
           else case e of
             Some x \<Rightarrow> (s1, Some x)
           | None \<Rightarrow> if n = 0 then (s1, Some ErrShortWrite) else writeAll r s1 (drop (nat n) data)))"
  by auto
termination
  by (relation "measure (\<lambda>(_, _, data). length data)") auto

declare writeAll.simps [simp del]

text \<open>One turn of the loop of \<^verbatim>\<open>PullWorkspace\<close>: it is over, or goes on with a new total.\<close>

datatype pullStep = Over "err option" | Onward int

definition pullTurn ::
    "'s rpcPorts \<Rightarrow> 's \<Rightarrow> u64 \<Rightarrow> Session \<Rightarrow> int \<Rightarrow> string \<Rightarrow> string \<Rightarrow> int \<Rightarrow> int \<Rightarrow> 's \<times> u64 \<times> pullStep" where
  "pullTurn r s q row maxTransfer xfer path seq sofar =
     (case sessionRPC r s q row ''pull_files'' (marshalPullRequest \<lparr>pr_Xfer = xfer, pr_Path = path, pr_Seq = seq\<rparr>)
             (decodeRPCAnswer decodePullChunk) of
        (s1, q1, Inl e) \<Rightarrow> (s1, q1, Over (Some e))
      | (s1, q1, Inr chunk) \<Rightarrow>
        (if pl_Seq chunk \<noteq> seq then (s1, q1, Over (Some ErrUnavailable))
         else if length (pl_Data chunk) > ChunkBytes then (s1, q1, Over (Some ErrInvalid))
         else if pl_Data chunk = [] \<and> \<not> pl_Done chunk then (s1, q1, Over (Some ErrUnavailable))
         else if int64 (sofar + int (length (pl_Data chunk))) > maxTransfer then (s1, q1, Over (Some ErrInvalid))
         else case writeAll r s1 (pl_Data chunk) of
           (s2, Some e) \<Rightarrow> (s2, q1, Over (Some (callerIOError e)))
         | (s2, None) \<Rightarrow>
           (s2, q1, if pl_Done chunk then Over None else Onward (int64 (sofar + int (length (pl_Data chunk)))))))"

text \<open>The loop ends only because the sandbox's chunks add up: \<open>None\<close> is a loop that never does.\<close>

partial_function (option) pullLoop ::
    "'s rpcPorts \<Rightarrow> 's \<Rightarrow> u64 \<Rightarrow> Session \<Rightarrow> int \<Rightarrow> string \<Rightarrow> string \<Rightarrow> int \<Rightarrow> int \<Rightarrow> ('s \<times> u64 \<times> err option) option" where
  "pullLoop r s q row maxTransfer xfer path seq sofar =
     (case pullTurn r s q row maxTransfer xfer path seq sofar of
        (s1, q1, t) \<Rightarrow>
          (case t of
             Over e \<Rightarrow> Some (s1, q1, e)
           | Onward got \<Rightarrow> pullLoop r s1 q1 row maxTransfer xfer path (seq + 1) got))"

declare pullLoop.simps [code]

definition PullWorkspace ::
    "'s rpcPorts \<Rightarrow> 's host \<Rightarrow> 's \<Rightarrow> u64 \<Rightarrow> int \<Rightarrow> Scope \<Rightarrow> sessionid \<Rightarrow> string \<Rightarrow> bool \<Rightarrow> ('s \<times> u64 \<times> err option) option" where
  "PullWorkspace r h s q maxTransfer scope sid path bodyNil =
     (case openTransfer h s scope sid path bodyNil ActionPull of
        (s1, Inl e) \<Rightarrow> Some (s1, q, Some e)
      | (s1, Inr (row, xfer, eid)) \<Rightarrow>
        (case pullLoop r s1 q row maxTransfer xfer path 0 0 of
           None \<Rightarrow> None
         | Some (s2, q2, Some e) \<Rightarrow> Some (s2, q2, Some e)
         | Some (s2, q2, None) \<Rightarrow>
           (case runUnit h s2 (recordMinted h s2 eid scope ActionPull (sessionResource row)
                   (ses_PlacementGeneration row) '''') of
              (s3, e) \<Rightarrow> Some (s3, q2, e))))"

text \<open>The bound a service is built with; zero asks for the default of 256 MiB.\<close>

definition MaxBytes :: int where "MaxBytes = 268435456"

definition transferBound :: "int \<Rightarrow> err + int" where
  "transferBound opt = (if opt < 0 then Inl ErrInvalid else Inr (if opt = 0 then MaxBytes else opt))"

end
