(* ===== verification/RpcProps.thy ===== *)
theory RpcProps
  imports WorkspaceRpc AppSamples
begin

text \<open>
  The transfers of a workspace: the push loop against a reference that cuts the archive into chunks
  and sends them in order, the return of the pull loop whatever the sandbox answers, and the bounds of
  a relayed diff.
\<close>

section \<open>The push against a reference\<close>

text \<open>The reference: the archive in pieces of at most one chunk, numbered, the last one marked.\<close>

function chunksOf :: "string \<Rightarrow> string list" where
  "chunksOf body = (if length body \<le> ChunkBytes then [body] else take ChunkBytes body # chunksOf (drop ChunkBytes body))"
  by auto
termination by (relation "measure length") (auto simp: ChunkBytes_def)

declare chunksOf.simps [simp del]

fun numbered :: "string \<Rightarrow> string \<Rightarrow> int \<Rightarrow> string list \<Rightarrow> PushChunk list" where
  "numbered xfer path n [] = []"
| "numbered xfer path n (d # ds) =
     \<lparr>pc_Xfer = xfer, pc_Path = path, pc_Seq = n, pc_Data = d, pc_Done = (ds = [])\<rparr> # numbered xfer path (n + 1) ds"

fun sendAll :: "'s rpcPorts \<Rightarrow> 's \<Rightarrow> u64 \<Rightarrow> Session \<Rightarrow> PushChunk list \<Rightarrow> 's \<times> u64 \<times> err option" where
  "sendAll r s q row [] = (s, q, None)"
| "sendAll r s q row (c # cs) =
     (case sendChunk r s q row c of
        (s1, q1, Some e) \<Rightarrow> (s1, q1, Some e) | (s1, q1, None) \<Rightarrow> sendAll r s1 q1 row cs)"

text \<open>An archive that is too large stops before the first chunk over the bound.\<close>

definition sendSome :: "'s rpcPorts \<Rightarrow> 's \<Rightarrow> u64 \<Rightarrow> Session \<Rightarrow> PushChunk list \<Rightarrow> 's \<times> u64 \<times> err option" where
  "sendSome r s q row cs =
     (case sendAll r s q row cs of
        (s1, q1, Some e) \<Rightarrow> (s1, q1, Some e) | (s1, q1, None) \<Rightarrow> (s1, q1, Some ErrInvalid))"

lemma chunksOf_nonempty [simp]: "chunksOf body \<noteq> []"
  by (simp add: chunksOf.simps)

lemma chunksOf_concat: "concat (chunksOf body) = body"
  by (induction body rule: chunksOf.induct) (subst chunksOf.simps, simp)

lemma chunksOf_bounded: "d \<in> set (chunksOf body) \<Longrightarrow> length d \<le> ChunkBytes"
proof (induction body rule: chunksOf.induct)
  case (1 body)
  then show ?case by (cases "length body \<le> ChunkBytes") (auto simp: chunksOf.simps [of body])
qed

lemma length_numbered [simp]: "length (numbered xfer path n ds) = length ds"
  by (induction ds arbitrary: n) auto

lemma sendSome_Cons:
  "sendSome r s q row (c # cs) =
     (case sendChunk r s q row c of
        (s1, q1, Some e) \<Rightarrow> (s1, q1, Some e) | (s1, q1, None) \<Rightarrow> sendSome r s1 q1 row cs)"
  by (auto simp: sendSome_def split: prod.split option.split)

lemma readNext_EOF:
  assumes "body_End b = AtEOF"
  shows "readNext b = (if length (body_Bytes b) \<le> ChunkBytes then Chunk (body_Bytes b) True (b\<lparr>body_Bytes := []\<rparr>)
    else Chunk (take ChunkBytes (body_Bytes b)) False (b\<lparr>body_Bytes := drop ChunkBytes (body_Bytes b)\<rparr>))"
  using assms by (auto simp: readNext_def Let_def)

lemma room_div:
  assumes "0 < c" and "int c \<le> room" and "room < int c + int n" and "0 < n"
  shows "nat room div c = Suc (nat (room - int c) div c)"
proof -
  have "nat room = c + nat (room - int c)" using assms by simp
  then show ?thesis using assms by (simp add: div_add_self1)
qed

lemma pushLoop_reference:
  assumes "body_End b = AtEOF" and "0 \<le> sofar" and "sofar \<le> maxTransfer"
    and "maxTransfer < 2 ^ 63 - int ChunkBytes"
  shows "pushLoop r s q row maxTransfer xfer path seq sofar b =
    (if sofar + int (length (body_Bytes b)) \<le> maxTransfer
     then sendAll r s q row (numbered xfer path seq (chunksOf (body_Bytes b)))
     else sendSome r s q row
       (take (nat (maxTransfer - sofar) div ChunkBytes) (numbered xfer path seq (chunksOf (body_Bytes b)))))"
  using assms
proof (induction "length (body_Bytes b)" arbitrary: s q seq sofar b rule: less_induct)
  case less
  let ?bytes = "body_Bytes b"
  have pos: "0 < ChunkBytes" by (simp add: ChunkBytes_def)
  show ?case
  proof (cases "length ?bytes \<le> ChunkBytes")
    case True
    have small: "int64 (sofar + int (length ?bytes)) = sofar + int (length ?bytes)"
      using less.prems True by (intro int64_id) auto
    have few: "nat (maxTransfer - sofar) div ChunkBytes = 0" if "\<not> sofar + int (length ?bytes) \<le> maxTransfer"
      using that True less.prems(3) by (intro div_less) (simp add: nat_less_iff)
    show ?thesis
      using True small few
      by (auto simp: pushLoop.simps [of _ _ _ _ _ _ _ _ _ b] readNext_EOF [OF less.prems(1)] chunksOf.simps [of ?bytes]
          sendSome_def Let_def split: prod.split option.split)
  next
    case False
    let ?rest = "drop ChunkBytes ?bytes"
    let ?next = "b\<lparr>body_Bytes := ?rest\<rparr>"
    have small: "int64 (sofar + int ChunkBytes) = sofar + int ChunkBytes"
      using less.prems by (intro int64_id) auto
    have len: "int (length ?bytes) = int ChunkBytes + int (length ?rest)" using False by simp
    show ?thesis
    proof (cases "sofar + int ChunkBytes \<le> maxTransfer")
      case over: False
      then have "nat (maxTransfer - sofar) div ChunkBytes = 0"
        using less.prems(3) by (intro div_less) (simp add: nat_less_iff)
      with over False small len show ?thesis
        by (simp add: pushLoop.simps [of _ _ _ _ _ _ _ _ _ b] readNext_EOF [OF less.prems(1)] sendSome_def Let_def)
    next
      case fits: True
      have room: "nat (maxTransfer - sofar) div ChunkBytes = Suc (nat (maxTransfer - (sofar + int ChunkBytes)) div ChunkBytes)"
        if "\<not> sofar + int (length ?bytes) \<le> maxTransfer"
      proof -
        have eq: "maxTransfer - (sofar + int ChunkBytes) = maxTransfer - sofar - int ChunkBytes" by simp
        have "int ChunkBytes \<le> maxTransfer - sofar" "maxTransfer - sofar < int ChunkBytes + int (length ?rest)"
          using that fits len by linarith+
        then show ?thesis
          unfolding eq using room_div [of ChunkBytes "maxTransfer - sofar" "length ?rest"] pos False by simp
      qed
      have IH: "pushLoop r s1 q1 row maxTransfer xfer path (seq + 1) (sofar + int ChunkBytes) ?next =
          (if sofar + int ChunkBytes + int (length ?rest) \<le> maxTransfer
           then sendAll r s1 q1 row (numbered xfer path (seq + 1) (chunksOf ?rest))
           else sendSome r s1 q1 row (take (nat (maxTransfer - (sofar + int ChunkBytes)) div ChunkBytes)
             (numbered xfer path (seq + 1) (chunksOf ?rest))))" for s1 q1
        using less.hyps [of ?next "sofar + int ChunkBytes" s1 q1 "seq + 1"] less.prems fits False pos by simp
      have chunks: "chunksOf ?bytes = take ChunkBytes ?bytes # chunksOf ?rest"
        using False by (simp add: chunksOf.simps [of ?bytes])
      have loop: "pushLoop r s q row maxTransfer xfer path seq sofar b =
          (case sendChunk r s q row \<lparr>pc_Xfer = xfer, pc_Path = path, pc_Seq = seq, pc_Data = take ChunkBytes ?bytes,
              pc_Done = False\<rparr> of
             (s1, q1, Some e) \<Rightarrow> (s1, q1, Some e)
           | (s1, q1, None) \<Rightarrow>
             pushLoop r s1 q1 row maxTransfer xfer path (seq + 1) (sofar + int ChunkBytes) ?next)"
        using False fits small
        by (simp add: pushLoop.simps [of _ _ _ _ _ _ _ _ _ b] readNext_EOF [OF less.prems(1)] Let_def)
      have total: "sofar + int ChunkBytes + int (length ?rest) = sofar + int (length ?bytes)" using len by linarith
      show ?thesis
      proof (cases "sofar + int (length ?bytes) \<le> maxTransfer")
        case True
        show ?thesis unfolding loop IH chunks total if_P [OF True] by simp
      next
        case over: False
        show ?thesis unfolding loop IH chunks total if_not_P [OF over] room [OF over] by (simp add: sendSome_Cons)
      qed
    qed
  qed
qed

text \<open>C26. A push sends the archive and nothing else. Reading from a stream that ends properly, the loop of
  \<^verbatim>\<open>PushWorkspace\<close> does exactly what cutting the whole archive into chunks first and sending those in
  order would do: the chunks are numbered from zero, at most one MiB each, together they are the archive,
  and only the last is marked. An archive over the bound of the service is refused, and only the chunks
  that fit the bound have been sent by then.\<close>

theorem push_reference:
  assumes "body_End b = AtEOF" and "0 \<le> maxTransfer" and "maxTransfer < 2 ^ 63 - int ChunkBytes"
  shows "pushLoop r s q row maxTransfer xfer path 0 0 b =
      (if int (length (body_Bytes b)) \<le> maxTransfer
       then sendAll r s q row (numbered xfer path 0 (chunksOf (body_Bytes b)))
       else sendSome r s q row
         (take (nat maxTransfer div ChunkBytes) (numbered xfer path 0 (chunksOf (body_Bytes b)))))
    \<and> concat (chunksOf (body_Bytes b)) = body_Bytes b
    \<and> list_all (\<lambda>d. length d \<le> ChunkBytes) (chunksOf (body_Bytes b))"
  using pushLoop_reference [of b 0 maxTransfer r s q row xfer path 0] assms
  by (auto simp: chunksOf_concat list_all_iff chunksOf_bounded)

section \<open>The pull returns\<close>

text \<open>A turn that goes on has taken at least one byte, and the new total is within the bound.\<close>

lemma pullTurn_onward:
  assumes "pullTurn r s q row maxTransfer xfer path seq sofar = (s1, q1, Onward got)"
    and "0 \<le> sofar" and "sofar \<le> maxTransfer" and "maxTransfer < 2 ^ 63 - int ChunkBytes"
  shows "sofar < got \<and> got \<le> maxTransfer"
proof -
  obtain s2 q2 x where rpc: "sessionRPC r s q row ''pull_files''
      (marshalPullRequest \<lparr>pr_Xfer = xfer, pr_Path = path, pr_Seq = seq\<rparr>) (decodeRPCAnswer decodePullChunk) = (s2, q2, x)"
    by (rule prod_cases3)
  define d where "d = pl_Data (projr x)"
  have "d \<noteq> []" "length d \<le> ChunkBytes" "got = int64 (sofar + int (length d))" "got \<le> maxTransfer"
    using assms(1) rpc
    by (auto simp: pullTurn_def d_def not_less split: if_splits sum.splits prod.splits option.splits)
  moreover from this have "int64 (sofar + int (length d)) = sofar + int (length d)"
    using assms by (intro int64_id) auto
  ultimately show ?thesis by simp
qed

lemma sessionRPC_counter: "sessionRPC r s q row m p out = (s1, q1, x) \<Longrightarrow> q1 = q + 1"
  by (auto simp: sessionRPC_def Let_def split: if_splits prod.splits sum.splits)

lemma pullTurn_counter: "pullTurn r s q row b xfer path seq sofar = (s1, q1, t) \<Longrightarrow> q1 = q + 1"
  by (auto simp: pullTurn_def dest: sessionRPC_counter split: prod.splits sum.splits if_splits option.splits)

lemma pullLoop_returns:
  assumes "0 \<le> sofar" and "sofar \<le> maxTransfer" and "maxTransfer < 2 ^ 63 - int ChunkBytes"
  shows "\<exists>s' e n. n \<le> nat (maxTransfer - sofar) \<and>
    pullLoop r s q row maxTransfer xfer path seq sofar = Some (s', q + 1 + of_nat n, e)"
  using assms
proof (induction "nat (maxTransfer - sofar)" arbitrary: s q seq sofar rule: less_induct)
  case less
  obtain s1 q1 t where turn: "pullTurn r s q row maxTransfer xfer path seq sofar = (s1, q1, t)"
    by (cases "pullTurn r s q row maxTransfer xfer path seq sofar") auto
  note q1 = pullTurn_counter [OF turn]
  show ?case
  proof (cases t)
    case (Over e)
    with turn q1 show ?thesis by (intro exI [of _ s1] exI [of _ e] exI [of _ 0]) (simp add: pullLoop.simps)
  next
    case (Onward got)
    with pullTurn_onward [of r s q row maxTransfer xfer path seq sofar s1 q1 got] turn less.prems
    have got: "sofar < got" "got \<le> maxTransfer" by auto
    with less.prems less.hyps [of got s1 q1 "seq + 1"] obtain s' e n where
      "n \<le> nat (maxTransfer - got)"
      "pullLoop r s1 q1 row maxTransfer xfer path (seq + 1) got = Some (s', q1 + 1 + of_nat n, e)"
      by auto
    with got turn Onward q1 show ?thesis
      by (intro exI [of _ s'] exI [of _ e] exI [of _ "Suc n"]) (simp add: pullLoop.simps add.assoc)
  qed
qed

text \<open>C27. A pull always comes back. Whatever the sandbox answers and whatever the caller's writer does, the
  loop of \<^verbatim>\<open>PullWorkspace\<close> ends under every bound a service is built with, as long as the bound leaves a
  chunk of room in 64 bits: a chunk that is not the last holds a byte, and the total stays within the
  bound, so there are at most as many requests as the bound has bytes, and one.\<close>

theorem pull_returns:
  assumes "transferBound opt = Inr maxTransfer" and "opt < 2 ^ 63 - int ChunkBytes"
  shows "\<exists>s' q' e n. PullWorkspace r h s q maxTransfer scope sid path bodyNil = Some (s', q', e)
    \<and> n \<le> nat maxTransfer + 1 \<and> q' = q + of_nat n"
proof (cases "openTransfer h s scope sid path bodyNil ActionPull")
  case (Pair s1 x)
  have bound: "0 \<le> maxTransfer" "maxTransfer < 2 ^ 63 - int ChunkBytes"
    using assms by (auto simp: transferBound_def MaxBytes_def ChunkBytes_def split: if_splits)
  show ?thesis
  proof (cases x)
    case (Inl e)
    with Pair show ?thesis by (intro exI [of _ s1] exI [of _ q] exI [of _ "Some e"] exI [of _ 0])
      (simp add: PullWorkspace_def)
  next
    case (Inr y)
    then obtain row xfer eid where x: "x = Inr (row, xfer, eid)" by (cases y) auto
    from pullLoop_returns [of 0 maxTransfer r s1 q row xfer path 0] bound obtain s2 e n where
      loop: "n \<le> nat maxTransfer" "pullLoop r s1 q row maxTransfer xfer path 0 0 = Some (s2, q + 1 + of_nat n, e)"
      by auto
    then have "\<exists>s' e'. PullWorkspace r h s q maxTransfer scope sid path bodyNil = Some (s', q + 1 + of_nat n, e')"
      using Pair x by (cases e) (auto simp: PullWorkspace_def split: prod.split)
    then obtain s' e' where "PullWorkspace r h s q maxTransfer scope sid path bodyNil = Some (s', q + 1 + of_nat n, e')"
      by blast
    with loop(1) show ?thesis
      by (intro exI [of _ s'] exI [of _ "q + 1 + of_nat n"] exI [of _ e'] exI [of _ "Suc n"]) (simp add: add.assoc)
  qed
qed

text \<open>A sandbox that says it has the bytes of request zero, and a writer that takes one byte at a time.\<close>

definition sampleAnswer :: "u64 \<Rightarrow> RpcFromRunner" where
  "sampleAnswer rid =
     \<lparr>from_OK = True, from_Conflict = False, from_Detail = '''', from_State = '''', from_PlacementGeneration = 0,
      from_Type = ''session_req'', from_Session = ''s1'',
      from_RPC = Some \<lparr>rpc_ID = rid, rpc_Method = ''resp'', rpc_OK = True,
        rpc_Payload = jsonObject [(''seq'', ''0''), (''data'', jsonString (StdEncode ''hi'')), (''synced'', ''true'')]\<rparr>\<rparr>"

definition sampleRpc :: "world rpcPorts" where
  "sampleRpc =
     \<lparr>r_Dispatch = (\<lambda>w pool rid m. (w\<lparr>w_now := w_now w + 1\<rparr>,
        case to_RPC m of None \<Rightarrow> Inl ErrUnavailable | Some env \<Rightarrow> Inr (sampleAnswer (rpc_ID env)))),
      r_Write = (\<lambda>w d. (w, 1, None))\<rparr>"

lemma pull_returns_witness:
  "\<exists>w' q' e n. PullWorkspace sampleRpc (memHost sampleOutside) (sampleWorld (stateStore StateRunning)) 0 MaxBytes
      sampleScope ''s1'' ''/workspace'' False = Some (w', q', e) \<and> n \<le> nat MaxBytes + 1 \<and> q' = 0 + of_nat n"
  by (rule pull_returns [of 0]) (simp_all add: transferBound_def ChunkBytes_def)

definition oneChunk :: PushChunk where
  "oneChunk = \<lparr>pc_Xfer = ''x'', pc_Path = ''/workspace'', pc_Seq = 0, pc_Data = ''hi'', pc_Done = True\<rparr>"

lemma push_reference_witness:
  "pushLoop sampleRpc (sampleWorld (stateStore StateRunning)) 0 (sampleSession ''s1'' ''k'') MaxBytes ''x'' ''/workspace'' 0 0
     \<lparr>body_Bytes = ''hi'', body_End = AtEOF\<rparr>
   = sendChunk sampleRpc (sampleWorld (stateStore StateRunning)) 0 (sampleSession ''s1'' ''k'') oneChunk
   \<and> snd (snd (sendChunk sampleRpc (sampleWorld (stateStore StateRunning)) 0 (sampleSession ''s1'' ''k'') oneChunk)) = None"
proof
  have "sendAll sampleRpc w 0 row [c] = sendChunk sampleRpc w 0 row c" for w row c
    by (auto split: prod.split option.split)
  then show "pushLoop sampleRpc (sampleWorld (stateStore StateRunning)) 0 (sampleSession ''s1'' ''k'') MaxBytes ''x''
     ''/workspace'' 0 0 \<lparr>body_Bytes = ''hi'', body_End = AtEOF\<rparr>
   = sendChunk sampleRpc (sampleWorld (stateStore StateRunning)) 0 (sampleSession ''s1'' ''k'') oneChunk"
    using push_reference [of "\<lparr>body_Bytes = ''hi'', body_End = AtEOF\<rparr>" MaxBytes sampleRpc
      "sampleWorld (stateStore StateRunning)" 0 "sampleSession ''s1'' ''k''" "''x''" "''/workspace''"]
    by (simp add: MaxBytes_def ChunkBytes_def chunksOf.simps [of "''hi''"] oneChunk_def)
  show "snd (snd (sendChunk sampleRpc (sampleWorld (stateStore StateRunning)) 0 (sampleSession ''s1'' ''k'') oneChunk)) = None"
    by code_simp
qed

section \<open>A body that breaks off\<close>

text \<open>A reader that fails with \<^verbatim>\<open>io.ErrUnexpectedEOF\<close> inside a chunk, as a request body that was cut off
  does, is taken for one that ended: the short archive is sent as complete.\<close>

lemma push_truncated:
  "length bytes < ChunkBytes \<Longrightarrow>
   pushLoop r s q row maxTransfer xfer path seq sofar \<lparr>body_Bytes = bytes, body_End = AtUnexpectedEOF\<rparr>
   = pushLoop r s q row maxTransfer xfer path seq sofar \<lparr>body_Bytes = bytes, body_End = AtEOF\<rparr>"
  by (subst (1 2) pushLoop.simps) (auto simp: readNext_def Let_def split: prod.split option.split)

section \<open>The diff\<close>

lemma clipTo_bound: "length (clipTo s n) \<le> n"
proof -
  have "length (ToValidUTF8 t) \<le> length t" for t
    by (induction t rule: ToValidUTF8.induct) (subst ToValidUTF8.simps, auto)
  from this [of "take n s"] show ?thesis by (auto simp: clipTo_def)
qed

lemma boundDiff_bounds:
  "length (boundDiff ans) \<le> 64
   \<and> list_all (\<lambda>r. length (rd_Repo r) \<le> 256 \<and> length (rd_BaseBranch r) \<le> 256 \<and> length (rd_SessionBranch r) \<le> 256
        \<and> length (rd_Stat r) \<le> 65536) (boundDiff ans)"
  using clipTo_bound
  by (auto simp: boundDiff_def list_all_iff maxDiffRepos_def maxDiffLabel_def StatBytes_def)

end
