(* ===== verification/Policy.thy ===== *)
theory Policy
  imports RpcProps AttachProps SessionProps
begin

text \<open>
  Who may do what in a self-hosted installation: the authorization adapter
  (\<^verbatim>\<open>src/internal/controld/adapt_policy.go\<close>), the installation's scope and the rule on capabilities
  (\<^verbatim>\<open>src/internal/controld/adapt_scope.go\<close>, \<^verbatim>\<open>src/runnerplane/connect.go\<close>), and what they mean for the
  services they guard.
\<close>

section \<open>The authorization adapter\<close>

definition adminRole :: string where "adminRole = ''admin''"

text \<open>The user a context carries, if any.\<close>

definition actingUser :: "User option \<Rightarrow> Scope \<Rightarrow> err + User" where
  "actingUser user scope =
     (case user of
        None \<Rightarrow> Inl ErrDenied
      | Some u \<Rightarrow>
        (if act_Kind (sco_Actor scope) \<noteq> ActorUser \<or> act_ID (sco_Actor scope) \<noteq> usr_ID u then Inl ErrDenied else Inr u))"

definition ownsOrAdmins :: "User \<Rightarrow> Resource \<Rightarrow> err option" where
  "ownsOrAdmins u r =
     (if usr_Role u = adminRole \<or> (res_CreatorID r \<noteq> '''' \<and> usr_ID u = res_CreatorID r) then None else Some ErrDenied)"

definition ownerOrAdmin_Authorize :: "User option \<Rightarrow> Scope \<Rightarrow> Action \<Rightarrow> Resource \<Rightarrow> err option" where
  "ownerOrAdmin_Authorize user scope a r =
     (case actingUser user scope of
        Inl e \<Rightarrow> Some e
      | Inr u \<Rightarrow>
        (if res_WorkspaceID r \<noteq> installWorkspace then Some ErrDenied
         else case res_Kind r of
           ResourceSession \<Rightarrow>
             (if a \<in> {ActionCreate, ActionGet, ActionList, ActionDiff} then None
              else if a \<in> {ActionDelete, ActionSuspend, ActionResume, ActionSnapshot, ActionAttach, ActionPush, ActionPull}
              then ownsOrAdmins u r
              else Some ErrDenied)
         | ResourceEnvironment \<Rightarrow>
             (if a \<in> {ActionGet, ActionList} then None
              else if a \<in> {ActionCreate, ActionUpdate, ActionDelete} \<and> usr_Role u = adminRole then None
              else Some ErrDenied)
         | ResourceRunner \<Rightarrow> (if a = ActionList then None else Some ErrDenied)))"

definition ownerOrAdmin_AuthorizeAttachment ::
    "User option \<Rightarrow> Scope \<Rightarrow> Resource \<Rightarrow> AttachmentMode \<Rightarrow> err option" where
  "ownerOrAdmin_AuthorizeAttachment user scope r mode =
     (case actingUser user scope of
        Inl e \<Rightarrow> Some e
      | Inr u \<Rightarrow> (if res_WorkspaceID r \<noteq> installWorkspace then Some ErrDenied else ownsOrAdmins u r))"

section \<open>The installation's scope\<close>

definition installPlacement :: PlacementScope where
  "installPlacement = \<lparr>pls_ProductRegion = ''self-hosted'', pls_HomeCell = ''default'', pls_Mode = ExecutionSelfHosted\<rparr>"

definition userScope :: "User \<Rightarrow> Scope" where
  "userScope u =
     \<lparr>sco_WorkspaceID = installWorkspace, sco_Actor = \<lparr>act_ID = usr_ID u, act_Kind = ActorUser\<rparr>,
      sco_Placement = installPlacement\<rparr>"

section \<open>Capabilities\<close>

definition placementCapabilityPrefix :: string where "placementCapabilityPrefix = ''placement:''"

definition MaxCapabilities :: nat where "MaxCapabilities = 32"

text \<open>The expression \<^verbatim>\<open>^[a-z0-9][a-z0-9._-]{0,63}$\<close>.\<close>

definition lowerOrDigit :: "char \<Rightarrow> bool" where
  "lowerOrDigit c \<longleftrightarrow> CHR ''a'' \<le> c \<and> c \<le> CHR ''z'' \<or> CHR ''0'' \<le> c \<and> c \<le> CHR ''9''"

definition ValidCapability :: "string \<Rightarrow> bool" where
  "ValidCapability s =
     (case s of
        [] \<Rightarrow> False
      | c # cs \<Rightarrow> lowerOrDigit c \<and> length cs \<le> 63 \<and> list_all (\<lambda>d. lowerOrDigit d \<or> d \<in> set ''._-'') cs)"

definition runnerCapabilities :: "string \<Rightarrow> string list" where
  "runnerCapabilities name = [placementCapabilityPrefix @ name]"

datatype capabilityError = TooMany | HostPrefix string | BadToken string | ListedTwice string

fun checkCapabilities :: "string list \<Rightarrow> string list \<Rightarrow> capabilityError option" where
  "checkCapabilities seen [] = None"
| "checkCapabilities seen (c # cs) =
     (if CHR '':'' \<in> set c then Some (HostPrefix c)
      else if \<not> ValidCapability c then Some (BadToken c)
      else if c \<in> set seen then Some (ListedTwice c)
      else checkCapabilities (c # seen) cs)"

definition validateCapabilities :: "string list \<Rightarrow> capabilityError option" where
  "validateCapabilities caps = (if length caps > MaxCapabilities then Some TooMany else checkCapabilities [] caps)"

definition portableCapabilities :: "string list \<Rightarrow> string list" where
  "portableCapabilities caps = filter (\<lambda>c. CHR '':'' \<notin> set c) caps"

fun capabilityValue :: "string list \<Rightarrow> string \<Rightarrow> string" where
  "capabilityValue [] pre = ''''"
| "capabilityValue (c # cs) pre = (if prefix pre c then drop (length pre) c else capabilityValue cs pre)"

lemma checkCapabilities_None:
  "checkCapabilities seen cs = None \<longleftrightarrow>
     list_all (\<lambda>c. CHR '':'' \<notin> set c \<and> ValidCapability c) cs \<and> distinct cs \<and> set cs \<inter> set seen = {}"
  by (induction cs arbitrary: seen) auto

text \<open>What an operator writes on an environment never pins it to a runner: only the host spells the
  capability of a runner's name.\<close>

lemma capabilities_unpinned:
  assumes "validateCapabilities caps = None"
  shows "portableCapabilities caps = caps \<and> (\<forall>name. set caps \<inter> set (runnerCapabilities name) = {})
    \<and> portableCapabilities (caps @ runnerCapabilities name) = caps
    \<and> capabilityValue (caps @ runnerCapabilities name) placementCapabilityPrefix = name"
proof -
  from assms have colon: "CHR '':'' \<notin> set c" if "c \<in> set caps" for c
    using that by (auto simp: validateCapabilities_def checkCapabilities_None list_all_iff split: if_splits)
  have "\<not> prefix placementCapabilityPrefix c" if "c \<in> set caps" for c
    using colon [OF that] by (auto simp: placementCapabilityPrefix_def elim!: prefixE)
  then have "capabilityValue (caps @ runnerCapabilities name) placementCapabilityPrefix = name"
    by (induction caps) (auto simp: runnerCapabilities_def)
  moreover have "set caps \<inter> set (runnerCapabilities n) = {}" for n
    using colon [of "placementCapabilityPrefix @ n"] by (auto simp: runnerCapabilities_def placementCapabilityPrefix_def)
  ultimately show ?thesis
    using colon by (auto simp: portableCapabilities_def runnerCapabilities_def placementCapabilityPrefix_def filter_id_conv)
qed

section \<open>What the policy means for the services\<close>

definition guardedHost :: "outside \<Rightarrow> User \<Rightarrow> world host" where
  "guardedHost out u = memHost (out\<lparr>o_Authorize := ownerOrAdmin_Authorize (Some u)\<rparr>)"

definition guardedPorts :: "world attachPorts \<Rightarrow> User \<Rightarrow> world attachPorts" where
  "guardedPorts p u = p\<lparr>p_Authorize := \<lambda>w. ownerOrAdmin_AuthorizeAttachment (Some u)\<rparr>"

lemma guarded_denies:
  assumes "usr_Role u \<noteq> adminRole" and "usr_ID u \<noteq> ses_CreatorID row"
    and "a \<notin> {ActionCreate, ActionGet, ActionList, ActionDiff}"
  shows "h_Authorize (guardedHost out u) w scope a (sessionResource row) \<noteq> None"
  using assms
  by (auto simp: guardedHost_def memHost_def ownerOrAdmin_Authorize_def actingUser_def ownsOrAdmins_def
      sessionResource_def split: option.splits sum.splits)

lemma denied_rows:
  assumes "usr_Role u \<noteq> adminRole" and "worldRow w installWorkspace sid = Some row"
    and "usr_ID u \<noteq> ses_CreatorID row"
    and "a \<notin> {ActionCreate, ActionGet, ActionList, ActionDiff}"
  shows "\<exists>e \<in> {ErrInvalid, ErrDenied}. authorizedRow (guardedHost out u) w (userScope u) a sid = Inl e"
    "\<exists>e \<in> {ErrInvalid, ErrDenied}. authorizedSession (guardedHost out u) w (userScope u) sid a = Inl e"
proof -
  have get: "h_GetSession (guardedHost out u) w installWorkspace sid = Inr row"
    using assms(2) by (simp add: guardedHost_def memHost_def memSessions_GetSession_def worldRow_def installWorkspace_def)
  have deny: "h_Authorize (guardedHost out u) w (userScope u) a (sessionResource row) \<noteq> None"
    using guarded_denies [OF assms(1,3,4)] by simp
  show "\<exists>e \<in> {ErrInvalid, ErrDenied}. authorizedRow (guardedHost out u) w (userScope u) a sid = Inl e"
    "\<exists>e \<in> {ErrInvalid, ErrDenied}. authorizedSession (guardedHost out u) w (userScope u) sid a = Inl e"
    using get deny by (auto simp: authorizedRow_def authorizedSession_def userScope_def)
qed

section \<open>Properties\<close>

text \<open>C25. A member touches only what is theirs. Under the self-hosted policy, a user who is no admin and
  did not create a session cannot delete, suspend, resume or snapshot it, attach to it, run a command in
  it, or push to or pull from its workspace: each command is refused, and nothing in the installation
  changes, whatever the rest of the world does.\<close>

theorem member_owns:
  assumes "usr_Role u \<noteq> adminRole" and "worldRow w installWorkspace sid = Some row"
    and "usr_ID u \<noteq> ses_CreatorID row"
  shows "let h = guardedHost out u; scope = userScope u; refused = {ErrInvalid, ErrDenied} in
      (\<exists>e \<in> refused. SessionService_DeleteSession h w scope sid = (w, Some e))
    \<and> (\<exists>e \<in> refused. SessionService_SuspendSession h w scope sid warm = (w, Inl e))
    \<and> (\<exists>e \<in> refused. SessionService_ResumeSession h w scope sid = (w, Inl e))
    \<and> (\<exists>e \<in> refused. SessionService_SnapshotSession h w scope sid = (w, Inl e))
    \<and> (\<exists>e \<in> refused. AttachTerminal (guardedPorts p u) h w scope (at\<lparr>at_SessionID := sid\<rparr>) False = (w, Some e))
    \<and> (\<exists>e \<in> refused \<union> {ErrUnsupported}. ExecCommand (guardedPorts p u) h w scope (ex\<lparr>ex_SessionID := sid\<rparr>) False = (w, Some e))
    \<and> (\<exists>e \<in> refused. PushWorkspace r h w q bound scope sid path (Some body) = (w, q, Some e))
    \<and> (\<exists>e \<in> refused. PullWorkspace r h w q bound scope sid path False = Some (w, q, Some e))"
proof -
  note rows = denied_rows [OF assms]
  obtain f where f: "\<And>a. a \<notin> {ActionCreate, ActionGet, ActionList, ActionDiff} \<Longrightarrow> f a \<in> {ErrInvalid, ErrDenied}
      \<and> authorizedRow (guardedHost out u) w (userScope u) a sid = Inl (f a)"
    using rows(1) [of _ out] by metis
  obtain g where g: "\<And>a. a \<notin> {ActionCreate, ActionGet, ActionList, ActionDiff} \<Longrightarrow> g a \<in> {ErrInvalid, ErrDenied}
      \<and> authorizedSession (guardedHost out u) w (userScope u) sid a = Inl (g a)"
    using rows(2) [of _ out] by metis
  show ?thesis
    unfolding Let_def
    using f [of ActionDelete] f [of ActionSuspend] f [of ActionResume] f [of ActionSnapshot]
      g [of ActionAttach] g [of ActionPush] g [of ActionPull]
    by (auto simp: SessionService_DeleteSession_def SessionService_SuspendSession_def SessionService_ResumeSession_def
        SessionService_SnapshotSession_def AttachTerminal_def ExecCommand_def PushWorkspace_def PullWorkspace_def
        openTransfer_def split: option.split)
qed

definition mallory :: User where
  "mallory = \<lparr>usr_ID = ''mallory'', usr_GitHubID = 7, usr_Login = ''m'', usr_Role = ''member'', usr_CreatedAt = 0\<rparr>"

lemma member_owns_witness:
  "fst (SessionService_DeleteSession (guardedHost sampleOutside mallory) (sampleWorld (stateStore StateRunning))
     (userScope mallory) ''s1'') = sampleWorld (stateStore StateRunning)
   \<and> snd (SessionService_DeleteSession (guardedHost sampleOutside mallory) (sampleWorld (stateStore StateRunning))
     (userScope mallory) ''s1'') = Some ErrDenied"
proof
  have row: "worldRow (sampleWorld (stateStore StateRunning)) installWorkspace ''s1'' = Some runningRow"
    and other: "usr_Role mallory \<noteq> adminRole" "usr_ID mallory \<noteq> ses_CreatorID runningRow"
    by code_simp+
  have "\<exists>e \<in> {ErrInvalid, ErrDenied}. SessionService_DeleteSession (guardedHost sampleOutside mallory)
      (sampleWorld (stateStore StateRunning)) (userScope mallory) ''s1'' = (sampleWorld (stateStore StateRunning), Some e)"
    by (rule member_owns [OF other(1) row other(2), unfolded Let_def, THEN conjunct1])
  then show "fst (SessionService_DeleteSession (guardedHost sampleOutside mallory) (sampleWorld (stateStore StateRunning))
     (userScope mallory) ''s1'') = sampleWorld (stateStore StateRunning)"
    by (metis fst_conv)
  show "snd (SessionService_DeleteSession (guardedHost sampleOutside mallory) (sampleWorld (stateStore StateRunning))
     (userScope mallory) ''s1'') = Some ErrDenied" by code_simp
qed

end
