(* ===== verification/Repos.thy ===== *)
theory Repos
  imports WorkspaceRpc Policy
begin

text \<open>
  The self-hosted launch material (\<^verbatim>\<open>src/internal/controld/adapt_launch.go\<close>): the repositories a
  session clones, read from its own list or from the github connectors of its environment, the branch
  and the directory of each, the git identity, and the decrypted secrets; and the decoding of connectors
  (\<^verbatim>\<open>src/v0wire/environments.go\<close>) by which they are admitted and later read back.
\<close>

section \<open>Repository references\<close>

definition isWordChar :: "char \<Rightarrow> bool" where
  "isWordChar c \<longleftrightarrow> lowerOrDigit c \<or> c = CHR ''_'' \<or> CHR ''A'' \<le> c \<and> c \<le> CHR ''Z''"

definition repoChar :: "char \<Rightarrow> bool" where
  "repoChar c \<longleftrightarrow> isWordChar c \<or> c = CHR ''.'' \<or> c = CHR ''-''"

definition validRepoSegment :: "string \<Rightarrow> bool" where
  "validRepoSegment s \<longleftrightarrow> s \<noteq> ''.'' \<and> s \<noteq> ''..'' \<and> \<not> prefix ''-'' s"

text \<open>\<^verbatim>\<open>strings.Cut(s, "/")\<close>: without a slash the second part is empty.\<close>

definition cutSlash :: "string \<Rightarrow> string \<times> string" where
  "cutSlash s = (case Cut (CHR ''/'') s of None \<Rightarrow> (s, '''') | Some p \<Rightarrow> p)"

text \<open>The expression \<^verbatim>\<open>^[\w.-]+/[\w.-]+$\<close>.\<close>

definition repoPattern :: "string \<Rightarrow> bool" where
  "repoPattern s =
     (case splitSlash s of [a, b] \<Rightarrow> a \<noteq> [] \<and> b \<noteq> [] \<and> list_all repoChar a \<and> list_all repoChar b | _ \<Rightarrow> False)"

definition validRepoRef :: "string \<Rightarrow> bool" where
  "validRepoRef s =
     (if \<not> repoPattern s then False
      else case cutSlash s of (owner, name) \<Rightarrow> validRepoSegment owner \<and> validRepoSegment name)"

section \<open>Connectors\<close>

record GitHubConnector =
  ghc_Type :: string
  ghc_Repo :: string
  ghc_BaseBranch :: "string option"

definition DefaultBaseBranch :: string where "DefaultBaseBranch = ''main''"

datatype connectorError =
    NotObject | MissingType | Undecodable | BadRepo string | EmptyBranch | NoPaths | EmptyPath | NoName | NoTargetHost
  | BadPort int | BadTier string | UnknownType string

text \<open>\<^verbatim>\<open>strictDecode\<close>: a field the struct does not have is an error. A decoder stops after the first value.\<close>

definition strictMembers :: "string list \<Rightarrow> string \<Rightarrow> (string \<times> jvalue) list option" where
  "strictMembers names elem =
     (case parseValue (json_fuel elem) 10000 elem of
        Some (JNull, _) \<Rightarrow> Some []
      | Some (JObject ms, _) \<Rightarrow>
        if list_all (\<lambda>(k, v). list_ex (\<lambda>n. fieldNamed n k) names) ms then Some ms else None
      | _ \<Rightarrow> None)"

text \<open>A pointer to a string: null is nil.\<close>

definition decodeStringPtr :: "string \<Rightarrow> (string \<times> jvalue) list \<Rightarrow> string option option" where
  "decodeStringPtr name members =
     fold (\<lambda>(k, v) acc.
       if \<not> fieldNamed name k then acc
       else case v of JNull \<Rightarrow> map_option (\<lambda>_. None) acc | JString x \<Rightarrow> map_option (\<lambda>_. Some x) acc | _ \<Rightarrow> None)
     members (Some None)"

definition DecodeGitHubConnector :: "string \<Rightarrow> connectorError + GitHubConnector" where
  "DecodeGitHubConnector elem =
     (case strictMembers [''type'', ''repo'', ''base_branch''] elem of
        None \<Rightarrow> Inl Undecodable
      | Some ms \<Rightarrow>
        (case (decodeString ''type'' ms, decodeString ''repo'' ms, decodeStringPtr ''base_branch'' ms) of
           (Some ty, Some repo, Some base) \<Rightarrow>
             (if \<not> validRepoRef repo then Inl (BadRepo repo)
              else case base of
                None \<Rightarrow> Inr \<lparr>ghc_Type = ty, ghc_Repo = repo, ghc_BaseBranch = Some DefaultBaseBranch\<rparr>
              | Some b \<Rightarrow>
                (if b = '''' then Inl EmptyBranch
                 else Inr \<lparr>ghc_Type = ty, ghc_Repo = repo, ghc_BaseBranch = Some b\<rparr>))
         | _ \<Rightarrow> Inl Undecodable))"

text \<open>A slice of strings: an element that is null is empty.\<close>

fun decodeStringElem :: "jvalue \<Rightarrow> string option" where
  "decodeStringElem JNull = Some []"
| "decodeStringElem (JString x) = Some x"
| "decodeStringElem _ = None"

fun decodeStrings :: "jvalue \<Rightarrow> string list option" where
  "decodeStrings (JArray vs) = those (map decodeStringElem vs)"
| "decodeStrings _ = None"

definition validateConnector :: "string \<Rightarrow> string \<Rightarrow> connectorError option" where
  "validateConnector connType elem =
     (if connType = ''github'' then (case DecodeGitHubConnector elem of Inl e \<Rightarrow> Some e | Inr _ \<Rightarrow> None)
      else if connType = ''files''
      then (case strictMembers [''type'', ''paths''] elem of
              None \<Rightarrow> Some Undecodable
            | Some ms \<Rightarrow>
              (if decodeString ''type'' ms = None \<or> \<not> slicesDecode decodeStrings ''paths'' ms then Some Undecodable
               else case decodeField decodeStrings [] ''paths'' (lastOf ''paths'' ms) of
                 None \<Rightarrow> Some Undecodable
               | Some [] \<Rightarrow> Some NoPaths
               | Some paths \<Rightarrow> if list_ex (\<lambda>p. p = '''') paths then Some EmptyPath else None))
      else if connType = ''tunnel''
      then (case strictMembers [''type'', ''name'', ''target_host'', ''target_port''] elem of
              None \<Rightarrow> Some Undecodable
            | Some ms \<Rightarrow>
              (case (decodeString ''type'' ms, decodeString ''name'' ms, decodeString ''target_host'' ms,
                     decodeField decodeInt 0 ''target_port'' ms) of
                 (Some _, Some name, Some host, Some port) \<Rightarrow>
                   (if name = '''' then Some NoName
                    else if host = '''' then Some NoTargetHost
                    else if port < 1 \<or> port > 65535 then Some (BadPort port)
                    else None)
               | _ \<Rightarrow> Some Undecodable))
      else if connType = ''browser''
      then (case strictMembers [''type'', ''tier''] elem of
              None \<Rightarrow> Some Undecodable
            | Some ms \<Rightarrow>
              (case (decodeString ''type'' ms, decodeString ''tier'' ms) of
                 (Some _, Some tier) \<Rightarrow>
                   (if tier \<noteq> ''dedicated'' \<and> tier \<noteq> ''extension'' then Some (BadTier tier) else None)
               | _ \<Rightarrow> Some Undecodable))
      else Some (UnknownType connType))"

text \<open>The raw text of each element of an array (\<^verbatim>\<open>[]json.RawMessage\<close>); \<open>None\<close> where the text is no array.
  The text has been accepted by the parser before, which also bounds the fuel.\<close>

fun rawElements :: "nat \<Rightarrow> string \<Rightarrow> string list option" where
  "rawElements 0 s = None"
| "rawElements (Suc n) s =
     (let t = skipSpace s
      in case parseValue (json_fuel t) 10000 t of
        None \<Rightarrow> None
      | Some (v, r) \<Rightarrow>
        (case skipSpace r of
           CHR '','' # r' \<Rightarrow> map_option (\<lambda>es. textBefore r t # es) (rawElements n r')
         | CHR '']'' # _ \<Rightarrow> Some [textBefore r t]
         | _ \<Rightarrow> None))"

definition rawArray :: "string \<Rightarrow> string list option" where
  "rawArray raw =
     (case parseJson raw of
        Some JNull \<Rightarrow> Some []
      | Some (JArray []) \<Rightarrow> Some []
      | Some (JArray _) \<Rightarrow> rawElements (length raw) (tl (skipSpace raw))
      | _ \<Rightarrow> None)"

text \<open>The head of an element: any other field is ignored.\<close>

definition connectorType :: "string \<Rightarrow> connectorError + string" where
  "connectorType elem =
     (case parseJson elem of
        Some JNull \<Rightarrow> Inr ''''
      | Some (JObject ms) \<Rightarrow> (case decodeString ''type'' ms of None \<Rightarrow> Inl NotObject | Some t \<Rightarrow> Inr t)
      | _ \<Rightarrow> Inl NotObject)"

fun checkConnectors :: "string list \<Rightarrow> connectorError + Connector list" where
  "checkConnectors [] = Inr []"
| "checkConnectors (elem # rest) =
     (case connectorType elem of
        Inl e \<Rightarrow> Inl e
      | Inr ty \<Rightarrow>
        (if ty = '''' then Inl MissingType
         else case validateConnector ty elem of
           Some e \<Rightarrow> Inl e
         | None \<Rightarrow>
           (case checkConnectors rest of
              Inl e \<Rightarrow> Inl e | Inr cs \<Rightarrow> Inr (\<lparr>con_Type = ty, con_Raw = elem\<rparr> # cs))))"

definition ValidateConnectors :: "string \<Rightarrow> connectorError + Connector slice" where
  "ValidateConnectors raw =
     (if raw = '''' then Inr None
      else case rawArray raw of
        None \<Rightarrow> Inl NotObject
      | Some [] \<Rightarrow> Inr None
      | Some es \<Rightarrow> (case checkConnectors es of Inl e \<Rightarrow> Inl e | Inr cs \<Rightarrow> Inr (Some cs)))"

section \<open>The repositories a session clones\<close>

fun connectorRefs :: "Connector list \<Rightarrow> connectorError + RepoRef list" where
  "connectorRefs [] = Inr []"
| "connectorRefs (c # cs) =
     (if con_Type c \<noteq> ''github'' then connectorRefs cs
      else case DecodeGitHubConnector (con_Raw c) of
        Inl e \<Rightarrow> Inl e
      | Inr gc \<Rightarrow>
        (case connectorRefs cs of
           Inl e \<Rightarrow> Inl e
         | Inr refs \<Rightarrow> Inr (\<lparr>ref_Repo = ghc_Repo gc, ref_BaseBranch = the (ghc_BaseBranch gc)\<rparr> # refs)))"

definition sessionRepoRefs :: "Session \<Rightarrow> Environment option \<Rightarrow> connectorError + RepoRef list" where
  "sessionRepoRefs row env =
     (case spec_Repos (ses_Spec row) of
        Some refs \<Rightarrow> Inr refs
      | None \<Rightarrow> (case env of None \<Rightarrow> Inr [] | Some e \<Rightarrow> connectorRefs (elems (env_Connectors e))))"

definition sessionBranch :: "Session \<Rightarrow> string" where
  "sessionBranch row =
     ''rainier/'' @ (if ses_Name row \<noteq> '''' then ses_Name row else drop (length (ses_ID row) - 12) (ses_ID row))"

definition numberedDir :: "string \<Rightarrow> string \<Rightarrow> nat \<Rightarrow> string" where
  "numberedDir owner name n = owner @ ''__'' @ name @ ''-'' @ show_nat n"

text \<open>The counter of \<^verbatim>\<open>uniqueDir\<close> stops at the first number that is free: only finitely many are taken.\<close>

lemma numberedDir_inj: "numberedDir owner name m = numberedDir owner name n \<Longrightarrow> m = n"
proof -
  assume "numberedDir owner name m = numberedDir owner name n"
  then have "show_nat m = show_nat n" by (simp add: numberedDir_def)
  then show "m = n" using parse_show_nat [of m] parse_show_nat [of n] by (metis option.inject)
qed

lemma numberedDir_finite: "finite {m. n \<le> m \<and> numberedDir owner name m \<in> set taken}"
proof (rule finite_subset)
  show "{m. n \<le> m \<and> numberedDir owner name m \<in> set taken} \<subseteq> (numberedDir owner name) -` set taken" by auto
  show "finite ((numberedDir owner name) -` set taken)"
    by (rule finite_vimageI) (auto intro: injI dest: numberedDir_inj)
qed

function countDir :: "string list \<Rightarrow> string \<Rightarrow> string \<Rightarrow> nat \<Rightarrow> string" where
  "countDir taken owner name n =
     (if numberedDir owner name n \<notin> set taken then numberedDir owner name n else countDir taken owner name (n + 1))"
  by auto
termination
proof (relation "measure (\<lambda>(taken, owner, name, n). card {m. n \<le> m \<and> numberedDir owner name m \<in> set taken})")
  fix taken owner name n
  assume "\<not> numberedDir owner name n \<notin> set taken"
  then have "{m. n + 1 \<le> m \<and> numberedDir owner name m \<in> set taken} \<subset> {m. n \<le> m \<and> numberedDir owner name m \<in> set taken}"
    by (auto simp: Suc_le_eq)
  then show "((taken, owner, name, n + 1), taken, owner, name, n)
      \<in> measure (\<lambda>(taken, owner, name, n). card {m. n \<le> m \<and> numberedDir owner name m \<in> set taken})"
    by (auto intro: psubset_card_mono numberedDir_finite)
qed auto

declare countDir.simps [simp del]

definition uniqueDir :: "string list \<Rightarrow> string \<Rightarrow> string \<Rightarrow> string" where
  "uniqueDir taken owner name =
     (if name \<notin> set taken then name
      else if owner @ ''__'' @ name \<notin> set taken then owner @ ''__'' @ name
      else countDir taken owner name 2)"

fun expandFrom :: "string list \<Rightarrow> string \<Rightarrow> RepoRef list \<Rightarrow> RepoSpec list" where
  "expandFrom taken branch [] = []"
| "expandFrom taken branch (ref # refs) =
     (let (owner, name) = cutSlash (ref_Repo ref);
          dir = uniqueDir taken owner name
      in \<lparr>repo_Owner = owner, repo_Name = name,
          repo_BaseBranch = (if ref_BaseBranch ref = '''' then DefaultBaseBranch else ref_BaseBranch ref),
          repo_SessionBranch = branch, repo_Dir = dir\<rparr> # expandFrom (dir # taken) branch refs)"

definition expandRepos :: "Session \<Rightarrow> RepoRef list \<Rightarrow> RepoSpec slice" where
  "expandRepos row refs = (if refs = [] then None else Some (expandFrom [] (sessionBranch row) refs))"

definition noreplyEmail :: "User \<Rightarrow> string" where
  "noreplyEmail u = Sprint_d (usr_GitHubID u) @ ''+'' @ usr_Login u @ ''@users.noreply.github.com''"

section \<open>The launch material\<close>

text \<open>\<^verbatim>\<open>Open\<close> under the installation's key is a parameter. Each error is a fixed sentence; the one about a
  secret that is gone names it.\<close>

datatype launchError = ReposFailed | IdentityFailed | SecretGone string | SecretsFailed

fun openSecrets ::
    "(bytes \<Rightarrow> bytes \<Rightarrow> string option) \<Rightarrow> memStore \<Rightarrow> string list \<Rightarrow> (string \<times> string) list \<Rightarrow> launchError + (string \<times> string) list" where
  "openSecrets opn m [] vars = Inr vars"
| "openSecrets opn m (name # names) vars =
     (case memStore_GetSecret m name of
        Inl e \<Rightarrow>
          Inl (if errIs e ErrNotFound then SecretGone name else SecretsFailed)
      | Inr (ciphertext, nonce) \<Rightarrow>
        (case opn ciphertext nonce of
           None \<Rightarrow> Inl SecretsFailed
         | Some plaintext \<Rightarrow> openSecrets opn m names (upd name plaintext vars)))"

definition secretEnvironment ::
    "(bytes \<Rightarrow> bytes \<Rightarrow> string option) \<Rightarrow> memStore \<Rightarrow> Environment option \<Rightarrow> launchError + (string \<times> string) list" where
  "secretEnvironment opn m env =
     (case env of None \<Rightarrow> Inr [] | Some e \<Rightarrow> openSecrets opn m (elems (env_SecretRefs e)) [])"

definition ResolveLaunchMaterial ::
    "(bytes \<Rightarrow> bytes \<Rightarrow> string option) \<Rightarrow> memStore \<Rightarrow> Session \<Rightarrow> Environment option \<Rightarrow> launchError + LaunchMaterial" where
  "ResolveLaunchMaterial opn m row env =
     (case sessionRepoRefs row env of
        Inl _ \<Rightarrow> Inl ReposFailed
      | Inr refs \<Rightarrow>
        (case (if refs = [] then Inr ('''', '''')
               else case memStore_GetUser m (ses_CreatorID row) of
                 Inl _ \<Rightarrow> Inl IdentityFailed
               | Inr u \<Rightarrow> Inr (usr_Login u, noreplyEmail u)) of
           Inl fail \<Rightarrow> Inl fail
         | Inr (name, email) \<Rightarrow>
           (case secretEnvironment opn m env of
              Inl fail \<Rightarrow> Inl fail
            | Inr vars \<Rightarrow>
              Inr \<lparr>mat_Repos = expandRepos row refs, mat_GitAuthorName = name, mat_GitAuthorEmail = email,
                   mat_Environment = vars, mat_EgressAllow = (if refs = [] then None else GitHubGitEgressHosts)\<rparr>)))"

section \<open>Directories\<close>

lemma countDir_free: "countDir taken owner name n \<notin> set taken"
  by (induction taken owner name n rule: countDir.induct) (subst countDir.simps, simp)

lemma countDir_numbered: "\<exists>m. countDir taken owner name n = numberedDir owner name m"
  by (induction taken owner name n rule: countDir.induct) (subst countDir.simps, auto)

lemma uniqueDir_free: "uniqueDir taken owner name \<notin> set taken"
  using countDir_free by (simp add: uniqueDir_def)

lemma expandFrom_dirs:
  "distinct (map repo_Dir (expandFrom taken branch refs)) \<and> set (map repo_Dir (expandFrom taken branch refs)) \<inter> set taken = {}"
proof (induction refs arbitrary: taken)
  case (Cons ref refs)
  obtain owner name where cut: "cutSlash (ref_Repo ref) = (owner, name)" by fastforce
  from Cons [of "uniqueDir taken owner name # taken"] cut uniqueDir_free [of taken owner name] show ?case
    by (auto simp: Let_def)
qed simp

lemma digit_no_slash: "slash \<notin> set (show_nat n)"
proof
  assume "slash \<in> set (show_nat n)"
  then obtain d where "d < 10" "slash = digit d" using show_nat_digits by blast
  then have "byte slash = 48 + d" by (simp only: byte_digit)
  then show False by simp
qed

lemma repoChar_slash: "\<not> repoChar slash"
  by (simp add: repoChar_def isWordChar_def lowerOrDigit_def less_eq_char_def)

lemma Cut_split: "splitSlash s = [a, b] \<Longrightarrow> Cut slash s = Some (a, b)"
proof (induction s arbitrary: a)
  case (Cons c s)
  show ?case
  proof (cases "c = slash")
    case True
    with Cons.prems have "splitSlash s = [b]" "a = []" by auto
    from arg_cong [OF this(1), of joinSlash] have "s = b" by simp
    with True \<open>a = []\<close> show ?thesis by simp
  next
    case False
    with Cons.prems obtain e where "splitSlash s = [e, b]" "a = c # e"
      by (auto split: list.splits)
    with Cons.IH False show ?thesis by auto
  qed
qed simp

lemma validRepoRef_parts:
  assumes "validRepoRef s"
  obtains owner name where "cutSlash s = (owner, name)" "plain owner" "plain name"
proof -
  from assms obtain a b where "splitSlash s = [a, b]" and ab: "a \<noteq> []" "b \<noteq> []" "list_all repoChar a" "list_all repoChar b"
    by (auto simp: validRepoRef_def repoPattern_def split: if_splits list.splits)
  then have cut: "cutSlash s = (a, b)" by (simp add: cutSlash_def Cut_split)
  moreover have "slash \<notin> set a" "slash \<notin> set b" using ab repoChar_slash by (auto simp: list_all_iff)
  ultimately show thesis
    using that [of a b] assms ab by (auto simp: validRepoRef_def validRepoSegment_def plain_def split: if_splits)
qed

lemma uniqueDir_plain:
  assumes "plain owner" and "plain name"
  shows "plain (uniqueDir taken owner name)"
proof -
  obtain m where m: "countDir taken owner name 2 = numberedDir owner name m" using countDir_numbered by blast
  have joined: "plain (owner @ ''__'' @ t)" if "slash \<notin> set t" for t
  proof -
    have "length (owner @ ''__'' @ t) > 2" using assms(1) by (cases owner) (auto simp: plain_def)
    then have "owner @ ''__'' @ t \<noteq> ''..''" "owner @ ''__'' @ t \<noteq> ''.''" "owner @ ''__'' @ t \<noteq> ''''"
      by (metis length_Cons list.size(3) less_numeral_extra(3) not_less_eq numeral_2_eq_2 lessI Suc_lessD)+
    with that assms show ?thesis by (simp add: plain_def)
  qed
  have "slash \<notin> set (name @ ''-'' @ show_nat m)" using assms(2) digit_no_slash by (auto simp: plain_def)
  from joined [OF this] joined [of name] assms m show ?thesis
    by (auto simp: uniqueDir_def numberedDir_def plain_def)
qed

lemma expandFrom_plain:
  "list_all (\<lambda>ref. validRepoRef (ref_Repo ref)) refs \<Longrightarrow> list_all (\<lambda>r. plain (repo_Dir r)) (expandFrom taken branch refs)"
proof (induction refs arbitrary: taken)
  case (Cons ref refs)
  from Cons.prems obtain owner name where "cutSlash (ref_Repo ref) = (owner, name)" "plain owner" "plain name"
    by (auto elim: validRepoRef_parts)
  with Cons uniqueDir_plain show ?case by (simp add: Let_def)
qed simp

lemma checkConnectors_refs:
  "checkConnectors es = Inr cs \<Longrightarrow>
   \<exists>refs. connectorRefs cs = Inr refs \<and> list_all (\<lambda>ref. validRepoRef (ref_Repo ref) \<and> ref_BaseBranch ref \<noteq> '''') refs"
proof (induction es arbitrary: cs)
  case (Cons elem es)
  then obtain ty rest where "checkConnectors es = Inr rest" "validateConnector ty elem = None"
    "cs = \<lparr>con_Type = ty, con_Raw = elem\<rparr> # rest"
    by (auto split: sum.splits if_splits option.splits)
  moreover from Cons.IH [OF this(1)] obtain refs where "connectorRefs rest = Inr refs"
    "list_all (\<lambda>ref. validRepoRef (ref_Repo ref) \<and> ref_BaseBranch ref \<noteq> '''') refs" by blast
  moreover have "validRepoRef (ghc_Repo gc) \<and> the (ghc_BaseBranch gc) \<noteq> ''''" if "DecodeGitHubConnector elem = Inr gc" for gc
    using that by (auto simp: DecodeGitHubConnector_def DefaultBaseBranch_def split: option.splits if_splits)
  ultimately show ?case by (auto simp: validateConnector_def split: sum.splits if_splits)
qed simp

lemma ValidateConnectors_checked: "ValidateConnectors raw = Inr conns \<Longrightarrow> \<exists>es. checkConnectors es = Inr (elems conns)"
  by (auto simp: ValidateConnectors_def simp del: checkConnectors.simps
      intro: exI [of _ "[]"] checkConnectors.simps(1) split: if_splits option.splits list.splits sum.splits)

section \<open>Properties\<close>


definition sampleConnector :: string where
  "sampleConnector = jsonObject [(''type'', jsonString ''github''), (''repo'', jsonString ''a/b'')]"

definition sampleConns :: "Connector slice" where
  "sampleConns = Some [\<lparr>con_Type = ''github'', con_Raw = sampleConnector\<rparr>]"

definition cloneEnvironment :: Environment where
  "cloneEnvironment =
     \<lparr>env_ID = ''e'', env_WorkspaceID = installWorkspace, env_Name = ''n'', env_Image = ''i'', env_Setup = '''', env_SetupHash = '''',
      env_Init = '''', env_InitTimeoutSec = 0, env_EgressAllow = None, env_SecretRefs = None, env_Connectors = sampleConns,
      env_Requirements = noRequirements, env_SetupTimeoutSec = 0,
      env_Snapshot = \<lparr>cp_Ref = '''', cp_Format = '''', cp_Capabilities = None\<rparr>, env_SnapshotHash = '''', env_CreatedAt = 0, env_UpdatedAt = 0\<rparr>"


end
