(* ===== verification/Reconnect.thy ===== *)
theory Reconnect
  imports WorkspaceRpc Scheduler AppSamples
begin

text \<open>
  Guest reconnect: the signed challenge (\<^verbatim>\<open>src/protocol/runner/reconnect.go\<close>), its wire messages
  (\<^verbatim>\<open>reconnect_rpc.go\<close>, \<^verbatim>\<open>bootstrap_redeem.go\<close>), and the service that enrolls a guest and accepts its
  proof (\<^verbatim>\<open>src/controlapp/reconnect.go\<close>) over the port \<^verbatim>\<open>control.GuestReconnectStore\<close>. The verification
  of an Ed25519 signature is a parameter.
\<close>

section \<open>Canonical base64\<close>

definition EncodedLen :: "nat \<Rightarrow> nat" where
  "EncodedLen n = (n * 8 + 5) div 6"

text \<open>The strict decoder refuses what the comparison with the encoding refuses too.\<close>

definition reconnectBytes :: "string \<Rightarrow> nat \<Rightarrow> string option" where
  "reconnectBytes s n =
     (if length s \<noteq> EncodedLen n then None
      else case DecodeString s of
        None \<Rightarrow> None
      | Some b \<Rightarrow> if length b = n \<and> EncodeToString b = s then Some b else None)"

section \<open>The challenge\<close>

record GuestReconnectChallenge =
  grc_Protocol :: u64
  grc_SessionID :: string
  grc_BootEpoch :: string
  grc_HostIncarnation :: string
  grc_AttemptID :: string
  grc_PlacementGeneration :: u64
  grc_Challenge :: string

text \<open>\<^verbatim>\<open>binary.BigEndian.AppendUint32\<close> and \<^verbatim>\<open>AppendUint64\<close>, with four and eight bytes.\<close>

fun bigEndian :: "nat \<Rightarrow> nat \<Rightarrow> string" where
  "bigEndian 0 n = []"
| "bigEndian (Suc k) n = bigEndian k (n div 256) @ [char_of (n mod 256)]"

definition reconnectID :: "string \<Rightarrow> bool" where
  "reconnectID s \<longleftrightarrow> s \<noteq> [] \<and> length s \<le> 256 \<and> list_all (\<lambda>c. 0x21 \<le> octet c \<and> octet c \<le> 0x7E) s"

definition transcriptID :: "string \<Rightarrow> string" where
  "transcriptID s = bigEndian 4 (length s) @ s"

definition transcriptDomain :: string where
  "transcriptDomain = ''rainier-guest-reconnect-v1'' @ [CHR 0x00]"

definition SigningMessage :: "GuestReconnectChallenge \<Rightarrow> string option" where
  "SigningMessage c =
     (if grc_Protocol c \<noteq> GuestReconnectProtocol \<or> grc_PlacementGeneration c = 0 then None
      else case reconnectBytes (grc_Challenge c) 32 of
        None \<Rightarrow> None
      | Some nonce \<Rightarrow>
        (let ids = [grc_SessionID c, grc_BootEpoch c, grc_HostIncarnation c, grc_AttemptID c]
         in if \<not> list_all reconnectID ids then None
            else Some (transcriptDomain @ concat (map transcriptID ids)
                   @ bigEndian 8 (unat (grc_PlacementGeneration c)) @ nonce)))"

definition VerifyProof ::
    "(string \<Rightarrow> string \<Rightarrow> string \<Rightarrow> bool) \<Rightarrow> GuestReconnectChallenge \<Rightarrow> string \<Rightarrow> string \<Rightarrow> bool" where
  "VerifyProof verify c publicKey signature =
     (case SigningMessage c of
        None \<Rightarrow> False
      | Some message \<Rightarrow>
        (case (reconnectBytes publicKey 32, reconnectBytes signature 64) of
           (Some key, Some sig) \<Rightarrow> verify key message sig
         | _ \<Rightarrow> False))"

section \<open>Messages\<close>

definition GuestReconnectPayloadLimit :: nat where "GuestReconnectPayloadLimit = 4096"

text \<open>Exactly the named members, each once and none null, and nothing else in the payload; then the
  decoding into the struct, whose field names are those names.\<close>

definition decodeReconnectObject :: "string \<Rightarrow> string list \<Rightarrow> (string \<times> jvalue) list option" where
  "decodeReconnectObject payload names =
     (if length payload > GuestReconnectPayloadLimit then None
      else case parseJson payload of
        Some (JObject ms) \<Rightarrow>
          (if distinct (map fst ms) \<and> set (map fst ms) = set names \<and> list_all (\<lambda>(k, v). v \<noteq> JNull) ms
           then Some ms else None)
      | _ \<Rightarrow> None)"

text \<open>An unsigned number of so many bits: digits only.\<close>

fun decodeUint :: "nat \<Rightarrow> jvalue \<Rightarrow> nat option" where
  "decodeUint bits (JNumber t) =
     (case parse_digits 0 t of
        None \<Rightarrow> None | Some n \<Rightarrow> if t \<noteq> [] \<and> n < 2 ^ bits then Some n else None)"
| "decodeUint bits _ = None"

definition uintField :: "nat \<Rightarrow> string \<Rightarrow> (string \<times> jvalue) list \<Rightarrow> nat option" where
  "uintField bits name ms = decodeField (decodeUint bits) 0 name ms"

record GuestReconnectEnrollRequest =
  enr_Protocol :: u64
  enr_Token :: string
  enr_BootEpoch :: string
  enr_PublicKey :: string

record GuestReconnectAcceptRequest =
  acq_Protocol :: u64
  acq_AttemptID :: string
  acq_Signature :: string

record GuestReconnectAcceptResponse =
  acr_Epoch :: u64
  acr_Token :: string
  acr_ExpiresInSec :: nat

record GuestReconnectReady =
  rdy_Protocol :: u64
  rdy_Epoch :: u64

record SessionBootstrapRedeemRequest =
  red_Protocol :: u64
  red_Token :: string

definition SessionBootstrapProtocolVersion :: u64 where "SessionBootstrapProtocolVersion = 1"

definition DecodeGuestReconnectEnrollRequest :: "string \<Rightarrow> GuestReconnectEnrollRequest option" where
  "DecodeGuestReconnectEnrollRequest payload =
     (case decodeReconnectObject payload [''protocol'', ''token'', ''boot_epoch'', ''public_key''] of
        None \<Rightarrow> None
      | Some ms \<Rightarrow>
        (case (uintField 64 ''protocol'' ms, decodeString ''token'' ms, decodeString ''boot_epoch'' ms,
               decodeString ''public_key'' ms) of
           (Some p, Some t, Some e, Some k) \<Rightarrow>
             (if of_nat p \<noteq> GuestReconnectProtocol \<or> \<not> reconnectID e \<or> reconnectBytes t 32 = None
                 \<or> reconnectBytes k 32 = None
              then None
              else Some \<lparr>enr_Protocol = of_nat p, enr_Token = t, enr_BootEpoch = e, enr_PublicKey = k\<rparr>)
         | _ \<Rightarrow> None))"

definition DecodeGuestReconnectBeginRequest :: "string \<Rightarrow> u64 option" where
  "DecodeGuestReconnectBeginRequest payload =
     (case decodeReconnectObject payload [''protocol''] of
        None \<Rightarrow> None
      | Some ms \<Rightarrow>
        (case uintField 64 ''protocol'' ms of
           None \<Rightarrow> None | Some p \<Rightarrow> if of_nat p \<noteq> GuestReconnectProtocol then None else Some (of_nat p)))"

definition DecodeGuestReconnectAcceptRequest :: "string \<Rightarrow> GuestReconnectAcceptRequest option" where
  "DecodeGuestReconnectAcceptRequest payload =
     (case decodeReconnectObject payload [''protocol'', ''attempt_id'', ''signature''] of
        None \<Rightarrow> None
      | Some ms \<Rightarrow>
        (case (uintField 64 ''protocol'' ms, decodeString ''attempt_id'' ms, decodeString ''signature'' ms) of
           (Some p, Some a, Some sig) \<Rightarrow>
             (if of_nat p \<noteq> GuestReconnectProtocol \<or> \<not> reconnectID a \<or> reconnectBytes sig 64 = None then None
              else Some \<lparr>acq_Protocol = of_nat p, acq_AttemptID = a, acq_Signature = sig\<rparr>)
         | _ \<Rightarrow> None))"

definition DecodeGuestReconnectChallenge :: "string \<Rightarrow> GuestReconnectChallenge option" where
  "DecodeGuestReconnectChallenge payload =
     (case decodeReconnectObject payload
             [''protocol'', ''session_id'', ''boot_epoch'', ''host_incarnation'', ''attempt_id'',
              ''placement_generation'', ''challenge''] of
        None \<Rightarrow> None
      | Some ms \<Rightarrow>
        (case (uintField 64 ''protocol'' ms, decodeString ''session_id'' ms, decodeString ''boot_epoch'' ms,
               decodeString ''host_incarnation'' ms, decodeString ''attempt_id'' ms,
               uintField 64 ''placement_generation'' ms, decodeString ''challenge'' ms) of
           (Some p, Some s, Some e, Some h, Some a, Some g, Some n) \<Rightarrow>
             (let c = \<lparr>grc_Protocol = of_nat p, grc_SessionID = s, grc_BootEpoch = e, grc_HostIncarnation = h,
                    grc_AttemptID = a, grc_PlacementGeneration = of_nat g, grc_Challenge = n\<rparr>
              in if SigningMessage c = None then None else Some c)
         | _ \<Rightarrow> None))"

definition DecodeGuestReconnectAcceptResponse :: "string \<Rightarrow> GuestReconnectAcceptResponse option" where
  "DecodeGuestReconnectAcceptResponse payload =
     (case decodeReconnectObject payload [''epoch'', ''token'', ''expires_in_sec''] of
        None \<Rightarrow> None
      | Some ms \<Rightarrow>
        (case (uintField 64 ''epoch'' ms, decodeString ''token'' ms, uintField 32 ''expires_in_sec'' ms) of
           (Some e, Some t, Some x) \<Rightarrow>
             (if e = 0 \<or> x = 0 \<or> reconnectBytes t 32 = None then None
              else Some \<lparr>acr_Epoch = of_nat e, acr_Token = t, acr_ExpiresInSec = x\<rparr>)
         | _ \<Rightarrow> None))"

definition DecodeGuestReconnectReady :: "string \<Rightarrow> GuestReconnectReady option" where
  "DecodeGuestReconnectReady payload =
     (case decodeReconnectObject payload [''protocol'', ''epoch''] of
        None \<Rightarrow> None
      | Some ms \<Rightarrow>
        (case (uintField 64 ''protocol'' ms, uintField 64 ''epoch'' ms) of
           (Some p, Some e) \<Rightarrow>
             (if of_nat p \<noteq> GuestReconnectProtocol \<or> e = 0 then None
              else Some \<lparr>rdy_Protocol = of_nat p, rdy_Epoch = of_nat e\<rparr>)
         | _ \<Rightarrow> None))"

definition DecodeGuestReconnectErrorResponse :: "string \<Rightarrow> string option" where
  "DecodeGuestReconnectErrorResponse payload =
     (case decodeReconnectObject payload [''error''] of
        None \<Rightarrow> None
      | Some ms \<Rightarrow>
        (case decodeString ''error'' ms of
           None \<Rightarrow> None
         | Some e \<Rightarrow> if e \<in> {''invalid'', ''expired'', ''fenced'', ''unavailable''} then Some e else None))"

definition DecodeSessionBootstrapRedeemRequest :: "string \<Rightarrow> SessionBootstrapRedeemRequest option" where
  "DecodeSessionBootstrapRedeemRequest payload =
     (case decodeReconnectObject payload [''protocol'', ''token''] of
        None \<Rightarrow> None
      | Some ms \<Rightarrow>
        (case (uintField 64 ''protocol'' ms, decodeString ''token'' ms) of
           (Some p, Some t) \<Rightarrow>
             (if of_nat p \<noteq> SessionBootstrapProtocolVersion \<or> reconnectBytes t 32 = None then None
              else Some \<lparr>red_Protocol = of_nat p, red_Token = t\<rparr>)
         | _ \<Rightarrow> None))"

section \<open>The service\<close>

record GuestReconnectScope =
  grs_WorkspaceID :: wsid
  grs_PoolID :: poolid
  grs_SessionID :: sessionid
  grs_RunnerID :: runnerid
  grs_PlacementGeneration :: u64
  grs_ConnectionGeneration :: u64

record GuestReconnectIdentity =
  gid_BootEpoch :: string
  gid_PublicKey :: string

record GuestReconnectAttempt =
  gat_ID :: string
  gat_Challenge :: string
  gat_ExpiresAt :: time

definition ErrReconnectInvalid :: err where "ErrReconnectInvalid = ErrOther ''control: invalid guest reconnect''"

definition ErrReconnectFenced :: err where "ErrReconnectFenced = ErrOther ''control: guest reconnect fenced''"

definition ErrReconnectExpired :: err where "ErrReconnectExpired = ErrOther ''control: guest reconnect expired''"

record 's GuestReconnectStore =
  gst_EnrollGuest :: "'s \<Rightarrow> GuestReconnectScope \<Rightarrow> string \<Rightarrow> GuestReconnectIdentity \<Rightarrow> time \<Rightarrow> 's \<times> err option"
  gst_BeginGuestReconnect :: "'s \<Rightarrow> GuestReconnectScope \<Rightarrow> GuestReconnectAttempt \<Rightarrow> time \<Rightarrow> 's \<times> (err + GuestReconnectIdentity)"
  gst_ReadGuestReconnect :: "'s \<Rightarrow> GuestReconnectScope \<Rightarrow> string \<Rightarrow> err + GuestReconnectIdentity \<times> GuestReconnectAttempt"
  gst_ConsumeGuestReconnect :: "'s \<Rightarrow> GuestReconnectScope \<Rightarrow> GuestReconnectIdentity \<Rightarrow> GuestReconnectAttempt
    \<Rightarrow> SessionBootstrap \<Rightarrow> time \<Rightarrow> 's \<times> (err + u64)"

definition reconnectChallenge ::
    "GuestReconnectScope \<Rightarrow> GuestReconnectIdentity \<Rightarrow> GuestReconnectAttempt \<Rightarrow> GuestReconnectChallenge" where
  "reconnectChallenge b ident a =
     \<lparr>grc_Protocol = GuestReconnectProtocol, grc_SessionID = grs_SessionID b, grc_BootEpoch = gid_BootEpoch ident,
      grc_HostIncarnation = show_nat (unat (grs_ConnectionGeneration b)), grc_AttemptID = gat_ID a,
      grc_PlacementGeneration = grs_PlacementGeneration b, grc_Challenge = gat_Challenge a\<rparr>"

definition reconnectRandom :: "'s host \<Rightarrow> 's \<Rightarrow> 's \<times> (err + string)" where
  "reconnectRandom h s =
     (case h_Rand h s 32 of
        (s1, None) \<Rightarrow> (s1, Inl ErrUnavailable) | (s1, Some b) \<Rightarrow> (s1, Inr (EncodeToString b)))"

definition zeroNonce :: string where
  "zeroNonce = replicate 43 (CHR ''A'')"

definition Enroll ::
    "'s GuestReconnectStore option \<Rightarrow> 's host \<Rightarrow> 's \<Rightarrow> GuestReconnectScope \<Rightarrow> string \<Rightarrow> string \<Rightarrow> string \<Rightarrow> 's \<times> err option" where
  "Enroll store h s b token bootEpoch publicKey =
     (case store of
        None \<Rightarrow> (s, Some ErrUnavailable)
      | Some st \<Rightarrow>
        (if length publicKey \<noteq> 43 \<or> length token \<noteq> 43 then (s, Some ErrReconnectInvalid)
         else if reconnectBytes publicKey 32 = None then (s, Some ErrReconnectInvalid)
         else if SigningMessage (reconnectChallenge b \<lparr>gid_BootEpoch = bootEpoch, gid_PublicKey = ''''\<rparr>
                   \<lparr>gat_ID = ''validate'', gat_Challenge = zeroNonce, gat_ExpiresAt = zero_time\<rparr>) = None
         then (s, Some ErrReconnectInvalid)
         else
           let (s1, now) = h_Now h s
           in gst_EnrollGuest st s1 b (HashSessionBootstrapToken token)
                \<lparr>gid_BootEpoch = bootEpoch, gid_PublicKey = publicKey\<rparr> now))"

definition microsecond :: time where "microsecond = 1000"

definition Begin ::
    "'s GuestReconnectStore option \<Rightarrow> 's host \<Rightarrow> 's \<Rightarrow> GuestReconnectScope \<Rightarrow> 's \<times> (err + GuestReconnectChallenge)" where
  "Begin store h s b =
     (case store of
        None \<Rightarrow> (s, Inl ErrUnavailable)
      | Some st \<Rightarrow>
        (case reconnectRandom h s of
           (s1, Inl e) \<Rightarrow> (s1, Inl e)
         | (s1, Inr attemptID) \<Rightarrow>
           (case reconnectRandom h s1 of
              (s2, Inl e) \<Rightarrow> (s2, Inl e)
            | (s2, Inr nonce) \<Rightarrow>
              (let (s3, t) = h_Now h s2;
                   now = t - t mod microsecond;
                   a = \<lparr>gat_ID = attemptID, gat_Challenge = nonce, gat_ExpiresAt = now + 5 * second\<rparr>
               in case gst_BeginGuestReconnect st s3 b a now of
                    (s4, Inl e) \<Rightarrow> (s4, Inl e)
                  | (s4, Inr ident) \<Rightarrow>
                    (s4, if SigningMessage (reconnectChallenge b ident a) = None then Inl ErrReconnectInvalid
                         else Inr (reconnectChallenge b ident a))))))"

definition Accept ::
    "'s GuestReconnectStore option \<Rightarrow> (string \<Rightarrow> string \<Rightarrow> string \<Rightarrow> bool) \<Rightarrow> 's host \<Rightarrow> 's \<Rightarrow> GuestReconnectScope
       \<Rightarrow> string \<Rightarrow> string \<Rightarrow> 's \<times> (err + u64 \<times> string)" where
  "Accept store verify h s b attemptID signature =
     (case store of
        None \<Rightarrow> (s, Inl ErrUnavailable)
      | Some st \<Rightarrow>
        (if length attemptID \<noteq> 43 \<or> length signature \<noteq> 86 then (s, Inl ErrReconnectInvalid)
         else case gst_ReadGuestReconnect st s b attemptID of
           Inl e \<Rightarrow> (s, Inl e)
         | Inr (ident, a) \<Rightarrow>
           (if \<not> VerifyProof verify (reconnectChallenge b ident a) (gid_PublicKey ident) signature
            then (s, Inl ErrReconnectInvalid)
            else case reconnectRandom h s of
              (s1, Inl e) \<Rightarrow> (s1, Inl e)
            | (s1, Inr token) \<Rightarrow>
              (let (s2, now) = h_Now h s1
               in case gst_ConsumeGuestReconnect st s2 b ident a
                         \<lparr>bs_Hash = HashSessionBootstrapToken token, bs_PlacementGeneration = grs_PlacementGeneration b,
                          bs_ExpiresAt = now + SessionBootstrapTTL\<rparr> now of
                    (s3, Inl e) \<Rightarrow> (s3, Inl e)
                  | (s3, Inr epoch) \<Rightarrow> (s3, Inr (epoch, token))))))"

section \<open>The transcript is unambiguous\<close>

lemma bigEndian_inj: "m < 256 ^ k \<Longrightarrow> n < 256 ^ k \<Longrightarrow> bigEndian k m = bigEndian k n \<Longrightarrow> m = n"
proof (induction k arbitrary: m n)
  case (Suc k)
  then have "bigEndian k (m div 256) = bigEndian k (n div 256)"
    "char_of (m mod 256) = (char_of (n mod 256) :: char)"
    by auto
  moreover from this(2) have "m mod 256 = n mod 256"
    by (metis char_of_mod_256 of_char_of mod_mod_trivial)
  moreover have "m div 256 < 256 ^ k" "n div 256 < 256 ^ k"
    using Suc.prems by (auto simp: less_mult_imp_div_less mult.commute)
  ultimately show ?case using Suc.IH by (metis mult_div_mod_eq)
qed simp

lemma bigEndian_length [simp]: "length (bigEndian k n) = k"
  by (induction k arbitrary: n) auto

lemma transcriptID_inj:
  assumes "transcriptID a @ x = transcriptID b @ y" and "length a < 2 ^ 32" and "length b < 2 ^ 32"
  shows "a = b \<and> x = y"
proof -
  from assms(1) have "bigEndian 4 (length a) = bigEndian 4 (length b)" "a @ x = b @ y"
    by (simp_all add: transcriptID_def)
  with bigEndian_inj [of "length a" 4 "length b"] assms(2,3) show ?thesis by simp
qed

lemma reconnectBytes_canonical: "reconnectBytes s n = Some b \<Longrightarrow> EncodeToString b = s \<and> length b = n"
  by (auto simp: reconnectBytes_def split: if_splits option.splits)

lemma SigningMessage_inj:
  assumes "SigningMessage c = Some m" and "SigningMessage d = Some m"
  shows "c = d"
proof -
  from assms obtain n k where n: "reconnectBytes (grc_Challenge c) 32 = Some n" "reconnectBytes (grc_Challenge d) 32 = Some k"
    and proto: "grc_Protocol c = grc_Protocol d"
    and ids: "list_all reconnectID [grc_SessionID c, grc_BootEpoch c, grc_HostIncarnation c, grc_AttemptID c]"
      "list_all reconnectID [grc_SessionID d, grc_BootEpoch d, grc_HostIncarnation d, grc_AttemptID d]"
    and m: "transcriptID (grc_SessionID c) @ transcriptID (grc_BootEpoch c) @ transcriptID (grc_HostIncarnation c)
        @ transcriptID (grc_AttemptID c) @ bigEndian 8 (unat (grc_PlacementGeneration c)) @ n
      = transcriptID (grc_SessionID d) @ transcriptID (grc_BootEpoch d) @ transcriptID (grc_HostIncarnation d)
        @ transcriptID (grc_AttemptID d) @ bigEndian 8 (unat (grc_PlacementGeneration d)) @ k"
    by (auto simp: SigningMessage_def Let_def split: if_splits option.splits)
  have short: "length s < 2 ^ 32" if "reconnectID s" for s
    using that by (auto simp: reconnectID_def)
  from m ids have eqs: "grc_SessionID c = grc_SessionID d \<and> grc_BootEpoch c = grc_BootEpoch d
      \<and> grc_HostIncarnation c = grc_HostIncarnation d \<and> grc_AttemptID c = grc_AttemptID d"
    and rest: "bigEndian 8 (unat (grc_PlacementGeneration c)) @ n = bigEndian 8 (unat (grc_PlacementGeneration d)) @ k"
    by (auto dest!: transcriptID_inj short)
  from rest have "bigEndian 8 (unat (grc_PlacementGeneration c)) = bigEndian 8 (unat (grc_PlacementGeneration d))" "n = k"
    by simp_all
  moreover from this(1) have "unat (grc_PlacementGeneration c) = unat (grc_PlacementGeneration d)"
    using unsigned_less [of "grc_PlacementGeneration c"] unsigned_less [of "grc_PlacementGeneration d"]
    by (intro bigEndian_inj [of _ 8]) simp_all
  moreover have "grc_Challenge c = grc_Challenge d"
    using n reconnectBytes_canonical [of "grc_Challenge c" 32 n] reconnectBytes_canonical [of "grc_Challenge d" 32 k]
      \<open>n = k\<close> by simp
  ultimately show ?thesis
    using eqs proto by (auto simp: word_unat_eq_iff intro!: GuestReconnectChallenge.equality)
qed

lemma show_nat_inj: "show_nat m = show_nat n \<Longrightarrow> m = n"
  using parse_show_nat [of m] parse_show_nat [of n] by (metis option.inject)

lemma Accept_ok:
  assumes "Accept store verify h s b attemptID signature = (s', Inr (epoch, token))"
  shows "\<exists>st ident a s2 now. store = Some st \<and> gst_ReadGuestReconnect st s b attemptID = Inr (ident, a)
    \<and> VerifyProof verify (reconnectChallenge b ident a) (gid_PublicKey ident) signature
    \<and> gst_ConsumeGuestReconnect st s2 b ident a
        \<lparr>bs_Hash = HashSessionBootstrapToken token, bs_PlacementGeneration = grs_PlacementGeneration b,
         bs_ExpiresAt = now + SessionBootstrapTTL\<rparr> now = (s', Inr epoch)"
  using assms
  by (auto simp: Accept_def Let_def split: option.splits if_splits sum.splits prod.splits)

section \<open>Properties\<close>

text \<open>C24. A proof opens one connection. When a reconnect is accepted, and the signature was made for one
  challenge only, then that challenge is the pending one of the accepting scope, field by field: its
  session, its placement generation, the generation of the runner's connection, the enrolled boot and the
  attempt. So a proof made for another session, placement, connection, boot or attempt is refused, since
  no two challenges have the same transcript. What the store is then asked to consume is exactly the
  identity and attempt that were verified, for a fresh token bound to the placement.\<close>

theorem reconnect_proof_bound:
  assumes "Accept (Some st) verify h s b attemptID signature = (s', Inr (epoch, token))"
    and "\<And>key m sig. reconnectBytes signature 64 = Some sig \<Longrightarrow> verify key m sig \<Longrightarrow> SigningMessage c = Some m"
  shows "grc_SessionID c = grs_SessionID b \<and> grc_PlacementGeneration c = grs_PlacementGeneration b
    \<and> grc_HostIncarnation c = show_nat (unat (grs_ConnectionGeneration b))
    \<and> (\<exists>ident a s2 now. gst_ReadGuestReconnect st s b attemptID = Inr (ident, a)
         \<and> c = reconnectChallenge b ident a
         \<and> gst_ConsumeGuestReconnect st s2 b ident a
             \<lparr>bs_Hash = HashSessionBootstrapToken token, bs_PlacementGeneration = grs_PlacementGeneration b,
              bs_ExpiresAt = now + SessionBootstrapTTL\<rparr> now = (s', Inr epoch))"
proof -
  from Accept_ok [OF assms(1)] obtain ident a s2 now where
    read: "gst_ReadGuestReconnect st s b attemptID = Inr (ident, a)"
    and proof_ok: "VerifyProof verify (reconnectChallenge b ident a) (gid_PublicKey ident) signature"
    and consume: "gst_ConsumeGuestReconnect st s2 b ident a
        \<lparr>bs_Hash = HashSessionBootstrapToken token, bs_PlacementGeneration = grs_PlacementGeneration b,
         bs_ExpiresAt = now + SessionBootstrapTTL\<rparr> now = (s', Inr epoch)"
    by auto
  from proof_ok obtain m key sig where m: "SigningMessage (reconnectChallenge b ident a) = Some m"
    and sig: "reconnectBytes signature 64 = Some sig" "verify key m sig"
    by (auto simp: VerifyProof_def split: option.splits)
  from SigningMessage_inj [OF m assms(2) [OF sig]] have "c = reconnectChallenge b ident a" by simp
  with read consume show ?thesis by (auto simp: reconnectChallenge_def)
qed

text \<open>A store with one pending attempt, and a guest that signed its challenge.\<close>

definition sampleBinding :: GuestReconnectScope where
  "sampleBinding = \<lparr>grs_WorkspaceID = installWorkspace, grs_PoolID = ''pool'', grs_SessionID = ''s1'', grs_RunnerID = ''r1'',
     grs_PlacementGeneration = 2, grs_ConnectionGeneration = 7\<rparr>"

definition sampleIdentity :: GuestReconnectIdentity where
  "sampleIdentity = \<lparr>gid_BootEpoch = ''boot'', gid_PublicKey = zeroNonce\<rparr>"

definition sampleAttempt :: GuestReconnectAttempt where
  "sampleAttempt = \<lparr>gat_ID = zeroNonce, gat_Challenge = zeroNonce, gat_ExpiresAt = 100\<rparr>"

definition sampleReconnects :: "world GuestReconnectStore" where
  "sampleReconnects =
     \<lparr>gst_EnrollGuest = (\<lambda>w b hash ident now. (w, None)),
      gst_BeginGuestReconnect = (\<lambda>w b a now. (w, Inr sampleIdentity)),
      gst_ReadGuestReconnect = (\<lambda>w b attempt. if attempt = zeroNonce then Inr (sampleIdentity, sampleAttempt) else Inl ErrReconnectFenced),
      gst_ConsumeGuestReconnect = (\<lambda>w b ident a bs now. (w, Inr 1))\<rparr>"

definition signedOnly :: "string \<Rightarrow> string \<Rightarrow> string \<Rightarrow> bool" where
  "signedOnly key m sig \<longleftrightarrow> SigningMessage (reconnectChallenge sampleBinding sampleIdentity sampleAttempt) = Some m"

lemma reconnect_proof_bound_witness:
  "\<exists>s' token. Accept (Some sampleReconnects) signedOnly (memHost sampleOutside) (sampleWorld sampleStore) sampleBinding
      zeroNonce (replicate 86 (CHR ''A'')) = (s', Inr (1, token))
    \<and> grc_SessionID (reconnectChallenge sampleBinding sampleIdentity sampleAttempt) = ''s1''"
proof -
  define acc where "acc = Accept (Some sampleReconnects) signedOnly (memHost sampleOutside) (sampleWorld sampleStore)
      sampleBinding zeroNonce (replicate 86 (CHR ''A''))"
  have "map_sum (\<lambda>e. True) fst (snd acc) = Inr 1" unfolding acc_def by code_simp
  then obtain y where "snd acc = Inr y" "fst y = 1" by (cases "snd acc") auto
  then have "acc = (fst acc, Inr (1, snd y))" by (simp add: prod_eq_iff)
  then obtain s' token where ok: "Accept (Some sampleReconnects) signedOnly (memHost sampleOutside) (sampleWorld sampleStore)
      sampleBinding zeroNonce (replicate 86 (CHR ''A'')) = (s', Inr (1, token))"
    unfolding acc_def by blast
  from reconnect_proof_bound [OF ok, of "reconnectChallenge sampleBinding sampleIdentity sampleAttempt"] ok show ?thesis
    by (auto simp: signedOnly_def sampleBinding_def)
qed

end
