(* ===== verification/Custody.thy ===== *)
theory Custody
  imports Repos FleetList
begin

text \<open>
  Custody of agent logins: the service that answers a sandbox and performs a logout
  (\<^verbatim>\<open>src/controlapp/agentcreds.go\<close>), over its store port, and the vault that seals the rows of the
  in-memory store (\<^verbatim>\<open>src/internal/controld/agentvault.go\<close>). AES-GCM under the installation's key is a
  parameter. A set of files is an association list with one entry per name.
\<close>

section \<open>The port\<close>

record AgentCredentialSet =
  acs_Version :: u64
  acs_Files :: "(string \<times> string) list"

record AgentCredentialStatus =
  act_Provider :: string
  act_Version :: u64
  act_UpdatedAt :: time

record 's AgentCredentialStore =
  ac_Fetch :: "'s \<Rightarrow> actorid \<Rightarrow> string \<Rightarrow> err + AgentCredentialSet"
  ac_Put :: "'s \<Rightarrow> actorid \<Rightarrow> string \<Rightarrow> (string \<times> string) list \<Rightarrow> u64 \<Rightarrow> 's \<times> (err + u64)"
  ac_Revoke :: "'s \<Rightarrow> actorid \<Rightarrow> string \<Rightarrow> 's \<times> (err + u64)"
  ac_ConditionalRevoke :: "'s \<Rightarrow> actorid \<Rightarrow> string \<Rightarrow> u64 \<Rightarrow> 's \<times> (err + u64)"
  ac_List :: "'s \<Rightarrow> actorid \<Rightarrow> err + AgentCredentialStatus list"

section \<open>The service\<close>

definition AgentCredentialSetMaxBytes :: nat where "AgentCredentialSetMaxBytes = 65536"

text \<open>The fixed refusals, each with the sentinel it wraps, and any other error.\<close>

datatype agentError =
    SessionHasNoCreator | UnknownAgentProvider | AgentMembershipGone | AgentCredentialTooLarge | AgentFileNotAllowed
  | AgentCredentialUnreadable | AgentCredentialUnwritable | AgentCredentialStale | AgentCredentialNotYours
  | AgentOther err

fun AgentRefusalSentence :: "agentError \<Rightarrow> string option" where
  "AgentRefusalSentence SessionHasNoCreator = Some ''this session has no creator to fetch an agent credential for''"
| "AgentRefusalSentence UnknownAgentProvider = Some ''unknown agent provider''"
| "AgentRefusalSentence AgentMembershipGone = Some ''your workspace membership no longer allows this''"
| "AgentRefusalSentence AgentCredentialTooLarge = Some ''the agent credential set is too large''"
| "AgentRefusalSentence AgentFileNotAllowed = Some (''that file is not part of this agent'' @ CHR 0x27 # ''s credential set'')"
| "AgentRefusalSentence AgentCredentialUnreadable = Some ''the agent credential could not be read''"
| "AgentRefusalSentence AgentCredentialUnwritable = Some ''the agent credential could not be stored''"
| "AgentRefusalSentence AgentCredentialStale = Some ''the agent credential changed after this session last read it''"
| "AgentRefusalSentence AgentCredentialNotYours =
     Some ''an agent credential belongs to the person who logged in, not to a workspace role''"
| "AgentRefusalSentence (AgentOther e) = None"

definition agentProviderByName :: "bool \<Rightarrow> string \<Rightarrow> AgentProvider option" where
  "agentProviderByName testProvider name = find (\<lambda>p. ap_Name p = name) (AgentProviders testProvider)"

definition bareAgentFileName :: "string \<Rightarrow> bool" where
  "bareAgentFileName name \<longleftrightarrow> name \<noteq> '''' \<and> name \<noteq> ''.'' \<and> name \<noteq> ''..''
     \<and> list_all (\<lambda>c. c \<noteq> CHR ''/'' \<and> c \<noteq> CHR 0x5C \<and> c \<noteq> CHR 0x00) name"

text \<open>The map is iterated in some order; whether it is refused does not depend on it, only which refusal.\<close>

fun checkFilesFrom :: "string list \<Rightarrow> nat \<Rightarrow> (string \<times> string) list \<Rightarrow> agentError option" where
  "checkFilesFrom allowed sofar [] = None"
| "checkFilesFrom allowed sofar ((name, body) # files) =
     (if \<not> bareAgentFileName name \<or> name \<notin> set allowed \<or> body = [] then Some AgentFileNotAllowed
      else if sofar + length name + length body > AgentCredentialSetMaxBytes then Some AgentCredentialTooLarge
      else checkFilesFrom allowed (sofar + length name + length body) files)"

definition checkAgentFiles :: "AgentProvider \<Rightarrow> (string \<times> string) list \<Rightarrow> agentError option" where
  "checkAgentFiles p files =
     (if files = [] then None
      else if length files \<noteq> length (elems (ap_Files p)) then Some AgentFileNotAllowed
      else checkFilesFrom (elems (ap_Files p)) 0 files)"

definition allowedAgentFiles :: "AgentProvider \<Rightarrow> (string \<times> string) list \<Rightarrow> (string \<times> string) list" where
  "allowedAgentFiles p files = filter (\<lambda>(name, body). bareAgentFileName name \<and> name \<in> set (elems (ap_Files p))) files"

text \<open>The authorizer answers for the session's creator; \<open>places\<close> is the placement of the host.\<close>

definition answerable ::
    "bool \<Rightarrow> (Scope \<Rightarrow> Action \<Rightarrow> Resource \<Rightarrow> err option) \<Rightarrow> PlacementScope \<Rightarrow> Session \<Rightarrow> string \<Rightarrow> agentError + AgentProvider" where
  "answerable testProvider auth places row provider =
     (if ses_CreatorID row = '''' then Inl SessionHasNoCreator
      else case agentProviderByName testProvider provider of
        None \<Rightarrow> Inl UnknownAgentProvider
      | Some p \<Rightarrow>
        (if auth \<lparr>sco_WorkspaceID = ses_WorkspaceID row, sco_Actor = \<lparr>act_ID = ses_CreatorID row, act_Kind = ActorUser\<rparr>,
                  sco_Placement = places\<rparr> ActionAttach (sessionResource row) \<noteq> None
         then Inl AgentMembershipGone else Inr p))"

definition AnswerFetch ::
    "'s AgentCredentialStore \<Rightarrow> bool \<Rightarrow> (Scope \<Rightarrow> Action \<Rightarrow> Resource \<Rightarrow> err option) \<Rightarrow> PlacementScope \<Rightarrow> 's \<Rightarrow> Session \<Rightarrow> string
       \<Rightarrow> agentError + AgentCredentialSet" where
  "AnswerFetch st testProvider auth places s row provider =
     (case answerable testProvider auth places row provider of
        Inl e \<Rightarrow> Inl e
      | Inr p \<Rightarrow>
        (case ac_Fetch st s (ses_CreatorID row) provider of
           Inl _ \<Rightarrow> Inl AgentCredentialUnreadable
         | Inr found \<Rightarrow> Inr (found\<lparr>acs_Files := allowedAgentFiles p (acs_Files found)\<rparr>)))"

definition writeOutcome :: "'s \<times> (err + u64) \<Rightarrow> 's \<times> (agentError + u64)" where
  "writeOutcome r =
     (case r of
        (s, Inl e) \<Rightarrow> (s, Inl (if errIs e ErrConflict then AgentCredentialStale else AgentCredentialUnwritable))
      | (s, Inr v) \<Rightarrow> (s, Inr v))"

definition AnswerPut ::
    "'s AgentCredentialStore \<Rightarrow> bool \<Rightarrow> (Scope \<Rightarrow> Action \<Rightarrow> Resource \<Rightarrow> err option) \<Rightarrow> PlacementScope \<Rightarrow> 's \<Rightarrow> Session \<Rightarrow> string
       \<Rightarrow> (string \<times> string) list \<Rightarrow> u64 \<Rightarrow> 's \<times> (agentError + u64)" where
  "AnswerPut st testProvider auth places s row provider files expected =
     (case answerable testProvider auth places row provider of
        Inl e \<Rightarrow> (s, Inl e)
      | Inr p \<Rightarrow>
        (case checkAgentFiles p files of
           Some e \<Rightarrow> (s, Inl e)
         | None \<Rightarrow>
           (if files = [] then writeOutcome (ac_ConditionalRevoke st s (ses_CreatorID row) provider expected)
            else writeOutcome (ac_Put st s (ses_CreatorID row) provider files expected))))"

section \<open>Telling the sandboxes\<close>

definition agentListPageLimit :: int where "agentListPageLimit = 200"

definition agentListMaxPages :: nat where "agentListMaxPages = 64"

fun livePages :: "'s host \<Rightarrow> 's \<Rightarrow> wsid \<Rightarrow> actorid \<Rightarrow> nat \<Rightarrow> string \<Rightarrow> Session list" where
  "livePages h s ws user 0 cursor = []"
| "livePages h s ws user (Suc n) cursor =
     (case h_ListSessions h s ws \<lparr>sq_IncludeTerminal = False, sq_Limit = agentListPageLimit, sq_Cursor = cursor\<rparr> of
        Inl _ \<Rightarrow> []
      | Inr (rows, next_cursor) \<Rightarrow>
        filter (\<lambda>row. ses_CreatorID row = user \<and> ses_State row = StateRunning) rows
        @ (if next_cursor = '''' then [] else livePages h s ws user n next_cursor))"

definition liveSessionsOf :: "'s host \<Rightarrow> 's \<Rightarrow> wsid \<Rightarrow> actorid \<Rightarrow> Session list" where
  "liveSessionsOf h s ws user = livePages h s ws user agentListMaxPages ''''"

text \<open>The body of a revoke; version zero is left out. The answers are ignored.\<close>

definition revokePayload :: "string \<Rightarrow> u64 \<Rightarrow> string" where
  "revokePayload provider version =
     jsonObject ([(''provider'', jsonString provider)]
       @ (if version = 0 then [] else [(''version'', show_nat (unat version))]))"

fun sendRevokes :: "'s rpcPorts \<Rightarrow> 's \<Rightarrow> u64 \<Rightarrow> string \<Rightarrow> Session list \<Rightarrow> 's \<times> u64" where
  "sendRevokes r s q payload [] = (s, q)"
| "sendRevokes r s q payload (row # rows) =
     (case sessionRPC r s q row ''revoke_agent_credentials'' payload (\<lambda>_. Inr ()) of
        (s1, q1, _) \<Rightarrow> sendRevokes r s1 q1 payload rows)"

definition revokeDownward ::
    "'s rpcPorts \<Rightarrow> 's host \<Rightarrow> 's \<Rightarrow> u64 \<Rightarrow> wsid \<Rightarrow> actorid \<Rightarrow> string \<Rightarrow> u64 \<Rightarrow> 's \<times> u64" where
  "revokeDownward r h s q ws user provider version =
     (if ws = '''' \<or> user = '''' then (s, q)
      else sendRevokes r s q (revokePayload provider version) (liveSessionsOf h s ws user))"

fun revokeWorkspaces ::
    "'s rpcPorts \<Rightarrow> 's host \<Rightarrow> 's \<Rightarrow> u64 \<Rightarrow> wsid list \<Rightarrow> actorid \<Rightarrow> string \<Rightarrow> u64 \<Rightarrow> 's \<times> u64" where
  "revokeWorkspaces r h s q [] user provider version = (s, q)"
| "revokeWorkspaces r h s q (ws # wss) user provider version =
     (case revokeDownward r h s q ws user provider version of
        (s1, q1) \<Rightarrow> revokeWorkspaces r h s1 q1 wss user provider version)"

text \<open>\<open>lister\<close> is the membership index of a host that has one.\<close>

definition logoutWorkspaces ::
    "('s \<Rightarrow> actorid \<Rightarrow> err + wsid list) option \<Rightarrow> 's \<Rightarrow> Scope \<Rightarrow> err + wsid list" where
  "logoutWorkspaces lister s sc =
     (case lister of
        None \<Rightarrow> Inr [sco_WorkspaceID sc]
      | Some f \<Rightarrow> (case f s (act_ID (sco_Actor sc)) of Inl e \<Rightarrow> Inl (portError e) | Inr wss \<Rightarrow> Inr wss))"

definition Logout ::
    "'s AgentCredentialStore \<Rightarrow> 's rpcPorts \<Rightarrow> 's host \<Rightarrow> ('s \<Rightarrow> actorid \<Rightarrow> err + wsid list) option \<Rightarrow> bool \<Rightarrow> 's \<Rightarrow> u64 \<Rightarrow> Scope
       \<Rightarrow> string \<Rightarrow> 's \<times> u64 \<times> agentError option" where
  "Logout st r h lister testProvider s q sc provider =
     (case Scope_Validate sc of
        Some e \<Rightarrow> (s, q, Some (AgentOther e))
      | None \<Rightarrow>
        (if act_Kind (sco_Actor sc) \<noteq> ActorUser then (s, q, Some AgentCredentialNotYours)
         else case agentProviderByName testProvider provider of
           None \<Rightarrow> (s, q, Some UnknownAgentProvider)
         | Some _ \<Rightarrow>
           (case ac_Revoke st s (act_ID (sco_Actor sc)) provider of
              (s1, Inl e) \<Rightarrow> (s1, q, Some (AgentOther (portError e)))
            | (s1, Inr version) \<Rightarrow>
              (case logoutWorkspaces lister s1 sc of
                 Inl e \<Rightarrow> (s1, q, Some (AgentOther e))
               | Inr wss \<Rightarrow>
                 (case revokeWorkspaces r h s1 q wss (act_ID (sco_Actor sc)) provider version of
                    (s2, q2) \<Rightarrow> (s2, q2, None))))))"

fun withdrawProviders ::
    "'s rpcPorts \<Rightarrow> 's host \<Rightarrow> 's \<Rightarrow> u64 \<Rightarrow> wsid \<Rightarrow> actorid \<Rightarrow> AgentProvider list \<Rightarrow> 's \<times> u64" where
  "withdrawProviders r h s q ws user [] = (s, q)"
| "withdrawProviders r h s q ws user (p # ps) =
     (case revokeDownward r h s q ws user (ap_Name p) 0 of (s1, q1) \<Rightarrow> withdrawProviders r h s1 q1 ws user ps)"

definition Withdraw :: "'s rpcPorts \<Rightarrow> 's host \<Rightarrow> bool \<Rightarrow> 's \<Rightarrow> u64 \<Rightarrow> wsid \<Rightarrow> actorid \<Rightarrow> 's \<times> u64 \<times> err option" where
  "Withdraw r h testProvider s q ws user =
     (if ws = '''' \<or> user = '''' then (s, q, Some ErrInvalid)
      else case withdrawProviders r h s q ws user (AgentProviders testProvider) of (s1, q1) \<Rightarrow> (s1, q1, None))"

definition ListAgents :: "'s AgentCredentialStore \<Rightarrow> 's \<Rightarrow> Scope \<Rightarrow> agentError + AgentCredentialStatus list" where
  "ListAgents st s sc =
     (case Scope_Validate sc of
        Some e \<Rightarrow> Inl (AgentOther e)
      | None \<Rightarrow>
        (if act_Kind (sco_Actor sc) \<noteq> ActorUser then Inl AgentCredentialNotYours
         else case ac_List st s (act_ID (sco_Actor sc)) of Inl e \<Rightarrow> Inl (AgentOther (portError e)) | Inr out \<Rightarrow> Inr out))"

section \<open>The vault\<close>

text \<open>AES-GCM under one key: sealing takes the plaintext, the additional data and the nonce; opening takes
  the ciphertext, the nonce and the additional data.\<close>

record sealing =
  sl_Seal :: "string \<Rightarrow> string \<Rightarrow> string \<Rightarrow> string"
  sl_Open :: "string \<Rightarrow> string \<Rightarrow> string \<Rightarrow> string option"

definition secretsNonceLen :: nat where "secretsNonceLen = 12"

definition errAgentCredentialSeal :: err where
  "errAgentCredentialSeal = ErrOther ''controld: the agent credential could not be sealed or opened''"

definition SealAAD :: "sealing \<Rightarrow> world \<Rightarrow> string \<Rightarrow> string \<Rightarrow> world \<times> (string \<times> string) option" where
  "SealAAD sl w plaintext aad =
     (case randomBytes w secretsNonceLen of
        (w1, None) \<Rightarrow> (w1, None) | (w1, Some nonce) \<Rightarrow> (w1, Some (sl_Seal sl plaintext aad nonce, nonce)))"

definition OpenAAD :: "sealing \<Rightarrow> bytes \<Rightarrow> bytes \<Rightarrow> string \<Rightarrow> string option" where
  "OpenAAD sl ciphertext nonce aad =
     (if length (elems nonce) \<noteq> secretsNonceLen then None else sl_Open sl (elems ciphertext) (elems nonce) aad)"

definition agentCredentialAAD :: "string \<Rightarrow> string \<Rightarrow> u64 \<Rightarrow> string" where
  "agentCredentialAAD user provider version =
     user @ [CHR 0x00] @ provider @ [CHR 0x00] @ show_nat (unat version)"

text \<open>\<^verbatim>\<open>json.Marshal\<close> writes the keys of a map in order.\<close>

definition marshalBlob :: "(string \<times> string) list \<Rightarrow> string" where
  "marshalBlob files =
     jsonObject [(''files'',
       jsonObject (map (\<lambda>(k, v). (k, jsonString (StdEncode v))) (sortSlice (\<lambda>a b. fst a < fst b) files)))]"

text \<open>A member of a map that is null is an empty slice.\<close>

fun decodeFiles :: "(string \<times> jvalue) list \<Rightarrow> (string \<times> string) list \<Rightarrow> (string \<times> string) list option" where
  "decodeFiles [] acc = Some acc"
| "decodeFiles ((k, v) # ms) acc =
     (case (if v = JNull then Some [] else decodeBytes v) of
        None \<Rightarrow> None | Some b \<Rightarrow> decodeFiles ms (upd k b acc))"

fun decodeBlobFiles :: "(string \<times> jvalue) list \<Rightarrow> (string \<times> string) list \<Rightarrow> (string \<times> string) list option" where
  "decodeBlobFiles [] acc = Some acc"
| "decodeBlobFiles ((k, v) # ms) acc =
     (if \<not> fieldNamed ''files'' k then decodeBlobFiles ms acc
      else case v of
        JNull \<Rightarrow> decodeBlobFiles ms []
      | JObject fs \<Rightarrow> (case decodeFiles fs acc of None \<Rightarrow> None | Some acc' \<Rightarrow> decodeBlobFiles ms acc')
      | _ \<Rightarrow> None)"

definition unmarshalBlob :: "string \<Rightarrow> (string \<times> string) list option" where
  "unmarshalBlob s =
     (case parseJson s of
        Some JNull \<Rightarrow> Some [] | Some (JObject ms) \<Rightarrow> decodeBlobFiles ms [] | _ \<Rightarrow> None)"

definition FetchAgentCredentials :: "sealing \<Rightarrow> world \<Rightarrow> actorid \<Rightarrow> string \<Rightarrow> err + AgentCredentialSet" where
  "FetchAgentCredentials sl w user provider =
     (case memStore_GetAgentCredential (w_store w) user provider of
        Inl e \<Rightarrow> (if errIs e ErrNotFound then Inr \<lparr>acs_Version = 0, acs_Files = []\<rparr> else Inl e)
      | Inr row \<Rightarrow>
        (if agc_Revoked row then Inr \<lparr>acs_Version = agc_Version row, acs_Files = []\<rparr>
         else case OpenAAD sl (agc_Ciphertext row) (agc_Nonce row) (agentCredentialAAD user provider (agc_Version row)) of
           None \<Rightarrow> Inl errAgentCredentialSeal
         | Some plaintext \<Rightarrow>
           (case unmarshalBlob plaintext of
              None \<Rightarrow> Inl errAgentCredentialSeal
            | Some files \<Rightarrow> Inr \<lparr>acs_Version = agc_Version row, acs_Files = files\<rparr>)))"

definition agentPutAttempts :: nat where "agentPutAttempts = 4"

text \<open>What a put finds stored: the version to succeed, or a refusal.\<close>

definition putBase :: "world \<Rightarrow> actorid \<Rightarrow> string \<Rightarrow> u64 \<Rightarrow> err + u64" where
  "putBase w user provider expected =
     (case memStore_GetAgentCredential (w_store w) user provider of
        Inr cur \<Rightarrow>
          (if expected < agc_LastRevokedVersion cur then Inl ErrConflict
           else if agc_Revoked cur \<and> expected \<noteq> agc_Version cur then Inl ErrConflict
           else Inr (agc_Version cur))
      | Inl e \<Rightarrow> (if errIs e ErrNotFound then (if expected \<noteq> 0 then Inl ErrConflict else Inr 0) else Inl e))"

text \<open>Between the read and the write of an attempt other requests go on (\<open>o_Yield\<close>).\<close>

fun putAttempts ::
    "sealing \<Rightarrow> outside \<Rightarrow> nat \<Rightarrow> world \<Rightarrow> actorid \<Rightarrow> string \<Rightarrow> string \<Rightarrow> u64 \<Rightarrow> world \<times> (err + u64)" where
  "putAttempts sl out 0 w user provider plaintext expected = (w, Inl ErrConflict)"
| "putAttempts sl out (Suc n) w user provider plaintext expected =
     (case putBase w user provider expected of
        Inl e \<Rightarrow> (w, Inl e)
      | Inr stored \<Rightarrow>
        (case SealAAD sl w plaintext (agentCredentialAAD user provider (stored + 1)) of
           (w1, None) \<Rightarrow> (w1, Inl errAgentCredentialSeal)
         | (w1, Some (ciphertext, nonce)) \<Rightarrow>
           (let w2 = o_Yield out w1
            in case onStore (\<lambda>m. memStore_PutAgentCredential m (w_now w2)
                      \<lparr>agc_UserID = user, agc_Provider = provider, agc_Ciphertext = Some ciphertext, agc_Nonce = Some nonce,
                       agc_Version = stored + 1, agc_Revoked = False, agc_LastRevokedVersion = 0, agc_UpdatedAt = zero_time\<rparr>) w2 of
                 (w3, Inl e) \<Rightarrow>
                   (if errIs e ErrConflict then putAttempts sl out n w3 user provider plaintext expected else (w3, Inl e))
               | (w3, Inr version) \<Rightarrow> (w3, Inr version))))"

definition PutAgentCredentials ::
    "sealing \<Rightarrow> outside \<Rightarrow> world \<Rightarrow> actorid \<Rightarrow> string \<Rightarrow> (string \<times> string) list \<Rightarrow> u64 \<Rightarrow> world \<times> (err + u64)" where
  "PutAgentCredentials sl out w user provider files expected =
     (if files = [] then (w, Inl ErrInvalid)
      else if list_ex (\<lambda>(name, body). name = '''' \<or> body = []) files then (w, Inl ErrInvalid)
      else putAttempts sl out agentPutAttempts w user provider (marshalBlob files) expected)"

definition ListAgentCredentials :: "world \<Rightarrow> actorid \<Rightarrow> err + AgentCredentialStatus list" where
  "ListAgentCredentials w user =
     Inr (map (\<lambda>r. \<lparr>act_Provider = agc_Provider r, act_Version = agc_Version r, act_UpdatedAt = agc_UpdatedAt r\<rparr>)
       (memStore_ListAgentCredentials (w_store w) user))"

definition AgentVault :: "sealing \<Rightarrow> outside \<Rightarrow> world AgentCredentialStore" where
  "AgentVault sl out =
     \<lparr>ac_Fetch = FetchAgentCredentials sl,
      ac_Put = PutAgentCredentials sl out,
      ac_Revoke = (\<lambda>w user provider. onStore (\<lambda>m. memStore_RevokeAgentCredential m (w_now w) user provider) w),
      ac_ConditionalRevoke = (\<lambda>w user provider expected.
        onStore (\<lambda>m. memStore_ConditionalRevokeAgentCredential m (w_now w) user provider expected) w),
      ac_List = ListAgentCredentials\<rparr>"

end
