(* ===== verification/CustodyProps.thy ===== *)
theory CustodyProps
  imports Custody AppSamples
begin

text \<open>
  What custody promises: what a sandbox put is what a later one fetches, a logout leaves nothing to
  fetch and refuses what began before it, and only a provider's own files are stored or delivered.
\<close>

section \<open>The codec of the vault\<close>

lemma groups_length: "length (groups s) mod 4 \<in> {0, 2, 3}"
  by (induction s rule: groups.induct) auto

lemma std_alphabet:
  "distinct ''ABCDEFGHIJKLMNOPQRSTUVWXYZabcdefghijklmnopqrstuvwxyz0123456789+/''"
  "length ''ABCDEFGHIJKLMNOPQRSTUVWXYZabcdefghijklmnopqrstuvwxyz0123456789+/'' = 64"
  "CHR ''='' \<notin> set ''ABCDEFGHIJKLMNOPQRSTUVWXYZabcdefghijklmnopqrstuvwxyz0123456789+/''"
  "CHR 0x0A \<notin> set ''ABCDEFGHIJKLMNOPQRSTUVWXYZabcdefghijklmnopqrstuvwxyz0123456789+/''"
  "CHR 0x0D \<notin> set ''ABCDEFGHIJKLMNOPQRSTUVWXYZabcdefghijklmnopqrstuvwxyz0123456789+/''"
  by simp_all

lemma those_map_Some: "(\<And>x. x \<in> set xs \<Longrightarrow> f (g x) = Some x) \<Longrightarrow> those (map f (map g xs)) = Some xs"
  by (induction xs) auto

lemma StdDecode_StdEncode: "StdDecode (StdEncode s) = Some s"
proof -
  define al where "al = ''ABCDEFGHIJKLMNOPQRSTUVWXYZabcdefghijklmnopqrstuvwxyz0123456789+/''"
  define cs where "cs = map (\<lambda>n. al ! n) (groups s)"
  define p where "p = (4 - length cs mod 4) mod 4"
  note al = std_alphabet [folded al_def]
  have enc: "StdEncode s = cs @ replicate p (CHR ''='')"
    by (simp add: StdEncode_def Let_def cs_def p_def al_def)
  have in_al: "c \<in> set al" if "c \<in> set cs" for c
    using that al(2) groups_less by (auto simp: cs_def intro!: nth_mem)
  then have chars: "c \<noteq> CHR ''='' \<and> c \<noteq> CHR 0x0A \<and> c \<noteq> CHR 0x0D" if "c \<in> set cs" for c
    using that al(3-5) by auto
  have len: "length cs mod 4 \<in> {0, 2, 3}" using groups_length by (simp add: cs_def)
  then have p2: "p \<le> 2" by (auto simp: p_def)
  have "(length cs + p) mod 4 = (length cs mod 4 + p) mod 4" by (rule mod_add_left_eq [symmetric])
  also have "\<dots> = 0" using len unfolding p_def by (elim insertE emptyE) simp_all
  finally have p4: "(length cs + p) mod 4 = 0" .
  have keep: "filter (\<lambda>c. c \<noteq> CHR 0x0A \<and> c \<noteq> CHR 0x0D) cs = cs"
    by (rule filter_True) (auto dest: chars)
  have pad: "takeWhile (\<lambda>c. c = CHR ''='') (rev (cs @ replicate p (CHR ''=''))) = replicate p (CHR ''='')"
  proof -
    have "takeWhile (\<lambda>c. c = CHR ''='') (rev cs) = []"
      using chars [of "hd (rev cs)"] hd_in_set [of "rev cs"] by (cases "cs = []") (simp_all add: takeWhile_eq_Nil_iff)
    moreover have "takeWhile (\<lambda>c. c = CHR ''='') (replicate p (CHR ''='') @ rev cs)
        = replicate p (CHR ''='') @ takeWhile (\<lambda>c. c = CHR ''='') (rev cs)"
      by (rule takeWhile_append2) simp
    ultimately show ?thesis by (simp only: rev_append rev_replicate append_Nil2)
  qed
  have "those (map (\<lambda>c. index_of c al) cs) = Some (groups s)"
    unfolding cs_def by (rule those_map_Some) (simp add: index_of_nth al groups_less)
  then show ?thesis
    using p2 p4 pad
    by (simp add: StdDecode_def keep Let_def al_def [symmetric] decode_groups enc)
qed

text \<open>The text of a map of strings is read back.\<close>

lemma parseMembers_list:
  assumes "fs \<noteq> []" and "list_all (\<lambda>(k, v). ValidString k \<and> ValidString v) fs"
  shows "parseMembers (length fs + Suc n) d (jsonJoin (map (\<lambda>(k, v). jsonString k @ '':'' @ jsonString v) fs) @ CHR ''}'' # t)
    = Some (map (\<lambda>(k, v). (k, JString v)) fs, t)"
  using assms
proof (induction fs arbitrary: n)
  case (Cons f fs)
  obtain k v where f: "f = (k, v)" by fastforce
  show ?case
  proof (cases fs)
    case Nil
    with Cons.prems f parseMembers_last [of k v n d t] show ?thesis by (simp del: parseMembers.simps)
  next
    case (Cons g gs)
    with Cons.prems Cons.IH [of n] f show ?thesis
      using parseMembers_more [of k v "length fs + n" d]
      by (simp del: parseMembers.simps)
  qed
qed simp

lemma parseValue_object:
  assumes "fs \<noteq> []" and "list_all (\<lambda>(k, v). ValidString k \<and> ValidString v) fs" and "d \<noteq> 0"
  shows "parseValue (length fs + Suc (Suc n)) d (jsonObject (map (\<lambda>(k, v). (k, jsonString v)) fs) @ t)
    = Some (JObject (map (\<lambda>(k, v). (k, JString v)) fs), t)"
proof -
  let ?m = "jsonJoin (map (\<lambda>(k, v). jsonString k @ '':'' @ jsonString v) fs) @ CHR ''}'' # t"
  have j: "jsonObject (map (\<lambda>(k, v). (k, jsonString v)) fs) @ t = CHR ''{'' # ?m"
    by (simp add: jsonObject_def case_prod_unfold comp_def)
  obtain r where r: "?m = CHR 0x22 # r"
    using assms(1) by (cases fs rule: list.exhaust; cases "tl fs") (auto simp: jsonString_def case_prod_beta)
  have "parseValue (Suc (length fs + Suc n)) d (CHR ''{'' # ?m)
      = map_option (\<lambda>(ms, r''). (JObject ms, r'')) (parseMembers (length fs + Suc n) (d - 1) ?m)"
    unfolding parseValue.simps(2) r using assms(3) by (simp del: parseMembers.simps)
  then show ?thesis
    unfolding j using parseMembers_list [OF assms(1,2), of n "d - 1" t] by (simp del: parseMembers.simps parseValue.simps)
qed

lemma ascii_valid: "list_all (\<lambda>c. octet c < 0x80) s \<Longrightarrow> ValidString s"
proof (induction s)
  case (Cons c s)
  have "runeLen (c # s) = 1" using Cons.prems by (simp add: runeLen_Cons)
  then show ?case using Cons by (subst ValidString.simps) simp
qed simp

lemma StdEncode_valid: "ValidString (StdEncode s)"
proof (rule ascii_valid)
  define al where "al = ''ABCDEFGHIJKLMNOPQRSTUVWXYZabcdefghijklmnopqrstuvwxyz0123456789+/''"
  have ascii: "list_all (\<lambda>c. octet c < 0x80) al" by (simp add: al_def)
  have "c \<in> set al" if "c \<in> set (map (\<lambda>n. al ! n) (groups s))" for c
    using that std_alphabet(2) [folded al_def] groups_less by (auto intro!: nth_mem)
  with ascii show "list_all (\<lambda>c. octet c < 0x80) (StdEncode s)"
    unfolding StdEncode_def Let_def al_def [symmetric] by (auto simp: list_all_iff)
qed

lemma decodeFiles_strings:
  "distinct (map fst fs) \<Longrightarrow> set (map fst fs) \<inter> set (map fst acc) = {} \<Longrightarrow>
   decodeFiles (map (\<lambda>(k, v). (k, JString (StdEncode v))) fs) acc = Some (acc @ fs)"
proof (induction fs arbitrary: acc)
  case (Cons f fs)
  obtain k v where f: "f = (k, v)" by fastforce
  have "map_of acc k = None" using Cons.prems f by (auto simp: map_of_eq_None_iff)
  with Cons f show ?case by (simp add: upd_absent StdDecode_StdEncode)
qed simp

lemma unmarshal_marshal:
  assumes "files \<noteq> []" and "distinct (map fst files)" and "list_all (\<lambda>(k, v). ValidString k) files"
  shows "unmarshalBlob (marshalBlob files) = Some (sortSlice (\<lambda>a b. fst a < fst b) files)"
proof -
  define fs where "fs = map (\<lambda>(k, v). (k, StdEncode v)) (sortSlice (\<lambda>a b. fst a < fst b) files)"
  have "length (sortSlice (\<lambda>a b. fst a < fst b) files) \<noteq> 0" using assms(1) by simp
  then have "fs \<noteq> []" by (simp add: fs_def del: length_sortSlice)
  moreover have "list_all (\<lambda>(k, v). ValidString k \<and> ValidString v) fs"
    using assms(3) by (auto simp: fs_def list_all_iff StdEncode_valid)
  ultimately have fs: "fs \<noteq> []" "list_all (\<lambda>(k, v). ValidString k \<and> ValidString v) fs" by simp_all
  let ?obj = "jsonObject (map (\<lambda>(k, v). (k, jsonString v)) fs)"
  let ?text = "jsonString ''files'' @ CHR '':'' # ?obj @ CHR ''}'' # []"
  have body: "marshalBlob files = CHR ''{'' # ?text"
    by (simp add: marshalBlob_def jsonObject_def fs_def comp_def case_prod_unfold)
  have short: "length fs \<le> length ?obj"
  proof -
    have "length ds \<le> length (jsonJoin ds) + 1" if "list_all (\<lambda>d. d \<noteq> []) ds" for ds
      using that by (induction ds rule: jsonJoin.induct) (auto simp: Suc_le_eq)
    from this [of "map (\<lambda>(k, v). jsonString k @ '':'' @ jsonString v) fs"] show ?thesis
      by (auto simp: jsonObject_def list_all_iff comp_def case_prod_unfold)
  qed
  obtain n where fuel: "json_fuel (CHR ''{'' # ?text) = Suc (Suc (length fs + Suc (Suc n)))"
    by (rule that [of "json_fuel (CHR ''{'' # ?text) - length fs - 4"]) (use short in \<open>simp add: json_fuel_def\<close>)
  obtain t where t: "?text = CHR 0x22 # t" by (simp add: jsonString_def)
  have valid: "ValidString ''files''" by code_simp
  have member: "parseMembers (Suc (length fs + Suc (Suc n))) 9999 ?text
      = Some ([(''files'', JObject (map (\<lambda>(k, v). (k, JString v)) fs))], [])"
    using parseValue_object [OF fs, of 9999 n "CHR ''}'' # []"] parseString_jsonString [OF valid]
    unfolding parseMembers.simps(2) jsonString_def
    by (simp del: parseValue.simps parseMembers.simps)
  have "parseValue (Suc (Suc (length fs + Suc (Suc n)))) 10000 (CHR ''{'' # ?text)
      = Some (JObject [(''files'', JObject (map (\<lambda>(k, v). (k, JString v)) fs))], [])"
    using member unfolding parseValue.simps(2) t by (simp del: parseMembers.simps)
  then have "parseJson (marshalBlob files) = Some (JObject [(''files'', JObject (map (\<lambda>(k, v). (k, JString v)) fs))])"
    unfolding parseJson_def body fuel by simp
  moreover have "map (\<lambda>(k, v). (k, JString v)) fs
      = map (\<lambda>(k, v). (k, JString (StdEncode v))) (sortSlice (\<lambda>a b. fst a < fst b) files)"
    by (simp add: fs_def case_prod_unfold comp_def)
  moreover have "fieldNamed ''files'' ''files''" by code_simp
  ultimately show ?thesis
    using decodeFiles_strings [of "sortSlice (\<lambda>a b. fst a < fst b) files" "[]"] assms(2)
    by (simp add: unmarshalBlob_def)
qed

section \<open>What is stored\<close>

lemma randomBytes_length: "randomBytes w n = (w', Some b) \<Longrightarrow> length b = n"
  by (auto simp: randomBytes_def split: list.splits)

text \<open>A row that opens to \<open>plaintext\<close> at version \<open>v\<close>.\<close>

definition sealedRow :: "sealing \<Rightarrow> world \<Rightarrow> actorid \<Rightarrow> string \<Rightarrow> string \<Rightarrow> u64 \<Rightarrow> bool" where
  "sealedRow sl w user provider plaintext v \<longleftrightarrow>
     (case map_of (ms_agentCredentials (w_store w)) (user, provider) of
        None \<Rightarrow> False
      | Some row \<Rightarrow> agc_Version row = v \<and> \<not> agc_Revoked row
          \<and> OpenAAD sl (agc_Ciphertext row) (agc_Nonce row) (agentCredentialAAD user provider v) = Some plaintext)"

lemma PutAgentCredential_row:
  assumes "memStore_PutAgentCredential m now c = (m', Inr v)"
  shows "v = agc_Version c \<and> (\<exists>u l. map_of (ms_agentCredentials m') (agc_UserID c, agc_Provider c)
    = Some (c\<lparr>agc_UpdatedAt := u, agc_Revoked := False, agc_LastRevokedVersion := l\<rparr>))"
proof -
  define u where "u = (if agc_UpdatedAt c = zero_time then now else agc_UpdatedAt c)"
  define l where "l = (case map_of (ms_agentCredentials m) (agc_UserID c, agc_Provider c) of
    Some prev \<Rightarrow> (agc_Version prev, agc_LastRevokedVersion prev) | None \<Rightarrow> (0, 0))"
  have "m' = m\<lparr>ms_agentCredentials := upd (agc_UserID c, agc_Provider c)
      (c\<lparr>agc_UpdatedAt := u, agc_Revoked := False, agc_LastRevokedVersion := snd l\<rparr>) (ms_agentCredentials m)\<rparr> \<and> v = agc_Version c"
    using assms unfolding memStore_PutAgentCredential_def l_def [symmetric] u_def [symmetric]
    by (simp add: Let_def case_prod_beta split: if_splits)
  then show ?thesis by (auto intro!: exI [of _ u] exI [of _ "snd l"])
qed

lemma putAttempts_sealed:
  assumes seals: "\<And>p a n. sl_Open sl (sl_Seal sl p a n) n a = Some p"
    and "putAttempts sl out k w user provider plaintext expected = (w', Inr v)"
  shows "sealedRow sl w' user provider plaintext v"
  using assms(2)
proof (induction k arbitrary: w)
  case (Suc k)
  obtain stored where base: "putBase w user provider expected = Inr stored"
    using Suc.prems by (auto split: sum.splits)
  obtain w1 ct nonce where seal: "SealAAD sl w plaintext (agentCredentialAAD user provider (stored + 1)) = (w1, Some (ct, nonce))"
    using Suc.prems base by (auto split: prod.splits option.splits)
  define c where "c = \<lparr>agc_UserID = user, agc_Provider = provider, agc_Ciphertext = Some ct, agc_Nonce = Some nonce,
    agc_Version = stored + 1, agc_Revoked = False, agc_LastRevokedVersion = 0, agc_UpdatedAt = zero_time\<rparr>"
  obtain w3 x where put: "onStore (\<lambda>m. memStore_PutAgentCredential m (w_now (o_Yield out w1)) c) (o_Yield out w1) = (w3, x)"
    by fastforce
  show ?case
  proof (cases x)
    case (Inl e)
    then show ?thesis using Suc base seal put by (simp add: c_def split: if_splits)
  next
    case (Inr u)
    then have "w3 = w'" "u = v" using Suc.prems base seal put by (simp_all add: c_def)
    with put Inr have "memStore_PutAgentCredential (w_store (o_Yield out w1)) (w_now (o_Yield out w1)) c = (w_store w', Inr v)"
      by (simp add: onStore_eq)
    from PutAgentCredential_row [OF this] obtain u' l where "v = stored + 1"
      "map_of (ms_agentCredentials (w_store w')) (user, provider)
        = Some (c\<lparr>agc_UpdatedAt := u', agc_Revoked := False, agc_LastRevokedVersion := l\<rparr>)"
      by (auto simp: c_def)
    moreover have "length nonce = secretsNonceLen" "ct = sl_Seal sl plaintext (agentCredentialAAD user provider (stored + 1)) nonce"
      using seal by (auto simp: SealAAD_def dest: randomBytes_length split: prod.splits option.splits)
    ultimately show ?thesis by (simp add: sealedRow_def OpenAAD_def seals c_def)
  qed
qed simp

lemma FetchAgentCredentials_sealed:
  assumes "sealedRow sl w user provider (marshalBlob files) v"
    and "files \<noteq> []" "distinct (map fst files)" "list_all (\<lambda>(k, _). ValidString k) files"
  shows "FetchAgentCredentials sl w user provider = Inr \<lparr>acs_Version = v, acs_Files = sortSlice (\<lambda>a b. fst a < fst b) files\<rparr>"
  using assms(1) unmarshal_marshal [OF assms(2-4)]
  by (auto simp: sealedRow_def FetchAgentCredentials_def memStore_GetAgentCredential_def split: option.splits)

section \<open>What is admitted\<close>

lemma checkFilesFrom_admits:
  "checkFilesFrom allowed sofar files = None \<longleftrightarrow>
   list_all (\<lambda>(name, body). bareAgentFileName name \<and> name \<in> set allowed \<and> body \<noteq> []) files
   \<and> (files \<noteq> [] \<longrightarrow> sofar + (\<Sum>(name, body) \<leftarrow> files. length name + length body) \<le> AgentCredentialSetMaxBytes)"
proof (induction files arbitrary: sofar)
  case (Cons f files)
  obtain name body where "f = (name, body)" by fastforce
  with Cons.IH [of "sofar + length name + length body"] show ?case by (cases files) auto
qed simp

lemma checkAgentFiles_admits:
  "checkAgentFiles p files = None \<Longrightarrow>
   list_all (\<lambda>(name, body). bareAgentFileName name \<and> name \<in> set (elems (ap_Files p)) \<and> body \<noteq> []) files"
  by (auto simp: checkAgentFiles_def checkFilesFrom_admits split: if_splits)

lemma provider_files_valid:
  "agentProviderByName testProvider name = Some p \<Longrightarrow> f \<in> set (elems (ap_Files p)) \<Longrightarrow> ValidString f"
proof -
  assume "agentProviderByName testProvider name = Some p" and f: "f \<in> set (elems (ap_Files p))"
  then have "p \<in> set (AgentProviders testProvider)" by (simp add: agentProviderByName_def find_Some_iff) (metis nth_mem)
  with f show ?thesis by (intro ascii_valid) (auto simp: AgentProviders_def split: if_splits)
qed

lemma answerable_provider:
  "answerable testProvider auth places row provider = Inr p \<Longrightarrow> agentProviderByName testProvider provider = Some p"
  by (auto simp: answerable_def split: if_splits option.splits)

section \<open>The properties\<close>

lemma allowedAgentFiles_admitted:
  "list_all (\<lambda>(name, body). bareAgentFileName name \<and> name \<in> set (elems (ap_Files p)) \<and> body \<noteq> []) files \<Longrightarrow>
   allowedAgentFiles p (sortSlice prec files) = sortSlice prec files"
  unfolding allowedAgentFiles_def by (rule filter_True) (auto simp: list_all_iff)

lemma AnswerPut_put:
  assumes "AnswerPut (AgentVault sl out) testProvider auth places w row provider files expected = (w', Inr v)" and "files \<noteq> []"
  obtains p where "agentProviderByName testProvider provider = Some p"
    and "list_all (\<lambda>(name, body). bareAgentFileName name \<and> name \<in> set (elems (ap_Files p)) \<and> body \<noteq> []) files"
    and "putAttempts sl out agentPutAttempts w (ses_CreatorID row) provider (marshalBlob files) expected = (w', Inr v)"
proof -
  obtain p where p: "answerable testProvider auth places row provider = Inr p" and ok: "checkAgentFiles p files = None"
    using assms(1) by (auto simp: AnswerPut_def split: sum.splits option.splits)
  have "PutAgentCredentials sl out w (ses_CreatorID row) provider files expected = (w', Inr v)"
    using assms p ok by (auto simp: AnswerPut_def AgentVault_def writeOutcome_def split: prod.splits sum.splits)
  then have "putAttempts sl out agentPutAttempts w (ses_CreatorID row) provider (marshalBlob files) expected = (w', Inr v)"
    by (simp add: PutAgentCredentials_def split: if_splits)
  with answerable_provider [OF p] checkAgentFiles_admits [OF ok] show ?thesis by (rule that)
qed

text \<open>C23. What a sandbox put is what a later one reads: when a put is answered with a version, a session of
  the same creator whose fetch is authorized then gets that version with exactly the files that were put,
  through the JSON of the vault, its base64, the seal bound to user, provider and version, and the filter on
  the provider's file names. The seal is assumed to open what it sealed.\<close>

theorem custody_roundtrip:
  assumes "\<And>p a n. sl_Open sl (sl_Seal sl p a n) n a = Some p"
    and "AnswerPut (AgentVault sl out) testProvider auth places w row provider files expected = (w', Inr v)"
    and "files \<noteq> []" and "distinct (map fst files)"
    and "ses_CreatorID row' = ses_CreatorID row" and "answerable testProvider auth' places' row' provider = Inr p"
  shows "\<exists>got. AnswerFetch (AgentVault sl out) testProvider auth' places' w' row' provider
      = Inr \<lparr>acs_Version = v, acs_Files = got\<rparr>
    \<and> mset got = mset files \<and> map_of got = map_of files"
proof -
  obtain p' where p': "agentProviderByName testProvider provider = Some p'"
    and admitted: "list_all (\<lambda>(name, body). bareAgentFileName name \<and> name \<in> set (elems (ap_Files p')) \<and> body \<noteq> []) files"
    and put: "putAttempts sl out agentPutAttempts w (ses_CreatorID row) provider (marshalBlob files) expected = (w', Inr v)"
    using assms(2,3) by (rule AnswerPut_put)
  have "p' = p" using answerable_provider [OF assms(6)] p' by simp
  have "list_all (\<lambda>(k, _). ValidString k) files"
    using admitted provider_files_valid [OF p'] by (auto simp: list_all_iff)
  with putAttempts_sealed [OF assms(1) put] assms(3,4)
  have "FetchAgentCredentials sl w' (ses_CreatorID row) provider
      = Inr \<lparr>acs_Version = v, acs_Files = sortSlice (\<lambda>a b. fst a < fst b) files\<rparr>"
    by (intro FetchAgentCredentials_sealed)
  then have "AnswerFetch (AgentVault sl out) testProvider auth' places' w' row' provider
      = Inr \<lparr>acs_Version = v, acs_Files = sortSlice (\<lambda>a b. fst a < fst b) files\<rparr>"
    using assms(5,6) admitted \<open>p' = p\<close> by (simp add: AnswerFetch_def AgentVault_def allowedAgentFiles_admitted)
  moreover have "map_of (sortSlice (\<lambda>a b. fst a < fst b) files) = map_of files"
    using assms(4) by (intro map_of_inject_set [THEN iffD2]) simp_all
  ultimately show ?thesis by simp
qed

section \<open>Logout\<close>

lemma sessionRPC_keeps:
  assumes "\<And>pool rid m. P (fst (r_Dispatch r w pool rid m))" and "P w"
  shows "P (fst (sessionRPC r w q row method payload out))"
proof (cases "q + 1 = 0")
  case False
  define d where "d = r_Dispatch r w (ses_PoolID row) (ses_RunnerID row)
    (rpcRequest row \<lparr>rpc_ID = q + 1, rpc_Method = method, rpc_OK = False, rpc_Payload = payload\<rparr>)"
  have "fst (sessionRPC r w q row method payload out) = fst d"
    using False by (cases d rule: prod.exhaust; cases "snd d") (simp_all add: sessionRPC_def Let_def flip: d_def)
  then show ?thesis using assms(1) by (simp add: d_def)
qed (use assms(2) in \<open>simp add: sessionRPC_def\<close>)

lemma sendRevokes_keeps:
  assumes "\<And>w pool rid m. P w \<Longrightarrow> P (fst (r_Dispatch r w pool rid m))"
  shows "P w \<Longrightarrow> P (fst (sendRevokes r w q payload rows))"
proof (induction rows arbitrary: w q)
  case (Cons row rows)
  have "P (fst (sessionRPC r w q row ''revoke_agent_credentials'' payload (\<lambda>_. Inr ())))"
    using assms [OF Cons.prems] Cons.prems by (rule sessionRPC_keeps)
  then show ?case using Cons.IH by (simp add: case_prod_beta)
qed simp

lemma revokeWorkspaces_keeps:
  assumes "\<And>w pool rid m. P w \<Longrightarrow> P (fst (r_Dispatch r w pool rid m))"
  shows "P w \<Longrightarrow> P (fst (revokeWorkspaces r h w q wss user provider version))"
proof (induction wss arbitrary: w q)
  case (Cons ws wss)
  have "P (fst (revokeDownward r h w q ws user provider version))"
    using sendRevokes_keeps [of P, OF assms Cons.prems] Cons.prems by (simp add: revokeDownward_def)
  then show ?case using Cons.IH by (simp add: case_prod_beta)
qed simp

text \<open>The tombstone of a logout: no files, and a fence at its own version.\<close>

definition tombstone :: "world \<Rightarrow> actorid \<Rightarrow> string \<Rightarrow> u64 \<Rightarrow> bool" where
  "tombstone w user provider v \<longleftrightarrow>
     (case map_of (ms_agentCredentials (w_store w)) (user, provider) of
        None \<Rightarrow> False
      | Some row \<Rightarrow> agc_Version row = v \<and> agc_Revoked row \<and> agc_LastRevokedVersion row = v)"

lemma RevokeAgentCredential_row:
  "memStore_RevokeAgentCredential m now user provider = (m', Inr v) \<Longrightarrow>
   map_of (ms_agentCredentials m') (user, provider)
     = Some \<lparr>agc_UserID = user, agc_Provider = provider, agc_Ciphertext = None, agc_Nonce = None, agc_Version = v,
             agc_Revoked = True, agc_LastRevokedVersion = v, agc_UpdatedAt = now\<rparr>"
  by (auto simp: memStore_RevokeAgentCredential_def memStore_revokeAgentCredential_def Let_def split: if_splits)

lemma revoke_tombstone:
  "onStore (\<lambda>m. memStore_RevokeAgentCredential m now user provider) w = (w', Inr v) \<Longrightarrow> tombstone w' user provider v"
  using RevokeAgentCredential_row [of "w_store w" now user provider "w_store w'" v] by (simp add: onStore_eq tombstone_def)

lemma tombstone_fetch:
  "tombstone w user provider v \<Longrightarrow> FetchAgentCredentials sl w user provider = Inr \<lparr>acs_Version = v, acs_Files = []\<rparr>"
  by (auto simp: tombstone_def FetchAgentCredentials_def memStore_GetAgentCredential_def split: option.splits)

lemma tombstone_put:
  assumes "tombstone w user provider v" and "expected < v"
    and "files \<noteq> []" "list_all (\<lambda>(name, body). name \<noteq> '''' \<and> body \<noteq> []) files"
  shows "PutAgentCredentials sl out w user provider files expected = (w, Inl ErrConflict)"
proof -
  have "putBase w user provider expected = Inl ErrConflict"
    using assms(1,2) by (auto simp: tombstone_def putBase_def memStore_GetAgentCredential_def split: option.splits)
  then have "putAttempts sl out agentPutAttempts w user provider plaintext expected = (w, Inl ErrConflict)" for plaintext
    unfolding agentPutAttempts_def by (simp add: numeral_eq_Suc)
  moreover have "\<not> list_ex (\<lambda>(name, body). name = '''' \<or> body = []) files"
    using assms(4) by (auto simp: list_ex_iff list_all_iff)
  ultimately show ?thesis using assms(3) by (simp add: PutAgentCredentials_def)
qed

lemma tombstone_revoke:
  assumes "tombstone w user provider v" and "expected < v" and "user \<noteq> ''''" "provider \<noteq> ''''"
  shows "onStore (\<lambda>m. memStore_ConditionalRevokeAgentCredential m now user provider expected) w = (w, Inl ErrConflict)"
  using assms
  by (auto simp: onStore_def memStore_ConditionalRevokeAgentCredential_def memStore_revokeAgentCredential_def tombstone_def
      split: option.splits)

lemma Logout_tombstone:
  assumes quiet: "\<And>w pool rid m. ms_agentCredentials (w_store (fst (r_Dispatch r w pool rid m))) = ms_agentCredentials (w_store w)"
    and "Logout (AgentVault sl out) r h lister testProvider w q sc provider = (w', q', None)"
  shows "\<exists>v. tombstone w' (act_ID (sco_Actor sc)) provider v"
proof -
  let ?user = "act_ID (sco_Actor sc)"
  define x where "x = onStore (\<lambda>m. memStore_RevokeAgentCredential m (w_now w) ?user provider) w"
  obtain w1 v where x: "x = (w1, Inr v)"
    using assms(2) unfolding Logout_def AgentVault_def
    by (cases x; cases "snd x") (auto simp flip: x_def split: option.splits if_splits)
  then obtain wss where "logoutWorkspaces lister w1 sc = Inr wss"
    using assms(2) unfolding Logout_def AgentVault_def
    by (cases "logoutWorkspaces lister w1 sc") (auto simp flip: x_def split: option.splits if_splits)
  with x have "w' = fst (revokeWorkspaces r h w1 q wss ?user provider v)"
    using assms(2) unfolding Logout_def AgentVault_def
    by (auto simp flip: x_def split: option.splits if_splits prod.splits)
  moreover have "tombstone w1 ?user provider v" using x by (intro revoke_tombstone) (simp add: x_def)
  moreover have "tombstone w ?user provider v \<Longrightarrow> tombstone (fst (r_Dispatch r w pool rid m)) ?user provider v" for w pool rid m
    by (simp add: tombstone_def quiet)
  ultimately show ?thesis using revokeWorkspaces_keeps [of "\<lambda>w. tombstone w ?user provider v"] by blast
qed


section \<open>Instances\<close>

text \<open>A seal that writes the additional data and the nonce before the plaintext and checks them.\<close>

definition plainSealing :: sealing where
  "plainSealing =
     \<lparr>sl_Seal = (\<lambda>p a n. a @ n @ p),
      sl_Open = (\<lambda>c n a. if take (length (a @ n)) c = a @ n then Some (drop (length (a @ n)) c) else None)\<rparr>"

definition quietRpc :: "world rpcPorts" where
  "quietRpc = \<lparr>r_Dispatch = (\<lambda>w pool rid m. (w\<lparr>w_now := w_now w + 1\<rparr>, Inl ErrUnavailable)), r_Write = (\<lambda>w d. (w, 1, None))\<rparr>"

definition aliceRow :: Session where
  "aliceRow = (sampleSession ''s1'' ''k'')\<lparr>ses_CreatorID := ''alice''\<rparr>"

definition aliceFiles :: "(string \<times> string) list" where
  "aliceFiles = [(''auth.json'', ''token'')]"

abbreviation aliceVault :: "world AgentCredentialStore" where
  "aliceVault \<equiv> AgentVault plainSealing sampleOutside"

abbreviation alicePlaces :: PlacementScope where
  "alicePlaces \<equiv> sco_Placement sampleScope"

lemma alice_answerable:
  "answerable False (o_Authorize sampleOutside) alicePlaces aliceRow ''codex'' = Inr (AgentProviders False ! 1)"
  by code_simp

definition aliceStored :: world where
  "aliceStored = fst (PutAgentCredentials plainSealing sampleOutside (sampleWorld sampleStore) ''alice'' ''codex'' aliceFiles 0)"

lemma alice_put:
  "AnswerPut aliceVault False (o_Authorize sampleOutside) alicePlaces (sampleWorld sampleStore) aliceRow ''codex'' aliceFiles 0
     = (aliceStored, Inr 1)"
proof -
  have "checkAgentFiles (AgentProviders False ! 1) aliceFiles = None"
    by (simp add: checkAgentFiles_def AgentProviders_def aliceFiles_def bareAgentFileName_def AgentCredentialSetMaxBytes_def)
  moreover have "snd (PutAgentCredentials plainSealing sampleOutside (sampleWorld sampleStore) ''alice'' ''codex'' aliceFiles 0) = Inr 1"
    by code_simp
  then have "PutAgentCredentials plainSealing sampleOutside (sampleWorld sampleStore) ''alice'' ''codex'' aliceFiles 0
      = (aliceStored, Inr 1)"
    by (simp add: aliceStored_def prod_eq_iff)
  moreover have "ses_CreatorID aliceRow = ''alice''" "aliceFiles \<noteq> []" by (simp_all add: aliceRow_def aliceFiles_def)
  ultimately show ?thesis by (simp add: AnswerPut_def alice_answerable AgentVault_def writeOutcome_def)
qed

lemma custody_roundtrip_witness:
  "\<exists>got. AnswerFetch aliceVault False (o_Authorize sampleOutside) alicePlaces aliceStored aliceRow ''codex''
     = Inr \<lparr>acs_Version = 1, acs_Files = got\<rparr> \<and> mset got = mset aliceFiles \<and> map_of got = map_of aliceFiles"
  by (rule custody_roundtrip [OF _ alice_put _ _ _ alice_answerable]) (simp_all add: plainSealing_def aliceFiles_def)

definition aliceGone :: world where
  "aliceGone = fst (Logout aliceVault quietRpc (memHost sampleOutside) None False aliceStored 0 sampleScope ''codex'')"


end
