(* ===== verification/SessionRequests.thy ===== *)
theory SessionRequests
  imports CustodyProps Reconnect SchedProps
begin

text \<open>
  The requests a sandbox sends up through its runner (\<^verbatim>\<open>src/internal/controld/srpc.go\<close>,
  \<^verbatim>\<open>srpc_bootstrap.go\<close>) and the git credential they may mint (\<^verbatim>\<open>vault.go\<close>), over the in-memory store.
  Logging is left out. The quoting of \<^verbatim>\<open>%q\<close>, which depends on Unicode tables, and AES-GCM are parameters.
\<close>

section \<open>The server\<close>

record controld =
  cd_sealing :: sealing
  cd_quote :: "string \<Rightarrow> string"
  cd_testProvider :: bool
  cd_outside :: outside

definition OpenSecret :: "sealing \<Rightarrow> bytes \<Rightarrow> bytes \<Rightarrow> string option" where
  "OpenSecret sl ciphertext nonce = OpenAAD sl ciphertext nonce ''''"

definition SealSecret :: "sealing \<Rightarrow> world \<Rightarrow> string \<Rightarrow> world \<times> (string \<times> string) option" where
  "SealSecret sl w plaintext = SealAAD sl w plaintext ''''"

definition clip :: "string \<Rightarrow> string" where
  "clip s = (if length s \<le> 48 then s else ToValidUTF8 (take 48 s) @ ''...'')"

definition rpcRefusal :: "u64 \<Rightarrow> string \<Rightarrow> RPCEnvelope" where
  "rpcRefusal rid msg =
     \<lparr>rpc_ID = rid, rpc_Method = ''resp'', rpc_OK = False, rpc_Payload = jsonObject [(''error'', jsonString msg)]\<rparr>"

definition rpcAnswer :: "u64 \<Rightarrow> string \<Rightarrow> RPCEnvelope" where
  "rpcAnswer rid body = \<lparr>rpc_ID = rid, rpc_Method = ''resp'', rpc_OK = True, rpc_Payload = body\<rparr>"

section \<open>Git credentials\<close>

definition githubProvider :: string where "githubProvider = ''github''"

definition CredentialNeedsRefresh :: string where "CredentialNeedsRefresh = ''needs_refresh''"

datatype gitError = ErrCredentialNeedsRefresh | ErrCredentialMissing | GitOther

definition emDash :: string where "emDash = [CHR 0xE2, CHR 0x80, CHR 0x94]"

fun gitSentence :: "gitError \<Rightarrow> string" where
  "gitSentence ErrCredentialNeedsRefresh = ''github credential needs refresh '' @ emDash @ '' run: rainier login --refresh github''"
| "gitSentence ErrCredentialMissing = ''no github credential '' @ emDash @ '' run: rainier login''"
| "gitSentence GitOther = ''the github credential could not be read''"

definition storeGitHubCredential :: "sealing \<Rightarrow> world \<Rightarrow> string \<Rightarrow> string \<Rightarrow> string \<Rightarrow> world \<times> gitError option" where
  "storeGitHubCredential sl w userID token scopes =
     (case SealSecret sl w token of
        (w1, None) \<Rightarrow> (w1, Some GitOther)
      | (w1, Some (ciphertext, nonce)) \<Rightarrow>
        (let now = w_now w1
         in (w1\<lparr>w_store := memStore_UpsertCredential (w_store w1) now
               \<lparr>cred_UserID = userID, cred_Provider = githubProvider, cred_Ciphertext = Some ciphertext, cred_Nonce = Some nonce,
                cred_RefreshCiphertext = None, cred_RefreshNonce = None, cred_Status = CredentialValid, cred_Scopes = scopes,
                cred_ObtainedAt = now, cred_ExpiresAt = None, cred_LastVerifiedAt = now, cred_LastUsedAt = now,
                cred_UpdatedAt = now\<rparr>\<rparr>, None)))"

text \<open>A failed stamp of the use is only logged.\<close>

definition mintGitCredential :: "sealing \<Rightarrow> world \<Rightarrow> string \<Rightarrow> world \<times> (gitError + string)" where
  "mintGitCredential sl w userID =
     (case memStore_GetCredential (w_store w) userID githubProvider of
        Inl e \<Rightarrow> (w, Inl (if errIs e ErrNotFound then ErrCredentialMissing else GitOther))
      | Inr c \<Rightarrow>
        (if cred_Status c \<noteq> CredentialValid then (w, Inl ErrCredentialNeedsRefresh)
         else case OpenSecret sl (cred_Ciphertext c) (cred_Nonce c) of
           None \<Rightarrow> (w, Inl GitOther)
         | Some token \<Rightarrow>
           (fst (onStore (\<lambda>m. memStore_TouchCredentialUsed m (w_now w) userID githubProvider) w), Inr token)))"

definition rejectCredential :: "world \<Rightarrow> string \<Rightarrow> string \<Rightarrow> world" where
  "rejectCredential w userID provider =
     fst (onStore (\<lambda>m. memStore_SetCredentialStatus m (w_now w) userID provider CredentialNeedsRefresh) w)"

definition answerMintGitCredential :: "controld \<Rightarrow> world \<Rightarrow> Session \<Rightarrow> RPCEnvelope \<Rightarrow> world \<times> RPCEnvelope" where
  "answerMintGitCredential cd w row env =
     (if ses_CreatorID row = '''' then (w, rpcRefusal (rpc_ID env) ''this session has no owner to mint a github credential for'')
      else case mintGitCredential (cd_sealing cd) w (ses_CreatorID row) of
        (w1, Inl e) \<Rightarrow> (w1, rpcRefusal (rpc_ID env) (gitSentence e))
      | (w1, Inr token) \<Rightarrow> (w1, rpcAnswer (rpc_ID env) (jsonObject [(''token'', jsonString token)])))"

section \<open>Agent credentials\<close>

definition agentRequestMaxBytes :: nat where "agentRequestMaxBytes = 131072"

record agentCredentialRequest =
  acr_Protocol :: nat
  acr_Provider :: string
  acr_Files :: "(string \<times> string) list"
  acr_Version :: nat

text \<open>\<^verbatim>\<open>json.Unmarshal\<close> into a struct: null leaves it as it was, any other value that is no object fails.\<close>

definition structMembers :: "string \<Rightarrow> (string \<times> jvalue) list option" where
  "structMembers payload = (case parseJson payload of Some JNull \<Rightarrow> Some [] | Some (JObject ms) \<Rightarrow> Some ms | _ \<Rightarrow> None)"

definition decodeAgentRequest :: "RPCEnvelope \<Rightarrow> RPCEnvelope + agentCredentialRequest" where
  "decodeAgentRequest env =
     (if length (rpc_Payload env) > agentRequestMaxBytes
      then Inl (rpcRefusal (rpc_ID env) ''the agent credential request is too large'')
      else case structMembers (rpc_Payload env) of
        None \<Rightarrow> Inl (rpcRefusal (rpc_ID env) ''the agent credential request could not be decoded'')
      | Some ms \<Rightarrow>
        (case (uintField 64 ''protocol'' ms, decodeString ''provider'' ms, decodeBlobFiles ms [], uintField 64 ''version'' ms) of
           (Some protocol, Some provider, Some files, Some version) \<Rightarrow>
             (if protocol \<noteq> AgentCredentialProtocolVersion
              then Inl (rpcRefusal (rpc_ID env) ''this session must be replaced before agent credentials can sync'')
              else Inr \<lparr>acr_Protocol = protocol, acr_Provider = provider, acr_Files = files, acr_Version = version\<rparr>)
         | _ \<Rightarrow> Inl (rpcRefusal (rpc_ID env) ''the agent credential request could not be decoded'')))"

definition agentActorContext :: "world \<Rightarrow> Session \<Rightarrow> User option" where
  "agentActorContext w row =
     (if ses_CreatorID row = '''' then None
      else case memStore_GetUser (w_store w) (ses_CreatorID row) of Inl _ \<Rightarrow> None | Inr u \<Rightarrow> Some u)"

definition agentRefusal :: "RPCEnvelope \<Rightarrow> agentError \<Rightarrow> string \<Rightarrow> RPCEnvelope" where
  "agentRefusal env e fallback =
     rpcRefusal (rpc_ID env) (case AgentRefusalSentence e of None \<Rightarrow> fallback | Some sentence \<Rightarrow> sentence)"

definition marshalFiles :: "(string \<times> string) list \<Rightarrow> string" where
  "marshalFiles files = jsonObject (map (\<lambda>(k, v). (k, jsonString (StdEncode v))) (sortSlice (\<lambda>a b. fst a < fst b) files))"

definition answerFetchAgentCredentials :: "controld \<Rightarrow> world \<Rightarrow> Session \<Rightarrow> RPCEnvelope \<Rightarrow> world \<times> RPCEnvelope" where
  "answerFetchAgentCredentials cd w row env =
     (case decodeAgentRequest env of
        Inl bad \<Rightarrow> (w, bad)
      | Inr req \<Rightarrow>
        (case AnswerFetch (AgentVault (cd_sealing cd) (cd_outside cd)) (cd_testProvider cd)
                (ownerOrAdmin_Authorize (agentActorContext w row)) installPlacement w row (acr_Provider req) of
           Inl e \<Rightarrow> (w, agentRefusal env e ''the agent credential could not be read'')
         | Inr found \<Rightarrow>
           (w, rpcAnswer (rpc_ID env)
              (jsonObject [(''version'', show_nat (unat (acs_Version found))), (''files'', marshalFiles (acs_Files found))]))))"

definition answerPutAgentCredentials :: "controld \<Rightarrow> world \<Rightarrow> Session \<Rightarrow> RPCEnvelope \<Rightarrow> world \<times> RPCEnvelope" where
  "answerPutAgentCredentials cd w row env =
     (case decodeAgentRequest env of
        Inl bad \<Rightarrow> (w, bad)
      | Inr req \<Rightarrow>
        (case AnswerPut (AgentVault (cd_sealing cd) (cd_outside cd)) (cd_testProvider cd)
                (ownerOrAdmin_Authorize (agentActorContext w row)) installPlacement w row (acr_Provider req) (acr_Files req)
                (of_nat (acr_Version req)) of
           (w1, Inl e) \<Rightarrow> (w1, agentRefusal env e ''the agent credential could not be stored'')
         | (w1, Inr version) \<Rightarrow> (w1, rpcAnswer (rpc_ID env) (jsonObject [(''version'', show_nat (unat version))]))))"

section \<open>Session secrets\<close>

record sessionBootstrapRequest =
  sbr_Protocol :: nat
  sbr_Token :: string

definition sessionBootstrapRequestMaxBytes :: nat where "sessionBootstrapRequestMaxBytes = 4096"

definition decodeSessionBootstrapRequest :: "RPCEnvelope \<Rightarrow> RPCEnvelope + sessionBootstrapRequest" where
  "decodeSessionBootstrapRequest env =
     (if length (rpc_Payload env) > sessionBootstrapRequestMaxBytes
      then Inl (rpcRefusal (rpc_ID env) ''the bootstrap request is too large'')
      else case structMembers (rpc_Payload env) of
        None \<Rightarrow> Inl (rpcRefusal (rpc_ID env) ''the bootstrap request could not be decoded'')
      | Some ms \<Rightarrow>
        (case (uintField 64 ''protocol'' ms, decodeString ''token'' ms) of
           (Some protocol, Some token) \<Rightarrow>
             (if of_nat protocol \<noteq> SessionBootstrapProtocolVersion
              then Inl (rpcRefusal (rpc_ID env) ''this session must be replaced before it can exchange a bootstrap token'')
              else Inr \<lparr>sbr_Protocol = protocol, sbr_Token = token\<rparr>)
         | _ \<Rightarrow> Inl (rpcRefusal (rpc_ID env) ''the bootstrap request could not be decoded'')))"

text \<open>A session whose environment is gone has no secrets.\<close>

definition sessionEnvironment :: "world \<Rightarrow> Session \<Rightarrow> string + Environment option" where
  "sessionEnvironment w row =
     (if ses_EnvironmentID row = '''' then Inr None
      else case memEnvironments_GetEnvironment (w_store w) installWorkspace (ses_EnvironmentID row) of
        Inl e \<Rightarrow>
          (if errIs e ErrNotFound then Inr None
           else Inl (''this session'' @ CHR 0x27 # ''s environment could not be read''))
      | Inr env \<Rightarrow> Inr (Some env))"

fun launchSentence :: "controld \<Rightarrow> launchError \<Rightarrow> string" where
  "launchSentence cd (SecretGone name) = ''environment references secret '' @ cd_quote cd name @ '', which no longer exists''"
| "launchSentence cd _ = ''could not resolve the environment'' @ CHR 0x27 # ''s secrets''"

definition sessionSecrets :: "controld \<Rightarrow> world \<Rightarrow> Session \<Rightarrow> string + (string \<times> string) list" where
  "sessionSecrets cd w row =
     (case sessionEnvironment w row of
        Inl sentence \<Rightarrow> Inl sentence
      | Inr env \<Rightarrow>
        (case secretEnvironment (OpenSecret (cd_sealing cd)) (w_store w) env of
           Inl e \<Rightarrow> Inl (launchSentence cd e) | Inr vars \<Rightarrow> Inr vars))"

definition marshalSecrets :: "(string \<times> string) list \<Rightarrow> string" where
  "marshalSecrets vars =
     jsonObject [(''env'', jsonObject (map (\<lambda>(k, v). (k, jsonString v)) (sortSlice (\<lambda>a b. fst a < fst b) vars)))]"

definition answerFetchSessionSecrets :: "controld \<Rightarrow> world \<Rightarrow> Session \<Rightarrow> RPCEnvelope \<Rightarrow> world \<times> RPCEnvelope" where
  "answerFetchSessionSecrets cd w row env =
     (case decodeSessionBootstrapRequest env of
        Inl bad \<Rightarrow> (w, bad)
      | Inr req \<Rightarrow>
        (if sbr_Token req = '''' then (w, rpcRefusal (rpc_ID env) ''this request carried no bootstrap token'')
         else let (w0, now) = h_Now (memHost (cd_outside cd)) w
         in case onStore (\<lambda>m. memBootstraps_ConsumeSessionBootstrap m installWorkspace (ses_ID row)
                     (HashSessionBootstrapToken (sbr_Token req)) (ses_PlacementGeneration row) now) w0 of
           (w1, Some e) \<Rightarrow>
             (w1, rpcRefusal (rpc_ID env)
                (case SessionBootstrapRefusal e of None \<Rightarrow> ''the bootstrap token could not be checked'' | Some sentence \<Rightarrow> sentence))
         | (w1, None) \<Rightarrow>
           (case sessionSecrets cd w1 row of
              Inl sentence \<Rightarrow> (w1, rpcRefusal (rpc_ID env) sentence)
            | Inr vars \<Rightarrow> (w1, rpcAnswer (rpc_ID env) (marshalSecrets vars)))))"

definition answerMintSessionBootstrap :: "controld \<Rightarrow> world \<Rightarrow> Session \<Rightarrow> RPCEnvelope \<Rightarrow> world \<times> RPCEnvelope" where
  "answerMintSessionBootstrap cd w row env =
     (case decodeSessionBootstrapRequest env of
        Inl bad \<Rightarrow> (w, bad)
      | Inr _ \<Rightarrow>
        (case Mint (memHost (cd_outside cd)) w installWorkspace (ses_ID row) (ses_PlacementGeneration row) of
           (w1, Inl e) \<Rightarrow> (w1, rpcRefusal (rpc_ID env) ''a bootstrap token could not be minted for this session'')
         | (w1, Inr token) \<Rightarrow>
           (w1, rpcAnswer (rpc_ID env)
              (jsonObject [(''token'', jsonString token), (''expires_in_sec'', Sprint_d (SessionBootstrapTTL div second))]))))"

section \<open>The dispatch\<close>

definition handleSessionRequest :: "controld \<Rightarrow> world \<Rightarrow> Session \<Rightarrow> RPCEnvelope \<Rightarrow> world \<times> RPCEnvelope" where
  "handleSessionRequest cd w row env =
     (if rpc_Method env = ''mint_git_credential'' then answerMintGitCredential cd w row env
      else if rpc_Method env = ''fetch_agent_credentials'' then answerFetchAgentCredentials cd w row env
      else if rpc_Method env = ''put_agent_credentials'' then answerPutAgentCredentials cd w row env
      else if rpc_Method env = ''fetch_session_secrets'' then answerFetchSessionSecrets cd w row env
      else if rpc_Method env = ''mint_session_bootstrap'' then answerMintSessionBootstrap cd w row env
      else (w, rpcRefusal (rpc_ID env) (''unknown method '' @ cd_quote cd (clip (rpc_Method env)))))"

definition authorizeSessionRequest ::
    "controld \<Rightarrow> world \<Rightarrow> string \<Rightarrow> sessionid \<Rightarrow> RPCEnvelope \<Rightarrow> world \<times> RPCEnvelope" where
  "authorizeSessionRequest cd w runnerName sessionID env =
     (case memSessions_GetSession (w_store w) installWorkspace sessionID of
        Inl e \<Rightarrow>
          (w, rpcRefusal (rpc_ID env) (if errIs e ErrNotFound then ''no such session'' else ''the session could not be read''))
      | Inr row \<Rightarrow>
        (if ses_RunnerID row \<noteq> runnerName
         then (w, rpcRefusal (rpc_ID env) ''this session is not placed on the runner that asked'')
         else handleSessionRequest cd w row env))"

section \<open>What a request can touch\<close>

text \<open>The world moves, at most, its clock and randomness, the rows of the session's creator in custody and among the
  git credentials, and the session's bootstrap row.\<close>

definition requestFrame :: "Session \<Rightarrow> world \<Rightarrow> world \<Rightarrow> bool" where
  "requestFrame row w w' \<longleftrightarrow>
     (\<exists>now rnd cr ac bs. w' = w\<lparr>w_now := now, w_random := rnd,
         w_store := (w_store w)\<lparr>ms_credentials := cr, ms_agentCredentials := ac, ms_bootstraps := bs\<rparr>\<rparr>
      \<and> (\<forall>k. fst k \<noteq> ses_CreatorID row \<longrightarrow> map_of cr k = map_of (ms_credentials (w_store w)) k
           \<and> map_of ac k = map_of (ms_agentCredentials (w_store w)) k)
      \<and> (\<forall>k. k \<noteq> (installWorkspace, ses_ID row) \<longrightarrow> bs k = ms_bootstraps (w_store w) k))"

lemma requestFrameI:
  assumes "w' = w\<lparr>w_now := now, w_random := rnd, w_store := (w_store w)\<lparr>ms_credentials := cr, ms_agentCredentials := ac, ms_bootstraps := bs\<rparr>\<rparr>"
    and "\<And>k. fst k \<noteq> ses_CreatorID row \<Longrightarrow> map_of cr k = map_of (ms_credentials (w_store w)) k"
    and "\<And>k. fst k \<noteq> ses_CreatorID row \<Longrightarrow> map_of ac k = map_of (ms_agentCredentials (w_store w)) k"
    and "\<And>k. k \<noteq> (installWorkspace, ses_ID row) \<Longrightarrow> bs k = ms_bootstraps (w_store w) k"
  shows "requestFrame row w w'"
  using assms unfolding requestFrame_def by blast

lemma requestFrame_refl [simp, intro]: "requestFrame row w w"
  by (rule requestFrameI [where now = "w_now w" and rnd = "w_random w" and cr = "ms_credentials (w_store w)"
    and ac = "ms_agentCredentials (w_store w)"
    and bs = "ms_bootstraps (w_store w)"]) simp_all

lemma requestFrame_trans [trans]:
  assumes "requestFrame row w1 w2" and "requestFrame row w2 w3"
  shows "requestFrame row w1 w3"
proof -
  from assms(1) obtain now rnd cr ac bs where a:
    "w2 = w1\<lparr>w_now := now, w_random := rnd, w_store := (w_store w1)\<lparr>ms_credentials := cr, ms_agentCredentials := ac, ms_bootstraps := bs\<rparr>\<rparr>"
    "\<forall>k. fst k \<noteq> ses_CreatorID row \<longrightarrow> map_of cr k = map_of (ms_credentials (w_store w1)) k
       \<and> map_of ac k = map_of (ms_agentCredentials (w_store w1)) k"
    "\<forall>k. k \<noteq> (installWorkspace, ses_ID row) \<longrightarrow> bs k = ms_bootstraps (w_store w1) k"
    unfolding requestFrame_def by blast
  from assms(2) obtain now' rnd' cr' ac' bs' where b:
    "w3 = w2\<lparr>w_now := now', w_random := rnd', w_store := (w_store w2)\<lparr>ms_credentials := cr', ms_agentCredentials := ac', ms_bootstraps := bs'\<rparr>\<rparr>"
    "\<forall>k. fst k \<noteq> ses_CreatorID row \<longrightarrow> map_of cr' k = map_of (ms_credentials (w_store w2)) k
       \<and> map_of ac' k = map_of (ms_agentCredentials (w_store w2)) k"
    "\<forall>k. k \<noteq> (installWorkspace, ses_ID row) \<longrightarrow> bs' k = ms_bootstraps (w_store w2) k"
    unfolding requestFrame_def by blast
  show ?thesis
    by (rule requestFrameI [where now = now' and rnd = rnd' and cr = cr' and ac = ac' and bs = bs']) (use a b in \<open>simp_all del: split_paired_All\<close>)
qed

lemma frame_random: "requestFrame row w (w\<lparr>w_random := rnd\<rparr>)"
  by (rule requestFrameI [where now = "w_now w" and rnd = rnd and cr = "ms_credentials (w_store w)"
    and ac = "ms_agentCredentials (w_store w)"
    and bs = "ms_bootstraps (w_store w)"]) simp_all

lemma frame_now: "requestFrame row w (w\<lparr>w_now := now\<rparr>)"
  by (rule requestFrameI [where now = now and rnd = "w_random w" and cr = "ms_credentials (w_store w)"
    and ac = "ms_agentCredentials (w_store w)" and bs = "ms_bootstraps (w_store w)"]) simp_all

lemma frame_credential:
  "w' = w\<lparr>w_store := (w_store w)\<lparr>ms_credentials := upd (ses_CreatorID row, p) c (ms_credentials (w_store w))\<rparr>\<rparr> \<Longrightarrow>
   requestFrame row w w'"
  by (rule requestFrameI [where now = "w_now w" and rnd = "w_random w" and cr = "upd (ses_CreatorID row, p) c (ms_credentials (w_store w))"
    and ac = "ms_agentCredentials (w_store w)"
    and bs = "ms_bootstraps (w_store w)"]) auto

lemma frame_custody:
  "w' = w\<lparr>w_store := (w_store w)\<lparr>ms_agentCredentials := upd (ses_CreatorID row, p) c (ms_agentCredentials (w_store w))\<rparr>\<rparr> \<Longrightarrow>
   requestFrame row w w'"
  by (rule requestFrameI [where now = "w_now w" and rnd = "w_random w" and cr = "ms_credentials (w_store w)"
    and ac = "upd (ses_CreatorID row, p) c (ms_agentCredentials (w_store w))"
    and bs = "ms_bootstraps (w_store w)"]) auto

lemma frame_bootstrap:
  "w' = w\<lparr>w_store := (w_store w)\<lparr>ms_bootstraps := (ms_bootstraps (w_store w))((installWorkspace, ses_ID row) \<mapsto> b)\<rparr>\<rparr> \<Longrightarrow>
   requestFrame row w w'"
  by (rule requestFrameI [where now = "w_now w" and rnd = "w_random w" and cr = "ms_credentials (w_store w)"
    and ac = "ms_agentCredentials (w_store w)"
    and bs = "(ms_bootstraps (w_store w))((installWorkspace, ses_ID row) \<mapsto> b)"]) auto

lemma frame_randomBytes: "randomBytes w n = (w', x) \<Longrightarrow> requestFrame row w w'"
  by (auto simp: randomBytes_def frame_random split: list.splits)

lemma frame_SealAAD: "SealAAD sl w plaintext aad = (w', x) \<Longrightarrow> requestFrame row w w'"
  by (auto simp: SealAAD_def dest: frame_randomBytes split: prod.splits option.splits)

lemma frame_mintGit:
  "mintGitCredential sl w (ses_CreatorID row) = (w', x) \<Longrightarrow> requestFrame row w w'"
  by (auto simp: mintGitCredential_def memStore_TouchCredentialUsed_def onStore_def
      intro!: frame_credential split: sum.splits option.splits if_splits)

lemma frame_consume:
  "onStore (\<lambda>m. memBootstraps_ConsumeSessionBootstrap m installWorkspace (ses_ID row) hash gen now) w = (w', x) \<Longrightarrow>
   requestFrame row w w'"
  by (auto simp: onStore_def memBootstraps_ConsumeSessionBootstrap_def intro: frame_bootstrap
      split: option.splits if_splits)

lemma frame_mint:
  "Mint (memHost out) w installWorkspace (ses_ID row) gen = (w', x) \<Longrightarrow> requestFrame row w w'"
proof -
  assume mint: "Mint (memHost out) w installWorkspace (ses_ID row) gen = (w', x)"
  obtain w1 b where draw: "randomBytes w sessionBootstrapTokenBytes = (w1, b)" by fastforce
  have "requestFrame row w1 w'"
  proof (cases b)
    case (Some t)
    define r where "r = \<lparr>bs_Hash = HashSessionBootstrapToken (EncodeToString t), bs_PlacementGeneration = gen,
      bs_ExpiresAt = w_now w1 + SessionBootstrapTTL\<rparr>"
    define w2 where "w2 = w1\<lparr>w_now := w_now w1 + 1\<rparr>"
    have "w' = fst (onStore (\<lambda>m. memBootstraps_PutSessionBootstrap m installWorkspace (ses_ID row) r) w2)"
      using mint draw Some by (auto simp: Mint_def memHost_def r_def w2_def Let_def split: prod.splits option.splits)
    then have "requestFrame row w2 w'"
      by (cases "ses_ID row = '''' \<or> bs_Hash r = ''''")
        (auto simp: onStore_def memBootstraps_PutSessionBootstrap_def installWorkspace_def
          intro!: frame_bootstrap [unfolded installWorkspace_def])
    with frame_now show ?thesis unfolding w2_def by (rule requestFrame_trans)
  qed (use mint draw in \<open>simp add: Mint_def memHost_def\<close>)
  with frame_randomBytes [OF draw] show ?thesis by (rule requestFrame_trans)
qed

lemma frame_PutAgentCredential:
  "onStore (\<lambda>m. memStore_PutAgentCredential m now c) w = (w', x) \<Longrightarrow> agc_UserID c = ses_CreatorID row \<Longrightarrow> requestFrame row w w'"
  by (auto simp: onStore_def memStore_PutAgentCredential_def Let_def case_prod_beta intro: frame_custody split: if_splits)

lemma frame_ConditionalRevoke:
  "onStore (\<lambda>m. memStore_ConditionalRevokeAgentCredential m now (ses_CreatorID row) provider expected) w = (w', x) \<Longrightarrow>
   requestFrame row w w'"
  by (auto simp: onStore_def memStore_ConditionalRevokeAgentCredential_def memStore_revokeAgentCredential_def Let_def
      intro: frame_custody split: if_splits)

lemma frame_putAttempts:
  assumes "\<And>w. o_Yield out w = w"
  shows "putAttempts sl out n w (ses_CreatorID row) provider plaintext expected = (w', x) \<Longrightarrow> requestFrame row w w'"
proof (induction n arbitrary: w)
  case (Suc n)
  show ?case
  proof (cases "putBase w (ses_CreatorID row) provider expected")
    case (Inr stored)
    obtain w1 y where seal: "SealAAD sl w plaintext (agentCredentialAAD (ses_CreatorID row) provider (stored + 1)) = (w1, y)"
      by fastforce
    have "requestFrame row w1 w'"
    proof (cases y)
      case (Some z)
      define c where "c = \<lparr>agc_UserID = ses_CreatorID row, agc_Provider = provider, agc_Ciphertext = Some (fst z),
        agc_Nonce = Some (snd z), agc_Version = stored + 1, agc_Revoked = False, agc_LastRevokedVersion = 0,
        agc_UpdatedAt = zero_time\<rparr>"
      obtain w3 u where put: "onStore (\<lambda>m. memStore_PutAgentCredential m (w_now w1) c) w1 = (w3, u)" by fastforce
      then have "requestFrame row w1 w3" by (rule frame_PutAgentCredential) (simp add: c_def)
      moreover have "w' = w3 \<or> putAttempts sl out n w3 (ses_CreatorID row) provider plaintext expected = (w', x)"
        using Suc.prems Inr seal Some put by (cases z; cases u) (auto simp: assms c_def split: if_splits)
      ultimately show ?thesis using Suc.IH requestFrame_trans by blast
    qed (use Suc.prems Inr seal in simp)
    with frame_SealAAD [OF seal] show ?thesis by (rule requestFrame_trans)
  qed (use Suc.prems in simp)
qed simp

lemma frame_AnswerPut:
  assumes "\<And>w. o_Yield out w = w"
    and "AnswerPut (AgentVault sl out) testProvider auth places w row provider files expected = (w', x)"
  shows "requestFrame row w w'"
proof (cases "answerable testProvider auth places row provider")
  case (Inr p)
  consider "checkAgentFiles p files \<noteq> None" | "checkAgentFiles p files = None" "files = []" | "checkAgentFiles p files = None" "files \<noteq> []"
    by blast
  then show ?thesis
  proof cases
    case 2
    obtain w1 y where "onStore (\<lambda>m. memStore_ConditionalRevokeAgentCredential m (w_now w) (ses_CreatorID row) provider expected) w = (w1, y)"
      by fastforce
    with assms(2) Inr 2 frame_ConditionalRevoke show ?thesis
      by (cases y) (auto simp: AnswerPut_def AgentVault_def writeOutcome_def)
  next
    case 3
    obtain w1 y where "PutAgentCredentials sl out w (ses_CreatorID row) provider files expected = (w1, y)" by fastforce
    moreover from this have "requestFrame row w w1"
      using frame_putAttempts [OF assms(1)] by (auto simp: PutAgentCredentials_def split: if_splits)
    ultimately show ?thesis using assms(2) Inr 3
      by (cases y) (auto simp: AnswerPut_def AgentVault_def writeOutcome_def)
  qed (use assms(2) Inr in \<open>auto simp: AnswerPut_def\<close>)
qed (use assms(2) in \<open>simp add: AnswerPut_def\<close>)

lemma frame_secrets:
  assumes "answerFetchSessionSecrets cd w row env = (w', ans)"
  shows "requestFrame row w w'"
proof (cases "decodeSessionBootstrapRequest env")
  case (Inr req)
  obtain w1 x where spend: "onStore (\<lambda>m. memBootstraps_ConsumeSessionBootstrap m installWorkspace (ses_ID row)
      (HashSessionBootstrapToken (sbr_Token req)) (ses_PlacementGeneration row) (w_now w)) (w\<lparr>w_now := w_now w + 1\<rparr>) = (w1, x)"
    by fastforce
  then have "requestFrame row w w1" using frame_consume frame_now requestFrame_trans by blast
  then show ?thesis
    using assms Inr spend
    by (auto simp: answerFetchSessionSecrets_def memHost_def split: option.splits sum.splits if_splits)
qed (use assms in \<open>simp add: answerFetchSessionSecrets_def\<close>)

lemma frame_handle:
  assumes "\<And>w. o_Yield (cd_outside cd) w = w" and "handleSessionRequest cd w row env = (w', ans)"
  shows "requestFrame row w w'"
proof -
  have git: "requestFrame row w w'" if "answerMintGitCredential cd w row env = (w', ans)"
    using that frame_mintGit by (auto simp: answerMintGitCredential_def split: if_splits prod.splits sum.splits)
  have fetch: "requestFrame row w w'" if "answerFetchAgentCredentials cd w row env = (w', ans)"
    using that by (auto simp: answerFetchAgentCredentials_def split: sum.splits)
  have put: "requestFrame row w w'" if "answerPutAgentCredentials cd w row env = (w', ans)"
    using that frame_AnswerPut [OF assms(1)]
    by (auto simp: answerPutAgentCredentials_def split: prod.splits sum.splits)
  have mint: "requestFrame row w w'" if "answerMintSessionBootstrap cd w row env = (w', ans)"
    using that frame_mint by (auto simp: answerMintSessionBootstrap_def split: prod.splits sum.splits)
  from assms(2) show ?thesis
    unfolding handleSessionRequest_def using git fetch put mint frame_secrets by (auto split: if_splits)
qed

section \<open>Properties\<close>

text \<open>C21. What a sandbox can reach by asking. A request is answered only for a session that is placed on the
  runner that carried it; whatever it says, nothing of the installation changes but the clock, the
  randomness, the session's own bootstrap row, and the git and agent credentials of the session's creator: no
  session, environment, runner, event, user, token or secret, nothing of another person, nothing sent.
  For any other session or runner the request is refused and nothing changes. Other requests are assumed
  not to run in between.\<close>

theorem request_confined:
  assumes "\<And>w. o_Yield (cd_outside cd) w = w"
    and "authorizeSessionRequest cd w runnerName sessionID env = (w', ans)"
  shows "w' = w \<and> \<not> rpc_OK ans
    \<or> (\<exists>row now rnd cr ac bs. worldRow w installWorkspace sessionID = Some row \<and> ses_RunnerID row = runnerName
        \<and> w' = w\<lparr>w_now := now, w_random := rnd,
             w_store := (w_store w)\<lparr>ms_credentials := cr, ms_agentCredentials := ac, ms_bootstraps := bs\<rparr>\<rparr>
        \<and> (\<forall>user provider. user \<noteq> ses_CreatorID row \<longrightarrow>
             map_of cr (user, provider) = map_of (ms_credentials (w_store w)) (user, provider)
           \<and> map_of ac (user, provider) = map_of (ms_agentCredentials (w_store w)) (user, provider))
        \<and> (\<forall>ws sid. (ws, sid) \<noteq> (installWorkspace, ses_ID row) \<longrightarrow> bs (ws, sid) = ms_bootstraps (w_store w) (ws, sid)))"
proof (cases "memSessions_GetSession (w_store w) installWorkspace sessionID")
  case (Inl e)
  with assms(2) show ?thesis by (auto simp: authorizeSessionRequest_def rpcRefusal_def)
next
  case (Inr row)
  then have row: "worldRow w installWorkspace sessionID = Some row"
    by (auto simp: memSessions_GetSession_def worldRow_def split: if_splits option.splits)
  show ?thesis
  proof (cases "ses_RunnerID row = runnerName")
    case True
    with Inr assms have "requestFrame row w w'" by (intro frame_handle) (simp_all add: authorizeSessionRequest_def)
    then obtain now rnd cr ac bs where "w' = w\<lparr>w_now := now, w_random := rnd,
        w_store := (w_store w)\<lparr>ms_credentials := cr, ms_agentCredentials := ac, ms_bootstraps := bs\<rparr>\<rparr>"
      "\<forall>k. fst k \<noteq> ses_CreatorID row \<longrightarrow> map_of cr k = map_of (ms_credentials (w_store w)) k
        \<and> map_of ac k = map_of (ms_agentCredentials (w_store w)) k"
      "\<forall>k. k \<noteq> (installWorkspace, ses_ID row) \<longrightarrow> bs k = ms_bootstraps (w_store w) k"
      unfolding requestFrame_def by blast
    with row True show ?thesis
      by (intro disjI2 exI [of _ row] exI [of _ now] exI [of _ rnd] exI [of _ cr] exI [of _ ac] exI [of _ bs]) simp
  qed (use assms(2) Inr in \<open>auto simp: authorizeSessionRequest_def rpcRefusal_def\<close>)
qed

lemma consume_spends:
  "memBootstraps_ConsumeSessionBootstrap m ws sid hash gen now = (m', None) \<Longrightarrow>
   \<exists>boot. ms_bootstraps m (ws, sid) = Some boot \<and> btr_hash boot = hash \<and> btr_gen boot = gen \<and> now < btr_expiresAt boot
     \<and> \<not> btr_spent boot \<and> m' = m\<lparr>ms_bootstraps := (ms_bootstraps m)((ws, sid) \<mapsto> boot\<lparr>btr_spent := True\<rparr>)\<rparr>"
  by (auto simp: memBootstraps_ConsumeSessionBootstrap_def split: if_splits option.splits)

lemma consume_spent:
  "ms_bootstraps m (ws, sid) = Some boot \<Longrightarrow> btr_spent boot \<Longrightarrow>
   snd (memBootstraps_ConsumeSessionBootstrap m ws sid hash gen now) \<noteq> None"
  by (simp add: memBootstraps_ConsumeSessionBootstrap_def)

lemma decode_refuses: "decodeSessionBootstrapRequest env = Inl bad \<Longrightarrow> \<not> rpc_OK bad"
  by (auto simp: decodeSessionBootstrapRequest_def rpcRefusal_def split: if_splits option.splits prod.splits)

lemma secrets_spent:
  assumes "ms_bootstraps (w_store w) (installWorkspace, ses_ID row) = Some boot" and "btr_spent boot"
  shows "\<not> rpc_OK (snd (answerFetchSessionSecrets cd w row env))"
proof (cases "decodeSessionBootstrapRequest env")
  case (Inr req)
  obtain w1 x where spend: "onStore (\<lambda>m. memBootstraps_ConsumeSessionBootstrap m installWorkspace (ses_ID row)
      (HashSessionBootstrapToken (sbr_Token req)) (ses_PlacementGeneration row) (w_now w)) (w\<lparr>w_now := w_now w + 1\<rparr>) = (w1, x)"
    by fastforce
  then have "x \<noteq> None"
    using consume_spent [OF assms, of "HashSessionBootstrapToken (sbr_Token req)" "ses_PlacementGeneration row" "w_now w"]
    by (simp add: onStore_eq)
  with Inr spend show ?thesis by (auto simp: answerFetchSessionSecrets_def memHost_def rpcRefusal_def)
qed (simp add: answerFetchSessionSecrets_def decode_refuses)

lemma sessionSecrets_store:
  assumes "ms_environments (w_store w') = ms_environments (w_store w)" "ms_secrets (w_store w') = ms_secrets (w_store w)"
  shows "sessionSecrets cd w' row = sessionSecrets cd w row"
proof -
  have "openSecrets opn (w_store w') names vars = openSecrets opn (w_store w) names vars" for opn names vars
    using assms(2) by (induction names arbitrary: vars) (auto simp: memStore_GetSecret_def split: option.splits)
  then have "secretEnvironment opn (w_store w') env = secretEnvironment opn (w_store w) env" for opn env
    by (cases env) (simp_all add: secretEnvironment_def)
  moreover have "sessionEnvironment w' row = sessionEnvironment w row"
    using assms(1) by (simp add: sessionEnvironment_def memEnvironments_GetEnvironment_def)
  ultimately show ?thesis by (cases "sessionEnvironment w row") (simp_all add: sessionSecrets_def)
qed


section \<open>Instances\<close>

definition sampleServer :: controld where
  "sampleServer = \<lparr>cd_sealing = plainSealing, cd_quote = jsonString, cd_testProvider = False, cd_outside = sampleOutside\<rparr>"

definition bootstrapRequest :: "string \<Rightarrow> RPCEnvelope" where
  "bootstrapRequest token =
     \<lparr>rpc_ID = 7, rpc_Method = ''fetch_session_secrets'', rpc_OK = False,
      rpc_Payload = jsonObject [(''protocol'', ''1''), (''token'', jsonString token)]\<rparr>"

definition bootstrapWorld :: world where
  "bootstrapWorld = (sampleWorld ((stateStore StateRunning)
     \<lparr>ms_bootstraps := [(installWorkspace, ''s1'') \<mapsto> \<lparr>btr_hash = HashSessionBootstrapToken ''t'',
        btr_gen = ses_PlacementGeneration runningRow, btr_expiresAt = 60, btr_spent = False\<rparr>]\<rparr>))"

lemma bootstrapRequest_decodes:
  "decodeSessionBootstrapRequest (bootstrapRequest ''t'') = Inr \<lparr>sbr_Protocol = 1, sbr_Token = ''t''\<rparr>"
proof -
  have "structMembers (rpc_Payload (bootstrapRequest ''t'')) = Some [(''protocol'', JNumber ''1''), (''token'', JString ''t'')]"
    "decodeString ''token'' [(''protocol'', JNumber ''1''), (''token'', JString ''t'')] = Some ''t''"
    by code_simp+
  moreover have "fieldNamed ''protocol'' ''protocol''" "\<not> fieldNamed ''protocol'' ''token''"
    "parse_digits 0 ''1'' = Some 1" by code_simp+
  then have "uintField 64 ''protocol'' [(''protocol'', JNumber ''1''), (''token'', JString ''t'')] = Some 1"
    by (simp add: uintField_def decodeField_def)
  moreover have "length (rpc_Payload (bootstrapRequest ''t'')) = 26" by code_simp
  ultimately show ?thesis
    by (simp add: decodeSessionBootstrapRequest_def sessionBootstrapRequestMaxBytes_def SessionBootstrapProtocolVersion_def)
qed

lemma secrets_delivered:
  "snd (authorizeSessionRequest sampleServer bootstrapWorld ''r1'' ''s1'' (bootstrapRequest ''t''))
     = rpcAnswer 7 (marshalSecrets [])"
proof -
  have row: "sessionAt (stateStore StateRunning) installWorkspace ''s1'' = Some runningRow"
    "ses_RunnerID runningRow = ''r1''" "ses_ID runningRow = ''s1''" "ses_EnvironmentID runningRow = ''''"
    by code_simp+
  have rpc: "rpc_Method (bootstrapRequest ''t'') = ''fetch_session_secrets''" "rpc_ID (bootstrapRequest ''t'') = 7"
    by (simp_all add: bootstrapRequest_def)
  have ws: "installWorkspace \<noteq> ''''" by (simp add: installWorkspace_def)
  have get: "memSessions_GetSession (w_store bootstrapWorld) installWorkspace ''s1'' = Inr runningRow"
    using row(1) ws by (simp add: memSessions_GetSession_def bootstrapWorld_def sampleWorld_def)
  have "snd (answerFetchSessionSecrets sampleServer bootstrapWorld runningRow (bootstrapRequest ''t'')) = rpcAnswer 7 (marshalSecrets [])"
    using row rpc ws hash_nonempty
    by (simp add: answerFetchSessionSecrets_def bootstrapRequest_decodes memHost_def onStore_def bootstrapWorld_def sampleWorld_def
        memBootstraps_ConsumeSessionBootstrap_def sessionSecrets_def sessionEnvironment_def secretEnvironment_def)
  with get row rpc show ?thesis by (simp add: authorizeSessionRequest_def handleSessionRequest_def)
qed

definition bootstrapSpent :: world where
  "bootstrapSpent = fst (authorizeSessionRequest sampleServer bootstrapWorld ''r1'' ''s1'' (bootstrapRequest ''t''))"


lemma request_confined_witness:
  "let w' = fst (authorizeSessionRequest sampleServer bootstrapWorld ''r1'' ''s1'' (bootstrapRequest ''t''))
   in ms_sessions (w_store w') = ms_sessions (w_store bootstrapWorld) \<and> w_sent w' = w_sent bootstrapWorld"
proof -
  obtain w' ans where run: "authorizeSessionRequest sampleServer bootstrapWorld ''r1'' ''s1'' (bootstrapRequest ''t'') = (w', ans)"
    by fastforce
  have "o_Yield (cd_outside sampleServer) w = w" for w by (simp add: sampleServer_def sampleOutside_def)
  from request_confined [OF this run] have "ms_sessions (w_store w') = ms_sessions (w_store bootstrapWorld) \<and> w_sent w' = w_sent bootstrapWorld"
    by auto
  with run show ?thesis by simp
qed

end
