(* ===== verification/PtySession.thy ===== *)
theory PtySession
  imports Control "HOL-Library.Monad_Syntax"
begin

text \<open>
  The terminal session inside a sandbox (\<^verbatim>\<open>src/internal/session/session.go\<close>, \<^verbatim>\<open>resize.go\<close>) over its event
  log (\<^verbatim>\<open>src/internal/eventlog/eventlog.go\<close>): attachments that follow one process, the fence that decides
  whose input reaches it, and the size the terminal takes. A section under the session's mutex is one
  step. A step that would panic (a second close of a channel, a send on a closed one) or block
  under the mutex is \<open>None\<close>. The emulator is a parameter; the process is the list of what it was given.
\<close>

section \<open>The event log\<close>

record Entry =
  ent_Seq :: u64
  ent_Type :: string
  ent_Data :: string
  ent_TS :: int

record Log =
  log_entries :: "Entry list"
  log_last :: u64

text \<open>Whether the write and the flush succeed is an argument.\<close>

definition Log_Append :: "bool \<Rightarrow> int \<Rightarrow> Log \<Rightarrow> string \<Rightarrow> string \<Rightarrow> Log \<times> u64" where
  "Log_Append ok ts l typ data =
     (if \<not> ok then (l, 0)
      else let e = \<lparr>ent_Seq = log_last l + 1, ent_Type = typ, ent_Data = data, ent_TS = ts\<rparr>
           in (\<lparr>log_entries = log_entries l @ [e], log_last = ent_Seq e\<rparr>, ent_Seq e))"

definition Log_Since :: "Log \<Rightarrow> u64 \<Rightarrow> Entry list" where
  "Log_Since l seq = filter (\<lambda>e. ent_Seq e > seq) (log_entries l)"

definition LastSeq :: "Log \<Rightarrow> u64" where
  "LastSeq l = log_last l"

section \<open>Sizes\<close>

record Size =
  sz_Cols :: int
  sz_Rows :: int

definition Size_valid :: "Size \<Rightarrow> bool" where
  "Size_valid s \<longleftrightarrow> sz_Cols s > 0 \<and> sz_Rows s > 0 \<and> sz_Cols s \<le> 4096 \<and> sz_Rows s \<le> 4096
     \<and> sz_Cols s * sz_Rows s \<le> 256 * 1024"

fun latestFrom :: "Size \<times> u64 \<Rightarrow> (Size \<times> u64) list \<Rightarrow> Size \<times> u64" where
  "latestFrom latest [] = latest"
| "latestFrom latest (e # es) = latestFrom (if snd e > snd latest then e else latest) es"

definition latestSize :: "(Size \<times> u64) list \<Rightarrow> Size option" where
  "latestSize entries = (case entries of [] \<Rightarrow> None | e # es \<Rightarrow> Some (fst (latestFrom e es)))"

section \<open>The session\<close>

datatype ServerMessage =
    MsgOutput u64 string
  | MsgSnapshot u64 string int int
  | MsgExit int

text \<open>A channel: everything ever sent on it, how much of that was received, its capacity, and whether it is
  closed.\<close>

record channel =
  ch_sent :: "ServerMessage list"
  ch_taken :: nat
  ch_cap :: nat
  ch_closed :: bool

definition chanFull :: "channel \<Rightarrow> bool" where
  "chanFull c \<longleftrightarrow> length (ch_sent c) \<ge> ch_taken c + ch_cap c"

datatype bindMode = ModeView | ModeControl

record Binding =
  bnd_Bound :: bool
  bnd_Mode :: bindMode
  bnd_Generation :: u64

record viewer =
  vw_size :: Size
  vw_sizeAt :: u64
  vw_bind :: Binding

record 'e emulator =
  em_Feed :: "'e \<Rightarrow> string \<Rightarrow> 'e"
  em_Resize :: "'e \<Rightarrow> int \<Rightarrow> int \<Rightarrow> 'e"
  em_Screen :: "'e \<Rightarrow> string \<times> int \<times> int"

record 'e pty =
  pt_emu :: 'e
  pt_log :: Log
  pt_input :: "string list"
  pt_resizes :: "Size list"
  pt_viewers :: "(int \<times> viewer) list"
  pt_chans :: "int \<rightharpoonup> channel"
  pt_nextID :: int
  pt_size :: Size
  pt_exited :: bool
  pt_exitC :: int
  pt_controllerGen :: u64
  pt_sizeTick :: u64

definition newPty :: "'e \<Rightarrow> Log \<Rightarrow> Size \<Rightarrow> 'e pty" where
  "newPty emu log sz =
     \<lparr>pt_emu = emu, pt_log = log, pt_input = [], pt_resizes = [], pt_viewers = [], pt_chans = Map.empty, pt_nextID = 0,
      pt_size = sz, pt_exited = False, pt_exitC = 0, pt_controllerGen = 0, pt_sizeTick = 0\<rparr>"

section \<open>Channels\<close>

definition closeChan :: "int \<Rightarrow> 'e pty \<Rightarrow> 'e pty option" where
  "closeChan vid s =
     (case pt_chans s vid of
        None \<Rightarrow> None
      | Some c \<Rightarrow> if ch_closed c then None else Some (s\<lparr>pt_chans := (pt_chans s)(vid \<mapsto> c\<lparr>ch_closed := True\<rparr>)\<rparr>))"

text \<open>A send that would wait: the receiver has not been handed the channel yet.\<close>

definition sendChan :: "int \<Rightarrow> ServerMessage \<Rightarrow> 'e pty \<Rightarrow> 'e pty option" where
  "sendChan vid m s =
     (case pt_chans s vid of
        None \<Rightarrow> None
      | Some c \<Rightarrow>
        (if ch_closed c \<or> chanFull c then None
         else Some (s\<lparr>pt_chans := (pt_chans s)(vid \<mapsto> c\<lparr>ch_sent := ch_sent c @ [m]\<rparr>)\<rparr>)))"

fun sendAllChan :: "int \<Rightarrow> ServerMessage list \<Rightarrow> 'e pty \<Rightarrow> 'e pty option" where
  "sendAllChan vid [] s = Some s"
| "sendAllChan vid (m # ms) s = do { s1 \<leftarrow> sendChan vid m s; sendAllChan vid ms s1 }"

definition dropViewer :: "int \<Rightarrow> 'e pty \<Rightarrow> 'e pty option" where
  "dropViewer vid s = closeChan vid (s\<lparr>pt_viewers := del vid (pt_viewers s)\<rparr>)"

definition trySend :: "int \<Rightarrow> ServerMessage \<Rightarrow> 'e pty \<Rightarrow> 'e pty option" where
  "trySend vid m s =
     (case pt_chans s vid of
        None \<Rightarrow> None
      | Some c \<Rightarrow>
        (if ch_closed c then None
         else if chanFull c then dropViewer vid s
         else Some (s\<lparr>pt_chans := (pt_chans s)(vid \<mapsto> c\<lparr>ch_sent := ch_sent c @ [m]\<rparr>)\<rparr>)))"

fun broadcast :: "int list \<Rightarrow> ServerMessage \<Rightarrow> 'e pty \<Rightarrow> 'e pty option" where
  "broadcast [] m s = Some s"
| "broadcast (vid # vids) m s = do { s1 \<leftarrow> trySend vid m s; broadcast vids m s1 }"

fun closeAll :: "int list \<Rightarrow> 'e pty \<Rightarrow> 'e pty option" where
  "closeAll [] s = Some s"
| "closeAll (vid # vids) s = do { s1 \<leftarrow> closeChan vid s; closeAll vids s1 }"

section \<open>The fence and the size\<close>

definition mayWriteLocked :: "'e pty \<Rightarrow> viewer \<Rightarrow> u64 \<Rightarrow> bool" where
  "mayWriteLocked s v gen \<longleftrightarrow>
     (if \<not> bnd_Bound (vw_bind v) then True
      else bnd_Mode (vw_bind v) = ModeControl \<and> bnd_Generation (vw_bind v) = pt_controllerGen s \<and> gen = pt_controllerGen s)"

definition observeLocked :: "Binding \<Rightarrow> 'e pty \<Rightarrow> 'e pty" where
  "observeLocked bnd s =
     (if bnd_Bound bnd \<and> bnd_Generation bnd > pt_controllerGen s then s\<lparr>pt_controllerGen := bnd_Generation bnd\<rparr> else s)"

definition reportedSizes :: "'e pty \<Rightarrow> (Size \<times> u64) list" where
  "reportedSizes s =
     map (\<lambda>(_, v). (vw_size v, vw_sizeAt v))
       (filter (\<lambda>(_, v). mayWriteLocked s v (bnd_Generation (vw_bind v))) (pt_viewers s))"

definition applySizeLocked :: "'e emulator \<Rightarrow> 'e pty \<Rightarrow> 'e pty" where
  "applySizeLocked em s =
     (case latestSize (reportedSizes s) of
        None \<Rightarrow> s
      | Some eff \<Rightarrow>
        (if eff = pt_size s then s
         else s\<lparr>pt_size := eff, pt_emu := em_Resize em (pt_emu s) (sz_Cols eff) (sz_Rows eff),
               pt_resizes := pt_resizes s @ [eff]\<rparr>))"

section \<open>The operations\<close>

definition onOutput :: "'e emulator \<Rightarrow> bool \<Rightarrow> int \<Rightarrow> string \<Rightarrow> 'e pty \<Rightarrow> 'e pty option" where
  "onOutput em ok ts b s =
     (let (log', seq) = Log_Append ok ts (pt_log s) ''output'' b;
          s1 = s\<lparr>pt_emu := em_Feed em (pt_emu s) b, pt_log := log'\<rparr>
      in broadcast (map fst (pt_viewers s1)) (MsgOutput seq b) s1)"

definition SinceAll :: u64 where "SinceAll = not 0"

definition openingReplays :: "u64 \<Rightarrow> 'e pty \<Rightarrow> bool" where
  "openingReplays since s \<longleftrightarrow>
     LastSeq (pt_log s) > 0 \<and> (since = SinceAll \<or> since > 0 \<and> since \<le> LastSeq (pt_log s))"

definition replayEntries :: "u64 \<Rightarrow> 'e pty \<Rightarrow> Entry list" where
  "replayEntries since s = Log_Since (pt_log s) (if since = SinceAll then 0 else since)"

definition openingMessages :: "'e emulator \<Rightarrow> u64 \<Rightarrow> 'e pty \<Rightarrow> ServerMessage list" where
  "openingMessages em since s =
     (if openingReplays since s then map (\<lambda>e. MsgOutput (ent_Seq e) (ent_Data e)) (replayEntries since s)
      else case em_Screen em (pt_emu s) of (screen, cols, rows) \<Rightarrow> [MsgSnapshot (LastSeq (pt_log s)) screen cols rows])"

definition Session_Attach :: "'e emulator \<Rightarrow> u64 \<Rightarrow> Size \<Rightarrow> Binding \<Rightarrow> 'e pty \<Rightarrow> ('e pty \<times> int option) option" where
  "Session_Attach em since sz bnd s =
     (if \<not> Size_valid sz then Some (s, None)
      else
        let s1 = observeLocked bnd s;
            cap = (if openingReplays since s1 then length (replayEntries since s1) + 256 else 256);
            vid = pt_nextID s1; tick = pt_sizeTick s1 + 1;
            s2 = s1\<lparr>pt_viewers := upd vid \<lparr>vw_size = sz, vw_sizeAt = tick, vw_bind = bnd\<rparr> (pt_viewers s1),
                    pt_chans := (pt_chans s1)(vid \<mapsto> \<lparr>ch_sent = [], ch_taken = 0, ch_cap = cap, ch_closed = False\<rparr>),
                    pt_nextID := vid + 1, pt_sizeTick := tick\<rparr>
        in do {
             s3 \<leftarrow> sendAllChan vid (openingMessages em since s1) s2;
             s4 \<leftarrow> (if pt_exited s3 then do { s' \<leftarrow> sendChan vid (MsgExit (pt_exitC s3)) s3; dropViewer vid s' } else Some s3);
             Some (applySizeLocked em s4, Some vid)
           })"

definition Session_Detach :: "'e emulator \<Rightarrow> int \<Rightarrow> 'e pty \<Rightarrow> 'e pty option" where
  "Session_Detach em vid s =
     (if map_of (pt_viewers s) vid = None then Some s
      else do { s1 \<leftarrow> dropViewer vid s; Some (applySizeLocked em s1) })"

text \<open>Only the check of an input is under the mutex; its write comes after, and other methods may run in
  between.\<close>

definition stdinAllowed :: "int \<Rightarrow> u64 \<Rightarrow> 'e pty \<Rightarrow> bool" where
  "stdinAllowed vid gen s \<longleftrightarrow>
     (case map_of (pt_viewers s) vid of None \<Rightarrow> False | Some v \<Rightarrow> mayWriteLocked s v gen)"

definition procWrite :: "string \<Rightarrow> 'e pty \<Rightarrow> 'e pty" where
  "procWrite p s = s\<lparr>pt_input := pt_input s @ [p]\<rparr>"

definition Session_Stdin :: "int \<Rightarrow> u64 \<Rightarrow> string \<Rightarrow> 'e pty \<Rightarrow> 'e pty \<times> bool" where
  "Session_Stdin vid gen p s = (if stdinAllowed vid gen s then (procWrite p s, True) else (s, False))"

definition Session_Bind :: "'e emulator \<Rightarrow> int \<Rightarrow> Binding \<Rightarrow> 'e pty \<Rightarrow> 'e pty \<times> bool" where
  "Session_Bind em vid bnd s =
     (case map_of (pt_viewers s) vid of
        None \<Rightarrow> (s, False)
      | Some v \<Rightarrow>
        (if \<not> bnd_Bound (vw_bind v) then (s, False)
         else
           let s1 = observeLocked bnd s
           in (applySizeLocked em (s1\<lparr>pt_viewers := upd vid (v\<lparr>vw_bind := bnd\<rparr>) (pt_viewers s1)\<rparr>), True)))"

definition Session_SetSize :: "'e emulator \<Rightarrow> int \<Rightarrow> u64 \<Rightarrow> Size \<Rightarrow> 'e pty \<Rightarrow> 'e pty \<times> bool" where
  "Session_SetSize em vid gen sz s =
     (if \<not> Size_valid sz then (s, False)
      else case map_of (pt_viewers s) vid of
        None \<Rightarrow> (s, False)
      | Some v \<Rightarrow>
        (let tick = pt_sizeTick s + 1; v' = v\<lparr>vw_size := sz, vw_sizeAt := tick\<rparr>;
             s1 = s\<lparr>pt_sizeTick := tick, pt_viewers := upd vid v' (pt_viewers s)\<rparr>
         in if \<not> mayWriteLocked s1 v' gen then (s1, False) else (applySizeLocked em s1, True)))"

text \<open>The process ended: every viewer is told and its channel closed.\<close>

definition procExited :: "int \<Rightarrow> 'e pty \<Rightarrow> 'e pty option" where
  "procExited code s =
     do {
       s1 \<leftarrow> broadcast (map fst (pt_viewers s)) (MsgExit code) (s\<lparr>pt_exitC := code\<rparr>);
       s2 \<leftarrow> closeAll (map fst (pt_viewers s1)) s1;
       Some (s2\<lparr>pt_viewers := [], pt_exited := True\<rparr>)
     }"

text \<open>A client takes the next message off its channel.\<close>

definition receive :: "int \<Rightarrow> 'e pty \<Rightarrow> 'e pty" where
  "receive vid s =
     (case pt_chans s vid of
        None \<Rightarrow> s
      | Some c \<Rightarrow>
        (if ch_taken c < length (ch_sent c)
         then s\<lparr>pt_chans := (pt_chans s)(vid \<mapsto> c\<lparr>ch_taken := ch_taken c + 1\<rparr>)\<rparr> else s))"

end
