(* ===== verification/Ownership.thy ===== *)
theory Ownership
  imports Attach PtySession
begin

text \<open>
  Who drives a terminal: the attach plane's half of controller ownership
  (\<^verbatim>\<open>src/attachplane/ownership.go\<close>, with the opening of an attach in \<^verbatim>\<open>plane.go\<close> and its pumps in
  \<^verbatim>\<open>splice.go\<close>), under the exclusive policy, as a machine of interleaved threads. A section under a mutex is
  one function and one step. The pump of an attach handles its opening, claims, releases and end one at
  a time; its heartbeat and the goroutines of a handoff are threads of their own. Threads step in any order, on any
  number of replicas: the peers a handoff reaches are any of the attaches. The authority is the
  generation of the session's row, which a claim or a release advances by compare-and-swap.

  A thread does not wait for acknowledgements or for the goroutines it started, so what holds here
  holds whatever the waits do. A read of the store and a write to a socket may fail. A deadline ends only
  the wait of a notice for an announcement that is under way.
\<close>

section \<open>One attach\<close>

record ownership =
  ow_negotiated :: bool
  ow_mayClaim :: bool
  ow_policy :: InputPolicy
  ow_keeper :: bool
  ow_mode :: bindMode
  ow_gen :: u64
  ow_told :: bool

definition newOwnership :: "AttachTarget \<Rightarrow> ownership" where
  "newOwnership target =
     \<lparr>ow_negotiated = (tgt_Negotiated target \<or> tgt_Controller target \<noteq> None),
      ow_mayClaim = (tgt_MayClaim target \<and> tgt_Controller target \<noteq> None),
      ow_policy = tgt_Policy target, ow_keeper = (tgt_Controller target \<noteq> None),
      ow_mode = (if tgt_Mode target = AttachmentViewer then ModeView else ModeControl),
      ow_gen = tgt_ControllerGeneration target, ow_told = False\<rparr>"

definition ow_shared :: "ownership \<Rightarrow> bool" where
  "ow_shared w = policy_Shared (ow_policy w)"

definition advance :: "bindMode \<Rightarrow> u64 \<Rightarrow> ownership \<Rightarrow> ownership \<times> bool" where
  "advance mode gen w = (if gen < ow_gen w then (w, False) else (w\<lparr>ow_mode := mode, ow_gen := gen\<rparr>, True))"

definition demoteTo :: "u64 \<Rightarrow> u64 \<Rightarrow> ownership \<Rightarrow> ownership \<times> u64 \<times> bool" where
  "demoteTo from gen w =
     (if ow_gen w > from then (w, ow_gen w, False)
      else let g = (if gen > ow_gen w then gen else ow_gen w)
           in (w\<lparr>ow_gen := g, ow_mode := ModeView\<rparr>, g, True))"

definition displaceTo :: "u64 \<Rightarrow> ownership \<Rightarrow> ownership \<times> bindMode \<times> bool" where
  "displaceTo gen w =
     (if ow_gen w \<ge> gen then (w, ow_mode w, False) else (w\<lparr>ow_mode := ModeView, ow_gen := gen\<rparr>, ow_mode w, True))"

definition controlling :: "ownership \<Rightarrow> bool" where
  "controlling w \<longleftrightarrow> ow_mode w = ModeControl"

text \<open>The generation an input frame of this attach is stamped with, and whether it is forwarded at all.\<close>

definition stamp :: "ownership \<Rightarrow> u64" where
  "stamp w = ow_gen w"

definition mayForward :: "ownership \<Rightarrow> bool" where
  "mayForward w = controlling w"

section \<open>What a client is told\<close>

datatype ownType = TypeAttached | TypeStale | TypeControlChanged

type_synonym ownMessage = "ownType \<times> bindMode option \<times> u64"

definition answer :: "ownType \<Rightarrow> u64 \<Rightarrow> bindMode \<Rightarrow> u64 \<Rightarrow> ownMessage" where
  "answer typ won mode gen =
     (let typ' = (if typ = TypeAttached \<and> won \<noteq> 0 \<and> (mode \<noteq> ModeControl \<or> gen \<noteq> won) then TypeStale
                  else if typ = TypeStale \<and> mode = ModeControl then TypeAttached
                  else typ)
      in (typ', if typ' \<noteq> TypeStale then Some mode else None, gen))"

text \<open>A refusal names no mode: its client is a viewer.\<close>

definition believes :: "ownMessage \<Rightarrow> bindMode \<times> u64" where
  "believes m = (case m of (_, mode, gen) \<Rightarrow> (case mode of None \<Rightarrow> ModeView | Some md \<Rightarrow> md, gen))"

section \<open>The plane\<close>

text \<open>What follows an announcement: nothing, a fan-out at the generation it named, the end of a claim that won a
  generation, or the command that opens the attachment in the sandbox.\<close>

datatype cont = Done | Displacing | Claimed u64 | Dialing

fun wonAt :: "cont \<Rightarrow> u64" where
  "wonAt (Claimed g) = g"
| "wonAt _ = 0"

text \<open>The threads: the client pump of an attach, its heartbeat, and the goroutines of fan-outs.\<close>

datatype tid = Pump nat | Beat nat | Note nat

text \<open>What a thread does next.\<close>

datatype thread =
    TGranted nat u64
  | TOpen nat
  | TClaim nat u64
  | TWon nat u64
  | TAdvance nat u64
  | TLost nat u64
  | TStale nat cont
  | TStaleAt nat u64 cont
  | TAnnounce nat ownType cont
  | TSending nat ownMessage bindMode u64 cont
  | TTelling nat bindMode u64 cont
  | TInstall nat bindMode u64
  | TDisplace nat u64 "nat list" "(ownType \<times> cont) option"
  | TPeer nat "u64 option"
  | TRelease nat u64
  | TDemote nat u64 cont
  | TDemoteAt nat u64 u64 cont
  | TFence nat u64 cont
  | TFinish nat u64

text \<open>The generation of the row, the attaches, what each client was last told, the bindings sent to the
  sandbox, and the threads.\<close>

record plane =
  pl_gen :: u64
  pl_own :: "nat \<rightharpoonup> ownership"
  pl_heard :: "nat \<rightharpoonup> ownMessage"
  pl_installs :: "(nat \<times> bindMode \<times> u64) list"
  pl_thr :: "tid \<rightharpoonup> thread"

definition newPlane :: "u64 \<Rightarrow> plane" where
  "newPlane g = \<lparr>pl_gen = g, pl_own = Map.empty, pl_heard = Map.empty, pl_installs = [], pl_thr = Map.empty\<rparr>"

text \<open>The announce channel of an attach is held from the read of its state to the last comparison.\<close>

fun tells :: "nat \<Rightarrow> thread \<Rightarrow> bool" where
  "tells a (TSending b _ _ _ _) = (a = b)"
| "tells a (TTelling b _ _ _) = (a = b)"
| "tells a _ = False"

definition announceHeld :: "plane \<Rightarrow> nat \<Rightarrow> bool" where
  "announceHeld s a \<longleftrightarrow> (\<exists>i t. pl_thr s i = Some t \<and> tells a t)"

text \<open>The compare-and-advance of the row, at a generation that does not wrap.\<close>

definition rowRoom :: "plane \<Rightarrow> bool" where
  "rowRoom s \<longleftrightarrow> pl_gen s < pl_gen s + 1"

definition advanceRow :: "plane \<Rightarrow> plane" where
  "advanceRow s = s\<lparr>pl_gen := pl_gen s + 1\<rparr>"

definition releaseRow :: "u64 \<Rightarrow> plane \<Rightarrow> plane" where
  "releaseRow g s = (if pl_gen s = g \<and> rowRoom s then advanceRow s else s)"

definition putThread :: "tid \<Rightarrow> thread \<Rightarrow> plane \<Rightarrow> plane" where
  "putThread i t s = s\<lparr>pl_thr := (pl_thr s)(i \<mapsto> t)\<rparr>"

definition endThread :: "tid \<Rightarrow> plane \<Rightarrow> plane" where
  "endThread i s = s\<lparr>pl_thr := (pl_thr s)(i := None)\<rparr>"

definition putOwn :: "nat \<Rightarrow> ownership \<Rightarrow> plane \<Rightarrow> plane" where
  "putOwn a w s = s\<lparr>pl_own := (pl_own s)(a \<mapsto> w)\<rparr>"

definition install :: "nat \<Rightarrow> bindMode \<Rightarrow> u64 \<Rightarrow> plane \<Rightarrow> plane" where
  "install a m g s = s\<lparr>pl_installs := pl_installs s @ [(a, m, g)]\<rparr>"

text \<open>Only a client that negotiated is sent anything.\<close>

definition sendOwn :: "nat \<Rightarrow> ownership \<Rightarrow> ownMessage \<Rightarrow> plane \<Rightarrow> plane" where
  "sendOwn a w msg s = (if ow_negotiated w then s\<lparr>pl_heard := (pl_heard s)(a \<mapsto> msg)\<rparr> else s)"

fun afterAnnounce :: "cont \<Rightarrow> tid \<Rightarrow> nat \<Rightarrow> bindMode \<Rightarrow> u64 \<Rightarrow> nat list \<Rightarrow> plane \<Rightarrow> plane" where
  "afterAnnounce Done i a m g peers s = endThread i s"
| "afterAnnounce Displacing i a m g peers s = putThread i (TDisplace a g peers None) s"
| "afterAnnounce (Claimed won) i a m g peers s =
     (if m = ModeControl \<and> g = won then endThread i s else putThread i (TInstall a m g) s)"
| "afterAnnounce Dialing i a m g peers s = putThread i (TInstall a m g) s"

definition afterDisplace :: "(ownType \<times> cont) option \<Rightarrow> tid \<Rightarrow> nat \<Rightarrow> plane \<Rightarrow> plane" where
  "afterDisplace k i a s = (case k of None \<Rightarrow> endThread i s | Some (typ, c) \<Rightarrow> putThread i (TAnnounce a typ c) s)"

section \<open>The steps\<close>

inductive plane_step :: "plane \<Rightarrow> plane \<Rightarrow> bool" where
  granted: "pl_thr s (Pump a) = None \<Longrightarrow> pl_own s a = None \<Longrightarrow> rowRoom s \<Longrightarrow>
    plane_step s (putThread (Pump a) (TGranted a (pl_gen s + 1)) (advanceRow s))"
| open_controller: "pl_thr s i = Some (TGranted a g) \<Longrightarrow> tgt_ControllerGeneration target = g \<Longrightarrow>
    tgt_Mode target \<noteq> AttachmentViewer \<Longrightarrow> \<not> policy_Shared (tgt_Policy target) \<Longrightarrow>
    plane_step s (putThread i (TOpen a) (putOwn a (newOwnership target) s))"
| open_viewer: "pl_thr s (Pump a) = None \<Longrightarrow> pl_own s a = None \<Longrightarrow> tgt_Mode target = AttachmentViewer \<Longrightarrow>
    \<not> policy_Shared (tgt_Policy target) \<Longrightarrow>
    plane_step s (putThread (Pump a) (TOpen a) (putOwn a (newOwnership target) s))"
| first_failed: "pl_thr s i = Some (TOpen a) \<Longrightarrow> plane_step s (endThread i s)"
| opened: "pl_thr s i = Some (TOpen a) \<Longrightarrow> pl_own s a = Some w \<Longrightarrow> a \<notin> set peers \<Longrightarrow>
    plane_step s (putThread i
      (if controlling w then TDisplace a (ow_gen w) peers (Some (TypeAttached, Dialing)) else TAnnounce a TypeAttached Dialing) s)"
| claim: "pl_thr s (Pump a) = None \<Longrightarrow> pl_own s a = Some w \<Longrightarrow> ow_negotiated w \<Longrightarrow>
    plane_step s (putThread (Pump a) (TClaim a expected) s)"
| claim_superseded: "pl_thr s i = Some (TClaim a expected) \<Longrightarrow> pl_own s a = Some w \<Longrightarrow> controlling w \<Longrightarrow>
    ow_keeper w \<Longrightarrow> pl_gen s \<noteq> ow_gen w \<Longrightarrow> plane_step s (putThread i (TStale a Done) s)"
| claim_held: "pl_thr s i = Some (TClaim a expected) \<Longrightarrow> pl_own s a = Some w \<Longrightarrow> controlling w \<Longrightarrow>
    plane_step s (putThread i (TAnnounce a TypeAttached Done) s)"
| claim_refused: "pl_thr s i = Some (TClaim a expected) \<Longrightarrow> pl_own s a = Some w \<Longrightarrow> \<not> controlling w \<Longrightarrow>
    \<not> ow_mayClaim w \<or> \<not> ow_keeper w \<Longrightarrow> plane_step s (putThread i (TAnnounce a TypeStale Done) s)"
| claim_won: "pl_thr s (Pump a) = Some (TClaim a (pl_gen s)) \<Longrightarrow> pl_own s a = Some w \<Longrightarrow> \<not> controlling w \<Longrightarrow>
    ow_mayClaim w \<Longrightarrow> ow_keeper w \<Longrightarrow> rowRoom s \<Longrightarrow>
    plane_step s (putThread (Pump a) (TWon a (pl_gen s + 1)) (advanceRow s))"
| claim_lost: "pl_thr s i = Some (TClaim a expected) \<Longrightarrow> pl_own s a = Some w \<Longrightarrow> \<not> controlling w \<Longrightarrow>
    ow_mayClaim w \<Longrightarrow> ow_keeper w \<Longrightarrow> plane_step s (putThread i (TStale a Done) s)"
| claim_unheard: "pl_thr s i = Some (TClaim a (pl_gen s)) \<Longrightarrow> pl_own s a = Some w \<Longrightarrow> \<not> controlling w \<Longrightarrow>
    ow_mayClaim w \<Longrightarrow> ow_keeper w \<Longrightarrow> rowRoom s \<Longrightarrow> plane_step s (putThread i (TStale a Done) (advanceRow s))"
| installed: "pl_thr s i = Some (TWon a g) \<Longrightarrow> plane_step s (putThread i (TAdvance a g) (install a ModeControl g s))"
| not_installed: "pl_thr s i = Some (TWon a g) \<Longrightarrow> s' = s \<or> s' = install a ModeControl g s \<Longrightarrow>
    plane_step s (putThread i (TLost a g) s')"
| lost: "pl_thr s i = Some (TLost a g) \<Longrightarrow> s' = s \<or> s' = releaseRow g s \<Longrightarrow>
    plane_step s (putThread i (TStale a Displacing) s')"
| advanced: "pl_thr s i = Some (TAdvance a g) \<Longrightarrow> pl_own s a = Some w \<Longrightarrow> a \<notin> set peers \<Longrightarrow>
    advance ModeControl g w = (w', moved) \<Longrightarrow>
    plane_step s (putThread i
      (if moved then TDisplace a g peers (Some (TypeAttached, Claimed g)) else TAnnounce a TypeAttached (Claimed g)) (putOwn a w' s))"
| stale_read: "pl_thr s i = Some (TStale a k) \<Longrightarrow> pl_own s a = Some w \<Longrightarrow> g = pl_gen s \<or> g = ow_gen w \<Longrightarrow>
    plane_step s (putThread i (TStaleAt a g k) s)"
| stale_displaced: "pl_thr s i = Some (TStaleAt a g k) \<Longrightarrow> pl_own s a = Some w \<Longrightarrow> displaceTo g w = (w', was, moved) \<Longrightarrow>
    plane_step s (putThread i (TAnnounce a TypeStale k) (putOwn a w' s))"
| announced: "pl_thr s i = Some (TAnnounce a typ k) \<Longrightarrow> pl_own s a = Some w \<Longrightarrow> \<not> announceHeld s a \<Longrightarrow>
    plane_step s (putThread i (TSending a (answer typ (wonAt k) (ow_mode w) (ow_gen w)) (ow_mode w) (ow_gen w) k)
      (putOwn a (w\<lparr>ow_told := True\<rparr>) s))"
| gave_up: "pl_thr s i = Some (TAnnounce a TypeControlChanged Done) \<Longrightarrow> announceHeld s a \<Longrightarrow> plane_step s (endThread i s)"
| sent: "pl_thr s i = Some (TSending a msg m g k) \<Longrightarrow> pl_own s a = Some w \<Longrightarrow>
    plane_step s (putThread i (TTelling a m g k) (sendOwn a w msg s))"
| moved_on: "pl_thr s i = Some (TTelling a m g k) \<Longrightarrow> pl_own s a = Some w \<Longrightarrow> (ow_mode w, ow_gen w) \<noteq> (m, g) \<Longrightarrow>
    plane_step s (putThread i (TSending a (TypeControlChanged, Some (ow_mode w), ow_gen w) (ow_mode w) (ow_gen w) k) s)"
| settled: "pl_thr s i = Some (TTelling a m g k) \<Longrightarrow> pl_own s a = Some w \<Longrightarrow> (ow_mode w, ow_gen w) = (m, g) \<Longrightarrow>
    a \<notin> set peers \<Longrightarrow> plane_step s (afterAnnounce k i a m g peers s)"
| bound: "pl_thr s i = Some (TInstall a m g) \<Longrightarrow> s' = s \<or> s' = install a m g s \<Longrightarrow> plane_step s (endThread i s')"
| displaced: "pl_thr s i = Some (TDisplace a g (p # peers) k) \<Longrightarrow> pl_own s p = Some w \<Longrightarrow> displaceTo g w = (w', was, moved) \<Longrightarrow>
    pl_thr s (Note n) = None \<Longrightarrow>
    plane_step s (putThread (Note n) (TPeer p (if moved \<and> was = ModeControl then Some g else None))
      (putThread i (TDisplace a g peers k) (putOwn p w' s)))"
| displaced_all: "pl_thr s i = Some (TDisplace a g [] k) \<Longrightarrow> plane_step s (afterDisplace k i a s)"
| peer_fenced: "pl_thr s i = Some (TPeer p (Some g)) \<Longrightarrow> s' = s \<or> s' = install p ModeView g s \<Longrightarrow>
    plane_step s (putThread i (TPeer p None) s')"
| peer_noted: "pl_thr s i = Some (TPeer p None) \<Longrightarrow> pl_own s p = Some w \<Longrightarrow>
    plane_step s (if ow_told w then putThread i (TAnnounce p TypeControlChanged Done) s else endThread i s)"
| release: "pl_thr s (Pump a) = None \<Longrightarrow> pl_own s a = Some w \<Longrightarrow> ow_keeper w \<Longrightarrow> controlling w \<Longrightarrow>
    plane_step s (putThread (Pump a) (TRelease a (ow_gen w)) s)"
| released: "pl_thr s i = Some (TRelease a g) \<Longrightarrow> s' = s \<or> s' = releaseRow g s \<Longrightarrow>
    plane_step s (putThread i (TDemote a g Displacing) s')"
| renew_stale: "pl_thr s (Beat a) = None \<Longrightarrow> pl_own s a = Some w \<Longrightarrow> ow_keeper w \<Longrightarrow> controlling w \<Longrightarrow>
    plane_step s (putThread (Beat a) (TDemote a (ow_gen w) Done) s)"
| demote_read: "pl_thr s i = Some (TDemote a g k) \<Longrightarrow> h = pl_gen s \<or> h = g \<Longrightarrow> plane_step s (putThread i (TDemoteAt a g h k) s)"
| demoted: "pl_thr s i = Some (TDemoteAt a g h k) \<Longrightarrow> pl_own s a = Some w \<Longrightarrow> demoteTo g h w = (w', n, moved) \<Longrightarrow>
    plane_step s (putThread i (if moved then TFence a n k else TAnnounce a TypeControlChanged k) (putOwn a w' s))"
| fenced: "pl_thr s i = Some (TFence a n k) \<Longrightarrow> s' = s \<or> s' = install a ModeView n s \<Longrightarrow>
    plane_step s (putThread i (TAnnounce a TypeControlChanged k) s')"
| finish: "pl_thr s (Pump a) = None \<Longrightarrow> pl_own s a = Some w \<Longrightarrow> ow_keeper w \<Longrightarrow> controlling w \<Longrightarrow>
    plane_step s (putThread (Pump a) (TFinish a (ow_gen w)) s)"
| finished: "pl_thr s i = Some (TFinish a g) \<Longrightarrow> s' = s \<or> s' = releaseRow g s \<Longrightarrow> a \<notin> set peers \<Longrightarrow>
    plane_step s (putThread i (TDisplace a (pl_gen s') peers None) s')"
| unread: "pl_thr s i = Some (TFinish a g) \<Longrightarrow> s' = s \<or> s' = releaseRow g s \<Longrightarrow> plane_step s (endThread i s')"

inductive plane_reaches :: "plane \<Rightarrow> plane \<Rightarrow> bool" where
  start: "plane_reaches s s"
| more: "plane_reaches s t \<Longrightarrow> plane_step t u \<Longrightarrow> plane_reaches s u"

end
