(* ===== verification/PtyProps.thy ===== *)
theory PtyProps
  imports PtySession
begin

text \<open>
  What the terminal session promises: no operation panics or blocks under the mutex, an attachment that
  replays sees every output once and in order, and a take-over fences every other attachment.
\<close>

section \<open>Operations as a trace\<close>

datatype ptyOp =
    OpOutput bool int string
  | OpAttach u64 Size Binding
  | OpDetach int
  | OpStdin int u64 string
  | OpWrite string
  | OpBind int Binding
  | OpSetSize int u64 Size
  | OpExit int
  | OpReceive int

fun ptyDo :: "'e emulator \<Rightarrow> ptyOp \<Rightarrow> 'e pty \<Rightarrow> 'e pty option" where
  "ptyDo em (OpOutput ok ts b) s = onOutput em ok ts b s"
| "ptyDo em (OpAttach since sz bnd) s = map_option fst (Session_Attach em since sz bnd s)"
| "ptyDo em (OpDetach vid) s = Session_Detach em vid s"
| "ptyDo em (OpStdin vid gen p) s = Some (fst (Session_Stdin vid gen p s))"
| "ptyDo em (OpWrite p) s = Some (procWrite p s)"
| "ptyDo em (OpBind vid bnd) s = Some (fst (Session_Bind em vid bnd s))"
| "ptyDo em (OpSetSize vid gen sz) s = Some (fst (Session_SetSize em vid gen sz s))"
| "ptyDo em (OpExit code) s = procExited code s"
| "ptyDo em (OpReceive vid) s = Some (receive vid s)"

fun ptyRun :: "'e emulator \<Rightarrow> ptyOp list \<Rightarrow> 'e pty \<Rightarrow> 'e pty option" where
  "ptyRun em [] s = Some s"
| "ptyRun em (op # ops) s = do { s1 \<leftarrow> ptyDo em op s; ptyRun em ops s1 }"

section \<open>The invariant\<close>

definition chanOk :: "channel \<Rightarrow> bool" where
  "chanOk c \<longleftrightarrow> ch_taken c \<le> length (ch_sent c) \<and> length (ch_sent c) \<le> ch_taken c + ch_cap c"

definition ptyOk :: "'e pty \<Rightarrow> bool" where
  "ptyOk s \<longleftrightarrow> distinct (map fst (pt_viewers s))
     \<and> (\<forall>vid v. map_of (pt_viewers s) vid = Some v \<longrightarrow> (\<exists>c. pt_chans s vid = Some c \<and> \<not> ch_closed c))
     \<and> (\<forall>vid c. pt_chans s vid = Some c \<longrightarrow> vid < pt_nextID s \<and> chanOk c)
     \<and> (pt_exited s \<longrightarrow> pt_viewers s = [])"

lemma ptyOk_new: "ptyOk (newPty emu log sz)"
  by (simp add: ptyOk_def newPty_def)

text \<open>What decides the invariant; sizes, input and the emulator do not.\<close>

lemma ptyOk_cong:
  assumes "map fst (pt_viewers s') = map fst (pt_viewers s)" "pt_chans s' = pt_chans s" "pt_nextID s' = pt_nextID s"
    "pt_exited s' = pt_exited s" and "ptyOk s"
  shows "ptyOk s'"
proof -
  have "dom (map_of (pt_viewers s')) = dom (map_of (pt_viewers s))"
    using assms(1) by (metis dom_map_of_conv_image_fst list.set_map)
  moreover have "pt_viewers s' = [] \<longleftrightarrow> pt_viewers s = []" using assms(1) by (metis map_is_Nil_conv)
  moreover have "\<exists>v. map_of (pt_viewers s) vid = Some v" if "map_of (pt_viewers s') vid = Some v" for vid v
    using that \<open>dom (map_of (pt_viewers s')) = dom (map_of (pt_viewers s))\<close> by blast
  ultimately show ?thesis using assms unfolding ptyOk_def by metis
qed

lemma applySizeLocked_fields [simp]:
  "pt_viewers (applySizeLocked em s) = pt_viewers s" "pt_chans (applySizeLocked em s) = pt_chans s"
  "pt_nextID (applySizeLocked em s) = pt_nextID s" "pt_exited (applySizeLocked em s) = pt_exited s"
  "pt_log (applySizeLocked em s) = pt_log s" "pt_controllerGen (applySizeLocked em s) = pt_controllerGen s"
  "pt_input (applySizeLocked em s) = pt_input s"
  by (simp_all add: applySizeLocked_def split: option.split)

lemma observeLocked_fields [simp]:
  "pt_viewers (observeLocked b s) = pt_viewers s" "pt_chans (observeLocked b s) = pt_chans s"
  "pt_nextID (observeLocked b s) = pt_nextID s" "pt_exited (observeLocked b s) = pt_exited s"
  "pt_log (observeLocked b s) = pt_log s" "pt_emu (observeLocked b s) = pt_emu s" "pt_exitC (observeLocked b s) = pt_exitC s"
  "pt_input (observeLocked b s) = pt_input s"
  by (simp_all add: observeLocked_def)

section \<open>Sending and closing\<close>

text \<open>Only the viewers and their channels move, and a channel that is not named stays.\<close>

definition onlyChans :: "int set \<Rightarrow> 'e pty \<Rightarrow> 'e pty \<Rightarrow> bool" where
  "onlyChans ids s s' \<longleftrightarrow> s' = s\<lparr>pt_viewers := pt_viewers s', pt_chans := pt_chans s'\<rparr>
     \<and> (\<forall>vid. vid \<notin> ids \<longrightarrow> pt_chans s' vid = pt_chans s vid \<and> map_of (pt_viewers s') vid = map_of (pt_viewers s) vid)
     \<and> (\<forall>vid. map_of (pt_viewers s') vid \<noteq> None \<longrightarrow> map_of (pt_viewers s') vid = map_of (pt_viewers s) vid)"

lemma onlyChans_refl [simp]: "onlyChans ids s s"
  by (simp add: onlyChans_def)

lemma onlyChans_other:
  "onlyChans ids s s' \<Longrightarrow> vid \<notin> ids \<Longrightarrow> pt_chans s' vid = pt_chans s vid"
  "onlyChans ids s s' \<Longrightarrow> vid \<notin> ids \<Longrightarrow> map_of (pt_viewers s') vid = map_of (pt_viewers s) vid"
  "onlyChans ids s s' \<Longrightarrow> map_of (pt_viewers s') vid \<noteq> None \<Longrightarrow> map_of (pt_viewers s') vid = map_of (pt_viewers s) vid"
  unfolding onlyChans_def by blast+

lemma ptyOk_open:
  "ptyOk s \<Longrightarrow> map_of (pt_viewers s) vid \<noteq> None \<Longrightarrow> \<exists>c. pt_chans s vid = Some c \<and> \<not> ch_closed c"
  unfolding ptyOk_def by blast

lemma ptyOk_chan: "ptyOk s \<Longrightarrow> pt_chans s vid = Some c \<Longrightarrow> vid < pt_nextID s \<and> chanOk c"
  unfolding ptyOk_def by blast

lemma ptyOk_setChan:
  assumes "ptyOk s" and "pt_chans s vid = Some c" and "chanOk c'" "ch_closed c' \<longleftrightarrow> ch_closed c"
  shows "ptyOk (s\<lparr>pt_chans := (pt_chans s)(vid \<mapsto> c')\<rparr>)"
proof -
  have "\<exists>c. ((pt_chans s)(vid \<mapsto> c')) i = Some c \<and> \<not> ch_closed c" if "map_of (pt_viewers s) i = Some v" for i v
    using ptyOk_open [OF assms(1), of i] that assms(2,4) by (cases "i = vid") auto
  moreover have "i < pt_nextID s \<and> chanOk d" if "((pt_chans s)(vid \<mapsto> c')) i = Some d" for i d
    using ptyOk_chan [OF assms(1)] that assms(2,3) by (cases "i = vid") auto
  ultimately show ?thesis using assms(1) by (simp add: ptyOk_def)
qed

lemma onlyChans_fields:
  assumes "onlyChans ids s s'"
  shows "pt_log s' = pt_log s" "pt_exited s' = pt_exited s" "pt_nextID s' = pt_nextID s" "pt_exitC s' = pt_exitC s"
    "pt_controllerGen s' = pt_controllerGen s" "pt_input s' = pt_input s" "pt_sizeTick s' = pt_sizeTick s"
proof -
  obtain vs cs where "s' = s\<lparr>pt_viewers := vs, pt_chans := cs\<rparr>" using assms unfolding onlyChans_def by blast
  then show "pt_log s' = pt_log s" "pt_exited s' = pt_exited s" "pt_nextID s' = pt_nextID s" "pt_exitC s' = pt_exitC s"
    "pt_controllerGen s' = pt_controllerGen s" "pt_input s' = pt_input s" "pt_sizeTick s' = pt_sizeTick s" by simp_all
qed

lemma onlyChans_trans:
  assumes "onlyChans a s1 s2" and "onlyChans b s2 s3"
  shows "onlyChans (a \<union> b) s1 s3"
proof -
  obtain vs cs where s2: "s2 = s1\<lparr>pt_viewers := vs, pt_chans := cs\<rparr>" using assms(1) unfolding onlyChans_def by blast
  obtain vs' cs' where s3: "s3 = s2\<lparr>pt_viewers := vs', pt_chans := cs'\<rparr>" using assms(2) unfolding onlyChans_def by blast
  from assms show ?thesis unfolding onlyChans_def by (simp add: s3 s2)
qed

lemma dropViewer_ok:
  assumes "ptyOk s" and "map_of (pt_viewers s) vid \<noteq> None"
  shows "\<exists>s'. dropViewer vid s = Some s' \<and> ptyOk s' \<and> onlyChans {vid} s s' \<and> map_of (pt_viewers s') vid = None"
proof -
  from ptyOk_open [OF assms] obtain c where c: "pt_chans s vid = Some c" "\<not> ch_closed c" by blast
  define s' where "s' = s\<lparr>pt_viewers := del vid (pt_viewers s), pt_chans := (pt_chans s)(vid \<mapsto> c\<lparr>ch_closed := True\<rparr>)\<rparr>"
  have "dropViewer vid s = Some s'" using c by (simp add: dropViewer_def closeChan_def s'_def)
  moreover have "ptyOk s'"
    using assms(1) c unfolding ptyOk_def s'_def by (auto simp: chanOk_def split: if_splits)
  moreover have "onlyChans {vid} s s'" "map_of (pt_viewers s') vid = None" by (auto simp: onlyChans_def s'_def)
  ultimately show ?thesis by blast
qed

definition channelGot :: "int \<Rightarrow> ServerMessage \<Rightarrow> 'e pty \<Rightarrow> 'e pty \<Rightarrow> bool" where
  "channelGot vid m s s' \<longleftrightarrow>
     (\<exists>c. pt_chans s vid = Some c \<and> pt_chans s' vid = Some (c\<lparr>ch_sent := ch_sent c @ [m]\<rparr>))"

lemma trySend_ok:
  assumes "ptyOk s" and "map_of (pt_viewers s) vid \<noteq> None"
  shows "\<exists>s'. trySend vid m s = Some s' \<and> ptyOk s' \<and> onlyChans {vid} s s'
    \<and> (map_of (pt_viewers s') vid \<noteq> None \<longrightarrow> channelGot vid m s s')"
proof -
  from ptyOk_open [OF assms] obtain c where c: "pt_chans s vid = Some c" "\<not> ch_closed c" by blast
  show ?thesis
  proof (cases "chanFull c")
    case True
    with dropViewer_ok [OF assms] c show ?thesis by (auto simp: trySend_def)
  next
    case False
    define s' where "s' = s\<lparr>pt_chans := (pt_chans s)(vid \<mapsto> c\<lparr>ch_sent := ch_sent c @ [m]\<rparr>)\<rparr>"
    have "trySend vid m s = Some s'" using c False by (simp add: trySend_def s'_def)
    moreover have "ptyOk s'"
      using ptyOk_chan [OF assms(1) c(1)] False unfolding s'_def
      by (intro ptyOk_setChan [OF assms(1) c(1)]) (auto simp: chanOk_def chanFull_def)
    moreover have "onlyChans {vid} s s'" "channelGot vid m s s'" using c by (auto simp: onlyChans_def channelGot_def s'_def)
    ultimately show ?thesis by blast
  qed
qed

lemma broadcast_ok:
  assumes "ptyOk s" and "distinct vids" and "\<forall>vid \<in> set vids. map_of (pt_viewers s) vid \<noteq> None"
  shows "\<exists>s'. broadcast vids m s = Some s' \<and> ptyOk s' \<and> onlyChans (set vids) s s'
    \<and> (\<forall>vid \<in> set vids. map_of (pt_viewers s') vid \<noteq> None \<longrightarrow> channelGot vid m s s')"
  using assms
proof (induction vids arbitrary: s)
  case (Cons v vs)
  then obtain s1 where s1: "trySend v m s = Some s1" "ptyOk s1" "onlyChans {v} s s1"
    "map_of (pt_viewers s1) v \<noteq> None \<longrightarrow> channelGot v m s s1"
    using trySend_ok [of s v m] by auto
  have "\<forall>vid \<in> set vs. map_of (pt_viewers s1) vid \<noteq> None"
    using Cons.prems onlyChans_other(2) [OF s1(3)] by (metis distinct.simps(2) list.set_intros(2) singletonD)
  with Cons.IH [OF s1(2)] Cons.prems obtain s' where s': "broadcast vs m s1 = Some s'" "ptyOk s'" "onlyChans (set vs) s1 s'"
    "\<forall>vid \<in> set vs. map_of (pt_viewers s') vid \<noteq> None \<longrightarrow> channelGot vid m s1 s'" by auto
  have "channelGot v m s s'" if "map_of (pt_viewers s') v \<noteq> None"
  proof -
    have "v \<notin> set vs" using Cons.prems(2) by simp
    with that s1(4) onlyChans_other(1,2) [OF s'(3) this] show ?thesis by (simp add: channelGot_def)
  qed
  moreover have "channelGot vid m s s'" if "vid \<in> set vs" "map_of (pt_viewers s') vid \<noteq> None" for vid
  proof -
    have "vid \<notin> {v}" using that(1) Cons.prems(2) by auto
    from s'(4) that have "channelGot vid m s1 s'" by blast
    with onlyChans_other(1) [OF s1(3) \<open>vid \<notin> {v}\<close>] show ?thesis by (simp add: channelGot_def)
  qed
  ultimately show ?case
    using s1(1) s'(1,2) onlyChans_trans [OF s1(3) s'(3)] by simp
qed simp

section \<open>Every operation returns and keeps the invariant\<close>

lemma closeAll_ok:
  assumes "distinct vids" and "\<forall>vid \<in> set vids. \<exists>c. pt_chans s vid = Some c \<and> \<not> ch_closed c"
  shows "\<exists>cs. closeAll vids s = Some (s\<lparr>pt_chans := cs\<rparr>)
    \<and> (\<forall>vid c. cs vid = Some c \<longrightarrow> (\<exists>b. pt_chans s vid = Some (c\<lparr>ch_closed := b\<rparr>)))"
  using assms
proof (induction vids arbitrary: s)
  case Nil
  have "s = s\<lparr>pt_chans := pt_chans s\<rparr>" "c = c\<lparr>ch_closed := ch_closed c\<rparr>" for c :: channel by simp_all
  then show ?case by (intro exI [of _ "pt_chans s"]) (metis closeAll.simps(1))
next
  case (Cons v vs)
  then obtain c where c: "pt_chans s v = Some c" "\<not> ch_closed c" by auto
  define s1 where "s1 = s\<lparr>pt_chans := (pt_chans s)(v \<mapsto> c\<lparr>ch_closed := True\<rparr>)\<rparr>"
  have close: "closeChan v s = Some s1" using c by (simp add: closeChan_def s1_def)
  have "\<forall>vid \<in> set vs. \<exists>c. pt_chans s1 vid = Some c \<and> \<not> ch_closed c"
    using Cons.prems by (auto simp: s1_def)
  with Cons.IH [of s1] Cons.prems(1) obtain cs where cs: "closeAll vs s1 = Some (s1\<lparr>pt_chans := cs\<rparr>)"
    "\<forall>vid c. cs vid = Some c \<longrightarrow> (\<exists>b. pt_chans s1 vid = Some (c\<lparr>ch_closed := b\<rparr>))"
    by auto
  have "\<exists>b. pt_chans s vid = Some (d\<lparr>ch_closed := b\<rparr>)" if "cs vid = Some d" for vid d
  proof -
    from cs(2) that obtain b where b: "pt_chans s1 vid = Some (d\<lparr>ch_closed := b\<rparr>)" by blast
    show ?thesis
    proof (cases "vid = v")
      case True
      with b have "d\<lparr>ch_closed := ch_closed c\<rparr> = c" by (cases c; cases d) (simp add: s1_def)
      with True c show ?thesis by (intro exI [of _ "ch_closed c"]) simp
    qed (use b in \<open>auto simp: s1_def\<close>)
  qed
  with close cs(1) show ?case by (intro exI [of _ cs]) (simp add: s1_def)
qed

lemma viewers_listed: "\<forall>vid \<in> set (map fst al). map_of al vid \<noteq> None"
  by (auto simp: map_of_eq_None_iff image_iff)

lemma onOutput_ok:
  assumes "ptyOk s"
  shows "\<exists>s'. onOutput em ok ts b s = Some s' \<and> ptyOk s'"
proof -
  obtain log' seq where l: "Log_Append ok ts (pt_log s) ''output'' b = (log', seq)" by fastforce
  define s1 where "s1 = s\<lparr>pt_emu := em_Feed em (pt_emu s) b, pt_log := log'\<rparr>"
  have "ptyOk s1" by (rule ptyOk_cong [OF _ _ _ _ assms]) (simp_all add: s1_def)
  then have "distinct (map fst (pt_viewers s1))" by (simp add: ptyOk_def)
  from broadcast_ok [OF \<open>ptyOk s1\<close> this viewers_listed, of "MsgOutput seq b"] show ?thesis
    using l by (auto simp: onOutput_def s1_def)
qed

lemma ptyOk_applySize: "ptyOk s \<Longrightarrow> ptyOk (applySizeLocked em s)"
  by (rule ptyOk_cong) simp_all

lemma Session_Detach_ok: "ptyOk s \<Longrightarrow> \<exists>s'. Session_Detach em vid s = Some s' \<and> ptyOk s'"
  using dropViewer_ok [of s vid] by (auto simp: Session_Detach_def ptyOk_applySize)

lemma procExited_ok:
  assumes "ptyOk s"
  shows "\<exists>s'. procExited code s = Some s' \<and> ptyOk s'"
proof -
  have s0: "ptyOk (s\<lparr>pt_exitC := code\<rparr>)" by (rule ptyOk_cong [OF _ _ _ _ assms]) simp_all
  then have "distinct (map fst (pt_viewers (s\<lparr>pt_exitC := code\<rparr>)))" by (simp add: ptyOk_def)
  from broadcast_ok [OF s0 this viewers_listed, of "MsgExit code"] obtain s1 where
    s1: "broadcast (map fst (pt_viewers s)) (MsgExit code) (s\<lparr>pt_exitC := code\<rparr>) = Some s1" "ptyOk s1" by auto
  have "\<forall>vid \<in> set (map fst (pt_viewers s1)). \<exists>c. pt_chans s1 vid = Some c \<and> \<not> ch_closed c"
  proof
    fix vid assume "vid \<in> set (map fst (pt_viewers s1))"
    with viewers_listed [of "pt_viewers s1"] have "map_of (pt_viewers s1) vid \<noteq> None" by (rule bspec)
    with s1(2) show "\<exists>c. pt_chans s1 vid = Some c \<and> \<not> ch_closed c" by (rule ptyOk_open)
  qed
  moreover have "distinct (map fst (pt_viewers s1))" using s1(2) by (simp add: ptyOk_def)
  ultimately obtain cs where cs: "closeAll (map fst (pt_viewers s1)) s1 = Some (s1\<lparr>pt_chans := cs\<rparr>)"
    "\<forall>vid c. cs vid = Some c \<longrightarrow> (\<exists>b. pt_chans s1 vid = Some (c\<lparr>ch_closed := b\<rparr>))"
    using closeAll_ok [of "map fst (pt_viewers s1)" s1] by blast
  have "vid < pt_nextID s1 \<and> chanOk c" if "cs vid = Some c" for vid c
    using cs(2) that ptyOk_chan [OF s1(2), of vid] by (fastforce simp: chanOk_def)
  then have "ptyOk (s1\<lparr>pt_chans := cs, pt_viewers := [], pt_exited := True\<rparr>)" by (simp add: ptyOk_def)
  with s1(1) cs(1) show ?thesis by (simp add: procExited_def)
qed

lemma sendAllChan_room:
  assumes "pt_chans s vid = Some c" and "\<not> ch_closed c" and "length (ch_sent c) + length ms \<le> ch_taken c + ch_cap c"
  shows "sendAllChan vid ms s = Some (s\<lparr>pt_chans := (pt_chans s)(vid \<mapsto> c\<lparr>ch_sent := ch_sent c @ ms\<rparr>)\<rparr>)"
  using assms
proof (induction ms arbitrary: s c)
  case Nil
  then have "(pt_chans s)(vid \<mapsto> c) = pt_chans s" by (simp add: fun_upd_idem)
  then show ?case by simp
next
  case (Cons m ms)
  define c1 where "c1 = c\<lparr>ch_sent := ch_sent c @ [m]\<rparr>"
  define s1 where "s1 = s\<lparr>pt_chans := (pt_chans s)(vid \<mapsto> c1)\<rparr>"
  have send: "sendChan vid m s = Some s1" using Cons.prems by (simp add: sendChan_def chanFull_def s1_def c1_def)
  have "sendAllChan vid ms s1 = Some (s1\<lparr>pt_chans := (pt_chans s1)(vid \<mapsto> c1\<lparr>ch_sent := ch_sent c1 @ ms\<rparr>)\<rparr>)"
    using Cons.prems by (intro Cons.IH) (simp_all add: s1_def c1_def)
  moreover have "s1\<lparr>pt_chans := (pt_chans s1)(vid \<mapsto> x)\<rparr> = s\<lparr>pt_chans := (pt_chans s)(vid \<mapsto> x)\<rparr>" for x
    by (simp add: s1_def)
  moreover have "c1\<lparr>ch_sent := ch_sent c1 @ ms\<rparr> = c\<lparr>ch_sent := ch_sent c @ m # ms\<rparr>" by (simp add: c1_def)
  ultimately have "sendAllChan vid ms s1 = Some (s\<lparr>pt_chans := (pt_chans s)(vid \<mapsto> c\<lparr>ch_sent := ch_sent c @ m # ms\<rparr>)\<rparr>)"
    by (simp only:)
  then show ?case by (simp only: sendAllChan.simps send bind.bind_lunit)
qed

text \<open>What an attach leaves behind: the new channel holds the opening messages, and the room for them was
  made with it, so that no send under the mutex waits.\<close>

definition attached :: "'e emulator \<Rightarrow> u64 \<Rightarrow> Size \<Rightarrow> Binding \<Rightarrow> 'e pty \<Rightarrow> 'e pty" where
  "attached em since sz bnd s =
     (let s1 = observeLocked bnd s; ms = openingMessages em since s1;
          cap = (if openingReplays since s1 then length (replayEntries since s1) + 256 else 256)
      in applySizeLocked em
          (s1\<lparr>pt_viewers := (if pt_exited s then del (pt_nextID s) (upd (pt_nextID s) \<lparr>vw_size = sz, vw_sizeAt = pt_sizeTick s1 + 1, vw_bind = bnd\<rparr> (pt_viewers s))
                  else upd (pt_nextID s) \<lparr>vw_size = sz, vw_sizeAt = pt_sizeTick s1 + 1, vw_bind = bnd\<rparr> (pt_viewers s)),
              pt_chans := (pt_chans s)(pt_nextID s \<mapsto>
                (if pt_exited s then \<lparr>ch_sent = ms @ [MsgExit (pt_exitC s)], ch_taken = 0, ch_cap = cap, ch_closed = True\<rparr>
                 else \<lparr>ch_sent = ms, ch_taken = 0, ch_cap = cap, ch_closed = False\<rparr>)),
              pt_nextID := pt_nextID s + 1, pt_sizeTick := pt_sizeTick s1 + 1\<rparr>))"

lemma openingMessages_length:
  "length (openingMessages em since s) < (if openingReplays since s then length (replayEntries since s) + 256 else 256)"
  by (simp add: openingMessages_def split: prod.split)

lemma Session_Attach_eq:
  "Session_Attach em since sz bnd s =
     Some (if Size_valid sz then (attached em since sz bnd s, Some (pt_nextID s)) else (s, None))"
proof (cases "Size_valid sz")
  case True
  define s1 where "s1 = observeLocked bnd s"
  define cap where "cap = (if openingReplays since s1 then length (replayEntries since s1) + 256 else 256)"
  define ms where "ms = openingMessages em since s1"
  define c where "c = \<lparr>ch_sent = [], ch_taken = 0, ch_cap = cap, ch_closed = False\<rparr>"
  define vs where "vs = upd (pt_nextID s) \<lparr>vw_size = sz, vw_sizeAt = pt_sizeTick s1 + 1, vw_bind = bnd\<rparr> (pt_viewers s)"
  define s2 where "s2 = s1\<lparr>pt_viewers := vs, pt_chans := (pt_chans s1)(pt_nextID s \<mapsto> c), pt_nextID := pt_nextID s + 1,
    pt_sizeTick := pt_sizeTick s1 + 1\<rparr>"
  define s3 where "s3 = s2\<lparr>pt_chans := (pt_chans s2)(pt_nextID s \<mapsto> c\<lparr>ch_sent := ms\<rparr>)\<rparr>"
  have room: "length ms < cap" using openingMessages_length [of em since s1] by (simp add: ms_def cap_def)
  then have sent: "sendAllChan (pt_nextID s) ms s2 = Some s3"
    using sendAllChan_room [of s2 "pt_nextID s" c ms] by (simp add: s2_def s3_def c_def)
  have exit: "(do { s' \<leftarrow> sendChan (pt_nextID s) (MsgExit (pt_exitC s3)) s3; dropViewer (pt_nextID s) s' })
      = Some (s3\<lparr>pt_viewers := del (pt_nextID s) vs, pt_chans := (pt_chans s3)(pt_nextID s \<mapsto>
          c\<lparr>ch_sent := ms @ [MsgExit (pt_exitC s)], ch_closed := True\<rparr>)\<rparr>)"
    using room by (simp add: sendChan_def dropViewer_def closeChan_def chanFull_def s3_def s2_def s1_def c_def)
  have "Session_Attach em since sz bnd s = do { s3 \<leftarrow> sendAllChan (pt_nextID s) ms s2;
      s4 \<leftarrow> (if pt_exited s3 then do { s' \<leftarrow> sendChan (pt_nextID s) (MsgExit (pt_exitC s3)) s3; dropViewer (pt_nextID s) s' } else Some s3);
      Some (applySizeLocked em s4, Some (pt_nextID s)) }"
    using True unfolding Session_Attach_def Let_def s1_def s2_def ms_def cap_def c_def vs_def observeLocked_fields
    by (simp split del: if_split)
  also have "\<dots> = do {
      s4 \<leftarrow> (if pt_exited s3 then do { s' \<leftarrow> sendChan (pt_nextID s) (MsgExit (pt_exitC s3)) s3; dropViewer (pt_nextID s) s' } else Some s3);
      Some (applySizeLocked em s4, Some (pt_nextID s)) }"
    by (simp only: sent bind.bind_lunit)
  also have "\<dots> = Some (applySizeLocked em (if pt_exited s3 then s3\<lparr>pt_viewers := del (pt_nextID s) vs,
      pt_chans := (pt_chans s3)(pt_nextID s \<mapsto> c\<lparr>ch_sent := ms @ [MsgExit (pt_exitC s)], ch_closed := True\<rparr>)\<rparr> else s3), Some (pt_nextID s))"
    unfolding exit by simp
  also have "\<dots> = Some (attached em since sz bnd s, Some (pt_nextID s))"
    unfolding attached_def Let_def s1_def [symmetric] ms_def [symmetric] cap_def [symmetric] vs_def [symmetric]
    by (intro arg_cong [where f = Some] arg_cong2 [where f = Pair] arg_cong [where f = "applySizeLocked em"] pty.equality refl)
      (simp_all add: s3_def s2_def s1_def c_def)
  finally show ?thesis using True by simp
qed (simp add: Session_Attach_def)

lemma map_fst_upd: "map_of al k = Some v \<Longrightarrow> map fst (upd k w al) = map fst al"
  by (metis AList.update_keys map_of_eq_None_iff not_Some_eq list.set_map)

lemma ptyOk_fresh: "ptyOk s \<Longrightarrow> map_of (pt_viewers s) (pt_nextID s) = None"
  using ptyOk_open [of s "pt_nextID s"] ptyOk_chan [of s "pt_nextID s"] by fastforce

lemma attached_ok:
  assumes "ptyOk s"
  shows "ptyOk (attached em since sz bnd s)"
proof -
  define s1 where "s1 = observeLocked bnd s"
  define vs where "vs = upd (pt_nextID s) \<lparr>vw_size = sz, vw_sizeAt = pt_sizeTick s1 + 1, vw_bind = bnd\<rparr> (pt_viewers s)"
  define c where "c = (let ms = openingMessages em since s1;
      cap = (if openingReplays since s1 then length (replayEntries since s1) + 256 else 256)
    in if pt_exited s then \<lparr>ch_sent = ms @ [MsgExit (pt_exitC s)], ch_taken = 0, ch_cap = cap, ch_closed = True\<rparr>
       else \<lparr>ch_sent = ms, ch_taken = 0, ch_cap = cap, ch_closed = False\<rparr>)"
  define t where "t = s1\<lparr>pt_viewers := (if pt_exited s then del (pt_nextID s) vs else vs),
    pt_chans := (pt_chans s)(pt_nextID s \<mapsto> c), pt_nextID := pt_nextID s + 1, pt_sizeTick := pt_sizeTick s1 + 1\<rparr>"
  have eq: "attached em since sz bnd s = applySizeLocked em t"
    by (simp add: attached_def t_def c_def vs_def s1_def Let_def)
  have c: "chanOk c" "ch_closed c \<longleftrightarrow> pt_exited s"
    using openingMessages_length [of em since s1] by (auto simp: c_def chanOk_def Let_def split: if_splits)
  have gone: "pt_viewers t = []" if "pt_exited s" using that assms by (simp add: t_def vs_def ptyOk_def)
  have dist: "distinct (map fst (pt_viewers t))" using assms by (simp add: t_def vs_def ptyOk_def)
  have seen: "\<exists>d. pt_chans t vid = Some d \<and> \<not> ch_closed d" if "map_of (pt_viewers t) vid = Some v" for vid v
  proof (cases "vid = pt_nextID s")
    case True
    with that gone c show ?thesis by (cases "pt_exited s") (simp_all add: t_def)
  next
    case False
    with that have "map_of (pt_viewers s) vid \<noteq> None" by (simp add: t_def vs_def split: if_splits)
    with ptyOk_open [OF assms this] False show ?thesis by (simp add: t_def)
  qed
  have old: "vid < pt_nextID t \<and> chanOk d" if "pt_chans t vid = Some d" for vid d
    using that ptyOk_chan [OF assms, of vid d] c(1) by (cases "vid = pt_nextID s") (auto simp: t_def)
  have "pt_exited t = pt_exited s" by (simp add: t_def s1_def)
  then have "ptyOk t" using gone dist seen old unfolding ptyOk_def by blast
  then show ?thesis unfolding eq by (rule ptyOk_applySize)
qed

lemma ptyDo_ok:
  assumes "ptyOk s"
  shows "\<exists>s'. ptyDo em op s = Some s' \<and> ptyOk s'"
proof (cases op)
  case (OpOutput ok ts b)
  then show ?thesis using onOutput_ok [OF assms] by simp
next
  case (OpAttach since sz bnd)
  then show ?thesis using attached_ok [OF assms] assms by (simp add: Session_Attach_eq)
next
  case (OpDetach vid)
  then show ?thesis using Session_Detach_ok [OF assms] by simp
next
  case (OpStdin vid gen p)
  have "ptyOk (fst (Session_Stdin vid gen p s))"
    by (rule ptyOk_cong [OF _ _ _ _ assms]) (simp_all add: Session_Stdin_def procWrite_def)
  with OpStdin show ?thesis by simp
next
  case (OpWrite p)
  have "ptyOk (procWrite p s)" by (rule ptyOk_cong [OF _ _ _ _ assms]) (simp_all add: procWrite_def)
  with OpWrite show ?thesis by simp
next
  case (OpBind vid bnd)
  have "ptyOk (fst (Session_Bind em vid bnd s))"
    by (rule ptyOk_cong [OF _ _ _ _ assms]) (simp_all add: Session_Bind_def Let_def map_fst_upd split: option.split)
  with OpBind show ?thesis by simp
next
  case (OpSetSize vid gen sz)
  have "ptyOk (fst (Session_SetSize em vid gen sz s))"
    by (rule ptyOk_cong [OF _ _ _ _ assms]) (simp_all add: Session_SetSize_def Let_def map_fst_upd split: option.split)
  with OpSetSize show ?thesis by simp
next
  case (OpExit code)
  then show ?thesis using procExited_ok [OF assms] by simp
next
  case (OpReceive vid)
  have "ptyOk (receive vid s)"
    using assms ptyOk_chan [OF assms, of vid]
    by (auto simp: receive_def chanOk_def intro!: ptyOk_setChan [OF assms] split: option.split)
  with OpReceive show ?thesis by simp
qed

lemma ptyRun_ok: "ptyOk s \<Longrightarrow> \<exists>s'. ptyRun em ops s = Some s' \<and> ptyOk s'"
proof (induction ops arbitrary: s)
  case (Cons op ops)
  then show ?case using ptyDo_ok [OF Cons.prems, of em op] by auto
qed simp

section \<open>Following the output\<close>

lemma attached_fields:
  "pt_log (attached em since sz bnd s) = pt_log s" "pt_nextID (attached em since sz bnd s) = pt_nextID s + 1"
  "vid \<noteq> pt_nextID s \<Longrightarrow> pt_chans (attached em since sz bnd s) vid = pt_chans s vid"
  "vid \<noteq> pt_nextID s \<Longrightarrow> map_of (pt_viewers (attached em since sz bnd s)) vid = map_of (pt_viewers s) vid"
  by (simp_all add: attached_def Let_def)

lemma onOutput_chans:
  assumes "ptyOk s" and "onOutput em ok ts b s = Some s'" and "Log_Append ok ts (pt_log s) ''output'' b = (log', seq)"
  shows "pt_log s' = log'" "pt_nextID s' = pt_nextID s"
    "map_of (pt_viewers s') vid \<noteq> None \<Longrightarrow> map_of (pt_viewers s) vid \<noteq> None \<and> channelGot vid (MsgOutput seq b) s s'"
proof -
  define s1 where "s1 = s\<lparr>pt_emu := em_Feed em (pt_emu s) b, pt_log := log'\<rparr>"
  have "ptyOk s1" by (rule ptyOk_cong [OF _ _ _ _ assms(1)]) (simp_all add: s1_def)
  then have "distinct (map fst (pt_viewers s1))" by (simp add: ptyOk_def)
  moreover have "broadcast (map fst (pt_viewers s1)) (MsgOutput seq b) s1 = Some s'"
    using assms(2,3) by (simp add: onOutput_def s1_def)
  ultimately have out: "onlyChans (set (map fst (pt_viewers s1))) s1 s'"
    "\<forall>vid \<in> set (map fst (pt_viewers s1)). map_of (pt_viewers s') vid \<noteq> None \<longrightarrow> channelGot vid (MsgOutput seq b) s1 s'"
    using broadcast_ok [OF \<open>ptyOk s1\<close> _ viewers_listed, of "MsgOutput seq b"] by auto
  from onlyChans_fields [OF out(1)] show "pt_log s' = log'" "pt_nextID s' = pt_nextID s" by (simp_all add: s1_def)
  assume vid: "map_of (pt_viewers s') vid \<noteq> None"
  with onlyChans_other(3) [OF out(1)] have "map_of (pt_viewers s) vid \<noteq> None" by (simp add: s1_def)
  moreover from this have "vid \<in> set (map fst (pt_viewers s1))" by (auto simp: s1_def map_of_eq_None_iff)
  with out(2) vid have "channelGot vid (MsgOutput seq b) s1 s'" by blast
  then have "channelGot vid (MsgOutput seq b) s s'" by (simp add: channelGot_def s1_def)
  ultimately show "map_of (pt_viewers s) vid \<noteq> None \<and> channelGot vid (MsgOutput seq b) s s'" by blast
qed

text \<open>What the other operations leave of a viewer that is still there: its place, what was sent to it, and
  the log.\<close>

definition sentTo :: "'e pty \<Rightarrow> int \<Rightarrow> ServerMessage list option" where
  "sentTo s vid = map_option ch_sent (pt_chans s vid)"

lemma closeAll_fields: "closeAll vids s = Some s' \<Longrightarrow> pt_log s' = pt_log s \<and> pt_nextID s' = pt_nextID s"
  by (induction vids arbitrary: s) (auto simp: closeChan_def bind_eq_Some_conv split: option.splits if_splits)

lemma ptyDo_others:
  assumes "ptyOk s" and "ptyDo em op s = Some s'" and "\<And>ok ts b. op \<noteq> OpOutput ok ts b" and "vid < pt_nextID s"
  shows "pt_log s' = pt_log s \<and> pt_nextID s \<le> pt_nextID s'
    \<and> (map_of (pt_viewers s') vid \<noteq> None \<longrightarrow> map_of (pt_viewers s) vid \<noteq> None \<and> sentTo s' vid = sentTo s vid)"
proof (cases op)
  case (OpAttach since sz bnd)
  with assms(2,4) show ?thesis by (auto simp: Session_Attach_eq attached_fields sentTo_def split: if_splits)
next
  case (OpDetach v)
  show ?thesis
  proof (cases "map_of (pt_viewers s) v = None")
    case False
    then obtain t where t: "dropViewer v s = Some t" "onlyChans {v} s t" "map_of (pt_viewers t) v = None"
      using dropViewer_ok [OF assms(1)] by blast
    then have s': "s' = applySizeLocked em t" using assms(2) False OpDetach by (auto simp: Session_Detach_def)
    show ?thesis
      using onlyChans_fields(1,3) [OF t(2)] onlyChans_other(1,2) [OF t(2), of vid] t(3)
      by (cases "vid = v") (simp_all add: s' sentTo_def)
  qed (use assms OpDetach in \<open>simp add: Session_Detach_def\<close>)
next
  case (OpExit code)
  have "distinct (map fst (pt_viewers s))" using assms(1) by (simp add: ptyOk_def)
  moreover have "ptyOk (s\<lparr>pt_exitC := code\<rparr>)" by (rule ptyOk_cong [OF _ _ _ _ assms(1)]) simp_all
  ultimately obtain s1 where s1: "broadcast (map fst (pt_viewers s)) (MsgExit code) (s\<lparr>pt_exitC := code\<rparr>) = Some s1"
    "onlyChans (set (map fst (pt_viewers s))) (s\<lparr>pt_exitC := code\<rparr>) s1" "ptyOk s1"
    using broadcast_ok [of "s\<lparr>pt_exitC := code\<rparr>" "map fst (pt_viewers s)" "MsgExit code"] viewers_listed [of "pt_viewers s"] by auto
  obtain s2 where "closeAll (map fst (pt_viewers s1)) s1 = Some s2" "s' = s2\<lparr>pt_viewers := [], pt_exited := True\<rparr>"
    using assms(2) OpExit s1(1) by (cases "closeAll (map fst (pt_viewers s1)) s1") (simp_all add: procExited_def)
  moreover from this(1) have "pt_log s2 = pt_log s1 \<and> pt_nextID s2 = pt_nextID s1" by (rule closeAll_fields)
  ultimately show ?thesis using onlyChans_fields(1,3) [OF s1(2)] by simp
qed (use assms in \<open>auto simp: Session_Stdin_def procWrite_def Session_Bind_def Session_SetSize_def receive_def sentTo_def Let_def split: option.splits if_splits\<close>)

definition follows :: "u64 \<Rightarrow> int \<Rightarrow> 'e pty \<Rightarrow> bool" where
  "follows seq vid s \<longleftrightarrow> seq \<le> log_last (pt_log s)
     \<and> sentTo s vid = Some (map (\<lambda>e. MsgOutput (ent_Seq e) (ent_Data e)) (Log_Since (pt_log s) seq))"

definition outputs :: "ptyOp list \<Rightarrow> nat" where
  "outputs ops = length (filter (\<lambda>op. case op of OpOutput _ _ _ \<Rightarrow> True | _ \<Rightarrow> False) ops)"

definition logged :: "ptyOp \<Rightarrow> bool" where
  "logged op = (case op of OpOutput ok _ _ \<Rightarrow> ok | _ \<Rightarrow> True)"

lemma follows_output:
  assumes "ptyOk s" "follows seq vid s" and "onOutput em True ts b s = Some s'" and "map_of (pt_viewers s') vid \<noteq> None"
    and "unat (log_last (pt_log s)) + 1 < 2 ^ 64"
  shows "follows seq vid s' \<and> unat (log_last (pt_log s')) = unat (log_last (pt_log s)) + 1"
proof -
  define e where "e = \<lparr>ent_Seq = log_last (pt_log s) + 1, ent_Type = ''output'', ent_Data = b, ent_TS = ts\<rparr>"
  have app: "Log_Append True ts (pt_log s) ''output'' b
      = (\<lparr>log_entries = log_entries (pt_log s) @ [e], log_last = ent_Seq e\<rparr>, ent_Seq e)"
    by (simp add: Log_Append_def e_def Let_def)
  note out = onOutput_chans(1) [OF assms(1,3) app] onOutput_chans(3) [OF assms(1,3) app, of vid]
  have succ: "unat (log_last (pt_log s) + 1) = unat (log_last (pt_log s)) + 1"
    using assms(5) by (simp add: unat_word_ariths)
  have "seq \<le> log_last (pt_log s)" using assms(2) by (simp add: follows_def)
  then have later: "seq < ent_Seq e" using succ by (simp add: e_def word_less_nat_alt word_le_nat_alt)
  obtain c where "pt_chans s vid = Some c" "pt_chans s' vid = Some (c\<lparr>ch_sent := ch_sent c @ [MsgOutput (ent_Seq e) b]\<rparr>)"
    using out(2) assms(4) by (auto simp: channelGot_def)
  with assms(2) out(1) later have "follows seq vid s'"
    by (simp add: follows_def sentTo_def Log_Since_def) (simp add: e_def)
  moreover have "unat (log_last (pt_log s')) = unat (log_last (pt_log s)) + 1" using out(1) succ by (simp add: e_def)
  ultimately show ?thesis by simp
qed

lemma nextID_mono:
  assumes "ptyOk s" and "ptyDo em op s = Some s'"
  shows "pt_nextID s \<le> pt_nextID s'"
proof (cases "\<exists>ok ts b. op = OpOutput ok ts b")
  case True
  then obtain ok ts b where op: "op = OpOutput ok ts b" by blast
  obtain log' seq where "Log_Append ok ts (pt_log s) ''output'' b = (log', seq)" by fastforce
  from onOutput_chans(2) [OF assms(1) _ this] assms(2) op show ?thesis by simp
next
  case False
  with ptyDo_others [OF assms, of "pt_nextID s - 1"] show ?thesis by auto
qed

lemma viewer_gone:
  assumes "ptyOk s" "map_of (pt_viewers s) vid = None" "vid < pt_nextID s" and "ptyDo em op s = Some s'"
  shows "map_of (pt_viewers s') vid = None"
proof (cases "\<exists>ok ts b. op = OpOutput ok ts b")
  case True
  then obtain ok ts b where op: "op = OpOutput ok ts b" by blast
  obtain log' seq where "Log_Append ok ts (pt_log s) ''output'' b = (log', seq)" by fastforce
  from onOutput_chans(3) [OF assms(1) _ this, of em s' vid] assms op show ?thesis
    by (cases "map_of (pt_viewers s') vid") auto
next
  case False
  with ptyDo_others [OF assms(1,4) _ assms(3)] assms(2) show ?thesis by auto
qed

lemma viewer_gone_run:
  assumes "ptyOk s" "map_of (pt_viewers s) vid = None" "vid < pt_nextID s" and "ptyRun em ops s = Some s'"
  shows "map_of (pt_viewers s') vid = None"
  using assms
proof (induction ops arbitrary: s)
  case (Cons op ops)
  then obtain t where t: "ptyDo em op s = Some t" "ptyRun em ops t = Some s'" by (auto simp: bind_eq_Some_conv)
  have "ptyOk t" using ptyDo_ok [OF Cons.prems(1), of em op] t(1) by simp
  moreover have "map_of (pt_viewers t) vid = None" using viewer_gone [OF Cons.prems(1-3) t(1)] .
  moreover have "vid < pt_nextID t" using nextID_mono [OF Cons.prems(1) t(1)] Cons.prems(3) by simp
  ultimately show ?case using t(2) by (rule Cons.IH)
qed simp

lemma follows_run:
  assumes "ptyOk s" "follows seq vid s" "vid < pt_nextID s" and "ptyRun em ops s = Some s'" and "list_all logged ops"
    and "unat (log_last (pt_log s)) + outputs ops < 2 ^ 64" and "map_of (pt_viewers s') vid \<noteq> None"
  shows "follows seq vid s'"
  using assms
proof (induction ops arbitrary: s)
  case (Cons op ops)
  from Cons.prems(4) obtain s1 where s1: "ptyDo em op s = Some s1" "ptyRun em ops s1 = Some s'"
    by (auto simp: bind_eq_Some_conv)
  then have ok: "ptyOk s1" using ptyDo_ok [OF Cons.prems(1), of em op] by auto
  have next_id: "vid < pt_nextID s1" using nextID_mono [OF Cons.prems(1) s1(1)] Cons.prems(3) by simp
  have here: "map_of (pt_viewers s1) vid \<noteq> None" "vid < pt_nextID s1"
    using viewer_gone_run [OF ok _ next_id s1(2)] Cons.prems(7) next_id by blast+
  show ?case
  proof (cases "\<exists>ok ts b. op = OpOutput ok ts b")
    case True
    then obtain ts b where op: "op = OpOutput True ts b" using Cons.prems(5) by (auto simp: logged_def)
    with follows_output [OF Cons.prems(1,2), of em ts b s1] s1(1) here Cons.prems(6)
    have "follows seq vid s1" "unat (log_last (pt_log s1)) = unat (log_last (pt_log s)) + 1" by (auto simp: outputs_def)
    with Cons.IH [OF ok _ _ s1(2)] here Cons.prems(5,6,7) op show ?thesis by (simp add: outputs_def)
  next
    case False
    with ptyDo_others [OF Cons.prems(1) s1(1) _ Cons.prems(3)] here Cons.prems(2)
    have "follows seq vid s1" "pt_log s1 = pt_log s" by (auto simp: follows_def)
    with Cons.IH [OF ok _ _ s1(2)] here Cons.prems(5,6,7) show ?thesis by (simp add: outputs_def split: ptyOp.splits)
  qed
qed simp

section \<open>Properties\<close>

text \<open>C18. Nothing that clients, the plane or the process do makes the session panic or block under its mutex:
  every sequence of outputs, attaches, detaches, input, handoffs, resizes, receives and exits runs to its
  end, no channel is closed twice or sent on after it was closed, and the opening messages of an attach
  fit the channel made for them.\<close>

theorem pty_never_stuck: "\<exists>s. ptyRun em ops (newPty emu log sz) = Some s"
  using ptyRun_ok [OF ptyOk_new, of em ops emu log sz] by auto

text \<open>C16. An attachment that resumes at a sequence number misses nothing and sees nothing twice: as long as it
  is attached, what was sent to it is exactly the logged output after that number, in order, the replay
  and what came since in one stream. The log is assumed to accept its appends and not to have used up 64
  bits of sequence numbers.\<close>

theorem attach_stream_complete:
  assumes "ptyRun em before_ops (newPty emu log sz) = Some s0" and "openingReplays since s0"
    and "Session_Attach em since size0 bnd s0 = Some (s1, Some vid)" and "ptyRun em ops s1 = Some s"
    and "list_all logged ops" and "unat (log_last (pt_log s0)) + outputs ops < 2 ^ 64"
    and "map_of (pt_viewers s) vid \<noteq> None"
  shows "sentTo s vid = Some (map (\<lambda>e. MsgOutput (ent_Seq e) (ent_Data e))
    (Log_Since (pt_log s) (if since = SinceAll then 0 else since)))"
proof -
  have ok: "ptyOk s0" using ptyRun_ok [OF ptyOk_new, of em before_ops emu log sz] assms(1) by auto
  from assms(3) have s1: "s1 = attached em since size0 bnd s0" "vid = pt_nextID s0" by (simp_all add: Session_Attach_eq split: if_splits)
  have ok1: "ptyOk s1" unfolding s1 by (rule attached_ok [OF ok])
  have live: "\<not> pt_exited s0"
  proof
    assume "pt_exited s0"
    then have gone: "map_of (pt_viewers s1) vid = None" by (simp add: s1 attached_def Let_def)
    have "vid < pt_nextID s1" by (simp add: s1 attached_fields)
    with viewer_gone_run [OF ok1 gone _ assms(4)] assms(7) show False by simp
  qed
  have "openingReplays since (observeLocked bnd s0)" using assms(2) by (simp add: openingReplays_def)
  then have "follows (if since = SinceAll then 0 else since) vid s1"
    using live assms(2) by (auto simp: follows_def sentTo_def s1 attached_def Let_def openingMessages_def replayEntries_def
        openingReplays_def LastSeq_def)
  moreover have "vid < pt_nextID s1" "pt_log s1 = pt_log s0" by (simp_all add: s1 attached_fields)
  ultimately have "follows (if since = SinceAll then 0 else since) vid s"
    using follows_run [OF ok1 _ _ assms(4,5)] assms(6,7) by simp
  then show ?thesis by (simp add: follows_def)
qed

section \<open>The fence\<close>

text \<open>An attachment that may not write until it is bound again at generation \<open>g\<close> or later.\<close>

definition fenced :: "u64 \<Rightarrow> int \<Rightarrow> 'e pty \<Rightarrow> bool" where
  "fenced g vid s \<longleftrightarrow> g \<le> pt_controllerGen s \<and> vid < pt_nextID s
     \<and> (\<forall>v. map_of (pt_viewers s) vid = Some v \<longrightarrow>
          bnd_Bound (vw_bind v) \<and> (bnd_Mode (vw_bind v) = ModeView \<or> bnd_Generation (vw_bind v) < g))"

definition notRebound :: "u64 \<Rightarrow> int \<Rightarrow> ptyOp \<Rightarrow> bool" where
  "notRebound g vid op =
     (case op of OpBind i b \<Rightarrow> i = vid \<longrightarrow> bnd_Bound b \<and> (bnd_Mode b = ModeView \<or> bnd_Generation b < g) | _ \<Rightarrow> True)"

lemma fenced_stdin: "fenced g vid s \<Longrightarrow> Session_Stdin vid gen p s = (s, False)"
  by (auto simp: fenced_def Session_Stdin_def stdinAllowed_def mayWriteLocked_def split: option.split)

lemma observeLocked_gen:
  "pt_controllerGen s \<le> pt_controllerGen (observeLocked b s)"
  "bnd_Bound b \<Longrightarrow> bnd_Generation b \<le> pt_controllerGen (observeLocked b s)"
  by (auto simp: observeLocked_def)

text \<open>Where a binding comes from: it was there before, or the step is the attach or the handoff that brought
  it, and then the fence has moved up to it.\<close>

definition bindsAs :: "ptyOp \<Rightarrow> int \<Rightarrow> 'e pty \<Rightarrow> Binding \<Rightarrow> bool" where
  "bindsAs op vid s b =
     (case op of
        OpBind i b' \<Rightarrow> i = vid \<and> b' = b \<and> (\<exists>v. map_of (pt_viewers s) vid = Some v \<and> bnd_Bound (vw_bind v))
      | OpAttach _ _ b' \<Rightarrow> vid = pt_nextID s \<and> b' = b
      | _ \<Rightarrow> False)"

definition bindingsFrom :: "ptyOp \<Rightarrow> 'e pty \<Rightarrow> 'e pty \<Rightarrow> bool" where
  "bindingsFrom op s s' \<longleftrightarrow> pt_controllerGen s \<le> pt_controllerGen s'
     \<and> (\<forall>vid v'. map_of (pt_viewers s') vid = Some v' \<longrightarrow>
          (\<exists>v. map_of (pt_viewers s) vid = Some v \<and> vw_bind v = vw_bind v')
          \<or> bindsAs op vid s (vw_bind v') \<and> (bnd_Bound (vw_bind v') \<longrightarrow> bnd_Generation (vw_bind v') \<le> pt_controllerGen s'))"

lemma bindingsFrom_chans:
  assumes "onlyChans ids s1 s'" and "pt_viewers s1 = pt_viewers s" "pt_controllerGen s1 = pt_controllerGen s"
  shows "bindingsFrom op s s'"
  using onlyChans_fields(5) [OF assms(1)] onlyChans_other(3) [OF assms(1)] assms(2,3) unfolding bindingsFrom_def by force

lemma closeAll_gen: "closeAll vids s = Some t \<Longrightarrow> pt_controllerGen t = pt_controllerGen s"
  by (induction vids arbitrary: s) (auto simp: closeChan_def bind_eq_Some_conv split: option.splits if_splits)

lemma ptyDo_bindings:
  assumes "ptyOk s" and "ptyDo em op s = Some s'"
  shows "bindingsFrom op s s'"
proof (cases op)
  case (OpOutput ok ts b)
  obtain log' seq where l: "Log_Append ok ts (pt_log s) ''output'' b = (log', seq)" by fastforce
  define s1 where "s1 = s\<lparr>pt_emu := em_Feed em (pt_emu s) b, pt_log := log'\<rparr>"
  have ok1: "ptyOk s1" by (rule ptyOk_cong [OF _ _ _ _ assms(1)]) (simp_all add: s1_def)
  then have "distinct (map fst (pt_viewers s1))" by (simp add: ptyOk_def)
  from broadcast_ok [OF ok1 this viewers_listed, of "MsgOutput seq b"] have "onlyChans (set (map fst (pt_viewers s1))) s1 s'"
    using assms(2) OpOutput l by (auto simp: onOutput_def s1_def)
  then show ?thesis by (rule bindingsFrom_chans) (simp_all add: s1_def)
next
  case (OpAttach since sz bnd)
  have "bindingsFrom op s (attached em since sz bnd s)"
    using observeLocked_gen(1) [of s bnd] observeLocked_gen(2) [of bnd s] OpAttach
    by (auto simp: bindingsFrom_def bindsAs_def attached_def Let_def split: if_splits)
  with OpAttach assms(2) show ?thesis by (auto simp: Session_Attach_eq bindingsFrom_def split: if_splits)
next
  case (OpDetach i)
  show ?thesis
  proof (cases "map_of (pt_viewers s) i = None")
    case False
    then obtain t where t: "dropViewer i s = Some t" "onlyChans {i} s t" using dropViewer_ok [OF assms(1)] by blast
    then have "s' = applySizeLocked em t" using assms(2) False OpDetach by (auto simp: Session_Detach_def)
    with bindingsFrom_chans [OF t(2) refl refl, of op] show ?thesis by (simp add: bindingsFrom_def)
  qed (use assms OpDetach in \<open>simp add: Session_Detach_def bindingsFrom_def\<close>)
next
  case (OpBind i b)
  with assms(2) observeLocked_gen(1) [of s b] observeLocked_gen(2) [of b s] show ?thesis
    by (auto simp: Session_Bind_def bindingsFrom_def bindsAs_def Let_def split: option.splits if_splits)
next
  case (OpExit code)
  have "ptyOk (s\<lparr>pt_exitC := code\<rparr>)" "distinct (map fst (pt_viewers s))"
    using ptyOk_cong [OF _ _ _ _ assms(1), of "s\<lparr>pt_exitC := code\<rparr>"] assms(1) by (simp_all add: ptyOk_def)
  then obtain s1 where "broadcast (map fst (pt_viewers s)) (MsgExit code) (s\<lparr>pt_exitC := code\<rparr>) = Some s1"
    "onlyChans (set (map fst (pt_viewers s))) (s\<lparr>pt_exitC := code\<rparr>) s1"
    using broadcast_ok [of "s\<lparr>pt_exitC := code\<rparr>" "map fst (pt_viewers s)" "MsgExit code"] viewers_listed [of "pt_viewers s"] by auto
  moreover from this(2) have "pt_controllerGen s1 = pt_controllerGen s" using onlyChans_fields(5) by fastforce
  ultimately have "pt_controllerGen s' = pt_controllerGen s \<and> pt_viewers s' = []"
    using assms(2) OpExit by (auto simp: procExited_def bind_eq_Some_conv dest: closeAll_gen)
  then show ?thesis by (simp add: bindingsFrom_def)
qed (use assms in \<open>auto simp: Session_Stdin_def procWrite_def Session_SetSize_def receive_def bindingsFrom_def Let_def split: option.splits if_splits\<close>)

lemma fenced_step:
  assumes "ptyOk s" "fenced g vid s" "notRebound g vid op" and "ptyDo em op s = Some s'"
  shows "fenced g vid s'"
  using ptyDo_bindings [OF assms(1,4)] nextID_mono [OF assms(1,4)] assms(2,3)
  unfolding fenced_def bindingsFrom_def by (fastforce simp: bindsAs_def notRebound_def split: ptyOp.splits)

definition gensBelow :: "'e pty \<Rightarrow> bool" where
  "gensBelow s \<longleftrightarrow> (\<forall>vid v. map_of (pt_viewers s) vid = Some v \<and> bnd_Bound (vw_bind v) \<longrightarrow> bnd_Generation (vw_bind v) \<le> pt_controllerGen s)"

lemma gensBelow_run: "ptyOk s \<Longrightarrow> gensBelow s \<Longrightarrow> ptyRun em ops s = Some s' \<Longrightarrow> gensBelow s'"
proof (induction ops arbitrary: s)
  case (Cons op ops)
  then obtain t where t: "ptyDo em op s = Some t" "ptyRun em ops t = Some s'" by (auto simp: bind_eq_Some_conv)
  have "gensBelow t"
    using ptyDo_bindings [OF Cons.prems(1) t(1)] Cons.prems(2) unfolding gensBelow_def bindingsFrom_def by (metis order_trans)
  with ptyDo_ok [OF Cons.prems(1), of em op] t Cons.IH show ?case by simp
qed simp

lemma fenced_run:
  "ptyOk s \<Longrightarrow> fenced g vid s \<Longrightarrow> list_all (notRebound g vid) ops \<Longrightarrow> ptyRun em ops s = Some s' \<Longrightarrow> fenced g vid s'"
proof (induction ops arbitrary: s)
  case (Cons op ops)
  then obtain t where t: "ptyDo em op s = Some t" "ptyRun em ops t = Some s'" by (auto simp: bind_eq_Some_conv)
  have "ptyOk t" using ptyDo_ok [OF Cons.prems(1), of em op] t(1) by simp
  moreover have "fenced g vid t" using fenced_step [OF Cons.prems(1,2) _ t(1)] Cons.prems(3) by simp
  ultimately show ?case using Cons.IH Cons.prems(3) t(2) by simp
qed simp

text \<open>C17. A take-over is final at the process. Once a handoff binds an attachment as controller under a newer
  generation, every other bound attachment is fenced: whatever it sends, under whatever generation and
  however much later, nothing of it reaches the process, until the plane binds that attachment again as
  controller at that generation or a later one.\<close>

theorem takeover_fences:
  assumes "ptyRun em ops0 (newPty emu log sz) = Some s"
    and "Session_Bind em vid \<lparr>bnd_Bound = True, bnd_Mode = ModeControl, bnd_Generation = g\<rparr> s = (s', True)"
    and "pt_controllerGen s < g" and "map_of (pt_viewers s) other = Some v" "other \<noteq> vid" "bnd_Bound (vw_bind v)"
    and "ptyRun em ops s' = Some t" and "list_all (notRebound g other) ops"
  shows "Session_Stdin other gen p t = (t, False)"
proof -
  have ok: "ptyOk s" using ptyRun_ok [OF ptyOk_new, of em ops0 emu log sz] assms(1) by auto
  have ok': "ptyOk s'" using ptyDo_ok [OF ok, of em "OpBind vid \<lparr>bnd_Bound = True, bnd_Mode = ModeControl, bnd_Generation = g\<rparr>"]
    assms(2) by simp
  have "other < pt_nextID s"
    using ptyOk_open [OF ok, of other] ptyOk_chan [OF ok, of other] assms(4) by fastforce
  moreover have "gensBelow s" using gensBelow_run [OF ptyOk_new _ assms(1)] by (simp add: gensBelow_def newPty_def)
  then have "bnd_Generation (vw_bind v) \<le> pt_controllerGen s" using assms(4,6) by (simp add: gensBelow_def)
  ultimately have "fenced g other s'"
    using assms(2-6) by (auto simp: Session_Bind_def Let_def fenced_def observeLocked_def split: option.splits if_splits)
  with ok' have "fenced g other t" using fenced_run assms(7,8) by blast
  then show ?thesis by (rule fenced_stdin)
qed

section \<open>Instances\<close>

text \<open>A screen that is the text itself.\<close>

definition plainEmulator :: "string emulator" where
  "plainEmulator = \<lparr>em_Feed = (@), em_Resize = (\<lambda>e c r. e), em_Screen = (\<lambda>e. (e, 80, 24))\<rparr>"

definition freshPty :: "string pty" where
  "freshPty = newPty '''' \<lparr>log_entries = [], log_last = 0\<rparr> \<lparr>sz_Cols = 80, sz_Rows = 24\<rparr>"

definition controlAt :: "u64 \<Rightarrow> Binding" where
  "controlAt g = \<lparr>bnd_Bound = True, bnd_Mode = ModeControl, bnd_Generation = g\<rparr>"

definition earlyOps :: "ptyOp list" where
  "earlyOps = [OpOutput True 1 ''a'', OpOutput True 2 ''b'']"

definition lateOps :: "ptyOp list" where
  "lateOps = [OpOutput True 3 ''c'', OpReceive 0, OpAttach 0 \<lparr>sz_Cols = 90, sz_Rows = 30\<rparr> (controlAt 2)]"

definition earlyPty :: "string pty" where
  "earlyPty = the (ptyRun plainEmulator earlyOps freshPty)"

definition resumedPty :: "string pty" where
  "resumedPty = attached plainEmulator 1 \<lparr>sz_Cols = 80, sz_Rows = 24\<rparr> (controlAt 1) earlyPty"

definition latePty :: "string pty" where
  "latePty = the (ptyRun plainEmulator lateOps resumedPty)"

lemma attach_stream_complete_witness:
  "sentTo latePty 0 = Some (map (\<lambda>e. MsgOutput (ent_Seq e) (ent_Data e)) (Log_Since (pt_log latePty) 1))
   \<and> sentTo latePty 0 = Some [MsgOutput 2 ''b'', MsgOutput 3 ''c'']"
proof
  have early: "ptyRun plainEmulator earlyOps freshPty = Some earlyPty"
    using ptyRun_ok [OF ptyOk_new] unfolding earlyPty_def freshPty_def by (metis option.sel)
  have "ptyOk earlyPty" using ptyRun_ok [OF ptyOk_new] early unfolding freshPty_def by (metis option.sel)
  then have "ptyOk resumedPty" unfolding resumedPty_def by (rule attached_ok)
  then have late: "ptyRun plainEmulator lateOps resumedPty = Some latePty"
    using ptyRun_ok unfolding latePty_def by (metis option.sel)
  have att: "Session_Attach plainEmulator 1 \<lparr>sz_Cols = 80, sz_Rows = 24\<rparr> (controlAt 1) earlyPty = Some (resumedPty, Some 0)"
  proof -
    have "pt_nextID earlyPty = 0" by code_simp
    moreover have "Size_valid \<lparr>sz_Cols = 80, sz_Rows = 24\<rparr>" by code_simp
    ultimately show ?thesis by (simp add: Session_Attach_eq resumedPty_def)
  qed
  have last: "log_last (pt_log earlyPty) = 2" and replays: "openingReplays 1 earlyPty" by code_simp+
  have "list_all logged lateOps" "outputs lateOps = 1" by code_simp+
  moreover have "map_of (pt_viewers latePty) 0 \<noteq> None" by code_simp
  ultimately have "sentTo latePty 0 = Some (map (\<lambda>e. MsgOutput (ent_Seq e) (ent_Data e))
      (Log_Since (pt_log latePty) (if (1 :: u64) = SinceAll then 0 else 1)))"
    using last by (intro attach_stream_complete [OF early [unfolded freshPty_def] replays att late]) simp_all
  moreover have "(1 :: u64) \<noteq> SinceAll" by (simp add: SinceAll_def)
  ultimately show "sentTo latePty 0 = Some (map (\<lambda>e. MsgOutput (ent_Seq e) (ent_Data e)) (Log_Since (pt_log latePty) 1))" by simp
  show "sentTo latePty 0 = Some [MsgOutput 2 ''b'', MsgOutput 3 ''c'']" by code_simp
qed

definition twoPty :: "string pty" where
  "twoPty = the (ptyRun plainEmulator [OpAttach 0 \<lparr>sz_Cols = 80, sz_Rows = 24\<rparr> (controlAt 1),
     OpAttach 0 \<lparr>sz_Cols = 80, sz_Rows = 24\<rparr> (controlAt 0)] freshPty)"

definition takenPty :: "string pty" where
  "takenPty = fst (Session_Bind plainEmulator 1 (controlAt 2) twoPty)"

lemma takeover_fences_witness:
  "snd (Session_Stdin 0 1 ''x'' twoPty) \<and> Session_Stdin 0 1 ''x'' takenPty = (takenPty, False)"
proof
  show "snd (Session_Stdin 0 1 ''x'' twoPty)" by code_simp
  have run: "ptyRun plainEmulator [OpAttach 0 \<lparr>sz_Cols = 80, sz_Rows = 24\<rparr> (controlAt 1),
     OpAttach 0 \<lparr>sz_Cols = 80, sz_Rows = 24\<rparr> (controlAt 0)] freshPty = Some twoPty"
    using ptyRun_ok [OF ptyOk_new] unfolding twoPty_def freshPty_def by (metis option.sel)
  have "snd (Session_Bind plainEmulator 1 (controlAt 2) twoPty)" "pt_controllerGen twoPty < 2"
    and v: "map_of (pt_viewers twoPty) 0 \<noteq> None" "bnd_Bound (vw_bind (the (map_of (pt_viewers twoPty) 0)))" by code_simp+
  then have take: "Session_Bind plainEmulator 1 \<lparr>bnd_Bound = True, bnd_Mode = ModeControl, bnd_Generation = 2\<rparr> twoPty = (takenPty, True)"
    by (simp add: takenPty_def controlAt_def prod_eq_iff)
  from v obtain v where "map_of (pt_viewers twoPty) 0 = Some v" "bnd_Bound (vw_bind v)" by auto
  with takeover_fences [OF run [unfolded freshPty_def] take \<open>pt_controllerGen twoPty < 2\<close>, of 0 v "[]" takenPty]
  show "Session_Stdin 0 1 ''x'' takenPty = (takenPty, False)" by simp
qed

end
