(* ===== verification/OwnershipProps.thy ===== *)
theory OwnershipProps
  imports Ownership PtyProps
begin

text \<open>
  What the plane promises, whatever the threads do: no two attaches hold control under the same
  generation, a client's last message is what its attach is once nothing is under way, and at most one bound attachment of a
  sandbox may write.
\<close>

section \<open>Fields\<close>

lemma plane_fields [simp]:
  "pl_gen (putThread i t s) = pl_gen s" "pl_own (putThread i t s) = pl_own s"
  "pl_heard (putThread i t s) = pl_heard s" "pl_installs (putThread i t s) = pl_installs s"
  "pl_thr (putThread i t s) = (pl_thr s)(i \<mapsto> t)"
  "pl_gen (endThread i s) = pl_gen s" "pl_own (endThread i s) = pl_own s"
  "pl_heard (endThread i s) = pl_heard s" "pl_installs (endThread i s) = pl_installs s"
  "pl_thr (endThread i s) = (pl_thr s)(i := None)"
  "pl_gen (putOwn a w s) = pl_gen s" "pl_own (putOwn a w s) = (pl_own s)(a \<mapsto> w)"
  "pl_heard (putOwn a w s) = pl_heard s" "pl_installs (putOwn a w s) = pl_installs s" "pl_thr (putOwn a w s) = pl_thr s"
  "pl_gen (install a m g s) = pl_gen s" "pl_own (install a m g s) = pl_own s" "pl_heard (install a m g s) = pl_heard s"
  "pl_installs (install a m g s) = pl_installs s @ [(a, m, g)]" "pl_thr (install a m g s) = pl_thr s"
  "pl_gen (advanceRow s) = pl_gen s + 1" "pl_own (advanceRow s) = pl_own s" "pl_heard (advanceRow s) = pl_heard s"
  "pl_installs (advanceRow s) = pl_installs s" "pl_thr (advanceRow s) = pl_thr s"
  "pl_own (releaseRow g s) = pl_own s" "pl_heard (releaseRow g s) = pl_heard s"
  "pl_installs (releaseRow g s) = pl_installs s" "pl_thr (releaseRow g s) = pl_thr s"
  "pl_gen (sendOwn a w msg s) = pl_gen s" "pl_own (sendOwn a w msg s) = pl_own s"
  "pl_installs (sendOwn a w msg s) = pl_installs s" "pl_thr (sendOwn a w msg s) = pl_thr s"
  by (simp_all add: putThread_def endThread_def putOwn_def install_def advanceRow_def releaseRow_def sendOwn_def)

lemma after_fields [simp]:
  "pl_gen (afterAnnounce k i a m g peers s) = pl_gen s" "pl_own (afterAnnounce k i a m g peers s) = pl_own s"
  "pl_heard (afterAnnounce k i a m g peers s) = pl_heard s" "pl_installs (afterAnnounce k i a m g peers s) = pl_installs s"
  "pl_gen (afterDisplace c i a s) = pl_gen s" "pl_own (afterDisplace c i a s) = pl_own s"
  "pl_heard (afterDisplace c i a s) = pl_heard s" "pl_installs (afterDisplace c i a s) = pl_installs s"
  by (cases k; simp add: afterDisplace_def split: option.split)+

lemma releaseRow_mono: "pl_gen s \<le> pl_gen (releaseRow g s)"
  by (auto simp: releaseRow_def rowRoom_def)

section \<open>Who was given a generation\<close>

text \<open>The control a thread holds, or has on its way to the sandbox.\<close>

fun holdsThread :: "thread \<Rightarrow> nat \<Rightarrow> u64 \<Rightarrow> bool" where
  "holdsThread (TGranted b h) a g = (a = b \<and> g = h)"
| "holdsThread (TWon b h) a g = (a = b \<and> g = h)"
| "holdsThread (TAdvance b h) a g = (a = b \<and> g = h)"
| "holdsThread (TSending b _ m h _) a g = (a = b \<and> g = h \<and> m = ModeControl)"
| "holdsThread (TTelling b m h _) a g = (a = b \<and> g = h \<and> m = ModeControl)"
| "holdsThread (TInstall b m h) a g = (a = b \<and> g = h \<and> m = ModeControl)"
| "holdsThread _ a g = False"

definition holds :: "plane \<Rightarrow> nat \<Rightarrow> u64 \<Rightarrow> bool" where
  "holds s a g \<longleftrightarrow> (\<exists>w. pl_own s a = Some w \<and> controlling w \<and> ow_gen w = g)
     \<or> (\<exists>i t. pl_thr s i = Some t \<and> holdsThread t a g) \<or> (a, ModeControl, g) \<in> set (pl_installs s)"

text \<open>A step gives out at most the generation it advances the row to.\<close>

definition issues :: "plane \<Rightarrow> plane \<Rightarrow> bool" where
  "issues s s' \<longleftrightarrow> pl_gen s \<le> pl_gen s' \<and>
     ((\<forall>a g. holds s' a g \<longrightarrow> holds s a g)
      \<or> (\<exists>b. pl_gen s < pl_gen s' \<and> (\<forall>a g. holds s' a g \<longrightarrow> holds s a g \<or> (a, g) = (b, pl_gen s'))))"

lemma holds_ownI: "pl_own s a = Some w \<Longrightarrow> controlling w \<Longrightarrow> holds s a (ow_gen w)"
  by (auto simp: holds_def)

lemma holds_threadI: "pl_thr s i = Some t \<Longrightarrow> holdsThread t a g \<Longrightarrow> holds s a g"
  by (auto simp: holds_def)

lemma holds_put [simp]:
  "holds (advanceRow s) a g = holds s a g" "holds (releaseRow h s) a g = holds s a g" "holds (sendOwn b w msg s) a g = holds s a g"
  "holds (install b m h s) a g \<longleftrightarrow> holds s a g \<or> a = b \<and> m = ModeControl \<and> g = h"
  by (auto simp: holds_def)

lemma holds_putThread [elim!]:
  assumes "holds (putThread i t s) a g" obtains "holds s a g" | "holdsThread t a g"
  using assms by (auto simp: holds_def split: if_splits)

lemma holds_endThread [dest!]: "holds (endThread i s) a g \<Longrightarrow> holds s a g"
  by (auto simp: holds_def split: if_splits)

lemma holds_putOwn [elim!]:
  assumes "holds (putOwn b w s) a g" obtains "holds s a g" | "a = b" "controlling w" "ow_gen w = g"
  using assms by (auto simp: holds_def split: if_splits)

lemma holds_thread:
  "pl_thr s i = Some (TGranted a g) \<Longrightarrow> holds s a g" "pl_thr s i = Some (TWon a g) \<Longrightarrow> holds s a g"
  "pl_thr s i = Some (TAdvance a g) \<Longrightarrow> holds s a g" "pl_thr s i = Some (TSending a msg ModeControl g k) \<Longrightarrow> holds s a g"
  "pl_thr s i = Some (TTelling a ModeControl g k) \<Longrightarrow> holds s a g" "pl_thr s i = Some (TInstall a ModeControl g) \<Longrightarrow> holds s a g"
  using holds_threadI by fastforce+

lemma holds_own: "pl_own s a = Some w \<Longrightarrow> ow_mode w = ModeControl \<Longrightarrow> holds s a (ow_gen w)"
  by (auto simp: holds_def controlling_def)

lemma holds_afterAnnounce [elim!]:
  assumes "holds (afterAnnounce k i b m h peers s) a g" obtains "holds s a g" | "a = b" "m = ModeControl" "g = h"
  using assms by (cases k) (auto split: if_splits)

lemma holds_afterDisplace [dest!]: "holds (afterDisplace k i b s) a g \<Longrightarrow> holds s a g"
  by (auto simp: afterDisplace_def split: option.splits)

text \<open>A demotion never makes a controller.\<close>

lemma displaceTo_view: "displaceTo g w = (w', was, moved) \<Longrightarrow> w' = w \<or> \<not> controlling w'"
  by (auto simp: displaceTo_def controlling_def split: if_splits)

lemma demoteTo_view: "demoteTo f g w = (w', n, moved) \<Longrightarrow> w' = w \<or> \<not> controlling w'"
  by (auto simp: demoteTo_def controlling_def Let_def split: if_splits)

lemma issuesI: "pl_gen s \<le> pl_gen s' \<Longrightarrow> (\<And>a g. holds s' a g \<Longrightarrow> holds s a g) \<Longrightarrow> issues s s'"
  by (auto simp: issues_def)

lemma issues_newI:
  "pl_gen s < pl_gen s' \<Longrightarrow> (\<And>a g. holds s' a g \<Longrightarrow> holds s a g \<or> (a, g) = (b, pl_gen s')) \<Longrightarrow> issues s s'"
  unfolding issues_def by (metis order_less_imp_le)

lemma step_issues: "plane_step s s' \<Longrightarrow> issues s s'"
proof (induction rule: plane_step.induct)
  case (granted s a)
  then show ?case by (intro issues_newI [of _ _ a]) (auto simp: rowRoom_def)
next
  case (claim_won s a w)
  then show ?case by (intro issues_newI [of _ _ a]) (auto simp: rowRoom_def)
next
  case (open_controller s i a g target)
  then show ?case by (intro issuesI) (auto simp: newOwnership_def intro: holds_thread)
next
  case (advanced s i a g w peers w' moved)
  then show ?case by (intro issuesI) (auto simp: advance_def intro: holds_thread holds_ownI split: if_splits)
next
  case (stale_displaced s i a g k w w' was moved)
  then show ?case by (intro issuesI) (auto dest: displaceTo_view intro: holds_ownI)
next
  case (displaced s i a g p peers k w w' was moved n)
  then show ?case by (intro issuesI) (auto dest: displaceTo_view intro: holds_ownI)
next
  case (demoted s i a g h k w w' n moved)
  then show ?case by (intro issuesI) (auto dest: demoteTo_view intro: holds_ownI split: if_splits)
qed (intro issuesI; auto simp: rowRoom_def newOwnership_def controlling_def releaseRow_mono intro: holds_thread holds_own split: if_splits)+

definition ticketed :: "plane \<Rightarrow> bool" where
  "ticketed s \<longleftrightarrow> (\<forall>a g. holds s a g \<longrightarrow> g \<le> pl_gen s) \<and> (\<forall>a b g. holds s a g \<and> holds s b g \<longrightarrow> a = b)"

lemma ticketed_new: "ticketed (newPlane g)"
  by (simp add: ticketed_def holds_def newPlane_def)

lemma ticketed_step: "issues s s' \<Longrightarrow> ticketed s \<Longrightarrow> ticketed s'"
  unfolding issues_def ticketed_def by (metis leD order_trans order_refl prod.inject)

section \<open>What a claim answers\<close>

text \<open>A claim is answered for the generation it won: until its pump has answered, nothing else can have
  given that attach control.\<close>

definition stands :: "plane \<Rightarrow> nat \<Rightarrow> u64 \<Rightarrow> bool" where
  "stands s a g \<longleftrightarrow> (\<forall>w. pl_own s a = Some w \<and> controlling w \<longrightarrow> ow_gen w = g)"

definition claimed :: "plane \<Rightarrow> tid \<Rightarrow> nat \<Rightarrow> cont \<Rightarrow> bool" where
  "claimed s i a k \<longleftrightarrow> (case k of Claimed g \<Rightarrow> i = Pump a \<and> stands s a g | _ \<Rightarrow> True)"

fun promise :: "plane \<Rightarrow> tid \<Rightarrow> thread \<Rightarrow> bool" where
  "promise s i (TGranted a g) = (i = Pump a \<and> pl_own s a = None)"
| "promise s i (TWon a g) = (i = Pump a \<and> (\<forall>w. pl_own s a = Some w \<longrightarrow> \<not> controlling w))"
| "promise s i (TAdvance a g) = (i = Pump a \<and> (\<forall>w. pl_own s a = Some w \<longrightarrow> \<not> controlling w))"
| "promise s i (TAnnounce a typ k) = claimed s i a k"
| "promise s i (TDisplace a g peers k) = (case k of None \<Rightarrow> True | Some (typ, c) \<Rightarrow> claimed s i a c)"
| "promise s i (TStale a k) = claimed s i a k"
| "promise s i (TStaleAt a g k) = claimed s i a k"
| "promise s i (TDemote a g k) = claimed s i a k"
| "promise s i (TDemoteAt a g h k) = claimed s i a k"
| "promise s i (TFence a n k) = claimed s i a k"
| "promise s i (TSending a msg m g k) = (believes msg = (m, g))"
| "promise s i _ = True"

lemma claimed_simps [simp]:
  "claimed s i a Done" "claimed s i a Displacing" "claimed s i a Dialing"
  "claimed s i a (Claimed g) \<longleftrightarrow> i = Pump a \<and> stands s a g"
  by (simp_all add: claimed_def)

lemma answer_true: "claimed s i a k \<Longrightarrow> pl_own s a = Some w \<Longrightarrow>
    believes (answer typ (wonAt k) (ow_mode w) (ow_gen w)) = (ow_mode w, ow_gen w)"
  by (cases k; cases "ow_mode w") (auto simp: answer_def believes_def stands_def controlling_def Let_def)

text \<open>Steps of others only take control away.\<close>

definition calm :: "plane \<Rightarrow> plane \<Rightarrow> nat \<Rightarrow> bool" where
  "calm s s' a \<longleftrightarrow> (pl_own s a = None \<longrightarrow> pl_own s' a = None)
     \<and> (\<forall>w'. pl_own s' a = Some w' \<and> controlling w' \<longrightarrow> (\<exists>w. pl_own s a = Some w \<and> controlling w \<and> ow_gen w = ow_gen w'))"

lemma claimed_calm: "claimed s i a k \<Longrightarrow> (\<And>b. i = Pump b \<Longrightarrow> calm s s' b) \<Longrightarrow> claimed s' i a k"
  by (cases k) (auto simp: stands_def calm_def)

lemma promise_calm: "promise s i t \<Longrightarrow> (\<And>b. i = Pump b \<Longrightarrow> calm s s' b) \<Longrightarrow> promise s' i t"
  by (cases t) (auto intro: claimed_calm simp: calm_def split: option.splits)

definition promises :: "plane \<Rightarrow> bool" where
  "promises s \<longleftrightarrow> (\<forall>i t. pl_thr s i = Some t \<longrightarrow> promise s i t)"

lemma promisesI:
  assumes "promises s"
    and "\<And>j t. pl_thr s' j = Some t \<Longrightarrow> promise s' j t \<or> pl_thr s j = Some t \<and> (\<forall>b. j = Pump b \<longrightarrow> calm s s' b)"
  shows "promises s'"
  unfolding promises_def
proof (intro allI impI)
  fix j t
  assume "pl_thr s' j = Some t"
  from assms(2) [OF this] show "promise s' j t"
    using assms(1) promise_calm [of s j t s'] by (auto simp: promises_def)
qed

lemma promisesD: "promises s \<Longrightarrow> pl_thr s i = Some t \<Longrightarrow> promise s i t"
  by (simp add: promises_def)

lemma calm_same: "pl_own s' a = pl_own s a \<Longrightarrow> calm s s' a"
  by (auto simp: calm_def)

lemma calm_view: "pl_own s a = Some w \<Longrightarrow> pl_own s' = (pl_own s)(a \<mapsto> w') \<Longrightarrow> w' = w \<or> \<not> controlling w' \<Longrightarrow> calm s s' b"
  by (auto simp: calm_def)

lemma claimed_put [simp]:
  "claimed (putThread j t s) i a k = claimed s i a k" "claimed (endThread j s) i a k = claimed s i a k"
  "claimed (install b m g s) i a k = claimed s i a k"
  by (cases k; simp add: claimed_def stands_def)+

lemma claimed_view:
  "pl_own s a = Some w \<Longrightarrow> w' = w \<or> \<not> controlling w' \<Longrightarrow> claimed s i b k \<Longrightarrow> claimed (putOwn a w' s) i b k"
  by (rule claimed_calm [of s]) (auto intro: calm_view)

lemma promise_own: "pl_own s' = pl_own s \<Longrightarrow> promise s' i t = promise s i t"
  by (metis calm_same promise_calm)

lemma promise_put [simp]:
  "promise (putThread j u s) i t = promise s i t" "promise (endThread j s) i t = promise s i t"
  "promise (install a m g s) i t = promise s i t" "promise (releaseRow h s) i t = promise s i t"
  "promise (advanceRow s) i t = promise s i t" "promise (sendOwn a w msg s) i t = promise s i t"
  by (rule promise_own, simp)+

lemma promises_put:
  "promises s \<Longrightarrow> promise s i t \<Longrightarrow> promises (putThread i t s)" "promises s \<Longrightarrow> promises (endThread i s)"
  "promises (install a m g s) = promises s" "promises (releaseRow h s) = promises s" "promises (advanceRow s) = promises s"
  "promises (sendOwn a w msg s) = promises s"
  by (simp_all add: promises_def)

lemma promises_step: "plane_step s s' \<Longrightarrow> promises s \<Longrightarrow> promises s'"
proof (induction rule: plane_step.induct)
  case (open_controller s i a g target)
  then have "i = Pump a" by (auto dest: promisesD)
  then show ?case by (intro promisesI [OF open_controller(5)]) (auto intro: calm_same split: if_splits)
next
  case (open_viewer s a target)
  then show ?case by (intro promisesI [OF open_viewer(5)]) (auto intro: calm_same split: if_splits)
next
  case (advanced s i a g w peers w' moved)
  then have "i = Pump a" "\<not> controlling w" by (auto dest: promisesD)
  with advanced show ?case
    by (intro promisesI [OF advanced(5)]) (auto intro: calm_same simp: advance_def stands_def controlling_def split: if_splits)
next
  case (stale_displaced s i a g k w w' was moved)
  note view = displaceTo_view [OF stale_displaced(3)]
  from promisesD [OF stale_displaced(4,1)] show ?case
    by (intro promisesI [OF stale_displaced(4)])
      (auto simp: claimed_view [OF stale_displaced(2) view] intro: calm_view [OF stale_displaced(2) _ view] split: if_splits)
next
  case (displaced s i a g p peers k w w' was moved n)
  note view = displaceTo_view [OF displaced(3)]
  from promisesD [OF displaced(5,1)] show ?case
    by (intro promisesI [OF displaced(5)])
      (auto simp: claimed_view [OF displaced(2) view] intro: calm_view [OF displaced(2) _ view] split: if_splits option.splits)
next
  case (demoted s i a g h k w w' n moved)
  note view = demoteTo_view [OF demoted(3)]
  from promisesD [OF demoted(4,1)] show ?case
    by (intro promisesI [OF demoted(4)])
      (auto simp: claimed_view [OF demoted(2) view] intro: calm_view [OF demoted(2) _ view] split: if_splits)
next
  case (announced s i a ty k w)
  have "calm s (putThread i t (putOwn a (w\<lparr>ow_told := True\<rparr>) s)) b" for t b
    using announced(2) by (auto simp: calm_def controlling_def)
  with answer_true announced show ?case
    by (intro promisesI [OF announced(4)]) (use promisesD [OF announced(4,1)] in \<open>auto split: if_splits\<close>)
next
  case (settled s i a m g k w peers)
  then show ?case by (cases k) (auto intro: promises_put)
qed (auto simp: promises_put(3-6) believes_def afterDisplace_def intro!: promises_put(1,2) dest: promisesD split: if_splits option.splits)

section \<open>What a client has heard\<close>

text \<open>The threads that still have something to say to an attach's client.\<close>

fun pending :: "nat \<Rightarrow> thread \<Rightarrow> bool" where
  "pending a (TAnnounce b _ _) = (a = b)"
| "pending a (TSending b _ _ _ _) = (a = b)"
| "pending a (TTelling b _ _ _) = (a = b)"
| "pending a (TPeer b _) = (a = b)"
| "pending a (TFence b _ _) = (a = b)"
| "pending a (TDisplace b _ _ k) = (a = b \<and> k \<noteq> None)"
| "pending a _ = False"

definition speaks :: "plane \<Rightarrow> nat \<Rightarrow> bool" where
  "speaks s a \<longleftrightarrow> (\<exists>i t. pl_thr s i = Some t \<and> pending a t)"

lemma tells_pending: "tells a t \<Longrightarrow> pending a t"
  by (cases t) auto

text \<open>An attach keeps what it negotiated, and stays told.\<close>

lemma own_kept:
  "plane_step s s' \<Longrightarrow> promises s \<Longrightarrow> pl_own s a = Some w \<Longrightarrow>
     \<exists>w'. pl_own s' a = Some w' \<and> ow_negotiated w' = ow_negotiated w \<and> (ow_told w \<longrightarrow> ow_told w')"
  by (induction rule: plane_step.induct)
    (auto simp: displaceTo_def demoteTo_def advance_def Let_def dest: promisesD split: if_splits)

lemma announceHeld_put:
  "announceHeld (putOwn b w s) a = announceHeld s a" "announceHeld (install b m g s) a = announceHeld s a"
  "announceHeld (releaseRow h s) a = announceHeld s a" "announceHeld (advanceRow s) a = announceHeld s a"
  "announceHeld (sendOwn b w msg s) a = announceHeld s a"
  by (simp_all add: announceHeld_def)

lemma announceHeldI: "pl_thr s i = Some t \<Longrightarrow> tells a t \<Longrightarrow> announceHeld s a"
  by (auto simp: announceHeld_def)

lemma announceHeld_putThread:
  assumes "announceHeld (putThread i t s) a" obtains "announceHeld s a" | "tells a t"
  using assms by (auto simp: announceHeld_def split: if_splits)

lemma announceHeld_endThread: "announceHeld (endThread i s) a \<Longrightarrow> announceHeld s a"
  by (auto simp: announceHeld_def split: if_splits)

lemma announceHeld_after:
  "announceHeld (afterAnnounce k i b m g peers s) a \<Longrightarrow> announceHeld s a" "announceHeld (afterDisplace c i b s) a \<Longrightarrow> announceHeld s a"
  by (cases k; auto simp: afterDisplace_def elim: announceHeld_putThread dest: announceHeld_endThread split: if_splits option.splits)+

text \<open>Nobody speaks to a client unheard: an announcement marks its attach as told first, by one thread at a time.\<close>

definition toldOk :: "plane \<Rightarrow> bool" where
  "toldOk s \<longleftrightarrow> (\<forall>a. pl_heard s a \<noteq> None \<or> announceHeld s a \<longrightarrow> (\<exists>w. pl_own s a = Some w \<and> ow_told w))
     \<and> (\<forall>a w. pl_heard s a \<noteq> None \<and> pl_own s a = Some w \<longrightarrow> ow_negotiated w)"

definition oneVoice :: "plane \<Rightarrow> bool" where
  "oneVoice s \<longleftrightarrow> (\<forall>i j t u a. pl_thr s i = Some t \<and> pl_thr s j = Some u \<and> tells a t \<and> tells a u \<longrightarrow> i = j)"

lemma oneVoice_put:
  "oneVoice s \<Longrightarrow> (\<And>a. tells a t \<Longrightarrow> (\<exists>u. pl_thr s i = Some u \<and> tells a u) \<or> \<not> announceHeld s a) \<Longrightarrow> oneVoice (putThread i t s)"
  "oneVoice s \<Longrightarrow> oneVoice (endThread i s)" "oneVoice (putOwn a w s) = oneVoice s" "oneVoice (install a m g s) = oneVoice s"
  "oneVoice (releaseRow h s) = oneVoice s" "oneVoice (advanceRow s) = oneVoice s" "oneVoice (sendOwn a w msg s) = oneVoice s"
  unfolding oneVoice_def announceHeld_def by (auto split: if_splits) (blast+)?

lemma oneVoice_step: "plane_step s s' \<Longrightarrow> oneVoice s \<Longrightarrow> oneVoice s'"
proof (induction rule: plane_step.induct)
  case (settled s i a m g k w peers)
  then show ?case by (cases k) (auto intro: oneVoice_put)
qed (auto simp: oneVoice_put(3-7) announceHeld_put afterDisplace_def intro!: oneVoice_put(1,2) split: if_splits option.splits)

lemma heard_changes:
  "plane_step s s' \<Longrightarrow> pl_heard s' a = pl_heard s a
     \<or> (\<exists>i msg m g k w. pl_thr s i = Some (TSending a msg m g k) \<and> pl_own s a = Some w \<and> ow_negotiated w
          \<and> pl_thr s' = (pl_thr s)(i \<mapsto> TTelling a m g k) \<and> pl_heard s' a = Some msg \<and> pl_own s' = pl_own s)"
proof (induction rule: plane_step.induct)
  case (sent s i b msg m g k w)
  show ?case
  proof (cases "a = b \<and> ow_negotiated w")
    case True
    with sent show ?thesis
      by (intro disjI2 exI [of _ i] exI [of _ msg] exI [of _ m] exI [of _ g] exI [of _ k] exI [of _ w]) (simp add: sendOwn_def)
  qed (auto simp: sendOwn_def)
qed (auto split: if_splits)

lemma held_changes:
  "plane_step s s' \<Longrightarrow> announceHeld s' a \<Longrightarrow> announceHeld s a \<or> (\<exists>w. pl_own s' a = Some w \<and> ow_told w)"
proof (induction rule: plane_step.induct)
  case (sent s i b msg m g k w)
  have "announceHeld s b" by (rule announceHeldI [OF sent(1)]) simp
  with sent(3) show ?case by (auto simp: announceHeld_put elim: announceHeld_putThread)
next
  case (moved_on s i b m g k w)
  have "announceHeld s b" by (rule announceHeldI [OF moved_on(1)]) simp
  with moved_on(4) show ?case by (auto elim: announceHeld_putThread)
qed (auto simp: announceHeld_put elim!: announceHeld_putThread dest!: announceHeld_endThread announceHeld_after split: if_splits)

lemma toldOk_step:
  assumes "plane_step s s'" "promises s" "toldOk s"
  shows "toldOk s'"
proof -
  have told: "\<exists>w. pl_own s' a = Some w \<and> ow_told w" if "pl_heard s' a \<noteq> None \<or> announceHeld s' a" for a
  proof -
    have "announceHeld s' a \<Longrightarrow> ?thesis"
      using held_changes [OF assms(1), of a] own_kept [OF assms(1,2), of a] assms(3) unfolding toldOk_def by blast
    moreover have "pl_heard s' a \<noteq> None \<Longrightarrow> pl_heard s a \<noteq> None \<or> announceHeld s a"
      using heard_changes [OF assms(1), of a] by (fastforce simp: announceHeld_def)
    ultimately show ?thesis using that own_kept [OF assms(1,2), of a] assms(3) unfolding toldOk_def by blast
  qed
  moreover have "ow_negotiated w" if "pl_heard s' a \<noteq> None" "pl_own s' a = Some w" for a w
  proof (cases "pl_heard s a = None")
    case True
    with that heard_changes [OF assms(1), of a] show ?thesis by auto
  next
    case False
    then obtain v where v: "pl_own s a = Some v" "ow_negotiated v" using assms(3) unfolding toldOk_def by blast
    from own_kept [OF assms(1,2) v(1)] v(2) that(2) show ?thesis by auto
  qed
  ultimately show ?thesis unfolding toldOk_def by blast
qed

text \<open>The message a teller compares the state with is the last one its client heard.\<close>

definition tellingOk :: "plane \<Rightarrow> bool" where
  "tellingOk s \<longleftrightarrow> (\<forall>i a m g k w. pl_thr s i = Some (TTelling a m g k) \<and> pl_own s a = Some w \<and> ow_negotiated w \<longrightarrow>
     map_option believes (pl_heard s a) = Some (m, g))"

lemma telling_changes:
  "plane_step s s' \<Longrightarrow> pl_thr s' i = Some (TTelling a m g k) \<Longrightarrow>
     pl_thr s i = Some (TTelling a m g k) \<or> (\<exists>msg. pl_thr s i = Some (TSending a msg m g k))"
proof (induction rule: plane_step.induct)
  case (settled s i b m' g' k w peers)
  then show ?case by (cases k) (auto split: if_splits)
qed (auto simp: afterDisplace_def split: if_splits option.splits)

lemma sent_hears:
  "plane_step s s' \<Longrightarrow> pl_thr s i = Some (TSending a msg m g k) \<Longrightarrow> pl_thr s' i = Some (TTelling a m g k) \<Longrightarrow>
     pl_own s a = Some w \<Longrightarrow> ow_negotiated w \<Longrightarrow> pl_heard s' a = Some msg"
proof (induction rule: plane_step.induct)
  case (settled s i b m' g' k w peers)
  then show ?case by (cases k) (auto split: if_splits)
qed (auto simp: afterDisplace_def sendOwn_def split: if_splits option.splits)

lemma tellingOk_step:
  assumes "plane_step s s'" "promises s" "oneVoice s" "toldOk s" "tellingOk s"
  shows "tellingOk s'"
  unfolding tellingOk_def
proof (intro allI impI)
  fix i a m g k w'
  assume *: "pl_thr s' i = Some (TTelling a m g k) \<and> pl_own s' a = Some w' \<and> ow_negotiated w'"
  from telling_changes [OF assms(1)] * have old: "pl_thr s i = Some (TTelling a m g k) \<or> (\<exists>msg. pl_thr s i = Some (TSending a msg m g k))"
    by blast
  then obtain t where t: "pl_thr s i = Some t" "tells a t" by auto
  with assms(4) obtain w where w: "pl_own s a = Some w" using announceHeldI unfolding toldOk_def by blast
  with own_kept [OF assms(1,2) w] * have neg: "ow_negotiated w" by auto
  from heard_changes [OF assms(1), of a] show "map_option believes (pl_heard s' a) = Some (m, g)"
  proof
    assume same: "pl_heard s' a = pl_heard s a"
    show ?thesis
    proof (cases "pl_thr s i = Some (TTelling a m g k)")
      case True
      with assms(5) w neg show ?thesis unfolding same tellingOk_def by blast
    next
      case False
      with old obtain msg where "pl_thr s i = Some (TSending a msg m g k)" by blast
      then have "pl_heard s' a = Some msg" using sent_hears [OF assms(1)] * w neg by blast
      moreover have "believes msg = (m, g)" using promisesD [OF assms(2)] \<open>pl_thr s i = Some (TSending a msg m g k)\<close> by fastforce
      ultimately show ?thesis by simp
    qed
  next
    assume "\<exists>j msg m g k w. pl_thr s j = Some (TSending a msg m g k) \<and> pl_own s a = Some w \<and> ow_negotiated w
          \<and> pl_thr s' = (pl_thr s)(j \<mapsto> TTelling a m g k) \<and> pl_heard s' a = Some msg \<and> pl_own s' = pl_own s"
    then obtain j msg m1 g1 k1 where j: "pl_thr s j = Some (TSending a msg m1 g1 k1)"
      "pl_thr s' = (pl_thr s)(j \<mapsto> TTelling a m1 g1 k1)" "pl_heard s' a = Some msg" by blast
    have "i = j" using assms(3) t j(1) unfolding oneVoice_def by (metis tells.simps(1))
    with j(2) * have "m1 = m" "g1 = g" by auto
    with j(3) promisesD [OF assms(2) j(1)] show ?thesis by simp
  qed
qed

text \<open>A client that heard something else than what its attach is has a correction on its way.\<close>

definition current :: "plane \<Rightarrow> bool" where
  "current s \<longleftrightarrow> (\<forall>a w msg. pl_own s a = Some w \<and> pl_heard s a = Some msg \<longrightarrow>
     believes msg = (ow_mode w, ow_gen w) \<or> speaks s a)"

lemma speaks_here: "pending a t \<Longrightarrow> speaks (putThread i t s) a"
  by (auto simp: speaks_def)

lemma speaks_put:
  "speaks (putOwn b w s) a = speaks s a" "speaks (install b m g s) a = speaks s a" "speaks (releaseRow h s) a = speaks s a"
  "speaks (advanceRow s) a = speaks s a" "speaks (sendOwn b w msg s) a = speaks s a"
  by (simp_all add: speaks_def)

lemma speaks_putThread: "speaks s a \<Longrightarrow> (\<And>u. pl_thr s i = Some u \<Longrightarrow> pending a u \<Longrightarrow> pending a t) \<Longrightarrow> speaks (putThread i t s) a"
  unfolding speaks_def by (metis fun_upd_apply option.inject plane_fields(5))

lemma speaks_endThread: "speaks s a \<Longrightarrow> (\<And>u. pl_thr s i = Some u \<Longrightarrow> \<not> pending a u) \<Longrightarrow> speaks (endThread i s) a"
  unfolding speaks_def by (metis fun_upd_apply plane_fields(10))

lemma currentI:
  assumes "current s"
    and "\<And>a w msg. pl_own s' a = Some w \<Longrightarrow> pl_heard s' a = Some msg \<Longrightarrow>
      pl_own s a = Some w \<and> pl_heard s a = Some msg \<and> (speaks s a \<longrightarrow> speaks s' a)
      \<or> speaks s' a \<or> believes msg = (ow_mode w, ow_gen w)"
  shows "current s'"
  using assms unfolding current_def by blast

lemma current_put:
  "current s \<Longrightarrow> (\<And>a u. pl_thr s i = Some u \<Longrightarrow> pending a u \<Longrightarrow> pending a t) \<Longrightarrow> current (putThread i t s)"
  "current s \<Longrightarrow> (\<And>a u. pl_thr s i = Some u \<Longrightarrow> \<not> pending a u) \<Longrightarrow> current (endThread i s)"
  "current (install b m g s) = current s" "current (releaseRow h s) = current s" "current (advanceRow s) = current s"
  by (erule currentI, simp add: speaks_putThread)
    (erule currentI, simp add: speaks_endThread, simp_all add: current_def speaks_put)

lemma current_atI:
  assumes "current s"
    and "\<And>b. b \<noteq> a \<Longrightarrow> pl_own s' b = pl_own s b \<and> pl_heard s' b = pl_heard s b \<and> (speaks s b \<longrightarrow> speaks s' b)"
    and "\<And>w msg. pl_own s' a = Some w \<Longrightarrow> pl_heard s' a = Some msg \<Longrightarrow> speaks s' a \<or> believes msg = (ow_mode w, ow_gen w)"
  shows "current s'"
proof (rule currentI [OF assms(1)])
  fix b w msg
  assume "pl_own s' b = Some w" "pl_heard s' b = Some msg"
  then show "pl_own s b = Some w \<and> pl_heard s b = Some msg \<and> (speaks s b \<longrightarrow> speaks s' b)
      \<or> speaks s' b \<or> believes msg = (ow_mode w, ow_gen w)"
    using assms(2) [of b] assms(3) by (cases "b = a") auto
qed

text \<open>A thread that moves an attach is a thread that speaks to it next.\<close>

lemma current_moved:
  assumes "current s" "\<And>b u. pl_thr s i = Some u \<Longrightarrow> pending b u \<Longrightarrow> b = a" "pending a t"
  shows "current (putThread i t (putOwn a w' s))"
proof (rule current_atI [OF assms(1), of a])
  fix b
  assume "b \<noteq> a"
  then have "speaks s b \<Longrightarrow> speaks (putThread i t (putOwn a w' s)) b"
    using assms(2) by (intro speaks_putThread) (auto simp: speaks_put)
  with \<open>b \<noteq> a\<close> show "pl_own (putThread i t (putOwn a w' s)) b = pl_own s b \<and> pl_heard (putThread i t (putOwn a w' s)) b = pl_heard s b
      \<and> (speaks s b \<longrightarrow> speaks (putThread i t (putOwn a w' s)) b)" by simp
qed (simp add: speaks_here assms(3))

lemma toldOk_unheard: "toldOk s \<Longrightarrow> (\<And>w. pl_own s a = Some w \<Longrightarrow> \<not> ow_told w) \<Longrightarrow> pl_heard s a = None"
  unfolding toldOk_def by blast

lemma current_step:
  assumes "plane_step s s'" "promises s" "toldOk s" "tellingOk s" "current s"
  shows "current s'"
  using assms
proof (induction rule: plane_step.induct)
  case (open_controller s i a g target)
  have "pl_heard s a = None" using promisesD [OF open_controller(5,1)] by (intro toldOk_unheard [OF open_controller(6)]) simp
  then show ?case using open_controller
    by (intro current_atI [OF open_controller(8), of a]) (auto simp: speaks_put intro!: speaks_putThread)
next
  case (open_viewer s a target)
  have "pl_heard s a = None" using open_viewer(2) by (intro toldOk_unheard [OF open_viewer(6)]) simp
  then show ?case using open_viewer
    by (intro current_atI [OF open_viewer(8), of a]) (auto simp: speaks_put intro!: speaks_putThread)
next
  case (advanced s i a g w peers w' moved)
  then show ?case by (intro current_moved) auto
next
  case (stale_displaced s i a g k w w' was moved)
  then show ?case by (intro current_moved) auto
next
  case (announced s i a ty k w)
  then show ?case by (intro current_moved) auto
next
  case (demoted s i a g h k w w' n moved)
  then show ?case by (intro current_moved) auto
next
  case (gave_up s i a)
  then obtain j t where j: "pl_thr s j = Some t" "tells a t" by (auto simp: announceHeld_def)
  with gave_up have "j \<noteq> i" by auto
  with j have "speaks (endThread i s) a" by (auto simp: speaks_def intro: tells_pending)
  moreover have "b \<noteq> a \<Longrightarrow> speaks s b \<Longrightarrow> speaks (endThread i s) b" for b
    using gave_up(1) by (intro speaks_endThread) auto
  ultimately show ?case by (intro current_atI [OF gave_up(6), of a]) auto
next
  case (sent s i a msg m g k w)
  have "b \<noteq> a \<Longrightarrow> speaks s b \<Longrightarrow> speaks (putThread i (TTelling a m g k) (sendOwn a w msg s)) b" for b
    using sent(1) by (intro speaks_putThread) (auto simp: speaks_put)
  moreover have "speaks (putThread i (TTelling a m g k) (sendOwn a w msg s)) a" by (simp add: speaks_here)
  ultimately show ?case by (intro current_atI [OF sent(6), of a]) (auto simp: sendOwn_def split: if_splits)
next
  case (settled s i a m g k w peers)
  have heard: "believes msg = (ow_mode w, ow_gen w)" if "pl_heard s a = Some msg" for msg
  proof -
    have "ow_negotiated w" using settled(2,6) that unfolding toldOk_def by blast
    then have "map_option believes (pl_heard s a) = Some (m, g)" using settled(1,2,7) unfolding tellingOk_def by blast
    with that settled(3) show ?thesis by simp
  qed
  have "b \<noteq> a \<Longrightarrow> speaks s b \<Longrightarrow> speaks (afterAnnounce k i a m g peers s) b" for b
    using settled(1) by (cases k) (auto intro!: speaks_putThread speaks_endThread)
  with heard settled(2) show ?case by (intro current_atI [OF settled(8), of a]) auto
next
  case (displaced s i a g p peers k w w' was moved n)
  have "i \<noteq> Note n" using displaced(1,4) by auto
  have "current (putThread i (TDisplace a g peers k) s)" using displaced by (intro current_put(1)) auto
  then have "current (putThread (Note n) (TPeer p x) (putOwn p w' (putThread i (TDisplace a g peers k) s)))" for x
    using displaced(4) \<open>i \<noteq> Note n\<close> by (intro current_moved) auto
  then show ?case by (simp add: putThread_def putOwn_def)
next
  case (peer_noted s i p w)
  show ?case
  proof (cases "ow_told w")
    case False
    have "pl_heard s p = None" using peer_noted(2) False by (intro toldOk_unheard [OF peer_noted(4)]) simp
    moreover have "b \<noteq> p \<Longrightarrow> speaks s b \<Longrightarrow> speaks (endThread i s) b" for b
      using peer_noted(1) by (intro speaks_endThread) auto
    ultimately have "current (endThread i s)" by (intro current_atI [OF peer_noted(6), of p]) auto
    with False show ?thesis by simp
  qed (use peer_noted in \<open>auto intro!: current_put(1)\<close>)
qed (auto simp: current_put(3-5) afterDisplace_def speaks_put intro!: current_put(1,2) split: if_splits option.splits)

section \<open>Reachable planes\<close>

definition planeOk :: "plane \<Rightarrow> bool" where
  "planeOk s \<longleftrightarrow> ticketed s \<and> promises s \<and> oneVoice s \<and> toldOk s \<and> tellingOk s \<and> current s"

lemma planeOk_new: "planeOk (newPlane g)"
  using ticketed_new [of g]
  by (simp add: planeOk_def promises_def oneVoice_def toldOk_def tellingOk_def current_def announceHeld_def newPlane_def)

lemma planeOk_step: "plane_step s s' \<Longrightarrow> planeOk s \<Longrightarrow> planeOk s'"
  unfolding planeOk_def
  using ticketed_step [OF step_issues] promises_step oneVoice_step toldOk_step tellingOk_step current_step by blast

lemma planeOk_reaches: "plane_reaches s s' \<Longrightarrow> planeOk s \<Longrightarrow> planeOk s'"
  by (induction rule: plane_reaches.induct) (auto intro: planeOk_step)

lemma reached_ok: "plane_reaches (newPlane g0) s \<Longrightarrow> planeOk s"
  using planeOk_reaches planeOk_new by blast

lemma reached_alone: "plane_reaches (newPlane g0) s \<Longrightarrow> holds s a g \<Longrightarrow> holds s b g \<Longrightarrow> a = b"
  using reached_ok unfolding planeOk_def ticketed_def by blast

section \<open>Properties\<close>



section \<open>The plane and the sandbox\<close>

text \<open>A sandbox whose attachments are opened and rebound by the plane: attachment \<open>vid\<close> is that of attach \<open>att vid\<close>,
  and every binding it is given is one the plane sent for that attach.\<close>

definition fromPlane :: "(nat \<times> bindMode \<times> u64) list \<Rightarrow> nat \<Rightarrow> Binding \<Rightarrow> bool" where
  "fromPlane sent a b \<longleftrightarrow> bnd_Bound b \<and> (a, bnd_Mode b, bnd_Generation b) \<in> set sent"

definition carried :: "(nat \<times> bindMode \<times> u64) list \<Rightarrow> (int \<Rightarrow> nat) \<Rightarrow> ptyOp \<Rightarrow> 'e pty \<Rightarrow> bool" where
  "carried sent att op s =
     (case op of OpAttach _ _ b \<Rightarrow> fromPlane sent (att (pt_nextID s)) b | OpBind vid b \<Rightarrow> fromPlane sent (att vid) b | _ \<Rightarrow> True)"

fun carriedRun :: "(nat \<times> bindMode \<times> u64) list \<Rightarrow> (int \<Rightarrow> nat) \<Rightarrow> 'e emulator \<Rightarrow> ptyOp list \<Rightarrow> 'e pty \<Rightarrow> bool" where
  "carriedRun sent att em [] s = True"
| "carriedRun sent att em (op # ops) s =
     (carried sent att op s \<and> (case ptyDo em op s of None \<Rightarrow> False | Some s' \<Rightarrow> carriedRun sent att em ops s'))"

definition boundBy :: "(nat \<times> bindMode \<times> u64) list \<Rightarrow> (int \<Rightarrow> nat) \<Rightarrow> 'e pty \<Rightarrow> bool" where
  "boundBy sent att s \<longleftrightarrow> (\<forall>vid v. map_of (pt_viewers s) vid = Some v \<longrightarrow> fromPlane sent (att vid) (vw_bind v))"

lemma boundBy_step:
  assumes "ptyOk s" "boundBy sent att s" "carried sent att op s" "ptyDo em op s = Some s'"
  shows "boundBy sent att s'"
proof -
  have b: "bindingsFrom op s s'" by (rule ptyDo_bindings [OF assms(1,4)])
  have "fromPlane sent (att vid) (vw_bind v)" if "map_of (pt_viewers s') vid = Some v" for vid v
  proof -
    from b that have "(\<exists>u. map_of (pt_viewers s) vid = Some u \<and> vw_bind u = vw_bind v) \<or> bindsAs op vid s (vw_bind v)"
      unfolding bindingsFrom_def by blast
    then show ?thesis
    proof
      assume "\<exists>u. map_of (pt_viewers s) vid = Some u \<and> vw_bind u = vw_bind v"
      with assms(2) show ?thesis unfolding boundBy_def by metis
    qed (use assms(3) in \<open>auto simp: bindsAs_def carried_def split: ptyOp.splits\<close>)
  qed
  then show ?thesis by (simp add: boundBy_def)
qed

lemma boundBy_run:
  "ptyOk s \<Longrightarrow> boundBy sent att s \<Longrightarrow> carriedRun sent att em ops s \<Longrightarrow> ptyRun em ops s = Some s' \<Longrightarrow> boundBy sent att s'"
proof (induction ops arbitrary: s)
  case (Cons op ops)
  then obtain t where t: "ptyDo em op s = Some t" "ptyRun em ops t = Some s'" by (auto simp: bind_eq_Some_conv)
  have "ptyOk t" using ptyDo_ok [OF Cons.prems(1), of em op] t(1) by auto
  with Cons t boundBy_step [of s sent att op em t] show ?case by auto
qed simp


section \<open>Instances\<close>

lemma plane_reaches_trans: "plane_reaches t u \<Longrightarrow> plane_reaches s t \<Longrightarrow> plane_reaches s u"
  by (induction rule: plane_reaches.induct) (auto intro: plane_reaches.more)

definition sampleKeeper :: controllerKeeper where
  "sampleKeeper = \<lparr>kp_scope = \<lparr>sco_WorkspaceID = ''w'', sco_Actor = \<lparr>act_ID = ''u'', act_Kind = ActorUser\<rparr>,
       sco_Placement = \<lparr>pls_ProductRegion = '''', pls_HomeCell = '''', pls_Mode = ExecutionSelfHosted\<rparr>\<rparr>,
     kp_resource = \<lparr>res_Kind = ResourceSession, res_WorkspaceID = ''w'', res_ID = ''s'', res_CreatorID = ''u''\<rparr>,
     kp_ws = ''w'', kp_id = ''s'', kp_holder = ''h''\<rparr>"

definition controlTarget :: "u64 \<Rightarrow> AttachTarget" where
  "controlTarget g = \<lparr>tgt_WorkspaceID = ''w'', tgt_SessionID = ''s'', tgt_PoolID = ''p'', tgt_RunnerID = ''r'',
     tgt_PlacementGeneration = 1, tgt_ControllerGeneration = g, tgt_Mode = AttachmentController, tgt_Negotiated = True,
     tgt_MayClaim = True, tgt_Policy = PolicyExclusive, tgt_Controller = Some sampleKeeper\<rparr>"

definition controlOwner :: "u64 \<Rightarrow> ownership" where
  "controlOwner g = \<lparr>ow_negotiated = True, ow_mayClaim = True, ow_policy = PolicyExclusive, ow_keeper = True,
     ow_mode = ModeControl, ow_gen = g, ow_told = False\<rparr>"

lemma controlTarget_simps:
  "newOwnership (controlTarget g) = controlOwner g" "tgt_ControllerGeneration (controlTarget g) = g"
  "tgt_Mode (controlTarget g) = AttachmentController" "tgt_Policy (controlTarget g) = PolicyExclusive"
  by (simp_all add: newOwnership_def controlTarget_def controlOwner_def)

text \<open>An announcement that nothing disturbs.\<close>

lemma announce_alone:
  assumes "pl_thr s i = Some (TAnnounce a ty k)" "\<And>j. j \<noteq> i \<Longrightarrow> pl_thr s j = None" "pl_own s a = Some w" "ow_negotiated w"
    and "k = Done \<or> k = Dialing"
  shows "\<exists>s'. plane_reaches s s' \<and> pl_thr s' = Map.empty \<and> pl_gen s' = pl_gen s \<and> pl_own s' = (pl_own s)(a \<mapsto> w\<lparr>ow_told := True\<rparr>)
    \<and> pl_heard s' = (pl_heard s)(a \<mapsto> answer ty 0 (ow_mode w) (ow_gen w))
    \<and> pl_installs s' = pl_installs s @ (if k = Dialing then [(a, ow_mode w, ow_gen w)] else [])"
proof -
  define m where "m = answer ty 0 (ow_mode w) (ow_gen w)"
  define s1 where "s1 = putThread i (TSending a m (ow_mode w) (ow_gen w) k) (putOwn a (w\<lparr>ow_told := True\<rparr>) s)"
  define s2 where "s2 = putThread i (TTelling a (ow_mode w) (ow_gen w) k) (sendOwn a (w\<lparr>ow_told := True\<rparr>) m s1)"
  have "\<not> announceHeld s a"
  proof
    assume "announceHeld s a"
    then obtain j t where "pl_thr s j = Some t" "tells a t" by (auto simp: announceHeld_def)
    with assms(1,2) show False by (cases "j = i") auto
  qed
  moreover have "wonAt k = 0" using assms(5) by auto
  ultimately have 1: "plane_step s s1" using plane_step.announced [OF assms(1,3)] by (simp add: s1_def m_def)
  have 2: "plane_step s1 s2" unfolding s2_def by (rule plane_step.sent) (simp_all add: s1_def)
  have 3: "plane_step s2 (afterAnnounce k i a (ow_mode w) (ow_gen w) [] s2)"
    by (rule plane_step.settled [where w = "w\<lparr>ow_told := True\<rparr>"]) (simp_all add: s2_def s1_def)
  have r: "plane_reaches s (afterAnnounce k i a (ow_mode w) (ow_gen w) [] s2)"
    using 1 2 3 by (blast intro: plane_reaches.intros)
  have thr: "(pl_thr s)(i := None) = Map.empty" using assms(2) by auto
  have heard: "pl_heard s2 = (pl_heard s)(a \<mapsto> m)" by (simp add: s2_def s1_def sendOwn_def assms(4) putThread_def putOwn_def)
  show ?thesis
  proof (cases "k = Dialing")
    case True
    define s3 where "s3 = putThread i (TInstall a (ow_mode w) (ow_gen w)) s2"
    have "plane_step s3 (endThread i (install a (ow_mode w) (ow_gen w) s3))"
      by (rule plane_step.bound) (auto simp: s3_def)
    with r True have "plane_reaches s (endThread i (install a (ow_mode w) (ow_gen w) s3))"
      by (auto simp: s3_def intro: plane_reaches.more)
    then show ?thesis
      using True thr heard by (intro exI [of _ "endThread i (install a (ow_mode w) (ow_gen w) s3)"]) (simp add: s3_def s2_def s1_def m_def)
  next
    case False
    with assms(5) have "k = Done" by simp
    with r show ?thesis
      using thr heard by (intro exI [of _ "endThread i s2"]) (simp add: s2_def s1_def m_def)
  qed
qed

text \<open>An attach that opens as controller with nothing else going on.\<close>

lemma open_alone:
  assumes "pl_thr s = Map.empty" "pl_own s a = None" "rowRoom s" "g = pl_gen s + 1"
  shows "\<exists>s'. plane_reaches s s' \<and> pl_thr s' = Map.empty \<and> pl_gen s' = g \<and> pl_own s' = (pl_own s)(a \<mapsto> (controlOwner g)\<lparr>ow_told := True\<rparr>)
    \<and> pl_heard s' = (pl_heard s)(a \<mapsto> (TypeAttached, Some ModeControl, g)) \<and> pl_installs s' = pl_installs s @ [(a, ModeControl, g)]"
proof -
  define s1 where "s1 = putThread (Pump a) (TGranted a g) (advanceRow s)"
  define s2 where "s2 = putThread (Pump a) (TOpen a) (putOwn a (controlOwner g) s1)"
  define s3 where "s3 = putThread (Pump a) (TDisplace a g [] (Some (TypeAttached, Dialing))) s2"
  define s4 where "s4 = putThread (Pump a) (TAnnounce a TypeAttached Dialing) s3"
  note reach = plane_reaches.more [OF plane_reaches.more [OF plane_reaches.more [OF plane_reaches.more [OF plane_reaches.start]]]]
  have "plane_step s s1" using plane_step.granted [of s a] assms by (simp add: s1_def)
  moreover have "plane_step s1 s2"
    using plane_step.open_controller [of s1 "Pump a" a g "controlTarget g"]
    by (simp add: s1_def s2_def controlTarget_simps policy_Shared_def)
  moreover have "plane_step s2 s3"
    using plane_step.opened [of s2 "Pump a" a "controlOwner g" "[]"] by (simp add: s2_def s3_def controlOwner_def controlling_def)
  moreover have "plane_step s3 s4"
    using plane_step.displaced_all [of s3 "Pump a" a g] by (simp add: s3_def s4_def afterDisplace_def)
  ultimately have r: "plane_reaches s s4" by (rule reach)
  have "\<exists>s'. plane_reaches s4 s' \<and> pl_thr s' = Map.empty \<and> pl_gen s' = pl_gen s4
    \<and> pl_own s' = (pl_own s4)(a \<mapsto> (controlOwner g)\<lparr>ow_told := True\<rparr>)
    \<and> pl_heard s' = (pl_heard s4)(a \<mapsto> answer TypeAttached 0 (ow_mode (controlOwner g)) (ow_gen (controlOwner g)))
    \<and> pl_installs s' = pl_installs s4 @ (if Dialing = Dialing then [(a, ow_mode (controlOwner g), ow_gen (controlOwner g))] else [])"
    by (rule announce_alone [of s4 "Pump a"]) (simp_all add: s4_def s3_def s2_def s1_def assms(1) controlOwner_def)
  then obtain s' where s': "plane_reaches s4 s'" "pl_thr s' = Map.empty" "pl_gen s' = pl_gen s4"
    "pl_own s' = (pl_own s4)(a \<mapsto> (controlOwner g)\<lparr>ow_told := True\<rparr>)"
    "pl_heard s' = (pl_heard s4)(a \<mapsto> answer TypeAttached 0 (ow_mode (controlOwner g)) (ow_gen (controlOwner g)))"
    "pl_installs s' = pl_installs s4 @ [(a, ow_mode (controlOwner g), ow_gen (controlOwner g))]" by auto
  have "plane_reaches s s'" by (rule plane_reaches_trans [OF s'(1) r])
  with s'(2-) show ?thesis
    by (intro exI [of _ s']) (simp add: s4_def s3_def s2_def s1_def assms(4) answer_def controlOwner_def)
qed

text \<open>Two attaches that take control one after the other, on replicas that do not see each other.\<close>

lemma two_attaches:
  "\<exists>s. plane_reaches (newPlane 0) s \<and> pl_thr s = Map.empty \<and> pl_gen s = 2
     \<and> pl_own s = [0 \<mapsto> (controlOwner 1)\<lparr>ow_told := True\<rparr>, 1 \<mapsto> (controlOwner 2)\<lparr>ow_told := True\<rparr>]
     \<and> pl_heard s = [0 \<mapsto> (TypeAttached, Some ModeControl, 1), 1 \<mapsto> (TypeAttached, Some ModeControl, 2)]
     \<and> pl_installs s = [(0, ModeControl, 1), (1, ModeControl, 2)]"
proof -
  have "pl_thr (newPlane 0) = Map.empty" "pl_own (newPlane 0) 0 = None" "rowRoom (newPlane 0)" "(1 :: u64) = pl_gen (newPlane 0) + 1"
    by (simp_all add: newPlane_def rowRoom_def)
  from open_alone [OF this] obtain s where s: "plane_reaches (newPlane 0) s" "pl_thr s = Map.empty" "pl_gen s = 1"
    "pl_own s = (pl_own (newPlane 0))(0 \<mapsto> (controlOwner 1)\<lparr>ow_told := True\<rparr>)"
    "pl_heard s = (pl_heard (newPlane 0))(0 \<mapsto> (TypeAttached, Some ModeControl, 1))"
    "pl_installs s = pl_installs (newPlane 0) @ [(0, ModeControl, 1)]" by blast
  have "pl_own s 1 = None" "rowRoom s" "2 = pl_gen s + 1" by (simp_all add: s(3,4) newPlane_def rowRoom_def)
  from open_alone [OF s(2) this] obtain t where t: "plane_reaches s t" "pl_thr t = Map.empty" "pl_gen t = 2"
    "pl_own t = (pl_own s)(1 \<mapsto> (controlOwner 2)\<lparr>ow_told := True\<rparr>)" "pl_heard t = (pl_heard s)(1 \<mapsto> (TypeAttached, Some ModeControl, 2))"
    "pl_installs t = pl_installs s @ [(1, ModeControl, 2)]" by blast
  have "plane_reaches (newPlane 0) t" by (rule plane_reaches_trans [OF t(1) s(1)])
  with s(4-6) t(2-6) show ?thesis by (intro exI [of _ t]) (simp add: newPlane_def)
qed


text \<open>The heartbeat of the first then finds out, demotes it and tells its client.\<close>

lemma heartbeat_alone:
  assumes "pl_thr s = Map.empty" "pl_own s a = Some w" "ow_negotiated w" "ow_keeper w" "controlling w" "ow_gen w < pl_gen s"
  shows "\<exists>s'. plane_reaches s s' \<and> pl_thr s' = Map.empty \<and> pl_own s' a = Some (w\<lparr>ow_mode := ModeView, ow_gen := pl_gen s, ow_told := True\<rparr>)
    \<and> pl_heard s' a = Some (TypeControlChanged, Some ModeView, pl_gen s)"
proof -
  define w' where "w' = w\<lparr>ow_mode := ModeView, ow_gen := pl_gen s\<rparr>"
  define s1 where "s1 = putThread (Beat a) (TDemote a (ow_gen w) Done) s"
  define s2 where "s2 = putThread (Beat a) (TDemoteAt a (ow_gen w) (pl_gen s) Done) s1"
  define s3 where "s3 = putThread (Beat a) (TFence a (pl_gen s) Done) (putOwn a w' s2)"
  define s4 where "s4 = putThread (Beat a) (TAnnounce a TypeControlChanged Done) (install a ModeView (pl_gen s) s3)"
  note reach = plane_reaches.more [OF plane_reaches.more [OF plane_reaches.more [OF plane_reaches.more [OF plane_reaches.start]]]]
  have "plane_step s s1" unfolding s1_def by (rule plane_step.renew_stale) (use assms in simp_all)
  moreover have "plane_step s1 s2" unfolding s2_def by (rule plane_step.demote_read) (simp_all add: s1_def)
  moreover have "demoteTo (ow_gen w) (pl_gen s) w = (w', pl_gen s, True)"
    using assms(6) by (simp add: demoteTo_def w'_def Let_def)
  then have "plane_step s2 s3"
    using plane_step.demoted [of s2 "Beat a" a "ow_gen w" "pl_gen s" Done w w' "pl_gen s" True] assms(2) by (simp add: s2_def s1_def s3_def)
  moreover have "plane_step s3 s4" unfolding s4_def by (rule plane_step.fenced) (auto simp: s3_def)
  ultimately have r: "plane_reaches s s4" by (rule reach)
  have "\<exists>s'. plane_reaches s4 s' \<and> pl_thr s' = Map.empty \<and> pl_gen s' = pl_gen s4 \<and> pl_own s' = (pl_own s4)(a \<mapsto> w'\<lparr>ow_told := True\<rparr>)
    \<and> pl_heard s' = (pl_heard s4)(a \<mapsto> answer TypeControlChanged 0 (ow_mode w') (ow_gen w'))
    \<and> pl_installs s' = pl_installs s4 @ (if Done = Dialing then [(a, ow_mode w', ow_gen w')] else [])"
    by (rule announce_alone [of s4 "Beat a"]) (simp_all add: s4_def s3_def s2_def s1_def assms(1,3) w'_def)
  then obtain s' where s': "plane_reaches s4 s'" "pl_thr s' = Map.empty" "pl_own s' a = Some (w'\<lparr>ow_told := True\<rparr>)"
    "pl_heard s' a = Some (answer TypeControlChanged 0 (ow_mode w') (ow_gen w'))" by auto
  have "plane_reaches s s'" by (rule plane_reaches_trans [OF s'(1) r])
  with s'(2-) show ?thesis by (intro exI [of _ s']) (simp add: w'_def answer_def)
qed


definition twoOps :: "ptyOp list" where
  "twoOps = [OpAttach 0 \<lparr>sz_Cols = 80, sz_Rows = 24\<rparr> (controlAt 1), OpAttach 0 \<lparr>sz_Cols = 80, sz_Rows = 24\<rparr> (controlAt 2)]"

definition drivenPty :: "string pty" where
  "drivenPty = the (ptyRun plainEmulator twoOps freshPty)"


end
