(* ===== verification/Spec2Isabelle.thy ===== *)
theory Spec2Isabelle
  imports StoreProps SessionProps FleetList EnvironmentService ReconcileProps CapacityProps ArchiveProps AttachProps RpcProps
    Policy Repos Reconnect CustodyProps SessionRequests OwnershipProps
begin

text \<open>
  A verification of the control plane of Rainier, which runs coding sessions in sandboxes on a
  fleet of runners.

  \<^bold>\<open>The program.\<close> The package \<^verbatim>\<open>control\<close> is the vocabulary: sessions, environments, pools,
  runners, scopes, events, and the ports an installation provides. The package \<^verbatim>\<open>controlapp\<close> is the
  application on those ports: the session, environment, fleet and attachment services and the scheduler.
  \<^verbatim>\<open>internal/controld/memstore.go\<close> implements the repositories in memory. \<^verbatim>\<open>protocol/runner\<close> and
  \<^verbatim>\<open>protocol/workspace\<close> are the messages to runners and sandboxes, with the path and archive rules both
  ends of a transfer apply. A client command becomes a row and a wake-up; the scheduler places the row
  and dispatches a create; a runner reports events and snapshots, which move rows again; attaches and
  transfers go through to the sandbox of a placed row. What keeps this right while several replicas and
  runners race are counters kept in the rows: the placement generation, the runner generation, the
  controller generation, and the versions of agent credentials.

  \<^bold>\<open>The theories.\<close>
  \<^item> \<^verbatim>\<open>Prelude\<close>: slices, the error type and \<^verbatim>\<open>errors.Is\<close>, association lists for the maps the code
    iterates over, sorting, and the lemma collections.
  \<^item> \<^verbatim>\<open>Control\<close>: the types and predicates of \<^verbatim>\<open>src/control\<close> and the runner messages.
  \<^item> \<^verbatim>\<open>Cursor\<close>, \<^verbatim>\<open>Utf8\<close>, \<^verbatim>\<open>Sha256\<close>, \<^verbatim>\<open>Json\<close>, \<^verbatim>\<open>Paths\<close>: the parts of Go's standard library the code
    is made of (base64 and decimal integers, UTF-8, SHA-256, \<^verbatim>\<open>encoding/json\<close>, \<^verbatim>\<open>path\<close>), as
    functions on byte lists, with the cursors of the store and the path rules of
    \<^verbatim>\<open>protocol/workspace/path.go\<close>.
  \<^item> \<^verbatim>\<open>MemStore\<close> and \<^verbatim>\<open>MemVault\<close>: every method of \<^verbatim>\<open>memstore.go\<close>, over one record with a field per map.
    The store's mutex makes each an atomic step.
  \<^item> \<^verbatim>\<open>StoreInv\<close> (the invariant and that every method keeps it), \<^verbatim>\<open>StoreTrace\<close> (one operation type, its
    step function, traces and admissible traces), \<^verbatim>\<open>Counters\<close> and \<^verbatim>\<open>Exclusion\<close> (generations and leases
    along a trace, through a locale of monotone counters that every counter of the store interprets),
    \<^verbatim>\<open>Paging\<close> (a locale of paged listings, interpreted for sessions, environments and runners),
    \<^verbatim>\<open>StoreProps\<close>: the properties of the store.
  \<^item> \<^verbatim>\<open>Ports\<close>: the ports as a record of functions on a host state, the locales that say what the
    application relies on, and the host over the in-memory store, on which they are interpreted.
  \<^item> \<^verbatim>\<open>SessionService\<close>, \<^verbatim>\<open>EnvironmentService\<close>, \<^verbatim>\<open>FleetService\<close>, \<^verbatim>\<open>FleetList\<close>, \<^verbatim>\<open>Scheduler\<close>, \<^verbatim>\<open>Launch\<close>:
    the handlers of \<^verbatim>\<open>sessions.go\<close>, \<^verbatim>\<open>environments.go\<close>, \<^verbatim>\<open>fleet.go\<close>, \<^verbatim>\<open>scheduler.go\<close>,
    \<^verbatim>\<open>resume_reconcile.go\<close>, \<^verbatim>\<open>agents.go\<close>, \<^verbatim>\<open>hash.go\<close>, \<^verbatim>\<open>bootstrap.go\<close> and \<^verbatim>\<open>egress.go\<close>, for any host.
  \<^item> \<^verbatim>\<open>Attach\<close> and \<^verbatim>\<open>WorkspaceRpc\<close>: \<^verbatim>\<open>attachments.go\<close>, \<^verbatim>\<open>exec.go\<close> and \<^verbatim>\<open>workspace_rpc.go\<close>; \<^verbatim>\<open>Archive\<close>:
    \<^verbatim>\<open>protocol/workspace/archive.go\<close>.
  \<^item> \<^verbatim>\<open>Policy\<close>: the authorizer of a self-hosted installation and the rule on capabilities
    (\<^verbatim>\<open>internal/controld/adapt_policy.go\<close>, \<^verbatim>\<open>adapt_scope.go\<close>). \<^verbatim>\<open>Repos\<close>: connectors
    (\<^verbatim>\<open>v0wire/environments.go\<close>) and the resolver of launch material
    (\<^verbatim>\<open>internal/controld/adapt_launch.go\<close>). \<^verbatim>\<open>Reconnect\<close>: \<^verbatim>\<open>controlapp/reconnect.go\<close> with the signed
    transcript and the decoders of \<^verbatim>\<open>protocol/runner/reconnect.go\<close> and \<^verbatim>\<open>reconnect_rpc.go\<close>. \<^verbatim>\<open>Custody\<close> and
    \<^verbatim>\<open>CustodyProps\<close>: \<^verbatim>\<open>controlapp/agentcreds.go\<close> over the vault of \<^verbatim>\<open>internal/controld/agentvault.go\<close>.
    \<^verbatim>\<open>SessionRequests\<close>: what a sandbox may ask for (\<^verbatim>\<open>internal/controld/srpc.go\<close>, \<^verbatim>\<open>srpc_bootstrap.go\<close>, \<^verbatim>\<open>vault.go\<close>).
  \<^item> \<^verbatim>\<open>Ownership\<close> and \<^verbatim>\<open>OwnershipProps\<close>: who drives a terminal (\<^verbatim>\<open>attachplane/ownership.go\<close>), as a step
    relation on the threads of the attach plane; \<^verbatim>\<open>PtySession\<close> and \<^verbatim>\<open>PtyProps\<close>: the terminal session in a
    sandbox (\<^verbatim>\<open>internal/session/session.go\<close>, \<^verbatim>\<open>resize.go\<close>, \<^verbatim>\<open>internal/eventlog/eventlog.go\<close>), where the input executes.
  \<^item> \<^verbatim>\<open>AppInv\<close>: one locale for a relation between the states before and after, closed under the ports,
    and that every handler stays in it; it is interpreted for the store steps of a host.
  \<^item> \<^verbatim>\<open>SessionProps\<close>, \<^verbatim>\<open>AppProps\<close>, \<^verbatim>\<open>FleetProps\<close>, \<^verbatim>\<open>ReconcileProps\<close>, \<^verbatim>\<open>SchedProps\<close>, \<^verbatim>\<open>CapacityProps\<close>,
    \<^verbatim>\<open>ArchiveProps\<close>, \<^verbatim>\<open>AttachProps\<close>, \<^verbatim>\<open>RpcProps\<close>: the properties of the application. \<^verbatim>\<open>Samples\<close> and
    \<^verbatim>\<open>AppSamples\<close> hold the concrete rows and worlds at which they are evaluated.

  \<^bold>\<open>What is shown.\<close> Of the store, over every interleaving of its operations: the invariant, the
  compare-and-swap of transitions, idempotent creation, that generations are issued once and fence what
  is older, that a lease has one holder, that a bootstrap token is spent once, and that paging reads every
  row once. Of the application: that every handler refines sequences of the port operations, so the
  invariant holds of a running installation; that refused commands have no effect; what create, delete,
  suspend, cold resume, registration, runner events, reconciliation, placement and the settling of a
  create make of the rows they touch; that a pass of the scheduler does not overcommit a runner and
  answers every wake-up; that secrets are withheld from a microVM's specification. Of attachments: who
  gets control, and that an exec is audited before it runs. Of transfers: that a push sends exactly the
  archive, that a pull returns, that an extraction stays in its destination and within its limit. Of
  custody: that a fetch delivers what was put, and that a logout leaves nothing to deliver and refuses what
  began before it. Of reconnect: that a proof opens only the connection it was signed for. Of the policy:
  that a member cannot act on a session of somebody else. Of connectors: that what was admitted launches.
  Of session requests: that a sandbox reaches nothing but its own rows, and its secrets once. Of
  terminals: that control is exclusive under every interleaving of claims, releases, heartbeats and
  handoffs, that clients end up told what they are, that at most one attachment writes to the process, that
  a resumed stream misses nothing, and that the session neither panics nor blocks under its mutex.

  \<^bold>\<open>Bounds and fuel.\<close> The JSON parser takes fuel twice the length of its text, and \<^verbatim>\<open>Json\<close> proves that
  more changes nothing. Symbolic links are followed by a function whose measure is the depth of the path.
  The pull loop is a partial function, and \<^verbatim>\<open>RpcProps\<close> proves that it returns. The wake-up buffer of 64
  and the budget of 64 resumes of a pass are the code's own. Generations are 64-bit words and wrap;
  sizes are integers with the wrap of \<^verbatim>\<open>int64\<close> written out.

  \<^bold>\<open>Limits of the model.\<close> Time, identities, randomness, the authorizer, the pools, the runner link and
  the brokers are parameters, as are AES-GCM and Ed25519. A handler runs its port calls in order; other goroutines act between the
  rows of a placement pass (\<^verbatim>\<open>h_Yield\<close>) and wherever a dispatch lets the world change. A create that a
  pass starts runs after it. The in-memory host's unit of work keeps what a closure did, as the code's
  does. The attach plane is modelled under the exclusive policy, for a row whose generation has not used up
  64 bits; its waits for acknowledgements and the deadline of a client's write are left out.

  \<^bold>\<open>Not modelled.\<close> \<^verbatim>\<open>ExecStartMessage\<close>, \<^verbatim>\<open>TarGz\<close>, \<^verbatim>\<open>reconnect_configuration.go\<close>, and the reading of an event log from its file. The PostgreSQL store is SQL that
  runs in a database. The HTTP API, the splicing of attachments, the runner plane, the relay, the runner and session
  daemons, the drivers, the proxy and the command line are sockets, processes and files.
\<close>

end
